(* ===== verification/Py_Float.thy ===== *)
theory Py_Float
  imports Complex_Main
begin

text \<open>
  Python floats. A Python float is an IEEE binary64 number: here a finite value is kept as the
  exact rational it denotes, next to the two infinities and NaN, and every arithmetic operation
  computes the exact rational result and rounds it with \<open>f64\<close>, round to nearest with ties to
  even, with gradual underflow (exponent never below -1074) and overflow to an infinity. The only
  part of binary64 left out is the sign of zero: no operation modelled in this development tells
  \<open>-0.0\<close> from \<open>0.0\<close>.
  The comparison operations are Python's, false as soon as one side is NaN; \<open>linorder\<close> is the
  total order used as sort key (NaN last).
\<close>

section \<open>Values and rounding\<close>

datatype pyfloat = NegInf | Fin rat | PosInf | NaN

definition round_half_even :: "rat \<Rightarrow> int" where
  "round_half_even x =
     (let f = \<lfloor>x\<rfloor>; d = x - of_int f in
      if d < 1/2 then f
      else if 1/2 < d then f + 1
      else if even f then f else f + 1)"

function bits :: "int \<Rightarrow> int" where
  "bits n = (if n \<le> 0 then 0 else 1 + bits (n div 2))"
  by pat_completeness auto
termination
  by (relation "measure nat") auto

function pow_int :: "int \<Rightarrow> int \<Rightarrow> int" where
  "pow_int b k = (if k \<le> 0 then 1 else b * pow_int b (k - 1))"
  by pat_completeness auto
termination
  by (relation "measure (\<lambda>(b, k). nat k)") auto

declare bits.simps [simp del] pow_int.simps [simp del]

definition pow_rat :: "int \<Rightarrow> int \<Rightarrow> rat" where
  "pow_rat b k = (if 0 \<le> k then of_int (pow_int b k) else 1 / of_int (pow_int b (- k)))"

definition ilog2 :: "rat \<Rightarrow> int" where
  "ilog2 x =
     (case quotient_of x of (n, d) \<Rightarrow>
        let k = bits n - bits d in
        if pow_rat 2 k \<le> x then k else k - 1)"

definition f64_exp :: "rat \<Rightarrow> int" where
  "f64_exp x = max (ilog2 \<bar>x\<bar> - 52) (-1074)"

definition f64_raw :: "rat \<Rightarrow> rat" where
  "f64_raw x =
     (if x = 0 then 0
      else of_int (round_half_even (x / pow_rat 2 (f64_exp x))) * pow_rat 2 (f64_exp x))"

definition f64_limit :: rat where
  "f64_limit = pow_rat 2 1024"

definition f64 :: "rat \<Rightarrow> pyfloat" where
  "f64 x =
     (let r = f64_raw x in
      if f64_limit \<le> r then PosInf
      else if r \<le> - f64_limit then NegInf
      else Fin r)"

section \<open>Operations\<close>

fun is_finite :: "pyfloat \<Rightarrow> bool" where
  "is_finite (Fin r) = True"
| "is_finite _ = False"

fun flt :: "pyfloat \<Rightarrow> pyfloat \<Rightarrow> bool" where
  "flt NaN y = False"
| "flt x NaN = False"
| "flt (Fin r) (Fin s) = (r < s)"
| "flt NegInf y = (y \<noteq> NegInf)"
| "flt x NegInf = False"
| "flt PosInf y = False"
| "flt x PosInf = True"

definition feq :: "pyfloat \<Rightarrow> pyfloat \<Rightarrow> bool" where
  "feq x y = (x = y \<and> x \<noteq> NaN)"

definition fle :: "pyfloat \<Rightarrow> pyfloat \<Rightarrow> bool" where
  "fle x y = (flt x y \<or> feq x y)"

definition fmax :: "pyfloat \<Rightarrow> pyfloat \<Rightarrow> pyfloat" where
  "fmax x y = (if flt x y then y else x)"

definition fmin :: "pyfloat \<Rightarrow> pyfloat \<Rightarrow> pyfloat" where
  "fmin x y = (if flt y x then y else x)"

fun fneg :: "pyfloat \<Rightarrow> pyfloat" where
  "fneg NaN = NaN"
| "fneg PosInf = NegInf"
| "fneg NegInf = PosInf"
| "fneg (Fin r) = Fin (- r)"

fun fabs :: "pyfloat \<Rightarrow> pyfloat" where
  "fabs NaN = NaN"
| "fabs (Fin r) = Fin \<bar>r\<bar>"
| "fabs _ = PosInf"

fun fadd :: "pyfloat \<Rightarrow> pyfloat \<Rightarrow> pyfloat" where
  "fadd NaN y = NaN"
| "fadd x NaN = NaN"
| "fadd (Fin r) (Fin s) = f64 (r + s)"
| "fadd PosInf NegInf = NaN"
| "fadd NegInf PosInf = NaN"
| "fadd PosInf y = PosInf"
| "fadd x PosInf = PosInf"
| "fadd NegInf y = NegInf"
| "fadd x NegInf = NegInf"

definition fsub :: "pyfloat \<Rightarrow> pyfloat \<Rightarrow> pyfloat" where
  "fsub x y = fadd x (fneg y)"

fun fsgn :: "pyfloat \<Rightarrow> int" where
  "fsgn (Fin r) = (if 0 < r then 1 else if r < 0 then -1 else 0)"
| "fsgn PosInf = 1"
| "fsgn NegInf = -1"
| "fsgn NaN = 0"

definition inf_of_sign :: "int \<Rightarrow> pyfloat" where
  "inf_of_sign k = (if 0 < k then PosInf else if k < 0 then NegInf else NaN)"

fun fmul :: "pyfloat \<Rightarrow> pyfloat \<Rightarrow> pyfloat" where
  "fmul NaN y = NaN"
| "fmul x NaN = NaN"
| "fmul (Fin r) (Fin s) = f64 (r * s)"
| "fmul x y = inf_of_sign (fsgn x * fsgn y)"

text \<open>\<open>x / y\<close>; \<open>None\<close> is Python's \<open>ZeroDivisionError\<close>.\<close>

fun fdiv :: "pyfloat \<Rightarrow> pyfloat \<Rightarrow> pyfloat option" where
  "fdiv x (Fin s) =
     (if s = 0 then None
      else case x of
        Fin r \<Rightarrow> Some (f64 (r / s))
      | NaN \<Rightarrow> Some NaN
      | _ \<Rightarrow> Some (inf_of_sign (fsgn x * fsgn (Fin s))))"
| "fdiv x NaN = Some NaN"
| "fdiv x y = (if is_finite x then Some (Fin 0) else Some NaN)"

definition float_of_int :: "int \<Rightarrow> pyfloat" where
  "float_of_int n = f64 (of_int n)"

text \<open>Exact comparisons of a float with an integer, as Python performs them.\<close>

fun flt_int :: "pyfloat \<Rightarrow> int \<Rightarrow> bool" where
  "flt_int (Fin r) n = (r < of_int n)"
| "flt_int NegInf n = True"
| "flt_int _ n = False"

fun int_flt :: "int \<Rightarrow> pyfloat \<Rightarrow> bool" where
  "int_flt n (Fin r) = (of_int n < r)"
| "int_flt n PosInf = True"
| "int_flt n _ = False"

instantiation pyfloat :: linorder
begin

fun frank :: "pyfloat \<Rightarrow> nat" where
  "frank NegInf = 0"
| "frank (Fin _) = 1"
| "frank PosInf = 2"
| "frank NaN = 3"

fun fval :: "pyfloat \<Rightarrow> rat" where
  "fval (Fin r) = r"
| "fval _ = 0"

definition less_eq_pyfloat :: "pyfloat \<Rightarrow> pyfloat \<Rightarrow> bool" where
  "less_eq_pyfloat x y = (frank x < frank y \<or> frank x = frank y \<and> fval x \<le> fval y)"

definition less_pyfloat :: "pyfloat \<Rightarrow> pyfloat \<Rightarrow> bool" where
  "less_pyfloat x y = (frank x < frank y \<or> frank x = frank y \<and> fval x < fval y)"

instance
proof
  fix x y z :: pyfloat
  show "(x < y) = (x \<le> y \<and> \<not> y \<le> x)"
    by (auto simp: less_eq_pyfloat_def less_pyfloat_def)
  show "x \<le> x" by (simp add: less_eq_pyfloat_def)
  show "x \<le> y \<Longrightarrow> y \<le> z \<Longrightarrow> x \<le> z"
    by (auto simp: less_eq_pyfloat_def)
  show "x \<le> y \<Longrightarrow> y \<le> x \<Longrightarrow> x = y"
    by (cases x; cases y) (auto simp: less_eq_pyfloat_def)
  show "x \<le> y \<or> y \<le> x"
    by (auto simp: less_eq_pyfloat_def)
qed

end

section \<open>Rounding: exactness, idempotence, monotonicity\<close>

lemma pow_int_eq: "pow_int b k = b ^ nat k"
proof (induction b k rule: pow_int.induct)
  case (1 b k)
  show ?case
  proof (cases "k \<le> 0")
    case True
    then show ?thesis by (simp add: pow_int.simps)
  next
    case False
    then have "nat k = Suc (nat (k - 1))" by simp
    with 1 False show ?thesis by (simp add: pow_int.simps [of b k])
  qed
qed

lemma pow_rat_eq: "pow_rat b k = of_int b powi k"
  by (simp add: pow_rat_def pow_int_eq power_int_def power_one_over inverse_eq_divide)

lemma pow_rat_2 [simp]: "pow_rat 2 k = 2 powi k"
  by (simp add: pow_rat_eq)

lemma f64_limit_gt: "of_int (2 ^ 53) < f64_limit"
  unfolding f64_limit_def pow_rat_2 power_int_def by simp

lemma bits_pos: "0 < n \<Longrightarrow> 1 \<le> bits n"
proof (induction n rule: bits.induct)
  case (1 n)
  have "0 \<le> bits (n div 2)"
    using 1 by (cases "n div 2 \<le> 0") (auto simp: bits.simps [of "n div 2"] bits.simps [of 0])
  then show ?case using 1 by (simp add: bits.simps [of n])
qed

lemma bits_bounds: "0 < n \<Longrightarrow> 2 ^ nat (bits n - 1) \<le> n \<and> n < 2 ^ nat (bits n)"
proof (induction n rule: bits.induct)
  case (1 n)
  show ?case
  proof (cases "n = 1")
    case True
    then show ?thesis by (simp add: bits.simps)
  next
    case False
    with 1 have h: "0 < n div 2" by simp
    then have b1: "1 \<le> bits (n div 2)" by (rule bits_pos)
    have b: "bits n = 1 + bits (n div 2)" using 1 by (simp add: bits.simps [of n])
    have ih: "2 ^ nat (bits (n div 2) - 1) \<le> n div 2 \<and> n div 2 < 2 ^ nat (bits (n div 2))"
      using 1 h by simp
    have "nat (bits n - 1) = Suc (nat (bits (n div 2) - 1))"
      and "nat (bits n) = Suc (nat (bits (n div 2)))" using b b1 by auto
    then have "2 ^ nat (bits n - 1) = 2 * (2::int) ^ nat (bits (n div 2) - 1)"
      and "2 ^ nat (bits n) = 2 * (2::int) ^ nat (bits (n div 2))" by simp_all
    with ih show ?thesis by linarith
  qed
qed

lemma f64_limit_pos [simp]: "0 < f64_limit"
  using f64_limit_gt by (rule order.strict_trans [rotated]) simp

lemma powi2_pos [simp]: "0 < (2::rat) powi k"
  by (simp add: power_int_def)

lemma powi2_mono: "i \<le> j \<Longrightarrow> (2::rat) powi i \<le> 2 powi j"
  by (rule power_int_increasing) auto

lemma powi2_add: "(2::rat) powi (i + j) = 2 powi i * 2 powi j"
  by (simp add: power_int_add)

lemma powi2_diff: "(2::rat) powi (i - j) = 2 powi i / 2 powi j"
  by (simp add: power_int_diff)

lemma powi2_nat: "0 \<le> i \<Longrightarrow> (2::rat) powi i = of_int (2 ^ nat i)"
  by (simp add: power_int_def)

lemma round_half_even_of_int [simp]: "round_half_even (of_int n) = n"
  by (simp add: round_half_even_def)

lemma round_half_even_cases:
  "round_half_even x = \<lfloor>x\<rfloor> \<and> x - of_int \<lfloor>x\<rfloor> \<le> 1/2 \<or>
   round_half_even x = \<lfloor>x\<rfloor> + 1 \<and> 1/2 \<le> x - of_int \<lfloor>x\<rfloor>"
  by (auto simp: round_half_even_def Let_def not_less)

lemma round_half_even_mono: "x \<le> y \<Longrightarrow> round_half_even x \<le> round_half_even y"
proof -
  assume "x \<le> y"
  then have fl: "\<lfloor>x\<rfloor> \<le> \<lfloor>y\<rfloor>" by (rule floor_mono)
  show ?thesis
  proof (cases "\<lfloor>x\<rfloor> = \<lfloor>y\<rfloor>")
    case True
    with \<open>x \<le> y\<close> show ?thesis by (auto simp: round_half_even_def Let_def)
  next
    case False
    with fl have "\<lfloor>x\<rfloor> + 1 \<le> \<lfloor>y\<rfloor>" by simp
    then show ?thesis
      using round_half_even_cases [of x] round_half_even_cases [of y] by linarith
  qed
qed

lemma round_half_even_minus: "round_half_even (- x) = - round_half_even x"
proof (cases "x = of_int \<lfloor>x\<rfloor>")
  case True
  then have "- x = of_int (- \<lfloor>x\<rfloor>)" by simp
  then show ?thesis
    by (metis True round_half_even_of_int)
next
  case False
  define f where "f = \<lfloor>x\<rfloor>"
  have b: "of_int f < x" "x < of_int f + 1"
    using False of_int_floor_le [of x] floor_correct [of x] by (auto simp: f_def simp del: of_int_floor_le)
  have "\<lfloor>- x\<rfloor> = - f - 1"
    by (rule floor_unique) (use b in auto)
  then show ?thesis
    by (auto simp: round_half_even_def Let_def f_def [symmetric])
qed

lemma ilog2_bounds:
  assumes "0 < x"
  shows "2 powi ilog2 x \<le> x" and "x < 2 powi (ilog2 x + 1)"
proof -
  obtain n d where q: "quotient_of x = (n, d)" by (cases "quotient_of x") auto
  have d: "0 < d" using q by (rule quotient_of_denom_pos)
  have x: "x = of_int n / of_int d" using q by (rule quotient_of_div)
  have n: "0 < n" using assms d x by (simp add: zero_less_divide_iff)
  define bn where "bn = bits n"
  define bd where "bd = bits d"
  have bn1: "1 \<le> bn" and bd1: "1 \<le> bd"
    using n d by (auto simp: bn_def bd_def bits_pos)
  have nb: "(2::rat) powi (bn - 1) \<le> of_int n" "of_int n < (2::rat) powi bn"
    using bits_bounds [OF n] bn1 unfolding bn_def [symmetric]
    by (simp_all add: powi2_nat del: of_int_power)
  have db: "(2::rat) powi (bd - 1) \<le> of_int d" "of_int d < (2::rat) powi bd"
    using bits_bounds [OF d] bd1 unfolding bd_def [symmetric]
    by (simp_all add: powi2_nat del: of_int_power)
  have lo: "2 powi (bn - bd - 1) \<le> x"
  proof -
    have "(2::rat) powi (bn - bd - 1) = 2 powi (bn - 1) / 2 powi bd"
      by (simp add: powi2_diff [symmetric] algebra_simps)
    also have "\<dots> \<le> of_int n / of_int d"
      by (rule frac_le) (use nb db n d in auto)
    finally show ?thesis by (simp add: x)
  qed
  have hi: "x < 2 powi (bn - bd + 1)"
  proof -
    have "x < 2 powi bn / 2 powi (bd - 1)"
      unfolding x by (rule frac_less) (use nb db n d in auto)
    also have "\<dots> = 2 powi (bn - bd + 1)"
      by (simp add: powi2_diff [symmetric] algebra_simps)
    finally show ?thesis .
  qed
  show "2 powi ilog2 x \<le> x"
    using lo by (auto simp: ilog2_def q Let_def bn_def [symmetric] bd_def [symmetric])
  show "x < 2 powi (ilog2 x + 1)"
    using hi by (auto simp: ilog2_def q Let_def bn_def [symmetric] bd_def [symmetric])
qed

lemma ilog2_less:
  assumes "0 < x" and "x < 2 powi k"
  shows "ilog2 x < k"
proof (rule ccontr)
  assume "\<not> ilog2 x < k"
  then have "(2::rat) powi k \<le> 2 powi ilog2 x" by (intro powi2_mono) simp
  with ilog2_bounds(1) [OF assms(1)] assms(2) show False by simp
qed

lemma ilog2_mono: "0 < x \<Longrightarrow> x \<le> y \<Longrightarrow> ilog2 x \<le> ilog2 y"
  using ilog2_less [of x "ilog2 y + 1"] ilog2_bounds(2) [of y] by force

lemma f64_exp_minus [simp]: "f64_exp (- x) = f64_exp x"
  by (simp add: f64_exp_def)

lemma f64_raw_minus: "f64_raw (- x) = - f64_raw x"
  by (simp add: f64_raw_def round_half_even_minus)

lemma f64_raw_0 [simp]: "f64_raw 0 = 0"
  by (simp add: f64_raw_def)

text \<open>A rational with at most 53 significant bits above the underflow grid is kept as it is.\<close>

lemma f64_raw_exact_lt:
  assumes "x = of_int m * 2 powi q" and "-1074 \<le> q" and "\<bar>m\<bar> < 2 ^ 53"
  shows "f64_raw x = x"
proof (cases "m = 0")
  case True
  then show ?thesis using assms by simp
next
  case False
  then have x0: "x \<noteq> 0" using assms(1) powi2_pos [of q] by simp
  have "\<bar>x\<bar> = of_int \<bar>m\<bar> * 2 powi q" using assms(1) by (simp add: abs_mult)
  also have "\<dots> < of_int (2 ^ 53) * 2 powi q"
    by (rule mult_strict_right_mono) (use assms(3) in \<open>simp_all only: of_int_less_iff powi2_pos\<close>)
  also have "\<dots> = 2 powi (53 + q)" by (simp add: powi2_add powi2_nat)
  finally have "ilog2 \<bar>x\<bar> < 53 + q" using x0 by (intro ilog2_less) auto
  then have e: "f64_exp x \<le> q" using assms(2) by (simp add: f64_exp_def)
  have "x / 2 powi f64_exp x = of_int m * 2 powi (q - f64_exp x)"
    by (simp add: assms(1) powi2_diff)
  also have "\<dots> = of_int (m * 2 ^ nat (q - f64_exp x))"
    using e by (simp add: powi2_nat)
  finally have i: "x / 2 powi f64_exp x = of_int (m * 2 ^ nat (q - f64_exp x))" .
  show ?thesis
    unfolding f64_raw_def pow_rat_2 i round_half_even_of_int using x0
    by (simp add: i [symmetric] del: of_int_mult)
qed

lemma f64_raw_exact:
  assumes "x = of_int m * 2 powi q" and "-1074 \<le> q" and "\<bar>m\<bar> \<le> 2 ^ 53"
  shows "f64_raw x = x"
proof (cases "\<bar>m\<bar> < 2 ^ 53")
  case True
  with assms show ?thesis by (intro f64_raw_exact_lt) auto
next
  case False
  with assms(3) have "\<bar>m\<bar> = 2 ^ 53" by simp
  then have "m = 2 ^ 53 \<or> m = - (2 ^ 53)" by linarith
  then have "m = 2 * (m div 2)" and b: "\<bar>m div 2\<bar> < 2 ^ 53" by (elim disjE; simp)+
  then have "x = of_int (2 * (m div 2)) * 2 powi q" using assms(1) by simp
  then have "x = of_int (m div 2) * 2 powi (q + 1)" by (simp add: powi2_add)
  then show ?thesis by (rule f64_raw_exact_lt) (use b assms(2) in auto)
qed

lemma f64_raw_form:
  "\<exists>m q. f64_raw x = of_int m * 2 powi q \<and> -1074 \<le> q \<and> \<bar>m\<bar> \<le> 2 ^ 53"
proof (cases "x = 0")
  case True
  then show ?thesis by (intro exI [of _ 0]) auto
next
  case False
  define q where "q = f64_exp x"
  define y where "y = x / 2 powi q"
  have "ilog2 \<bar>x\<bar> + 1 \<le> 53 + q" by (simp add: q_def f64_exp_def)
  then have "(2::rat) powi (ilog2 \<bar>x\<bar> + 1) \<le> 2 powi (53 + q)" by (rule powi2_mono)
  moreover have "\<bar>x\<bar> < 2 powi (ilog2 \<bar>x\<bar> + 1)" using False by (intro ilog2_bounds(2)) simp
  ultimately have "\<bar>x\<bar> \<le> 2 powi (53 + q)" by simp
  then have "\<bar>y\<bar> \<le> of_int (2 ^ 53)"
    by (simp add: y_def powi2_add abs_divide field_simps powi2_nat)
  then have "- of_int (2 ^ 53) \<le> y" "y \<le> of_int (2 ^ 53)" by auto
  then have "round_half_even (of_int (- (2 ^ 53))) \<le> round_half_even y"
    "round_half_even y \<le> round_half_even (of_int (2 ^ 53))"
    by (intro round_half_even_mono; simp)+
  then have "\<bar>round_half_even y\<bar> \<le> 2 ^ 53" unfolding round_half_even_of_int by linarith
  moreover have "f64_raw x = of_int (round_half_even y) * 2 powi q"
    using False by (simp add: f64_raw_def y_def q_def)
  moreover have "-1074 \<le> q" by (simp add: q_def f64_exp_def)
  ultimately show ?thesis by blast
qed

lemma f64_raw_idem [simp]: "f64_raw (f64_raw x) = f64_raw x"
  using f64_raw_form [of x] f64_raw_exact by metis

text \<open>The result never crosses a grid point: rounding is monotone.\<close>

lemma f64_raw_mono_pos:
  assumes "0 < x" and "x \<le> y"
  shows "f64_raw x \<le> f64_raw y"
proof -
  have y: "0 < y" using assms by simp
  define p where "p = f64_exp x"
  define q where "q = f64_exp y"
  have pq: "p \<le> q" using ilog2_mono [OF assms] assms y by (simp add: p_def q_def f64_exp_def)
  have rx: "f64_raw x = of_int (round_half_even (x / 2 powi p)) * 2 powi p"
    and ry: "f64_raw y = of_int (round_half_even (y / 2 powi q)) * 2 powi q"
    using assms y by (auto simp: f64_raw_def p_def q_def)
  show ?thesis
  proof (cases "p = q")
    case True
    then have "round_half_even (x / 2 powi p) \<le> round_half_even (y / 2 powi q)"
      using assms(2) by (intro round_half_even_mono) (simp add: divide_right_mono)
    then show ?thesis unfolding rx ry True by (simp add: True mult_right_mono)
  next
    case False
    with pq have lt: "p < q" by simp
    have q: "q = ilog2 y - 52" using lt y by (auto simp: p_def q_def f64_exp_def)
    have "ilog2 x - 52 \<le> p" using assms by (simp add: p_def f64_exp_def)
    then have "ilog2 x + 1 \<le> q + 52" using lt by simp
    then have "(2::rat) powi (ilog2 x + 1) \<le> 2 powi (q + 52)" by (rule powi2_mono)
    with ilog2_bounds(2) [OF assms(1)] have "x \<le> 2 powi (q + 52)" by simp
    then have "x / 2 powi p \<le> 2 powi (q + 52 - p)" by (simp add: powi2_diff field_simps)
    also have "\<dots> = of_int (2 ^ nat (q + 52 - p))" using lt by (intro powi2_nat) simp
    finally have "round_half_even (x / 2 powi p) \<le> 2 ^ nat (q + 52 - p)"
      using round_half_even_mono round_half_even_of_int by metis
    then have "of_int (round_half_even (x / 2 powi p)) \<le> (of_int (2 ^ nat (q + 52 - p)) :: rat)"
      by (simp only: of_int_le_iff)
    also have "\<dots> = 2 powi (q + 52 - p)" using lt by (intro powi2_nat [symmetric]) simp
    finally have a: "f64_raw x \<le> 2 powi (q + 52)"
      unfolding rx by (simp add: powi2_diff field_simps)
    have "2 powi (q + 52) \<le> y" using ilog2_bounds(1) [OF y] q by simp
    then have "of_int (2 ^ 52) \<le> y / 2 powi q" by (simp add: powi2_add field_simps powi2_nat)
    then have "2 ^ 52 \<le> round_half_even (y / 2 powi q)"
      using round_half_even_mono round_half_even_of_int by metis
    then have "(of_int (2 ^ 52) :: rat) \<le> of_int (round_half_even (y / 2 powi q))"
      by (simp only: of_int_le_iff)
    then have "of_int (2 ^ 52) * 2 powi q \<le> f64_raw y"
      unfolding ry by (rule mult_right_mono) simp
    then have "2 powi (q + 52) \<le> f64_raw y" by (simp add: powi2_add powi2_nat)
    with a show ?thesis by simp
  qed
qed

lemma f64_raw_nonneg: "0 \<le> x \<Longrightarrow> 0 \<le> f64_raw x"
proof -
  assume "0 \<le> x"
  then have "round_half_even (of_int 0) \<le> round_half_even (x / 2 powi f64_exp x)"
    by (intro round_half_even_mono) simp
  then have "0 \<le> round_half_even (x / 2 powi f64_exp x)"
    unfolding round_half_even_of_int .
  then show ?thesis by (auto simp: f64_raw_def intro!: mult_nonneg_nonneg)
qed

lemma f64_raw_mono: "x \<le> y \<Longrightarrow> f64_raw x \<le> f64_raw y"
proof (cases "0 < x")
  case True
  then show "x \<le> y \<Longrightarrow> f64_raw x \<le> f64_raw y" by (rule f64_raw_mono_pos)
next
  case x: False
  assume le: "x \<le> y"
  have nx: "f64_raw x \<le> 0" using f64_raw_nonneg [of "- x"] x by (simp add: f64_raw_minus)
  show ?thesis
  proof (cases "0 \<le> y")
    case True
    with nx f64_raw_nonneg [of y] show ?thesis by simp
  next
    case False
    then have "f64_raw (- y) \<le> f64_raw (- x)" using le by (intro f64_raw_mono_pos) auto
    then show ?thesis by (simp add: f64_raw_minus)
  qed
qed

lemma f64_not_NaN [simp]: "f64 x \<noteq> NaN"
  by (simp add: f64_def Let_def)

lemma f64_0 [simp]: "f64 0 = Fin 0"
  by (simp add: f64_def not_le)

lemma f64_Fin_iff: "f64 x = Fin r \<longleftrightarrow> r = f64_raw x \<and> \<bar>f64_raw x\<bar> < f64_limit"
  by (auto simp: f64_def Let_def abs_less_iff)

theorem f64_mono: "x \<le> y \<Longrightarrow> f64 x \<le> f64 y"
  using f64_raw_mono [of x y]
  by (auto simp: f64_def Let_def less_eq_pyfloat_def)

text \<open>The rationals that are binary64 values.\<close>

definition is_f64 :: "rat \<Rightarrow> bool" where
  "is_f64 r = (f64 r = Fin r)"

fun pyfloat_ok :: "pyfloat \<Rightarrow> bool" where
  "pyfloat_ok (Fin r) = is_f64 r"
| "pyfloat_ok _ = True"

lemma is_f64_0 [simp]: "is_f64 0"
  by (simp add: is_f64_def)

lemma f64_ok [simp]: "pyfloat_ok (f64 x)"
  by (auto simp: f64_def Let_def is_f64_def abs_less_iff)

lemma f64_Fin_is_f64: "f64 x = Fin r \<Longrightarrow> is_f64 r"
  using f64_ok [of x] by simp

lemma is_f64D [simp]: "is_f64 r \<Longrightarrow> f64 r = Fin r"
  by (simp add: is_f64_def)

lemma is_f64_of_int: "\<bar>n\<bar> \<le> 2 ^ 53 \<Longrightarrow> is_f64 (of_int n)"
proof -
  assume n: "\<bar>n\<bar> \<le> 2 ^ 53"
  then have "f64_raw (of_int n) = of_int n"
    by (intro f64_raw_exact [where m = n and q = 0]) auto
  moreover have "\<bar>of_int n\<bar> < f64_limit"
  proof -
    have "of_int \<bar>n\<bar> \<le> (of_int (2 ^ 53) :: rat)" using n by (simp only: of_int_le_iff)
    also have "\<dots> < f64_limit" by (rule f64_limit_gt)
    finally show ?thesis by simp
  qed
  ultimately show ?thesis by (simp add: is_f64_def f64_Fin_iff)
qed

lemma is_f64_dyadic: "\<bar>m\<bar> \<le> 2 ^ 53 \<Longrightarrow> k \<le> 1074 \<Longrightarrow> is_f64 (of_int m / 2 ^ k)"
proof -
  assume m: "\<bar>m\<bar> \<le> 2 ^ 53" and k: "k \<le> 1074"
  have "of_int m / (2::rat) ^ k = of_int m * 2 powi (- int k)"
    by (simp add: power_int_minus divide_inverse)
  then have "f64_raw (of_int m / 2 ^ k) = of_int m / 2 ^ k"
    using m k by (intro f64_raw_exact [where m = m and q = "- int k"]) auto
  moreover have "\<bar>of_int m / 2 ^ k\<bar> < f64_limit"
  proof -
    have "\<bar>of_int m / (2::rat) ^ k\<bar> \<le> \<bar>of_int m\<bar>"
      by (simp add: abs_divide divide_le_eq mult_le_cancel_left1)
    also have "\<dots> < f64_limit" using is_f64_of_int [OF m] by (auto simp: is_f64_def f64_Fin_iff)
    finally show ?thesis .
  qed
  ultimately show ?thesis by (simp add: is_f64_def f64_Fin_iff)
qed

text \<open>Rounding of a number in the normal range whose exponent is known.\<close>

lemma f64_raw_normal:
  assumes "2 powi (q + 52) \<le> \<bar>x\<bar>" and "\<bar>x\<bar> < 2 powi (q + 53)" and "-1074 \<le> q"
  shows "f64_raw x = of_int (round_half_even (x / 2 powi q)) * 2 powi q"
proof -
  have x: "0 < \<bar>x\<bar>" using assms(1) powi2_pos [of "q + 52"] by linarith
  have "ilog2 \<bar>x\<bar> < q + 53" using x assms(2) by (intro ilog2_less)
  moreover have "q + 52 < ilog2 \<bar>x\<bar> + 1"
  proof (rule ccontr)
    assume "\<not> q + 52 < ilog2 \<bar>x\<bar> + 1"
    then have "(2::rat) powi (ilog2 \<bar>x\<bar> + 1) \<le> 2 powi (q + 52)" by (intro powi2_mono) simp
    with ilog2_bounds(2) [OF x] assms(1) show False by simp
  qed
  ultimately have "f64_exp x = q" using assms(3) by (simp add: f64_exp_def)
  with x show ?thesis by (auto simp: f64_raw_def)
qed

lemma is_f64_minus [simp]: "is_f64 (- r) = is_f64 r"
  by (auto simp: is_f64_def f64_Fin_iff f64_raw_minus)

end
