(* ===== verification/Py_Value.thy ===== *)
theory Py_Value
  imports
    Py_Float
    "HOL-Library.AList"
    "HOL-Library.Char_ord"
    "HOL-Library.List_Lexorder"
    "HOL-Library.Product_Lexorder"
begin

text \<open>
  Dynamic Python values and the built-ins the modelled modules apply to them: truth value,
  \<open>str\<close>, \<open>repr\<close>, \<open>int\<close>, \<open>float\<close>, \<open>==\<close>, \<open>str.strip\<close>/\<open>lower\<close>/\<open>upper\<close>,
  \<open>dict.get\<close> and \<open>dict(\<dots>)\<close> updates in insertion order, \<open>dict.fromkeys\<close> as an order-keeping
  duplicate filter, and the proleptic Gregorian calendar behind \<open>datetime\<close>.
  Strings are lists of characters below U+0080 (every token, symbol and identifier the modelled
  code compares is ASCII); \<open>CHR 0xFF\<close> stands for the sort sentinel \<open>\uffff\<close>, above all of them.
  A raised exception is the left side of a sum.
\<close>

named_theorems py_simps \<open>evaluation rules for the Python built-ins\<close>

section \<open>Values and exceptions\<close>

datatype pyerr =
    TypeError | ValueError | OverflowError | ZeroDivisionError | KeyError string
  | IndexError | AssertionError

datatype pyval =
    VNone
  | VBool bool
  | VInt int
  | VFloat pyfloat
  | VStr string
  | VList "pyval list"
  | VTuple "pyval list"
  | VDict "(string \<times> pyval) list"
  | VDatetime "int option" int

text \<open>
  \<open>VDatetime off us\<close> is a \<open>datetime\<close> whose wall clock reads \<open>us\<close> microseconds since
  1970-01-01T00:00:00, with UTC offset \<open>off\<close> seconds (\<open>None\<close> for a naive value).
\<close>

type_synonym pydict = "(string \<times> pyval) list"

text \<open>A loop that builds a list and stops at the first exception.\<close>

fun traverse :: "('a \<Rightarrow> pyerr + 'b) \<Rightarrow> 'a list \<Rightarrow> pyerr + 'b list" where
  "traverse f [] = Inr []"
| "traverse f (x # xs) =
     (case f x of Inl e \<Rightarrow> Inl e
      | Inr y \<Rightarrow> (case traverse f xs of Inl e \<Rightarrow> Inl e | Inr ys \<Rightarrow> Inr (y # ys)))"

text \<open>One statement after another that may raise, and a sequence of \<open>if \<dots>: raise \<dots>\<close> checks.\<close>

fun ebind :: "'e + 'a \<Rightarrow> ('a \<Rightarrow> 'e + 'b) \<Rightarrow> 'e + 'b" where
  "ebind (Inl e) f = Inl e"
| "ebind (Inr x) f = f x"

fun first_error :: "(bool \<times> 'e) list \<Rightarrow> 'e + unit" where
  "first_error [] = Inr ()"
| "first_error ((b, e) # cs) = (if b then Inl e else first_error cs)"

text \<open>Membership in a set or a dictionary needs a hashable value.\<close>

fun hashable :: "pyval \<Rightarrow> bool" where
  "hashable (VList xs) = False"
| "hashable (VDict d) = False"
| "hashable (VTuple xs) = list_all hashable xs"
| "hashable v = True"

section \<open>Strings\<close>

abbreviation ordc :: "char \<Rightarrow> nat" where
  "ordc c \<equiv> of_char c"

definition is_space :: "char \<Rightarrow> bool" where
  "is_space c = (9 \<le> ordc c \<and> ordc c \<le> 13 \<or> 28 \<le> ordc c \<and> ordc c \<le> 32)"

definition is_digit :: "char \<Rightarrow> bool" where
  "is_digit c = (48 \<le> ordc c \<and> ordc c \<le> 57)"

definition is_alpha :: "char \<Rightarrow> bool" where
  "is_alpha c = (65 \<le> ordc c \<and> ordc c \<le> 90 \<or> 97 \<le> ordc c \<and> ordc c \<le> 122)"

definition char_lower :: "char \<Rightarrow> char" where
  "char_lower c = (if 65 \<le> ordc c \<and> ordc c \<le> 90 then char_of (ordc c + 32) else c)"

definition char_upper :: "char \<Rightarrow> char" where
  "char_upper c = (if 97 \<le> ordc c \<and> ordc c \<le> 122 then char_of (ordc c - 32) else c)"

definition py_lower :: "string \<Rightarrow> string" where
  "py_lower s = map char_lower s"

definition py_upper :: "string \<Rightarrow> string" where
  "py_upper s = map char_upper s"

definition py_lstrip :: "string \<Rightarrow> string" where
  "py_lstrip s = dropWhile is_space s"

definition py_strip :: "string \<Rightarrow> string" where
  "py_strip s = rev (py_lstrip (rev (py_lstrip s)))"

fun startswith :: "string \<Rightarrow> string \<Rightarrow> bool" where
  "startswith s [] = True"
| "startswith [] (p # ps) = False"
| "startswith (c # cs) (p # ps) = (c = p \<and> startswith cs ps)"

definition endswith :: "string \<Rightarrow> string \<Rightarrow> bool" where
  "endswith s p = startswith (rev s) (rev p)"

fun join_str :: "string \<Rightarrow> string list \<Rightarrow> string" where
  "join_str sep [] = []"
| "join_str sep [x] = x"
| "join_str sep (x # xs) = x @ sep @ join_str sep xs"

definition sort_sentinel :: string where
  "sort_sentinel = [CHR 0xFF]"

fun nat_str :: "nat \<Rightarrow> string" where
  "nat_str n = (if n < 10 then [char_of (48 + n)] else nat_str (n div 10) @ [char_of (48 + n mod 10)])"

declare nat_str.simps [simp del]

definition int_str :: "int \<Rightarrow> string" where
  "int_str n = (if n < 0 then CHR ''-'' # nat_str (nat (- n)) else nat_str (nat n))"

definition zero_pad :: "nat \<Rightarrow> nat \<Rightarrow> string" where
  "zero_pad w n = (let s = nat_str n in replicate (w - length s) CHR ''0'' @ s)"

section \<open>Order-keeping duplicate removal: \<open>list(dict.fromkeys(xs))\<close>\<close>

definition py_unique :: "'a list \<Rightarrow> 'a list" where
  "py_unique xs = rev (remdups (rev xs))"

section \<open>Dictionaries\<close>

definition dget :: "pydict \<Rightarrow> string \<Rightarrow> pyval" where
  "dget d k = (case map_of d k of None \<Rightarrow> VNone | Some v \<Rightarrow> v)"

definition dget_default :: "pydict \<Rightarrow> string \<Rightarrow> pyval \<Rightarrow> pyval" where
  "dget_default d k x = (case map_of d k of None \<Rightarrow> x | Some v \<Rightarrow> v)"

definition dhas :: "pydict \<Rightarrow> string \<Rightarrow> bool" where
  "dhas d k = (map_of d k \<noteq> None)"

definition dput :: "string \<Rightarrow> pyval \<Rightarrow> pydict \<Rightarrow> pydict" where
  "dput k v d = AList.update k v d"

definition dmerge :: "pydict \<Rightarrow> pydict \<Rightarrow> pydict" where
  "dmerge d e = fold (\<lambda>(k, v) acc. dput k v acc) e d"

section \<open>Truth value\<close>

fun truthy :: "pyval \<Rightarrow> bool" where
  "truthy VNone = False"
| "truthy (VBool b) = b"
| "truthy (VInt n) = (n \<noteq> 0)"
| "truthy (VFloat f) = (f \<noteq> Fin 0)"
| "truthy (VStr s) = (s \<noteq> [])"
| "truthy (VList xs) = (xs \<noteq> [])"
| "truthy (VTuple xs) = (xs \<noteq> [])"
| "truthy (VDict d) = (d \<noteq> [])"
| "truthy (VDatetime off us) = True"

definition py_or :: "pyval \<Rightarrow> pyval \<Rightarrow> pyval" where
  "py_or x y = (if truthy x then x else y)"

section \<open>\<open>str\<close> and \<open>repr\<close>\<close>

text \<open>\<open>repr(float)\<close>: the shortest decimal that rounds back, closest to the value among those.\<close>

definition ilog10 :: "rat \<Rightarrow> int" where
  "ilog10 x =
     (case quotient_of x of (n, d) \<Rightarrow>
        let k = int (length (nat_str (nat n))) - int (length (nat_str (nat d))) in
        if pow_rat 10 k \<le> x then k else k - 1)"

definition repr_candidate :: "rat \<Rightarrow> nat \<Rightarrow> int option" where
  "repr_candidate x n =
     (let scale = pow_rat 10 (ilog10 x - int n + 1);
          lo = \<lfloor>x / scale\<rfloor>;
          ok = (\<lambda>m. f64 (of_int m * scale) = Fin x);
          dl = x - of_int lo * scale;
          dh = of_int (lo + 1) * scale - x in
      if ok lo \<and> ok (lo + 1)
      then Some (if dl < dh then lo else if dh < dl then lo + 1 else if even lo then lo else lo + 1)
      else if ok lo then Some lo
      else if ok (lo + 1) then Some (lo + 1)
      else None)"

fun repr_search :: "rat \<Rightarrow> nat list \<Rightarrow> int \<times> nat" where
  "repr_search x [] = (\<lfloor>x / pow_rat 10 (ilog10 x - 16)\<rfloor>, 17)"
| "repr_search x (n # ns) =
     (case repr_candidate x n of Some m \<Rightarrow> (m, n) | None \<Rightarrow> repr_search x ns)"

definition strip_zeros :: "string \<Rightarrow> string" where
  "strip_zeros s = rev (dropWhile (\<lambda>c. c = CHR ''0'') (rev s))"

definition repr_digits :: "string \<Rightarrow> int \<Rightarrow> string" where
  "repr_digits ds decpt =
     (if decpt \<le> -4 \<or> 16 < decpt
      then (let e = decpt - 1 in
            [hd ds] @ (if length ds = 1 then [] else CHR ''.'' # tl ds)
            @ (if e < 0 then ''e-'' else ''e+'') @ zero_pad 2 (nat \<bar>e\<bar>))
      else if decpt \<le> 0 then ''0.'' @ replicate (nat (- decpt)) CHR ''0'' @ ds
      else if int (length ds) \<le> decpt
      then ds @ replicate (nat decpt - length ds) CHR ''0'' @ ''.0''
      else take (nat decpt) ds @ ''.'' @ drop (nat decpt) ds)"

definition repr_pos :: "rat \<Rightarrow> string" where
  "repr_pos x =
     (case repr_search x [1..<18] of (m, n) \<Rightarrow>
        let ds = nat_str (nat m) in
        repr_digits (strip_zeros ds) (int (length ds) + ilog10 x - int n + 1))"

fun float_repr :: "pyfloat \<Rightarrow> string" where
  "float_repr NaN = ''nan''"
| "float_repr PosInf = ''inf''"
| "float_repr NegInf = ''-inf''"
| "float_repr (Fin r) =
     (if r = 0 then ''0.0'' else if r < 0 then CHR ''-'' # repr_pos (- r) else repr_pos r)"

definition hex_digit :: "nat \<Rightarrow> char" where
  "hex_digit n = (if n < 10 then char_of (48 + n) else char_of (87 + n))"

definition escape_char :: "char \<Rightarrow> char \<Rightarrow> string" where
  "escape_char q c =
     (if c = q \<or> ordc c = 92 then [CHR 0x5C, c]
      else if ordc c = 10 then [CHR 0x5C, CHR ''n'']
      else if ordc c = 13 then [CHR 0x5C, CHR ''r'']
      else if ordc c = 9 then [CHR 0x5C, CHR ''t'']
      else if ordc c < 32 \<or> ordc c = 127
      then [CHR 0x5C, CHR ''x'', hex_digit (ordc c div 16), hex_digit (ordc c mod 16)]
      else [c])"

definition str_repr :: "string \<Rightarrow> string" where
  "str_repr s =
     (let q = (if CHR 0x27 \<in> set s \<and> CHR 0x22 \<notin> set s then CHR 0x22 else CHR 0x27) in
      [q] @ concat (map (escape_char q) s) @ [q])"

text \<open>Days since 1970-01-01 to year, month, day, and the day of the week (Monday is 0).\<close>

definition civil_from_days :: "int \<Rightarrow> int \<times> int \<times> int" where
  "civil_from_days z0 =
     (let z = z0 + 719468;
          era = z div 146097;
          doe = z - era * 146097;
          yoe = (doe - doe div 1460 + doe div 36524 - doe div 146096) div 365;
          doy = doe - (365 * yoe + yoe div 4 - yoe div 100);
          mp = (5 * doy + 2) div 153;
          d = doy - (153 * mp + 2) div 5 + 1;
          m = (if mp < 10 then mp + 3 else mp - 9) in
      (yoe + era * 400 + (if m \<le> 2 then 1 else 0), m, d))"

definition days_from_civil :: "int \<Rightarrow> int \<Rightarrow> int \<Rightarrow> int" where
  "days_from_civil y0 m d =
     (let y = (if m \<le> 2 then y0 - 1 else y0);
          era = y div 400;
          yoe = y - era * 400;
          mp = (if 2 < m then m - 3 else m + 9);
          doy = (153 * mp + 2) div 5 + d - 1;
          doe = yoe * 365 + yoe div 4 - yoe div 100 + doy in
      era * 146097 + doe - 719468)"

definition weekday_of_days :: "int \<Rightarrow> int" where
  "weekday_of_days z = (z + 3) mod 7"

definition datetime_str :: "int option \<Rightarrow> int \<Rightarrow> string" where
  "datetime_str off us =
     (let secs = us div 1000000; frac = us mod 1000000; sod = secs mod 86400 in
      case civil_from_days (secs div 86400) of (y, m, d) \<Rightarrow>
        zero_pad 4 (nat y) @ ''-'' @ zero_pad 2 (nat m) @ ''-'' @ zero_pad 2 (nat d) @ '' ''
        @ zero_pad 2 (nat (sod div 3600)) @ '':'' @ zero_pad 2 (nat (sod div 60 mod 60)) @ '':''
        @ zero_pad 2 (nat (sod mod 60))
        @ (if frac = 0 then [] else ''.'' @ zero_pad 6 (nat frac))
        @ (case off of None \<Rightarrow> []
           | Some o1 \<Rightarrow>
               (let a = \<bar>o1\<bar> in
                (if o1 < 0 then ''-'' else ''+'') @ zero_pad 2 (nat (a div 3600)) @ '':''
                @ zero_pad 2 (nat (a div 60 mod 60))
                @ (if a mod 60 = 0 then [] else '':'' @ zero_pad 2 (nat (a mod 60))))))"

primrec py_repr :: "pyval \<Rightarrow> string" where
  "py_repr VNone = ''None''"
| "py_repr (VBool b) = (if b then ''True'' else ''False'')"
| "py_repr (VInt n) = int_str n"
| "py_repr (VFloat f) = float_repr f"
| "py_repr (VStr s) = str_repr s"
| "py_repr (VList xs) = ''['' @ join_str '', '' (map py_repr xs) @ '']''"
| "py_repr (VTuple xs) =
     ''('' @ join_str '', '' (map py_repr xs) @ (if length xs = 1 then '',)'' else '')'')"
| "py_repr (VDict d) =
     ''{'' @ join_str '', ''
       (map (\<lambda>(k, r). str_repr k @ '': '' @ r) (map (map_prod id py_repr) d)) @ ''}''"
| "py_repr (VDatetime off us) = ''datetime.datetime('' @ datetime_str off us @ '')''"

fun py_str :: "pyval \<Rightarrow> string" where
  "py_str (VStr s) = s"
| "py_str (VDatetime off us) = datetime_str off us"
| "py_str v = py_repr v"

text \<open>The idioms \<open>str(x or "")\<close>, \<open>.strip()\<close>, \<open>.lower()\<close>, \<open>.upper()\<close>.\<close>

definition str_or_empty :: "pyval \<Rightarrow> string" where
  "str_or_empty x = (if truthy x then py_str x else [])"

definition norm_text :: "pyval \<Rightarrow> string" where
  "norm_text x = py_strip (str_or_empty x)"

definition norm_lower :: "pyval \<Rightarrow> string" where
  "norm_lower x = py_lower (norm_text x)"

definition norm_upper :: "pyval \<Rightarrow> string" where
  "norm_upper x = py_upper (norm_text x)"

section \<open>\<open>float(\<dots>)\<close> and \<open>int(\<dots>)\<close>\<close>

definition digits_val :: "string \<Rightarrow> int" where
  "digits_val s = foldl (\<lambda>a c. a * 10 + (int (ordc c) - 48)) 0 s"

text \<open>Underscores are allowed between two digits and nowhere else.\<close>

fun drop_underscores :: "bool \<Rightarrow> string \<Rightarrow> string option" where
  "drop_underscores p [] = Some []"
| "drop_underscores p (c # cs) =
     (if c = CHR ''_''
      then (if p \<and> cs \<noteq> [] \<and> is_digit (hd cs) then drop_underscores False cs else None)
      else map_option ((#) c) (drop_underscores (is_digit c) cs))"

definition split_sign :: "string \<Rightarrow> int \<times> string" where
  "split_sign s =
     (case s of [] \<Rightarrow> (1, [])
      | c # cs \<Rightarrow> if c = CHR ''-'' then (-1, cs) else if c = CHR ''+'' then (1, cs) else (1, s))"

definition parse_exponent :: "string \<Rightarrow> int option" where
  "parse_exponent s =
     (case s of [] \<Rightarrow> Some 0
      | c # cs \<Rightarrow>
          (if char_lower c \<noteq> CHR ''e'' then None
           else case split_sign cs of (sg, ds) \<Rightarrow>
             if ds \<noteq> [] \<and> list_all is_digit ds then Some (sg * digits_val ds) else None))"

definition parse_decimal :: "string \<Rightarrow> rat option" where
  "parse_decimal s =
     (let ip = takeWhile is_digit s; r1 = dropWhile is_digit s;
          (fp, r2) = (case r1 of [] \<Rightarrow> ([], [])
                      | c # cs \<Rightarrow> if c = CHR ''.'' then (takeWhile is_digit cs, dropWhile is_digit cs)
                                 else ([], r1)) in
      if ip = [] \<and> fp = [] then None
      else case parse_exponent r2 of None \<Rightarrow> None
        | Some e \<Rightarrow> Some (of_int (digits_val (ip @ fp)) * pow_rat 10 (e - int (length fp))))"

definition parse_float :: "string \<Rightarrow> pyerr + pyfloat" where
  "parse_float s =
     (case split_sign (py_strip s) of (sg, u) \<Rightarrow>
        let l = py_lower u in
        if l = ''inf'' \<or> l = ''infinity'' then Inr (if sg < 0 then NegInf else PosInf)
        else if l = ''nan'' then Inr NaN
        else case drop_underscores False u of None \<Rightarrow> Inl ValueError
          | Some v \<Rightarrow> (case parse_decimal v of None \<Rightarrow> Inl ValueError
                      | Some q \<Rightarrow> Inr (f64 (of_int sg * q))))"

definition parse_int :: "string \<Rightarrow> pyerr + int" where
  "parse_int s =
     (case split_sign (py_strip s) of (sg, u) \<Rightarrow>
        case drop_underscores False u of None \<Rightarrow> Inl ValueError
        | Some v \<Rightarrow> if v \<noteq> [] \<and> list_all is_digit v then Inr (sg * digits_val v) else Inl ValueError)"

definition py_float_of_int :: "int \<Rightarrow> pyerr + pyfloat" where
  "py_float_of_int n = (case float_of_int n of Fin r \<Rightarrow> Inr (Fin r) | _ \<Rightarrow> Inl OverflowError)"

fun py_float :: "pyval \<Rightarrow> pyerr + pyfloat" where
  "py_float (VBool b) = Inr (Fin (if b then 1 else 0))"
| "py_float (VInt n) = py_float_of_int n"
| "py_float (VFloat f) = Inr f"
| "py_float (VStr s) = parse_float s"
| "py_float _ = Inl TypeError"

definition trunc_rat :: "rat \<Rightarrow> int" where
  "trunc_rat r = (if r < 0 then - \<lfloor>- r\<rfloor> else \<lfloor>r\<rfloor>)"

fun int_of_float :: "pyfloat \<Rightarrow> pyerr + int" where
  "int_of_float (Fin r) = Inr (trunc_rat r)"
| "int_of_float NaN = Inl ValueError"
| "int_of_float _ = Inl OverflowError"

fun py_int :: "pyval \<Rightarrow> pyerr + int" where
  "py_int (VBool b) = Inr (if b then 1 else 0)"
| "py_int (VInt n) = Inr n"
| "py_int (VFloat f) = int_of_float f"
| "py_int (VStr s) = parse_int s"
| "py_int _ = Inl TypeError"

section \<open>Equality\<close>

fun num_of :: "pyval \<Rightarrow> pyfloat option" where
  "num_of (VBool b) = Some (Fin (if b then 1 else 0))"
| "num_of (VInt n) = Some (Fin (of_int n))"
| "num_of (VFloat f) = Some f"
| "num_of _ = None"

fun py_eq :: "pyval \<Rightarrow> pyval \<Rightarrow> bool"
  and py_eqs :: "pyval list \<Rightarrow> pyval list \<Rightarrow> bool"
  and py_eqd :: "(string \<times> pyval) list \<Rightarrow> (string \<times> pyval) list \<Rightarrow> bool" where
  "py_eq VNone v = (v = VNone)"
| "py_eq (VStr s) v = (v = VStr s)"
| "py_eq (VList xs) v = (case v of VList ys \<Rightarrow> py_eqs xs ys | _ \<Rightarrow> False)"
| "py_eq (VTuple xs) v = (case v of VTuple ys \<Rightarrow> py_eqs xs ys | _ \<Rightarrow> False)"
| "py_eq (VDict d) v = (case v of VDict e \<Rightarrow> length d = length e \<and> py_eqd d e | _ \<Rightarrow> False)"
| "py_eq (VDatetime off us) v =
     (case v of VDatetime off2 us2 \<Rightarrow>
        (case (off, off2) of (None, None) \<Rightarrow> us = us2
         | (Some a, Some b) \<Rightarrow> us - a * 1000000 = us2 - b * 1000000
         | _ \<Rightarrow> False)
      | _ \<Rightarrow> False)"
| "py_eq (VBool b) v = (case num_of v of None \<Rightarrow> False | Some y \<Rightarrow> feq (Fin (if b then 1 else 0)) y)"
| "py_eq (VInt n) v = (case num_of v of None \<Rightarrow> False | Some y \<Rightarrow> feq (Fin (of_int n)) y)"
| "py_eq (VFloat f) v = (case num_of v of None \<Rightarrow> False | Some y \<Rightarrow> feq f y)"
| "py_eqs [] ys = (ys = [])"
| "py_eqs (x # xs) ys = (case ys of [] \<Rightarrow> False | y # ys' \<Rightarrow> py_eq x y \<and> py_eqs xs ys')"
| "py_eqd [] e = True"
| "py_eqd ((k, v) # d) e = (case map_of e k of None \<Rightarrow> False | Some w \<Rightarrow> py_eq v w \<and> py_eqd d e)"

section \<open>\<open>json.dumps(v, separators=(",", ":"), sort_keys=True)\<close>\<close>

definition json_char :: "char \<Rightarrow> string" where
  "json_char c =
     (let n = ordc c; b = CHR 0x5C in
      if n = 34 \<or> n = 92 then [b, c]
      else if n = 10 then [b, CHR ''n'']
      else if n = 13 then [b, CHR ''r'']
      else if n = 9 then [b, CHR ''t'']
      else if n = 8 then [b, CHR ''b'']
      else if n = 12 then [b, CHR ''f'']
      else if n < 32 then b # ''u00'' @ [hex_digit (n div 16), hex_digit (n mod 16)]
      else [c])"

definition json_str :: "string \<Rightarrow> string" where
  "json_str s = [CHR 0x22] @ concat (map json_char s) @ [CHR 0x22]"

fun json_float :: "pyfloat \<Rightarrow> string" where
  "json_float NaN = ''NaN''"
| "json_float PosInf = ''Infinity''"
| "json_float NegInf = ''-Infinity''"
| "json_float (Fin r) = float_repr (Fin r)"

primrec json_dumps :: "pyval \<Rightarrow> string" where
  "json_dumps VNone = ''null''"
| "json_dumps (VBool b) = (if b then ''true'' else ''false'')"
| "json_dumps (VInt n) = int_str n"
| "json_dumps (VFloat f) = json_float f"
| "json_dumps (VStr s) = json_str s"
| "json_dumps (VList xs) = ''['' @ join_str '','' (map json_dumps xs) @ '']''"
| "json_dumps (VTuple xs) = ''['' @ join_str '','' (map json_dumps xs) @ '']''"
| "json_dumps (VDict d) =
     ''{'' @ join_str '',''
       (map (\<lambda>(k, r). json_str k @ '':'' @ r) (sort_key fst (map (map_prod id json_dumps) d))) @ ''}''"
| "json_dumps (VDatetime off us) = json_str (datetime_str off us)"

section \<open>\<open>datetime.fromtimestamp(t, tz=timezone.utc)\<close>\<close>

text \<open>The result is the number of microseconds since the epoch; the year must be in 1..9999.\<close>

definition utc_from_timestamp :: "pyfloat \<Rightarrow> pyerr + int" where
  "utc_from_timestamp t =
     (case t of
        NaN \<Rightarrow> Inl ValueError
      | Fin r \<Rightarrow>
          (let ip = trunc_rat r;
               us = ip * 1000000 + round_half_even (f64_raw ((r - of_int ip) * 1000000));
               secs = us div 1000000 in
           if secs < - (2 ^ 63) \<or> 2 ^ 63 \<le> secs then Inl OverflowError
           else if secs < -62135596800 \<or> 253402300799 < secs then Inl ValueError
           else Inr us)
      | _ \<Rightarrow> Inl OverflowError)"

section \<open>Facts\<close>

lemma sum_case_eq_simps [py_simps]:
  "(case Inl e of Inl x \<Rightarrow> f x | Inr y \<Rightarrow> g y) = f e"
  "(case Inr v of Inl x \<Rightarrow> f x | Inr y \<Rightarrow> g y) = g v"
  by simp_all

lemma ebind_Inr_iff: "ebind m f = Inr y \<longleftrightarrow> (\<exists>x. m = Inr x \<and> f x = Inr y)"
  by (cases m) auto

lemma ebindE: "ebind m f = Inr y \<Longrightarrow> (\<And>x. m = Inr x \<Longrightarrow> f x = Inr y \<Longrightarrow> P) \<Longrightarrow> P"
  by (cases m) auto

lemma first_error_Inr: "first_error cs = Inr u \<longleftrightarrow> list_all (\<lambda>c. \<not> fst c) cs"
  by (induction cs rule: first_error.induct) auto

lemma first_error_append: "first_error (xs @ ys) = ebind (first_error xs) (\<lambda>_. first_error ys)"
  by (induction xs rule: first_error.induct) auto

lemma set_py_unique [simp]: "set (py_unique xs) = set xs"
  by (simp add: py_unique_def)

lemma distinct_py_unique [simp]: "distinct (py_unique xs)"
  by (simp add: py_unique_def)

lemma py_unique_Nil [simp]: "py_unique [] = []"
  by (simp add: py_unique_def)

lemma py_unique_eq_Nil [simp]: "(py_unique xs = []) = (xs = [])"
  by (metis set_empty set_py_unique)

lemma py_unique_id: "distinct xs \<Longrightarrow> py_unique xs = xs"
  by (simp add: py_unique_def distinct_remdups_id)

lemma traverse_Inr_iff:
  "traverse f xs = Inr ys \<longleftrightarrow> list_all2 (\<lambda>x y. f x = Inr y) xs ys"
proof (induction xs arbitrary: ys)
  case Nil
  then show ?case by auto
next
  case (Cons x xs)
  show ?case
  proof (cases ys)
    case Nil
    then show ?thesis by (auto split: sum.splits)
  next
    case (Cons y zs)
    with Cons.IH [of zs] show ?thesis by (cases "traverse f xs") (auto split: sum.splits)
  qed
qed

lemma traverse_Inl: "traverse f xs = Inl e \<Longrightarrow> \<exists>x \<in> set xs. f x = Inl e"
  by (induction xs) (auto split: sum.splits)

lemma traverse_total: "(\<And>x. x \<in> set xs \<Longrightarrow> f x = Inr (g x)) \<Longrightarrow> traverse f xs = Inr (map g xs)"
  by (induction xs) auto

lemma set_map_filter: "set (List.map_filter f xs) = {y. \<exists>x \<in> set xs. f x = Some y}"
  by (induction xs) (auto simp: map_filter_simps split: option.splits)

lemma dget_Nil [simp]: "dget [] k = VNone"
  by (simp add: dget_def)

lemma dget_Cons [simp]: "dget ((k', v) # d) k = (if k = k' then v else dget d k)"
  by (auto simp: dget_def)

lemma dget_dput [simp]: "dget (dput k v d) k' = (if k' = k then v else dget d k')"
  by (simp add: dget_def dput_def update_conv)

lemma dhas_dput [simp]: "dhas (dput k v d) k' = (k' = k \<or> dhas d k')"
  by (simp add: dhas_def dput_def update_conv)

lemma dhas_Cons [simp]: "dhas ((k', v) # d) k = (k = k' \<or> dhas d k)"
  by (auto simp: dhas_def)

lemma dhas_Nil [simp]: "\<not> dhas [] k"
  by (simp add: dhas_def)

lemma str_or_empty_VStr [simp]: "str_or_empty (VStr s) = s"
  by (simp add: str_or_empty_def)

lemma str_or_empty_VNone [simp]: "str_or_empty VNone = []"
  by (simp add: str_or_empty_def)

lemma py_strip_Nil [simp]: "py_strip [] = []"
  by (simp add: py_strip_def py_lstrip_def)

lemma py_lower_Nil [simp]: "py_lower [] = []"
  by (simp add: py_lower_def)

lemma py_upper_Nil [simp]: "py_upper [] = []"
  by (simp add: py_upper_def)

lemma norm_text_VNone [simp]: "norm_text VNone = []"
  by (simp add: norm_text_def)

lemma norm_lower_VNone [simp]: "norm_lower VNone = []"
  by (simp add: norm_lower_def)

lemma startswith_append: "startswith s p \<longleftrightarrow> (\<exists>t. s = p @ t)"
proof (induction s p rule: startswith.induct)
  case (3 c cs p ps)
  then show ?case by auto
qed auto

end
