(* ===== verification/Ig_Catalog.thy ===== *)
theory Ig_Catalog
  imports Py_Value
begin

text \<open>
  The instrument catalog \<open>providers/ig_mt4_catalog.py\<close>: the identity record with its
  construction check, the ordered table of 22 instruments, the symbol tuples and mappings derived
  from it, and the normalising lookup.
\<close>

section \<open>Identity records\<close>

definition IG_MT4_VENUE_ID :: string where
  "IG_MT4_VENUE_ID = ''ig_mt4''"

record IgMt4InstrumentIdentity =
  canonical_symbol :: string
  provider_symbol :: string
  base_ccy :: string
  quote_ccy :: string
  asset_class :: string
  venue :: string

text \<open>\<open>__post_init__\<close>: every failed check raises \<open>ValueError\<close>.\<close>

definition instrument_post_init :: "IgMt4InstrumentIdentity \<Rightarrow> pyerr + unit" where
  "instrument_post_init i =
     (let symbol = canonical_symbol i in
      if symbol \<noteq> py_upper (py_strip symbol) \<or> length symbol \<noteq> 6 \<or> \<not> list_all is_alpha symbol
      then Inl ValueError
      else if py_strip (provider_symbol i) = [] then Inl ValueError
      else if base_ccy i @ quote_ccy i \<noteq> symbol then Inl ValueError
      else if asset_class i \<notin> {''fx'', ''crypto''} then Inl ValueError
      else if venue i \<noteq> IG_MT4_VENUE_ID then Inl ValueError
      else Inr ())"

definition instrument_id :: "IgMt4InstrumentIdentity \<Rightarrow> string" where
  "instrument_id i = asset_class i @ '':'' @ venue i @ '':'' @ canonical_symbol i"

definition is_crypto_cfd :: "IgMt4InstrumentIdentity \<Rightarrow> bool" where
  "is_crypto_cfd i = (asset_class i = ''crypto'')"

definition ig_instrument ::
  "string \<Rightarrow> string \<Rightarrow> string \<Rightarrow> string \<Rightarrow> string \<Rightarrow> IgMt4InstrumentIdentity" where
  "ig_instrument symbol prov b q ac =
     \<lparr>canonical_symbol = symbol, provider_symbol = prov, base_ccy = b, quote_ccy = q,
      asset_class = ac, venue = IG_MT4_VENUE_ID\<rparr>"

section \<open>The table and what is derived from it\<close>

definition IG_MT4_SCALP_INSTRUMENTS :: "IgMt4InstrumentIdentity list" where
  "IG_MT4_SCALP_INSTRUMENTS =
     [
      ig_instrument ''EURUSD'' ''EURUSD'' ''EUR'' ''USD'' ''fx'',
      ig_instrument ''USDJPY'' ''USDJPY'' ''USD'' ''JPY'' ''fx'',
      ig_instrument ''AUDUSD'' ''AUDUSD'' ''AUD'' ''USD'' ''fx'',
      ig_instrument ''GBPUSD'' ''GBPUSD'' ''GBP'' ''USD'' ''fx'',
      ig_instrument ''USDCAD'' ''USDCAD'' ''USD'' ''CAD'' ''fx'',
      ig_instrument ''USDCHF'' ''USDCHF'' ''USD'' ''CHF'' ''fx'',
      ig_instrument ''EURGBP'' ''EURGBP'' ''EUR'' ''GBP'' ''fx'',
      ig_instrument ''EURJPY'' ''EURJPY'' ''EUR'' ''JPY'' ''fx'',
      ig_instrument ''NZDUSD'' ''NZDUSD'' ''NZD'' ''USD'' ''fx'',
      ig_instrument ''AUDJPY'' ''AUDJPY'' ''AUD'' ''JPY'' ''fx'',
      ig_instrument ''CADJPY'' ''CADJPY'' ''CAD'' ''JPY'' ''fx'',
      ig_instrument ''CHFJPY'' ''CHFJPY'' ''CHF'' ''JPY'' ''fx'',
      ig_instrument ''EURAUD'' ''EURAUD'' ''EUR'' ''AUD'' ''fx'',
      ig_instrument ''EURCAD'' ''EURCAD'' ''EUR'' ''CAD'' ''fx'',
      ig_instrument ''EURCHF'' ''EURCHF'' ''EUR'' ''CHF'' ''fx'',
      ig_instrument ''GBPCAD'' ''GBPCAD'' ''GBP'' ''CAD'' ''fx'',
      ig_instrument ''GBPCHF'' ''GBPCHF'' ''GBP'' ''CHF'' ''fx'',
      ig_instrument ''GBPJPY'' ''GBPJPY'' ''GBP'' ''JPY'' ''fx'',
      ig_instrument ''BTCUSD'' ''BTCUSD'' ''BTC'' ''USD'' ''crypto'',
      ig_instrument ''ETHUSD'' ''ETHUSD'' ''ETH'' ''USD'' ''crypto'',
      ig_instrument ''AUDCAD'' ''AUDCAD'' ''AUD'' ''CAD'' ''fx'',
      ig_instrument ''NZDJPY'' ''NZDJPY'' ''NZD'' ''JPY'' ''fx''
     ]"

definition IG_MT4_FX_SYMBOLS :: "string list" where
  "IG_MT4_FX_SYMBOLS =
     map canonical_symbol (filter (\<lambda>i. asset_class i = ''fx'') IG_MT4_SCALP_INSTRUMENTS)"

definition IG_MT4_CRYPTO_CFD_SYMBOLS :: "string list" where
  "IG_MT4_CRYPTO_CFD_SYMBOLS =
     map canonical_symbol (filter (\<lambda>i. asset_class i = ''crypto'') IG_MT4_SCALP_INSTRUMENTS)"

definition IG_MT4_SCALP_SYMBOLS :: "string list" where
  "IG_MT4_SCALP_SYMBOLS = map canonical_symbol IG_MT4_SCALP_INSTRUMENTS"

definition IG_MT4_SCALP_CATALOG :: "string \<rightharpoonup> IgMt4InstrumentIdentity" where
  "IG_MT4_SCALP_CATALOG =
     map_of (rev (map (\<lambda>i. (canonical_symbol i, i)) IG_MT4_SCALP_INSTRUMENTS))"

definition IG_MT4_PAIR_LEGS :: "string \<rightharpoonup> string \<times> string" where
  "IG_MT4_PAIR_LEGS =
     map_of (rev (map (\<lambda>i. (canonical_symbol i, base_ccy i, quote_ccy i)) IG_MT4_SCALP_INSTRUMENTS))"

definition get_ig_mt4_instrument :: "pyval \<Rightarrow> IgMt4InstrumentIdentity option" where
  "get_ig_mt4_instrument symbol =
     IG_MT4_SCALP_CATALOG (filter (\<lambda>c. is_alpha c \<or> is_digit c) (norm_upper symbol))"

section \<open>Facts\<close>

lemma scalp_symbols_eval:
  "IG_MT4_SCALP_SYMBOLS =
     [''EURUSD'', ''USDJPY'', ''AUDUSD'', ''GBPUSD'', ''USDCAD'', ''USDCHF'', ''EURGBP'', ''EURJPY'',
      ''NZDUSD'', ''AUDJPY'', ''CADJPY'', ''CHFJPY'', ''EURAUD'', ''EURCAD'', ''EURCHF'', ''GBPCAD'',
      ''GBPCHF'', ''GBPJPY'', ''BTCUSD'', ''ETHUSD'', ''AUDCAD'', ''NZDJPY'']"
  by (simp add: IG_MT4_SCALP_SYMBOLS_def IG_MT4_SCALP_INSTRUMENTS_def ig_instrument_def)

lemma distinct_scalp_symbols: "distinct IG_MT4_SCALP_SYMBOLS"
  by (simp add: scalp_symbols_eval)

lemma catalog_lookup:
  assumes "i \<in> set IG_MT4_SCALP_INSTRUMENTS"
  shows "IG_MT4_SCALP_CATALOG (canonical_symbol i) = Some i"
proof -
  let ?ps = "rev (map (\<lambda>i. (canonical_symbol i, i)) IG_MT4_SCALP_INSTRUMENTS)"
  have "map fst ?ps = rev IG_MT4_SCALP_SYMBOLS"
    by (simp add: IG_MT4_SCALP_SYMBOLS_def rev_map comp_def)
  then have "distinct (map fst ?ps)"
    by (simp add: distinct_scalp_symbols)
  moreover have "(canonical_symbol i, i) \<in> set ?ps"
    using assms by simp
  ultimately show ?thesis
    unfolding IG_MT4_SCALP_CATALOG_def by (rule map_of_is_SomeI)
qed

lemma catalog_range:
  assumes "IG_MT4_SCALP_CATALOG k = Some i"
  shows "i \<in> set IG_MT4_SCALP_INSTRUMENTS \<and> canonical_symbol i = k"
  using assms unfolding IG_MT4_SCALP_CATALOG_def by (auto dest!: map_of_SomeD)

lemma catalog_dom: "IG_MT4_SCALP_CATALOG k \<noteq> None \<longleftrightarrow> k \<in> set IG_MT4_SCALP_SYMBOLS"
  using catalog_lookup catalog_range by (force simp: IG_MT4_SCALP_SYMBOLS_def)

lemma instruments_post_init:
  "list_all (\<lambda>i. instrument_post_init i = Inr ()) IG_MT4_SCALP_INSTRUMENTS"
  by code_simp

section \<open>Properties\<close>

text \<open>
  Every instrument of the table passes its construction checks, and the import-time checks of the
  module hold: 22 distinct symbols, 20 of them FX and 2 crypto.
\<close>

theorem catalog_import_checks:
  "list_all (\<lambda>i. instrument_post_init i = Inr ()) IG_MT4_SCALP_INSTRUMENTS
   \<and> distinct IG_MT4_SCALP_SYMBOLS \<and> length IG_MT4_SCALP_SYMBOLS = 22
   \<and> length IG_MT4_FX_SYMBOLS = 20 \<and> length IG_MT4_CRYPTO_CFD_SYMBOLS = 2"
proof -
  have "length IG_MT4_FX_SYMBOLS = 20" "length IG_MT4_CRYPTO_CFD_SYMBOLS = 2"
    by (simp_all add: IG_MT4_FX_SYMBOLS_def IG_MT4_CRYPTO_CFD_SYMBOLS_def IG_MT4_SCALP_INSTRUMENTS_def
        ig_instrument_def)
  then show ?thesis
    by (simp add: instruments_post_init distinct_scalp_symbols) (simp add: scalp_symbols_eval)
qed

text \<open>
  Lookup is exact up to case, surrounding space and separators: it finds an instrument precisely
  when the alphanumeric part of the upper-cased, stripped text is the instrument's symbol.
\<close>

theorem get_ig_mt4_instrument_iff:
  "get_ig_mt4_instrument v = Some i \<longleftrightarrow>
     i \<in> set IG_MT4_SCALP_INSTRUMENTS
     \<and> canonical_symbol i = filter (\<lambda>c. is_alpha c \<or> is_digit c) (norm_upper v)"
proof
  assume "get_ig_mt4_instrument v = Some i"
  then show "i \<in> set IG_MT4_SCALP_INSTRUMENTS
     \<and> canonical_symbol i = filter (\<lambda>c. is_alpha c \<or> is_digit c) (norm_upper v)"
    unfolding get_ig_mt4_instrument_def by (rule catalog_range)
next
  assume "i \<in> set IG_MT4_SCALP_INSTRUMENTS
     \<and> canonical_symbol i = filter (\<lambda>c. is_alpha c \<or> is_digit c) (norm_upper v)"
  then show "get_ig_mt4_instrument v = Some i"
    unfolding get_ig_mt4_instrument_def using catalog_lookup [of i] by simp
qed

end
