(* ===== verification/Rollover_Guard.thy ===== *)
theory Rollover_Guard
  imports Py_Value
begin

text \<open>
  The funding-boundary guard \<open>runtime/scalp_rollover_guard.py\<close>: the signed policy record, its
  derived seconds of the day and its validation, and the diagnostic evaluated at one instant.
  SHA-256 is an argument: the digest is only carried along.
\<close>

section \<open>Constants\<close>

definition PRODUCTION_SCALP_ROLLOVER_GUARD_SCHEMA_VERSION :: string where
  "PRODUCTION_SCALP_ROLLOVER_GUARD_SCHEMA_VERSION =
     ''fxstack.runtime.production_scalp_rollover_guard.v1''"

definition IG_FUNDING_BOUNDARY_LONDON_MINUTE :: int where
  "IG_FUNDING_BOUNDARY_LONDON_MINUTE = 22 * 60"

definition IG_FUNDING_BOUNDARY_EARLIEST_UTC_MINUTE :: int where
  "IG_FUNDING_BOUNDARY_EARLIEST_UTC_MINUTE = 21 * 60"

definition IG_FUNDING_BOUNDARY_LATEST_UTC_MINUTE :: int where
  "IG_FUNDING_BOUNDARY_LATEST_UTC_MINUTE = 22 * 60"

definition PRODUCTION_SCALP_MAX_TIME_STOP_BARS :: int where
  "PRODUCTION_SCALP_MAX_TIME_STOP_BARS = 30"

definition PRODUCTION_SCALP_TIME_STOP_BAR_SECONDS :: int where
  "PRODUCTION_SCALP_TIME_STOP_BAR_SECONDS = 60"

definition PRODUCTION_SCALP_BROKER_CLOSE_SLACK_SECONDS :: int where
  "PRODUCTION_SCALP_BROKER_CLOSE_SLACK_SECONDS = 10 * 60"

definition SECONDS_PER_UTC_DAY :: int where
  "SECONDS_PER_UTC_DAY = 24 * 60 * 60"

section \<open>Daily windows\<close>

definition minute_in_daily_window :: "int \<Rightarrow> int \<Rightarrow> int \<Rightarrow> bool" where
  "minute_in_daily_window minute_of_day start_minute end_minute =
     (let minute = minute_of_day mod (24 * 60);
          start = start_minute mod (24 * 60);
          end1 = end_minute mod (24 * 60) in
      if start = end1 then True
      else if start < end1 then start \<le> minute \<and> minute < end1
      else start \<le> minute \<or> minute < end1)"

section \<open>The policy\<close>

record ProductionScalpRolloverPolicy =
  funding_boundary_london_minute :: int
  earliest_funding_boundary_utc_minute :: int
  latest_funding_boundary_utc_minute :: int
  max_time_stop_bars :: int
  time_stop_bar_seconds :: int
  broker_close_slack_seconds :: int
  policy_schema_version :: string

definition max_holding_seconds :: "ProductionScalpRolloverPolicy \<Rightarrow> int" where
  "max_holding_seconds p = max_time_stop_bars p * time_stop_bar_seconds p"

definition entry_blackout_start_second :: "ProductionScalpRolloverPolicy \<Rightarrow> int" where
  "entry_blackout_start_second p =
     (earliest_funding_boundary_utc_minute p * 60 - max_holding_seconds p
        - broker_close_slack_seconds p) mod SECONDS_PER_UTC_DAY"

definition forced_close_start_second :: "ProductionScalpRolloverPolicy \<Rightarrow> int" where
  "forced_close_start_second p =
     (earliest_funding_boundary_utc_minute p * 60 - broker_close_slack_seconds p)
        mod SECONDS_PER_UTC_DAY"

definition blackout_end_second :: "ProductionScalpRolloverPolicy \<Rightarrow> int" where
  "blackout_end_second p =
     (latest_funding_boundary_utc_minute p * 60 + broker_close_slack_seconds p)
        mod SECONDS_PER_UTC_DAY"

definition validation_error :: "ProductionScalpRolloverPolicy \<Rightarrow> string" where
  "validation_error p =
     (if policy_schema_version p \<noteq> PRODUCTION_SCALP_ROLLOVER_GUARD_SCHEMA_VERSION
      then ''production_scalp_rollover_guard_schema_invalid''
      else if funding_boundary_london_minute p \<noteq> 22 * 60
      then ''production_scalp_rollover_london_boundary_invalid''
      else if \<not> (0 \<le> earliest_funding_boundary_utc_minute p
                 \<and> earliest_funding_boundary_utc_minute p < 24 * 60
                 \<and> 0 \<le> latest_funding_boundary_utc_minute p
                 \<and> latest_funding_boundary_utc_minute p < 24 * 60
                 \<and> earliest_funding_boundary_utc_minute p < latest_funding_boundary_utc_minute p)
      then ''production_scalp_rollover_utc_boundaries_invalid''
      else if max_time_stop_bars p \<le> 0
      then ''production_scalp_rollover_max_time_stop_invalid''
      else if time_stop_bar_seconds p \<noteq> 60
      then ''production_scalp_rollover_bar_seconds_invalid''
      else let slack = broker_close_slack_seconds p in
        if slack < 60 \<or> 30 * 60 < slack
        then ''production_scalp_rollover_close_slack_invalid''
        else if 12 * 60 * 60 \<le> max_holding_seconds p + slack
        then ''production_scalp_rollover_horizon_invalid''
        else [])"

definition to_canonical_dict :: "ProductionScalpRolloverPolicy \<Rightarrow> pydict" where
  "to_canonical_dict p =
     [(''schema_version'', VStr (policy_schema_version p)),
      (''funding_boundary_london_minute'', VInt (funding_boundary_london_minute p)),
      (''earliest_funding_boundary_utc_minute'', VInt (earliest_funding_boundary_utc_minute p)),
      (''latest_funding_boundary_utc_minute'', VInt (latest_funding_boundary_utc_minute p)),
      (''max_time_stop_bars'', VInt (max_time_stop_bars p)),
      (''time_stop_bar_seconds'', VInt (time_stop_bar_seconds p)),
      (''broker_close_slack_seconds'', VInt (broker_close_slack_seconds p)),
      (''max_holding_seconds'', VInt (max_holding_seconds p)),
      (''entry_blackout_start_second'', VInt (entry_blackout_start_second p)),
      (''forced_close_start_second'', VInt (forced_close_start_second p)),
      (''blackout_end_second'', VInt (blackout_end_second p))]"

definition config_sha256 :: "(string \<Rightarrow> string) \<Rightarrow> ProductionScalpRolloverPolicy \<Rightarrow> string" where
  "config_sha256 sha256 p = sha256 (json_dumps (VDict (to_canonical_dict p)))"

definition DEFAULT_PRODUCTION_SCALP_ROLLOVER_POLICY :: ProductionScalpRolloverPolicy where
  "DEFAULT_PRODUCTION_SCALP_ROLLOVER_POLICY =
     \<lparr>funding_boundary_london_minute = IG_FUNDING_BOUNDARY_LONDON_MINUTE,
      earliest_funding_boundary_utc_minute = IG_FUNDING_BOUNDARY_EARLIEST_UTC_MINUTE,
      latest_funding_boundary_utc_minute = IG_FUNDING_BOUNDARY_LATEST_UTC_MINUTE,
      max_time_stop_bars = PRODUCTION_SCALP_MAX_TIME_STOP_BARS,
      time_stop_bar_seconds = PRODUCTION_SCALP_TIME_STOP_BAR_SECONDS,
      broker_close_slack_seconds = PRODUCTION_SCALP_BROKER_CLOSE_SLACK_SECONDS,
      policy_schema_version = PRODUCTION_SCALP_ROLLOVER_GUARD_SCHEMA_VERSION\<rparr>"

section \<open>The decision\<close>

record ProductionScalpRolloverDecision =
  rg_accepted :: bool
  rg_reason :: string
  rg_as_of_epoch :: "pyfloat option"
  utc_second_of_day :: "int option"
  entry_blackout_active :: bool
  force_close_active :: bool
  rg_entry_blackout_start_second :: int
  rg_forced_close_start_second :: int
  rg_blackout_end_second :: int
  policy_config_sha256 :: string
  rg_schema_version :: string

definition entry_allowed :: "ProductionScalpRolloverDecision \<Rightarrow> bool" where
  "entry_allowed d = (rg_accepted d \<and> \<not> entry_blackout_active d)"

definition second_of_day :: "int \<Rightarrow> int" where
  "second_of_day us =
     (let s = us div 1000000; hour = s mod 86400 div 3600; minute = s mod 3600 div 60; sec = s mod 60
      in hour * 60 * 60 + minute * 60 + sec)"

definition evaluate_production_scalp_rollover_guard ::
  "(string \<Rightarrow> string) \<Rightarrow> pyval \<Rightarrow> ProductionScalpRolloverPolicy
     \<Rightarrow> pyerr + ProductionScalpRolloverDecision" where
  "evaluate_production_scalp_rollover_guard sha256 as_of_epoch policy =
     (let policy_error = validation_error policy;
          now = (case py_float as_of_epoch of Inl e \<Rightarrow> NaN | Inr f \<Rightarrow> f);
          clock_valid = (is_finite now \<and> flt (Fin 0) now);
          mk = (\<lambda>sod.
            \<lparr>rg_accepted = (policy_error = []),
             rg_reason = policy_error,
             rg_as_of_epoch = (if clock_valid then Some now else None),
             utc_second_of_day = sod,
             entry_blackout_active = False,
             force_close_active = False,
             rg_entry_blackout_start_second = entry_blackout_start_second policy,
             rg_forced_close_start_second = forced_close_start_second policy,
             rg_blackout_end_second = blackout_end_second policy,
             policy_config_sha256 = config_sha256 sha256 policy,
             rg_schema_version = PRODUCTION_SCALP_ROLLOVER_GUARD_SCHEMA_VERSION\<rparr>)
      in if clock_valid
         then (case utc_from_timestamp now of
                 Inl e \<Rightarrow> Inl e
               | Inr us \<Rightarrow> Inr (mk (Some (second_of_day us))))
         else Inr (mk None))"

section \<open>Facts\<close>

lemmas rollover_consts =
  IG_FUNDING_BOUNDARY_LONDON_MINUTE_def IG_FUNDING_BOUNDARY_EARLIEST_UTC_MINUTE_def
  IG_FUNDING_BOUNDARY_LATEST_UTC_MINUTE_def PRODUCTION_SCALP_MAX_TIME_STOP_BARS_def
  PRODUCTION_SCALP_TIME_STOP_BAR_SECONDS_def PRODUCTION_SCALP_BROKER_CLOSE_SLACK_SECONDS_def
  SECONDS_PER_UTC_DAY_def DEFAULT_PRODUCTION_SCALP_ROLLOVER_POLICY_def

lemma second_of_day_eq: "second_of_day us = (us div 1000000) mod 86400"
proof -
  define s where "s = us div 1000000"
  define t where "t = s mod 86400"
  have a: "s mod 3600 = t mod 3600" by (simp add: t_def mod_mod_cancel)
  have b: "s mod 60 = t mod 3600 mod 60" by (simp add: t_def mod_mod_cancel)
  have "t = t div 3600 * 3600 + t mod 3600" by simp
  moreover have "t mod 3600 = t mod 3600 div 60 * 60 + t mod 3600 mod 60" by simp
  ultimately show ?thesis
    unfolding second_of_day_def Let_def s_def [symmetric] a b t_def [symmetric] by linarith
qed

text \<open>What a policy that passes validation satisfies.\<close>

lemma valid_policyD:
  assumes "validation_error p = []"
  shows "0 \<le> earliest_funding_boundary_utc_minute p"
    and "earliest_funding_boundary_utc_minute p < latest_funding_boundary_utc_minute p"
    and "latest_funding_boundary_utc_minute p < 1440"
    and "0 < max_time_stop_bars p" and "time_stop_bar_seconds p = 60"
    and "60 \<le> broker_close_slack_seconds p" and "broker_close_slack_seconds p \<le> 1800"
    and "max_holding_seconds p + broker_close_slack_seconds p < 43200"
  using assms unfolding validation_error_def Let_def by (auto split: if_splits)

lemma py_float_finite_or:
  "evaluate_production_scalp_rollover_guard sha256 v p = Inl e \<Longrightarrow>
     \<exists>r. py_float v = Inr (Fin r) \<and> 0 < r \<and> utc_from_timestamp (Fin r) = Inl e"
  by (auto simp: evaluate_production_scalp_rollover_guard_def Let_def
      split: sum.splits if_splits pyfloat.splits elim!: is_finite.elims)

lemma guard_result:
  assumes "evaluate_production_scalp_rollover_guard sha256 v p = Inr d"
  shows "rg_accepted d = (validation_error p = [])" and "rg_reason d = validation_error p"
    and "\<not> entry_blackout_active d" and "\<not> force_close_active d"
    and "utc_second_of_day d \<noteq> None \<longleftrightarrow> rg_as_of_epoch d \<noteq> None"
    and "\<And>k. utc_second_of_day d = Some k \<Longrightarrow> 0 \<le> k \<and> k < 86400"
    and "rg_schema_version d = PRODUCTION_SCALP_ROLLOVER_GUARD_SCHEMA_VERSION"
  using assms
  by (auto simp: evaluate_production_scalp_rollover_guard_def Let_def second_of_day_eq
      split: sum.splits if_splits)

lemma utc_from_timestamp_ok:
  assumes "0 \<le> r" and "r < 253402300799"
  shows "\<exists>us. utc_from_timestamp (Fin r) = Inr us"
proof -
  define ip where "ip = \<lfloor>r\<rfloor>"
  have ip: "0 \<le> ip" "ip < 253402300799" "of_int ip \<le> r" "r < of_int ip + 1"
    using assms unfolding ip_def by (auto simp: floor_less_iff) linarith
  have "0 \<le> (r - of_int ip) * 1000000" "(r - of_int ip) * 1000000 \<le> of_int 1000000"
    using ip by auto
  then have "0 \<le> f64_raw ((r - of_int ip) * 1000000)"
    and "f64_raw ((r - of_int ip) * 1000000) \<le> f64_raw (of_int 1000000)"
    by (auto intro: f64_raw_nonneg f64_raw_mono)
  moreover have "f64_raw (of_int 1000000) = of_int 1000000"
    using is_f64_of_int [of 1000000] by (simp add: is_f64_def f64_Fin_iff)
  ultimately have "round_half_even (of_int 0) \<le> round_half_even (f64_raw ((r - of_int ip) * 1000000))"
    "round_half_even (f64_raw ((r - of_int ip) * 1000000)) \<le> round_half_even (of_int 1000000)"
    by (auto intro: round_half_even_mono)
  then obtain q where q: "q = round_half_even (f64_raw ((r - of_int ip) * 1000000))"
    "0 \<le> q" "q \<le> 1000000" unfolding round_half_even_of_int by blast
  have t: "trunc_rat r = ip" using assms(1) by (simp add: trunc_rat_def ip_def)
  define us where "us = ip * 1000000 + q"
  have "0 \<le> us div 1000000" "us div 1000000 \<le> 253402300799"
    using ip q unfolding us_def by linarith+
  then have "utc_from_timestamp (Fin r) = Inr us"
    unfolding utc_from_timestamp_def pyfloat.case Let_def t q(1) [symmetric] us_def [symmetric] by simp
  then show ?thesis by blast
qed

section \<open>Properties\<close>

text \<open>
  A half-open daily window with wrap-around is a modular interval: a minute is inside exactly when
  its distance from the start is less than the length of the window, and a window of equal ends is
  the whole day.
\<close>

theorem minute_in_daily_window_iff:
  "minute_in_daily_window m s e \<longleftrightarrow>
     s mod 1440 = e mod 1440 \<or> (m - s) mod 1440 < (e - s) mod 1440"
proof -
  define a b c where "a = m mod 1440" and "b = s mod 1440" and "c = e mod 1440"
  have r: "0 \<le> a" "a < 1440" "0 \<le> b" "b < 1440" "0 \<le> c" "c < 1440" by (auto simp: a_def b_def c_def)
  have w: "(x - b) mod 1440 = (if b \<le> x then x - b else x - b + 1440)" if "0 \<le> x" "x < 1440" for x
  proof (cases "b \<le> x")
    case True
    then show ?thesis using that r by (simp add: mod_pos_pos_trivial)
  next
    case False
    then have "(x - b + 1440) mod 1440 = x - b + 1440" using that r by (intro mod_pos_pos_trivial) auto
    with False show ?thesis by simp
  qed
  have "(m - s) mod 1440 = (a - b) mod 1440" "(e - s) mod 1440 = (c - b) mod 1440"
    by (simp_all add: a_def b_def c_def mod_diff_eq)
  then have ms: "(m - s) mod 1440 = (if b \<le> a then a - b else a - b + 1440)"
    and es: "(e - s) mod 1440 = (if b \<le> c then c - b else c - b + 1440)"
    using w [OF r(1,2)] w [OF r(5,6)] by simp_all
  have "minute_in_daily_window m s e =
      (if b = c then True else if b < c then b \<le> a \<and> a < c else b \<le> a \<or> a < c)"
    by (simp add: minute_in_daily_window_def Let_def a_def b_def c_def)
  also have "\<dots> \<longleftrightarrow> b = c \<or>
      (if b \<le> a then a - b else a - b + 1440) < (if b \<le> c then c - b else c - b + 1440)"
    using r by auto
  finally show ?thesis unfolding ms es b_def c_def .
qed

text \<open>
  Schedule of a valid policy: the forced-close window starts exactly one maximum holding time after
  the entry blackout and one broker slack before the earliest boundary, and the blackout ends one
  slack after the latest boundary (all modulo the day).
\<close>

theorem rollover_schedule:
  assumes "validation_error p = []"
  shows "(forced_close_start_second p - entry_blackout_start_second p) mod SECONDS_PER_UTC_DAY
           = max_holding_seconds p
     \<and> (earliest_funding_boundary_utc_minute p * 60 - forced_close_start_second p)
           mod SECONDS_PER_UTC_DAY = broker_close_slack_seconds p
     \<and> (blackout_end_second p - latest_funding_boundary_utc_minute p * 60)
           mod SECONDS_PER_UTC_DAY = broker_close_slack_seconds p
     \<and> 0 < max_holding_seconds p
     \<and> max_holding_seconds p + broker_close_slack_seconds p < SECONDS_PER_UTC_DAY div 2"
proof -
  note v = valid_policyD [OF assms]
  have h: "0 < max_holding_seconds p" using v(4,5) by (simp add: max_holding_seconds_def)
  have "(forced_close_start_second p - entry_blackout_start_second p) mod SECONDS_PER_UTC_DAY
      = max_holding_seconds p mod SECONDS_PER_UTC_DAY"
    by (simp add: forced_close_start_second_def entry_blackout_start_second_def mod_diff_eq)
  moreover have "(earliest_funding_boundary_utc_minute p * 60 - forced_close_start_second p)
      mod SECONDS_PER_UTC_DAY = broker_close_slack_seconds p mod SECONDS_PER_UTC_DAY"
    by (simp add: forced_close_start_second_def mod_diff_right_eq)
  moreover have "(blackout_end_second p - latest_funding_boundary_utc_minute p * 60)
      mod SECONDS_PER_UTC_DAY = broker_close_slack_seconds p mod SECONDS_PER_UTC_DAY"
    by (simp add: blackout_end_second_def mod_diff_left_eq)
  ultimately show ?thesis
    using v h by (simp add: SECONDS_PER_UTC_DAY_def)
qed

theorem rollover_schedule_witness:
  "validation_error DEFAULT_PRODUCTION_SCALP_ROLLOVER_POLICY = []
   \<and> (forced_close_start_second DEFAULT_PRODUCTION_SCALP_ROLLOVER_POLICY
        - entry_blackout_start_second DEFAULT_PRODUCTION_SCALP_ROLLOVER_POLICY) mod SECONDS_PER_UTC_DAY
      = max_holding_seconds DEFAULT_PRODUCTION_SCALP_ROLLOVER_POLICY"
proof -
  have v: "validation_error DEFAULT_PRODUCTION_SCALP_ROLLOVER_POLICY = []" by code_simp
  with rollover_schedule [OF v] show ?thesis by simp
qed

text \<open>
  The guard is a diagnostic only: for every instant and policy it returns, it never activates the
  entry blackout or the forced close, an entry is allowed exactly when the policy is valid, and the
  reported second lies within the day.
\<close>

theorem rollover_guard_never_binds:
  assumes "evaluate_production_scalp_rollover_guard sha256 as_of policy = Inr d"
  shows "\<not> entry_blackout_active d \<and> \<not> force_close_active d
     \<and> (entry_allowed d \<longleftrightarrow> validation_error policy = [])
     \<and> (case utc_second_of_day d of None \<Rightarrow> rg_as_of_epoch d = None
        | Some k \<Rightarrow> rg_as_of_epoch d \<noteq> None \<and> 0 \<le> k \<and> k < SECONDS_PER_UTC_DAY)"
  using guard_result [OF assms]
  by (auto simp: entry_allowed_def SECONDS_PER_UTC_DAY_def split: option.splits)

definition sample_decision :: ProductionScalpRolloverDecision where
  "sample_decision =
     projr (evaluate_production_scalp_rollover_guard (\<lambda>s. ''0'') (VInt 7260)
       DEFAULT_PRODUCTION_SCALP_ROLLOVER_POLICY)"

theorem rollover_guard_never_binds_witness:
  "\<not> force_close_active sample_decision \<and> entry_allowed sample_decision"
proof -
  have e: "evaluate_production_scalp_rollover_guard (\<lambda>s. ''0'') (VInt 7260)
      DEFAULT_PRODUCTION_SCALP_ROLLOVER_POLICY = Inr sample_decision" by code_simp
  have v: "validation_error DEFAULT_PRODUCTION_SCALP_ROLLOVER_POLICY = []" by code_simp
  from rollover_guard_never_binds [OF e] v show ?thesis by simp
qed

text \<open>
  The guard raises only for instants past the calendar: whatever the value, an exception means it
  converts to a finite time at or beyond the last second of the year 9999.
\<close>

theorem rollover_guard_raises_only_past_calendar:
  assumes "evaluate_production_scalp_rollover_guard sha256 as_of policy = Inl e"
  shows "\<exists>r. py_float as_of = Inr (Fin r) \<and> 253402300799 \<le> r"
proof -
  from py_float_finite_or [OF assms] obtain r where
    r: "py_float as_of = Inr (Fin r)" "0 < r" "utc_from_timestamp (Fin r) = Inl e" by blast
  have "253402300799 \<le> r"
    using utc_from_timestamp_ok [of r] r(2,3) by force
  with r(1) show ?thesis by blast
qed

theorem rollover_guard_raises_only_past_calendar_witness:
  "\<exists>r. py_float (VInt 253402300800) = Inr (Fin r) \<and> 253402300799 \<le> r"
proof -
  have e: "evaluate_production_scalp_rollover_guard (\<lambda>s. ''0'') (VInt 253402300800)
      DEFAULT_PRODUCTION_SCALP_ROLLOVER_POLICY = Inl ValueError" by code_simp
  from rollover_guard_raises_only_past_calendar [OF e] show ?thesis .
qed

end
