(* ===== verification/Position_Lifecycle.thy ===== *)
theory Position_Lifecycle
  imports Ig_Catalog Rollover_Guard
begin

text \<open>
  The time-stop evaluator \<open>runtime/scalp_position_lifecycle.py\<close>. Rows are dynamic values, as the
  broker snapshot delivers them; every coercion, every rejection reason and the order of the
  reasons follow the source. \<open>datetime.fromisoformat\<close> is an argument (\<open>fromiso\<close>): it maps a text
  to an optional UTC offset and a wall clock in microseconds, or fails.
  The evaluator raises in one place: \<open>side not in {\<dots>}\<close> on an unhashable value.
\<close>

section \<open>Data\<close>

definition TICKET_OWNER_CONTRACT :: string where
  "TICKET_OWNER_CONTRACT = ''ticket_owner_v1''"

definition M1_SECONDS :: int where
  "M1_SECONDS = 60"

record ScalpTimeStopCloseDecision =
  cd_symbol :: string
  cd_target_ticket :: int
  cd_lots :: pyfloat
  cd_magic :: int
  cd_owner_token :: string
  cd_ownership_contract :: string
  cd_reason :: string
  cd_bars_held :: "int option"

record ScalpPositionLifecycleDiagnostic =
  dg_symbol :: "string option"
  dg_ticket :: "int option"
  dg_valid :: bool
  dg_reasons :: "string list"
  dg_open_time_epoch :: "int option"
  dg_open_minute_epoch :: "int option"
  dg_bars_held :: "int option"
  dg_time_stop_due :: bool
  dg_rollover_close_due :: bool

record ScalpPositionLifecycleDiagnostics =
  ds_accepted :: bool
  ds_reasons :: "string list"
  ds_finalized_common_minute_epoch :: "int option"
  ds_as_of_epoch :: "pyfloat option"
  ds_expected_magic :: "int option"
  ds_expected_ownership_contract :: string
  ds_time_stop_bars :: "int option"
  ds_time_stop_ready :: bool
  ds_time_stop_reasons :: "string list"
  ds_rollover_guard_accepted :: bool
  ds_rollover_guard_reason :: string
  ds_rollover_force_close_active :: bool
  ds_position_count :: nat
  ds_close_decision_count :: nat
  ds_position_diagnostics :: "ScalpPositionLifecycleDiagnostic list"

record ScalpPositionLifecycleResult =
  close_decisions :: "ScalpTimeStopCloseDecision list"
  diagnostics :: ScalpPositionLifecycleDiagnostics

record PreparedPosition =
  pp_symbol :: "string option"
  pp_ticket :: "int option"
  pp_lots :: "pyfloat option"
  pp_magic :: "int option"
  pp_owner_token :: "string option"
  pp_ownership_contract :: "string option"
  pp_open_time_epoch :: "int option"
  pp_reasons :: "string list"

section \<open>Coercions\<close>

fun strict_positive_int :: "pyval \<Rightarrow> int option" where
  "strict_positive_int (VInt n) = (if 0 < n then Some n else None)"
| "strict_positive_int _ = None"

definition positive_finite :: "pyfloat \<Rightarrow> pyfloat option" where
  "positive_finite f = (if is_finite f \<and> flt (Fin 0) f then Some f else None)"

fun strict_positive_float :: "pyval \<Rightarrow> pyfloat option" where
  "strict_positive_float (VInt n) =
     (case py_float_of_int n of Inl e \<Rightarrow> None | Inr f \<Rightarrow> positive_finite f)"
| "strict_positive_float (VFloat f) = positive_finite f"
| "strict_positive_float _ = None"

definition token_char :: "char \<Rightarrow> bool" where
  "token_char c = (is_alpha c \<or> is_digit c \<or> c \<in> set ''._:-'')"

definition owner_token_match :: "string \<Rightarrow> bool" where
  "owner_token_match s = (1 \<le> length s \<and> length s \<le> 31 \<and> list_all token_char s)"

fun replace_char :: "char \<Rightarrow> string \<Rightarrow> string \<Rightarrow> string" where
  "replace_char c r [] = []"
| "replace_char c r (x # xs) = (if x = c then r else [x]) @ replace_char c r xs"

text \<open>\<open>dt.astimezone(timezone.utc).timestamp()\<close> of an aware value, \<open>None\<close> when it leaves the calendar.\<close>

definition datetime_timestamp :: "int option \<Rightarrow> int \<Rightarrow> pyfloat option" where
  "datetime_timestamp off us =
     (case off of None \<Rightarrow> None
      | Some o1 \<Rightarrow>
          let u = us - o1 * 1000000 in
          if u div 1000000 < -62135596800 \<or> 253402300799 < u div 1000000 then None
          else Some (f64 (of_int u / 1000000)))"

definition timestamp_seconds ::
  "(string \<Rightarrow> (int option \<times> int) option) \<Rightarrow> pyval \<Rightarrow> pyfloat option" where
  "timestamp_seconds fromiso value =
     (case value of
        VBool b \<Rightarrow> None
      | VNone \<Rightarrow> None
      | VDatetime off us \<Rightarrow> datetime_timestamp off us
      | VInt n \<Rightarrow> (case py_float_of_int n of Inl e \<Rightarrow> None | Inr f \<Rightarrow> Some f)
      | VFloat f \<Rightarrow> Some f
      | _ \<Rightarrow>
          let text = norm_text value in
          if text = [] then None
          else case parse_float text of
            Inr f \<Rightarrow> Some f
          | Inl e \<Rightarrow>
              (case fromiso (replace_char CHR ''Z'' ''+00:00'' text) of
                 None \<Rightarrow> None
               | Some (off, us) \<Rightarrow> datetime_timestamp off us))"

definition micro :: pyfloat where
  "micro = f64 (1 / 1000000)"

definition parse_timestamp_float ::
  "(string \<Rightarrow> (int option \<times> int) option) \<Rightarrow> pyval \<Rightarrow> pyfloat option" where
  "parse_timestamp_float fromiso value =
     (case timestamp_seconds fromiso value of None \<Rightarrow> None | Some s \<Rightarrow> positive_finite s)"

definition parse_timestamp_int ::
  "(string \<Rightarrow> (int option \<times> int) option) \<Rightarrow> pyval \<Rightarrow> int option" where
  "parse_timestamp_int fromiso value =
     (case parse_timestamp_float fromiso value of
        Some (Fin r) \<Rightarrow>
          let rounded = round_half_even r in
          if flt micro (fabs (fsub (Fin r) (float_of_int rounded))) then None else Some rounded
      | _ \<Rightarrow> None)"

section \<open>One row\<close>

fun str_of :: "pyval \<Rightarrow> string option" where
  "str_of (VStr s) = Some s"
| "str_of _ = None"

definition opt_str :: "string option \<Rightarrow> pyval" where
  "opt_str s = (case s of None \<Rightarrow> VNone | Some t \<Rightarrow> VStr t)"

definition magic_reasons :: "int option \<Rightarrow> int option \<Rightarrow> string list" where
  "magic_reasons magic expected =
     (case magic of None \<Rightarrow> [''magic_invalid'']
      | Some m \<Rightarrow> (case expected of None \<Rightarrow> []
                  | Some e \<Rightarrow> if m \<noteq> e then [''magic_mismatch''] else []))"

definition open_time_reasons :: "int option \<Rightarrow> pyfloat option \<Rightarrow> string list" where
  "open_time_reasons open_time as_of =
     (case open_time of None \<Rightarrow> [''open_time_invalid'']
      | Some t \<Rightarrow> (case as_of of None \<Rightarrow> []
                  | Some a \<Rightarrow> if flt_int a t then [''open_time_after_as_of''] else []))"

definition row_reasons ::
  "int option \<Rightarrow> string option \<Rightarrow> pyval \<Rightarrow> pyfloat option \<Rightarrow> int option \<Rightarrow> int option
     \<Rightarrow> string option \<Rightarrow> pyval \<Rightarrow> string option \<Rightarrow> string \<Rightarrow> int option \<Rightarrow> pyfloat option
     \<Rightarrow> string list" where
  "row_reasons ticket symbol side lots magic expected_magic owner_token comment contract
       expected_contract open_time as_of =
     (if ticket = None then [''ticket_invalid''] else [])
     @ (if symbol \<notin> Some ` set IG_MT4_SCALP_SYMBOLS then [''symbol_invalid''] else [])
     @ (if side \<noteq> VStr ''BUY'' \<and> side \<noteq> VStr ''SELL'' then [''side_invalid''] else [])
     @ (if lots = None then [''lots_invalid''] else [])
     @ magic_reasons magic expected_magic
     @ (case owner_token of None \<Rightarrow> [''owner_token_invalid'']
        | Some t \<Rightarrow> if owner_token_match t then [] else [''owner_token_invalid''])
     @ (if py_eq comment (opt_str owner_token) then [] else [''owner_token_comment_mismatch''])
     @ (if contract \<noteq> Some expected_contract then [''ownership_contract_mismatch''] else [])
     @ open_time_reasons open_time as_of"

definition prepare_position ::
  "(string \<Rightarrow> (int option \<times> int) option) \<Rightarrow> pydict \<Rightarrow> int option \<Rightarrow> string \<Rightarrow> pyfloat option
     \<Rightarrow> pyerr + PreparedPosition" where
  "prepare_position fromiso raw expected_magic expected_contract as_of =
     (let ticket = strict_positive_int (dget raw ''ticket'');
          symbol = str_of (dget raw ''symbol'');
          side = dget raw ''side'';
          lots = strict_positive_float (dget raw ''lots'');
          magic = strict_positive_int (dget raw ''magic'');
          owner_token = str_of (dget raw ''owner_token'');
          contract = str_of (dget raw ''ownership_contract'');
          open_time = parse_timestamp_int fromiso (dget raw ''open_time'') in
      if \<not> hashable side then Inl TypeError
      else Inr \<lparr>
        pp_symbol = symbol, pp_ticket = ticket, pp_lots = lots, pp_magic = magic,
        pp_owner_token = owner_token, pp_ownership_contract = contract,
        pp_open_time_epoch = open_time,
        pp_reasons = row_reasons ticket symbol side lots magic expected_magic owner_token
          (dget raw ''order_comment'') contract expected_contract open_time as_of\<rparr>)"

definition invalid_row :: PreparedPosition where
  "invalid_row =
     \<lparr>pp_symbol = None, pp_ticket = None, pp_lots = None, pp_magic = None, pp_owner_token = None,
      pp_ownership_contract = None, pp_open_time_epoch = None,
      pp_reasons = [''position_row_invalid'']\<rparr>"

definition prepare_row ::
  "(string \<Rightarrow> (int option \<times> int) option) \<Rightarrow> int option \<Rightarrow> string \<Rightarrow> pyfloat option \<Rightarrow> pyval
     \<Rightarrow> pyerr + PreparedPosition" where
  "prepare_row fromiso magic contract as_of row =
     (case row of VDict raw \<Rightarrow> prepare_position fromiso raw magic contract as_of
      | _ \<Rightarrow> Inr invalid_row)"

definition position_sort_key :: "PreparedPosition \<Rightarrow> string \<times> int \<times> string list" where
  "position_sort_key p =
     ((case pp_symbol p of None \<Rightarrow> sort_sentinel | Some s \<Rightarrow> if s = [] then sort_sentinel else s),
      (case pp_ticket p of None \<Rightarrow> 2 ^ 63 - 1 | Some t \<Rightarrow> t),
      pp_reasons p)"

definition bars_held :: "int \<Rightarrow> int \<Rightarrow> int" where
  "bars_held open_time_epoch finalized_common_minute_epoch =
     (let open_minute = (open_time_epoch div M1_SECONDS) * M1_SECONDS in
      if finalized_common_minute_epoch < open_minute then 0
      else (finalized_common_minute_epoch - open_minute) div M1_SECONDS + 1)"

section \<open>The batch\<close>

datatype guard_arg = NoGuard | OtherObject | GuardDecision ProductionScalpRolloverDecision

text \<open>Accepted, reason and forced close of the supplied guard decision.\<close>

definition rollover_status :: "guard_arg \<Rightarrow> bool \<times> string \<times> bool" where
  "rollover_status g =
     (case g of
        NoGuard \<Rightarrow> (True, [], False)
      | OtherObject \<Rightarrow> (False, ''rollover_guard_decision_invalid'', False)
      | GuardDecision d \<Rightarrow>
          if rg_schema_version d \<noteq> PRODUCTION_SCALP_ROLLOVER_GUARD_SCHEMA_VERSION
          then (False, ''rollover_guard_schema_invalid'', False)
          else if \<not> rg_accepted d
          then (False, (if rg_reason d = [] then ''rollover_guard_decision_rejected'' else rg_reason d), False)
          else (True, rg_reason d, force_close_active d))"

definition guard_clock_ok :: "ProductionScalpRolloverDecision \<Rightarrow> pyfloat \<Rightarrow> bool" where
  "guard_clock_ok d as_of =
     (case rg_as_of_epoch d of None \<Rightarrow> False
      | Some g \<Rightarrow> \<not> flt micro (fabs (fsub g as_of)))"

text \<open>The same triple after the clock check, and the reason that check appends.\<close>

definition rollover_clock_status ::
  "guard_arg \<Rightarrow> pyfloat option \<Rightarrow> bool \<times> string \<times> bool \<times> string list" where
  "rollover_clock_status g as_of =
     (case rollover_status g of (acc, why, force1) \<Rightarrow>
        case as_of of
          None \<Rightarrow> (acc, why, force1, [''as_of_invalid''])
        | Some a \<Rightarrow>
            (case g of
               GuardDecision d \<Rightarrow>
                 if acc \<and> \<not> guard_clock_ok d a
                 then (False, ''rollover_guard_clock_mismatch'', False, [''rollover_guard_clock_mismatch''])
                 else (acc, why, force1, [])
             | _ \<Rightarrow> (acc, why, force1, [])))"

definition time_stop_reasons_of :: "int option \<Rightarrow> pyfloat option \<Rightarrow> string list" where
  "time_stop_reasons_of finalized as_of =
     (case finalized of
        None \<Rightarrow> [''finalized_common_minute_invalid'']
      | Some m \<Rightarrow>
          if m mod M1_SECONDS \<noteq> 0 then [''finalized_common_minute_not_m1_aligned'']
          else (case as_of of None \<Rightarrow> []
                | Some a \<Rightarrow> if flt_int a (m + M1_SECONDS) then [''finalized_common_minute_not_closed''] else []))"

fun sequence_rows :: "pyval \<Rightarrow> pyval list option" where
  "sequence_rows (VList xs) = Some xs"
| "sequence_rows (VTuple xs) = Some xs"
| "sequence_rows _ = None"

fun is_mapping :: "pyval \<Rightarrow> bool" where
  "is_mapping (VDict d) = True"
| "is_mapping _ = False"

definition mark_duplicates :: "PreparedPosition list \<Rightarrow> PreparedPosition list" where
  "mark_duplicates ps =
     map (\<lambda>p. p\<lparr>pp_reasons := pp_reasons p
        @ (if pp_ticket p \<noteq> None \<and> 1 < count_list (map pp_ticket ps) (pp_ticket p)
           then [''ticket_duplicate''] else [])
        @ (if pp_symbol p \<in> Some ` set IG_MT4_SCALP_SYMBOLS
              \<and> 1 < count_list (map pp_symbol ps) (pp_symbol p)
           then [''symbol_duplicate''] else [])\<rparr>) ps"

definition close_decision_of ::
  "PreparedPosition \<Rightarrow> bool \<Rightarrow> int option \<Rightarrow> pyerr + ScalpTimeStopCloseDecision" where
  "close_decision_of p rollover_due held =
     (case (pp_symbol p, pp_ticket p, pp_lots p, pp_magic p, pp_owner_token p) of
        (Some symbol, Some ticket, Some lots, Some magic, Some token) \<Rightarrow>
          Inr \<lparr>cd_symbol = symbol, cd_target_ticket = ticket, cd_lots = lots, cd_magic = magic,
               cd_owner_token = token, cd_ownership_contract = TICKET_OWNER_CONTRACT,
               cd_reason = (if rollover_due then ''rollover_funding_guard'' else ''time_stop''),
               cd_bars_held = held\<rparr>
      | _ \<Rightarrow> Inl AssertionError)"

definition held_of :: "bool \<Rightarrow> bool \<Rightarrow> int option \<Rightarrow> int option \<Rightarrow> PreparedPosition \<Rightarrow> int option" where
  "held_of accepted ready finalized horizon p =
     (if accepted \<and> ready
      then (case (pp_open_time_epoch p, finalized, horizon) of
              (Some t, Some m, Some h) \<Rightarrow> Some (bars_held t m)
            | _ \<Rightarrow> None)
      else None)"

definition time_stop_due_of :: "int option \<Rightarrow> int option \<Rightarrow> bool" where
  "time_stop_due_of held horizon =
     (case (held, horizon) of (Some h, Some n) \<Rightarrow> n \<le> h | _ \<Rightarrow> False)"

definition position_outcome ::
  "bool \<Rightarrow> bool \<Rightarrow> int option \<Rightarrow> int option \<Rightarrow> bool \<Rightarrow> PreparedPosition
     \<Rightarrow> pyerr + (ScalpTimeStopCloseDecision option \<times> ScalpPositionLifecycleDiagnostic)" where
  "position_outcome accepted ready finalized horizon force1 p =
     (let held = held_of accepted ready finalized horizon p;
          due = time_stop_due_of held horizon;
          rollover_due = (accepted \<and> force1);
          diag = \<lparr>dg_symbol = pp_symbol p, dg_ticket = pp_ticket p, dg_valid = (pp_reasons p = []),
                  dg_reasons = pp_reasons p, dg_open_time_epoch = pp_open_time_epoch p,
                  dg_open_minute_epoch =
                    map_option (\<lambda>t. (t div M1_SECONDS) * M1_SECONDS) (pp_open_time_epoch p),
                  dg_bars_held = held, dg_time_stop_due = due,
                  dg_rollover_close_due = rollover_due\<rparr> in
      if due \<or> rollover_due
      then (case close_decision_of p rollover_due held of
              Inl e \<Rightarrow> Inl e | Inr d \<Rightarrow> Inr (Some d, diag))
      else Inr (None, diag))"

definition batch_reasons ::
  "int option \<Rightarrow> string \<Rightarrow> int option \<Rightarrow> bool \<times> string \<times> bool \<Rightarrow> string list \<Rightarrow> string list \<Rightarrow> bool
     \<Rightarrow> pyval list option \<Rightarrow> PreparedPosition list \<Rightarrow> string list" where
  "batch_reasons magic expected_contract horizon guard_status clock_reasons ts_reasons force1 rows
       prepared =
     (if magic = None then [''expected_magic_invalid''] else [])
     @ (if expected_contract \<noteq> TICKET_OWNER_CONTRACT
        then [''expected_ownership_contract_invalid''] else [])
     @ (if horizon = None then [''time_stop_bars_invalid''] else [])
     @ (case guard_status of (acc0, why0, force0) \<Rightarrow> if acc0 then [] else [why0])
     @ clock_reasons
     @ (if ts_reasons \<noteq> [] \<and> \<not> force1 then ts_reasons else [])
     @ (if rows = None then [''authoritative_owned_positions_invalid''] else [])
     @ (if list_all is_mapping (case rows of None \<Rightarrow> [] | Some xs \<Rightarrow> xs) then []
        else [''position_row_invalid''])
     @ (if list_all (\<lambda>p. pp_reasons p = []) prepared then [] else [''position_validation_failed''])"

definition decide_positions ::
  "bool \<Rightarrow> bool \<Rightarrow> int option \<Rightarrow> int option \<Rightarrow> bool \<Rightarrow> PreparedPosition list
     \<Rightarrow> pyerr + (ScalpTimeStopCloseDecision list \<times> ScalpPositionLifecycleDiagnostic list)" where
  "decide_positions accepted ready finalized horizon force1 prepared =
     (case traverse (position_outcome accepted ready finalized horizon force1)
             (sort_key position_sort_key prepared) of
        Inl e \<Rightarrow> Inl e
      | Inr outs \<Rightarrow>
          Inr (sort_key (\<lambda>d. (cd_symbol d, cd_target_ticket d)) (List.map_filter fst outs),
               map snd outs))"

definition evaluate_scalp_position_lifecycle ::
  "(string \<Rightarrow> (int option \<times> int) option) \<Rightarrow> pyval \<Rightarrow> pyval \<Rightarrow> pyval \<Rightarrow> pyval \<Rightarrow> string \<Rightarrow> pyval
     \<Rightarrow> guard_arg \<Rightarrow> pyerr + ScalpPositionLifecycleResult" where
  "evaluate_scalp_position_lifecycle fromiso positions finalized_arg as_of_arg expected_magic
       expected_contract time_stop_bars guard =
     (let magic = strict_positive_int expected_magic;
          horizon = strict_positive_int time_stop_bars;
          as_of = parse_timestamp_float fromiso as_of_arg;
          (guard_ok, guard_reason, force1, clock_reasons) = rollover_clock_status guard as_of;
          finalized = parse_timestamp_int fromiso finalized_arg;
          ts_reasons = time_stop_reasons_of finalized as_of;
          rows = sequence_rows positions in
      case traverse (prepare_row fromiso magic expected_contract as_of)
             (case rows of None \<Rightarrow> [] | Some xs \<Rightarrow> xs) of
        Inl e \<Rightarrow> Inl e
      | Inr prepared0 \<Rightarrow>
          let prepared = mark_duplicates prepared0;
              reasons = batch_reasons magic expected_contract horizon (rollover_status guard)
                clock_reasons ts_reasons force1 rows prepared;
              accepted = (reasons = []) in
          (case decide_positions accepted (ts_reasons = []) finalized horizon force1 prepared of
             Inl e \<Rightarrow> Inl e
           | Inr (decisions, position_diagnostics) \<Rightarrow>
               Inr \<lparr>close_decisions = decisions,
                 diagnostics =
                   \<lparr>ds_accepted = accepted,
                    ds_reasons = py_unique reasons,
                    ds_finalized_common_minute_epoch = finalized,
                    ds_as_of_epoch = as_of,
                    ds_expected_magic = magic,
                    ds_expected_ownership_contract = expected_contract,
                    ds_time_stop_bars = horizon,
                    ds_time_stop_ready = (ts_reasons = []),
                    ds_time_stop_reasons = ts_reasons,
                    ds_rollover_guard_accepted = guard_ok,
                    ds_rollover_guard_reason = guard_reason,
                    ds_rollover_force_close_active = force1,
                    ds_position_count = length prepared,
                    ds_close_decision_count = length decisions,
                    ds_position_diagnostics = position_diagnostics\<rparr>\<rparr>))"

section \<open>Facts\<close>

lemma strict_positive_int_Some [simp]: "strict_positive_int v = Some n \<longleftrightarrow> v = VInt n \<and> 0 < n"
  by (cases v) auto

lemma str_of_Some [simp]: "str_of v = Some s \<longleftrightarrow> v = VStr s"
  by (cases v) auto

lemma py_eq_VStr [simp]: "py_eq v (VStr s) \<longleftrightarrow> v = VStr s"
  by (cases v) auto

lemma mark_duplicates_Nil_reasons:
  assumes "list_all (\<lambda>p. pp_reasons p = []) (mark_duplicates ps)"
  shows "mark_duplicates ps = ps" and "list_all (\<lambda>p. pp_reasons p = []) ps"
    and "p \<in> set ps \<Longrightarrow> pp_ticket p \<noteq> None \<Longrightarrow> count_list (map pp_ticket ps) (pp_ticket p) \<le> 1"
    and "p \<in> set ps \<Longrightarrow> pp_symbol p \<in> Some ` set IG_MT4_SCALP_SYMBOLS \<Longrightarrow>
           count_list (map pp_symbol ps) (pp_symbol p) \<le> 1"
proof -
  show "list_all (\<lambda>p. pp_reasons p = []) ps"
    using assms by (auto simp: mark_duplicates_def list_all_iff)
  show "mark_duplicates ps = ps"
    using assms by (auto simp: mark_duplicates_def list_all_iff intro!: map_idI split: if_splits)
  show "p \<in> set ps \<Longrightarrow> pp_ticket p \<noteq> None \<Longrightarrow> count_list (map pp_ticket ps) (pp_ticket p) \<le> 1"
    using assms by (fastforce simp: mark_duplicates_def list_all_iff split: if_splits)
  show "p \<in> set ps \<Longrightarrow> pp_symbol p \<in> Some ` set IG_MT4_SCALP_SYMBOLS \<Longrightarrow>
           count_list (map pp_symbol ps) (pp_symbol p) \<le> 1"
    using assms by (fastforce simp: mark_duplicates_def list_all_iff split: if_splits)
qed

text \<open>What a row with no rejection reason looks like.\<close>

definition row_matches :: "pydict \<Rightarrow> PreparedPosition \<Rightarrow> bool" where
  "row_matches raw p =
     (\<exists>symbol ticket lots magic token.
        pp_symbol p = Some symbol \<and> dget raw ''symbol'' = VStr symbol
        \<and> symbol \<in> set IG_MT4_SCALP_SYMBOLS
        \<and> pp_ticket p = Some ticket \<and> dget raw ''ticket'' = VInt ticket \<and> 0 < ticket
        \<and> pp_lots p = Some lots \<and> strict_positive_float (dget raw ''lots'') = Some lots
        \<and> pp_magic p = Some magic \<and> dget raw ''magic'' = VInt magic
        \<and> pp_owner_token p = Some token \<and> dget raw ''owner_token'' = VStr token
        \<and> dget raw ''order_comment'' = VStr token \<and> owner_token_match token)"

lemma magic_reasons_Nil [simp]:
  "magic_reasons m e = [] \<longleftrightarrow> (\<exists>k. m = Some k \<and> (e = None \<or> e = Some k))"
  by (auto simp: magic_reasons_def split: option.splits)

lemma open_time_reasons_Nil [simp]:
  "open_time_reasons t a = [] \<longleftrightarrow> (\<exists>k. t = Some k \<and> (\<forall>x. a = Some x \<longrightarrow> \<not> flt_int x k))"
  by (auto simp: open_time_reasons_def split: option.splits)

lemma row_reasons_Nil:
  assumes "row_reasons ticket symbol side lots magic em token comment contract ec t as_of = []"
  shows "\<exists>k. ticket = Some k" and "\<exists>s. symbol = Some s \<and> s \<in> set IG_MT4_SCALP_SYMBOLS"
    and "side = VStr ''BUY'' \<or> side = VStr ''SELL''" and "\<exists>l. lots = Some l"
    and "\<exists>m. magic = Some m \<and> (em = None \<or> em = Some m)"
    and "\<exists>w. token = Some w \<and> owner_token_match w \<and> comment = VStr w"
    and "contract = Some ec" and "\<exists>k. t = Some k \<and> (\<forall>x. as_of = Some x \<longrightarrow> \<not> flt_int x k)"
  using assms unfolding row_reasons_def append_is_Nil_conv opt_str_def
  by (auto split: option.splits if_splits)

lemma prepare_position_ok:
  assumes "prepare_position fromiso raw em ec as_of = Inr p" and "pp_reasons p = []"
  shows "row_matches raw p"
    and "em = Some m \<Longrightarrow> pp_magic p = Some m"
    and "\<exists>t. pp_open_time_epoch p = Some t \<and> parse_timestamp_int fromiso (dget raw ''open_time'') = Some t
           \<and> (\<forall>x. as_of = Some x \<longrightarrow> \<not> flt_int x t)"
proof -
  have p: "pp_symbol p = str_of (dget raw ''symbol'')" "pp_ticket p = strict_positive_int (dget raw ''ticket'')"
    "pp_lots p = strict_positive_float (dget raw ''lots'')"
    "pp_magic p = strict_positive_int (dget raw ''magic'')"
    "pp_owner_token p = str_of (dget raw ''owner_token'')"
    "pp_open_time_epoch p = parse_timestamp_int fromiso (dget raw ''open_time'')"
    using assms(1) by (auto simp: prepare_position_def Let_def split: if_splits)
  have "row_reasons (strict_positive_int (dget raw ''ticket'')) (str_of (dget raw ''symbol''))
      (dget raw ''side'') (strict_positive_float (dget raw ''lots''))
      (strict_positive_int (dget raw ''magic'')) em (str_of (dget raw ''owner_token''))
      (dget raw ''order_comment'') (str_of (dget raw ''ownership_contract'')) ec
      (parse_timestamp_int fromiso (dget raw ''open_time'')) as_of = []"
    using assms by (auto simp: prepare_position_def Let_def split: if_splits)
  note rr = row_reasons_Nil [OF this]
  show "row_matches raw p"
    unfolding row_matches_def p using rr(1,2,4,5,6) by auto
  show "em = Some m \<Longrightarrow> pp_magic p = Some m" using rr(5) p(4) by auto
  show "\<exists>t. pp_open_time_epoch p = Some t \<and> parse_timestamp_int fromiso (dget raw ''open_time'') = Some t
           \<and> (\<forall>x. as_of = Some x \<longrightarrow> \<not> flt_int x t)"
    using rr(8) p(6) by auto
qed

lemma close_decision_of_ok:
  assumes "row_matches raw p"
  shows "\<exists>d. close_decision_of p rd held = Inr d \<and> pp_symbol p = Some (cd_symbol d)
     \<and> pp_ticket p = Some (cd_target_ticket d) \<and> pp_lots p = Some (cd_lots d)
     \<and> pp_magic p = Some (cd_magic d) \<and> pp_owner_token p = Some (cd_owner_token d)
     \<and> cd_ownership_contract d = TICKET_OWNER_CONTRACT"
  using assms by (auto simp: row_matches_def close_decision_of_def)

lemma position_outcome_rejected:
  "position_outcome False ready finalized horizon force1 p = Inr (None, snd (projr
     (position_outcome False ready finalized horizon force1 p)))"
  by (simp add: position_outcome_def held_of_def time_stop_due_of_def Let_def)

lemma batch_reasons_Nil:
  assumes "batch_reasons magic ec horizon gs cr tr force1 rows prepared = []"
  shows "\<exists>m. magic = Some m" and "ec = TICKET_OWNER_CONTRACT" and "\<exists>h. horizon = Some h"
    and "cr = []" and "tr = [] \<or> force1" and "\<exists>xs. rows = Some xs \<and> list_all is_mapping xs"
    and "list_all (\<lambda>p. pp_reasons p = []) prepared" and "fst gs"
  using assms unfolding batch_reasons_def append_is_Nil_conv
  by (auto split: if_splits option.splits prod.splits)

text \<open>The evaluator's result, with its intermediate values named.\<close>

lemma evaluateE:
  assumes "evaluate_scalp_position_lifecycle fromiso positions fin as_of_arg em ec bars guard = Inr r"
  obtains prepared0 cr where
    "traverse (prepare_row fromiso (strict_positive_int em) ec (parse_timestamp_float fromiso as_of_arg))
       (case sequence_rows positions of None \<Rightarrow> [] | Some xs \<Rightarrow> xs) = Inr prepared0"
    and "ds_accepted (diagnostics r) \<longleftrightarrow>
       batch_reasons (strict_positive_int em) ec (strict_positive_int bars) (rollover_status guard) cr
         (ds_time_stop_reasons (diagnostics r)) (ds_rollover_force_close_active (diagnostics r))
         (sequence_rows positions) (mark_duplicates prepared0) = []"
    and "decide_positions (ds_accepted (diagnostics r)) (ds_time_stop_ready (diagnostics r))
       (parse_timestamp_int fromiso fin) (strict_positive_int bars)
       (ds_rollover_force_close_active (diagnostics r)) (mark_duplicates prepared0)
       = Inr (close_decisions r, ds_position_diagnostics (diagnostics r))"
    and "ds_time_stop_ready (diagnostics r) \<longleftrightarrow> ds_time_stop_reasons (diagnostics r) = []"
    and "ds_time_stop_reasons (diagnostics r) =
       time_stop_reasons_of (parse_timestamp_int fromiso fin) (parse_timestamp_float fromiso as_of_arg)"
    and "\<exists>gok why. rollover_clock_status guard (parse_timestamp_float fromiso as_of_arg)
       = (gok, why, ds_rollover_force_close_active (diagnostics r), cr)"
    and "ds_accepted (diagnostics r) \<longleftrightarrow> ds_reasons (diagnostics r) = []"
proof -
  obtain gok why f1 cr where rc:
    "rollover_clock_status guard (parse_timestamp_float fromiso as_of_arg) = (gok, why, f1, cr)"
    by (metis prod_cases4)
  let ?as_of = "parse_timestamp_float fromiso as_of_arg"
  let ?fin = "parse_timestamp_int fromiso fin"
  let ?ts = "time_stop_reasons_of ?fin ?as_of"
  let ?trav = "traverse (prepare_row fromiso (strict_positive_int em) ec ?as_of)
       (case sequence_rows positions of None \<Rightarrow> [] | Some xs \<Rightarrow> xs)"
  obtain prepared0 where tp: "?trav = Inr prepared0"
    using assms by (cases ?trav) (auto simp: evaluate_scalp_position_lifecycle_def Let_def rc)
  let ?acc = "batch_reasons (strict_positive_int em) ec (strict_positive_int bars) (rollover_status guard)
       cr ?ts f1 (sequence_rows positions) (mark_duplicates prepared0) = []"
  let ?dec = "decide_positions ?acc (?ts = []) ?fin (strict_positive_int bars) f1 (mark_duplicates prepared0)"
  obtain decs diags where dp: "?dec = Inr (decs, diags)"
    using assms by (cases ?dec) (auto simp: evaluate_scalp_position_lifecycle_def Let_def rc tp)
  have "close_decisions r = decs" "ds_position_diagnostics (diagnostics r) = diags"
    "ds_accepted (diagnostics r) = ?acc" "ds_time_stop_reasons (diagnostics r) = ?ts"
    "ds_time_stop_ready (diagnostics r) = (?ts = [])"
    "ds_rollover_force_close_active (diagnostics r) = f1"
    "ds_accepted (diagnostics r) \<longleftrightarrow> ds_reasons (diagnostics r) = []"
    using assms by (auto simp: evaluate_scalp_position_lifecycle_def Let_def rc tp dp py_unique_def)
  then show thesis
    by (intro that [of prepared0 cr]) (simp_all only: tp dp rc, blast)
qed

lemma is_mapping_iff: "is_mapping v \<longleftrightarrow> (\<exists>d. v = VDict d)"
  by (cases v) auto

lemma distinct_of_counts: "(\<And>x. x \<in> set xs \<Longrightarrow> count_list xs x \<le> 1) \<Longrightarrow> distinct xs"
proof (induction xs)
  case (Cons x xs)
  have "x \<notin> set xs"
    using Cons.prems [of x] by (auto simp: count_list_0_iff)
  moreover have "distinct xs"
  proof (rule Cons.IH)
    fix y assume "y \<in> set xs"
    then show "count_list xs y \<le> 1" using Cons.prems [of y] by (auto split: if_splits)
  qed
  ultimately show ?case by simp
qed simp

lemma distinct_map_sort_key [simp]: "distinct (map f (sort_key g xs)) = distinct (map f xs)"
  by (simp add: distinct_map)

lemma decide_positions_iff:
  assumes "decide_positions acc ready fin hor f1 ps = Inr (ds, diags)"
  shows "d \<in> set ds \<longleftrightarrow> (\<exists>p \<in> set ps. \<exists>g. position_outcome acc ready fin hor f1 p = Inr (Some d, g))"
proof -
  obtain outs where o: "list_all2 (\<lambda>p out. position_outcome acc ready fin hor f1 p = Inr out)
      (sort_key position_sort_key ps) outs"
    and ds: "ds = sort_key (\<lambda>d. (cd_symbol d, cd_target_ticket d)) (List.map_filter fst outs)"
    using assms by (auto simp: decide_positions_def traverse_Inr_iff split: sum.splits)
  have "(\<exists>out \<in> set outs. fst out = Some d) \<longleftrightarrow>
      (\<exists>p \<in> set (sort_key position_sort_key ps). \<exists>g. position_outcome acc ready fin hor f1 p = Inr (Some d, g))"
    using o
  proof (induction rule: list_all2_induct)
    case (Cons x xs y ys)
    then show ?case by (cases y) auto
  qed simp
  then show ?thesis by (simp add: ds set_map_filter)
qed

lemma decided_distinct:
  assumes "list_all2 (\<lambda>p out. position_outcome acc ready fin hor f1 p = Inr out) ps outs"
    and "distinct (map key ps)"
    and "\<And>p d g. p \<in> set ps \<Longrightarrow> position_outcome acc ready fin hor f1 p = Inr (Some d, g) \<Longrightarrow> key p = Some (val d)"
  shows "distinct (map val (List.map_filter fst outs))"
    and "d \<in> set (List.map_filter fst outs) \<Longrightarrow> Some (val d) \<in> set (map key ps)"
proof -
  have "distinct (map val (List.map_filter fst outs)) \<and>
    (\<forall>d \<in> set (List.map_filter fst outs). Some (val d) \<in> set (map key ps))"
    using assms
  proof (induction rule: list_all2_induct)
    case (Cons p ps out outs)
    obtain od g where out: "out = (od, g)" by (cases out)
    have ih: "distinct (map val (List.map_filter fst outs)) \<and>
      (\<forall>d \<in> set (List.map_filter fst outs). Some (val d) \<in> set (map key ps))"
      using Cons.IH Cons.prems by simp
    show ?case
    proof (cases od)
      case None
      with ih out show ?thesis by (auto simp: map_filter_simps)
    next
      case (Some d)
      then have k: "key p = Some (val d)" using Cons.hyps(1) Cons.prems(2) [of p d g] out by simp
      with ih out Some Cons.prems(1) show ?thesis by (auto simp: map_filter_simps)
    qed
  qed (simp add: map_filter_simps)
  then show "distinct (map val (List.map_filter fst outs))"
    and "d \<in> set (List.map_filter fst outs) \<Longrightarrow> Some (val d) \<in> set (map key ps)" by auto
qed

text \<open>Every prepared position of an accepted batch comes from a mapping row and is complete.\<close>

lemma accepted_prepared:
  assumes tr: "traverse (prepare_row fromiso em ec as_of) rows = Inr ps"
    and ok: "list_all (\<lambda>p. pp_reasons p = []) (mark_duplicates ps)" and mp: "list_all is_mapping rows"
  shows "mark_duplicates ps = ps"
    and "distinct (map pp_ticket ps)" and "distinct (map pp_symbol ps)"
    and "p \<in> set ps \<Longrightarrow> \<exists>raw. VDict raw \<in> set rows \<and> row_matches raw p \<and> (\<forall>m. em = Some m \<longrightarrow> pp_magic p = Some m)"
    and "VDict raw \<in> set rows \<Longrightarrow> \<exists>p \<in> set ps. row_matches raw p
           \<and> pp_open_time_epoch p = parse_timestamp_int fromiso (dget raw ''open_time'')"
proof -
  note md = mark_duplicates_Nil_reasons [OF ok]
  show "mark_duplicates ps = ps" by (rule md)
  have rel: "list_all2 (\<lambda>row p. \<exists>raw. row = VDict raw \<and> prepare_position fromiso raw em ec as_of = Inr p) rows ps"
  proof (rule list.rel_mono_strong [OF tr [unfolded traverse_Inr_iff]])
    fix row p
    assume "row \<in> set rows" and "prepare_row fromiso em ec as_of row = Inr p"
    with mp show "\<exists>raw. row = VDict raw \<and> prepare_position fromiso raw em ec as_of = Inr p"
      by (auto simp: list_all_iff is_mapping_iff prepare_row_def)
  qed
  have one: "\<exists>raw. VDict raw \<in> set rows \<and> row_matches raw p \<and> (\<forall>m. em = Some m \<longrightarrow> pp_magic p = Some m)"
    if "p \<in> set ps" for p
  proof -
    from that obtain i where i: "i < length ps" "ps ! i = p" by (auto simp: in_set_conv_nth)
    with rel obtain raw where raw: "rows ! i = VDict raw" "prepare_position fromiso raw em ec as_of = Inr p"
      by (auto simp: list_all2_conv_all_nth)
    have "pp_reasons p = []" using md(2) that by (auto simp: list_all_iff)
    note ok = prepare_position_ok [OF raw(2) this]
    have "i < length rows" using i(1) list_all2_lengthD [OF rel] by simp
    then have "VDict raw \<in> set rows" using raw(1) nth_mem [of i rows] by simp
    with ok(1,2) show ?thesis by blast
  qed
  then show "p \<in> set ps \<Longrightarrow> \<exists>raw. VDict raw \<in> set rows \<and> row_matches raw p \<and> (\<forall>m. em = Some m \<longrightarrow> pp_magic p = Some m)" .
  show "distinct (map pp_ticket ps)"
    by (rule distinct_of_counts) (use md(3) one in \<open>fastforce simp: row_matches_def\<close>)
  show "distinct (map pp_symbol ps)"
    by (rule distinct_of_counts) (use md(4) one in \<open>fastforce simp: row_matches_def\<close>)
  show "VDict raw \<in> set rows \<Longrightarrow> \<exists>p \<in> set ps. row_matches raw p
           \<and> pp_open_time_epoch p = parse_timestamp_int fromiso (dget raw ''open_time'')"
  proof -
    assume "VDict raw \<in> set rows"
    then obtain i where i: "i < length rows" "rows ! i = VDict raw" by (auto simp: in_set_conv_nth)
    with rel have pi: "i < length ps" "prepare_position fromiso raw em ec as_of = Inr (ps ! i)"
      by (auto simp: list_all2_conv_all_nth)
    then have "ps ! i \<in> set ps" by simp
    with md(2) have "pp_reasons (ps ! i) = []" by (auto simp: list_all_iff)
    from prepare_position_ok [OF pi(2) this] \<open>ps ! i \<in> set ps\<close> show ?thesis by auto
  qed
qed

lemma position_outcome_closed:
  assumes "position_outcome acc ready fin hor f1 p = Inr (Some d, g)"
  shows "close_decision_of p (acc \<and> f1) (held_of acc ready fin hor p) = Inr d"
    and "time_stop_due_of (held_of acc ready fin hor p) hor \<or> acc \<and> f1"
  using assms by (auto simp: position_outcome_def Let_def split: if_splits sum.splits)

lemma close_decision_fields:
  assumes "close_decision_of p rd held = Inr d"
  shows "pp_symbol p = Some (cd_symbol d)" and "pp_ticket p = Some (cd_target_ticket d)"
    and "pp_lots p = Some (cd_lots d)" and "pp_magic p = Some (cd_magic d)"
    and "pp_owner_token p = Some (cd_owner_token d)"
    and "cd_ownership_contract d = TICKET_OWNER_CONTRACT" and "cd_bars_held d = held"
    and "cd_reason d = (if rd then ''rollover_funding_guard'' else ''time_stop'')"
  using assms by (auto simp: close_decision_of_def split: option.splits)

lemma decide_positions_sorted_distinct:
  assumes "decide_positions acc ready fin hor f1 ps = Inr (ds, diags)"
    and "distinct (map pp_ticket ps)" and "distinct (map pp_symbol ps)"
  shows "distinct (map cd_target_ticket ds)" and "distinct (map cd_symbol ds)"
    and "sorted (map (\<lambda>d. (cd_symbol d, cd_target_ticket d)) ds)"
proof -
  obtain outs where o: "list_all2 (\<lambda>p out. position_outcome acc ready fin hor f1 p = Inr out)
      (sort_key position_sort_key ps) outs"
    and ds: "ds = sort_key (\<lambda>d. (cd_symbol d, cd_target_ticket d)) (List.map_filter fst outs)"
    using assms(1) by (auto simp: decide_positions_def traverse_Inr_iff split: sum.splits)
  show "distinct (map cd_target_ticket ds)"
    unfolding ds distinct_map_sort_key
    by (rule decided_distinct(1) [OF o, where key = pp_ticket])
      (use assms(2) in \<open>auto dest!: position_outcome_closed(1) close_decision_fields(2)\<close>)
  show "distinct (map cd_symbol ds)"
    unfolding ds distinct_map_sort_key
    by (rule decided_distinct(1) [OF o, where key = pp_symbol])
      (use assms(3) in \<open>auto dest!: position_outcome_closed(1) close_decision_fields(1)\<close>)
  show "sorted (map (\<lambda>d. (cd_symbol d, cd_target_ticket d)) ds)"
    unfolding ds by (rule sorted_sort_key)
qed

lemma decide_positions_rejected:
  assumes "decide_positions False ready fin hor f1 ps = Inr (ds, diags)"
  shows "ds = []"
proof -
  have "d \<notin> set ds" for d
    using decide_positions_iff [OF assms, of d]
    by (auto simp: position_outcome_def held_of_def time_stop_due_of_def Let_def)
  then show ?thesis by (cases ds) auto
qed

text \<open>The facts an accepted batch gives about its prepared positions.\<close>

lemma acceptedE:
  assumes "evaluate_scalp_position_lifecycle fromiso positions fin as_of_arg em ec bars guard = Inr r"
    and "ds_accepted (diagnostics r)"
  obtains ps rows m h where
    "sequence_rows positions = Some rows" and "em = VInt m" and "bars = VInt h" and "0 < h"
    and "distinct (map pp_ticket ps)" and "distinct (map pp_symbol ps)"
    and "\<And>p. p \<in> set ps \<Longrightarrow> \<exists>raw. VDict raw \<in> set rows \<and> row_matches raw p \<and> pp_magic p = Some m"
    and "\<And>raw. VDict raw \<in> set rows \<Longrightarrow> \<exists>p \<in> set ps. row_matches raw p
           \<and> pp_open_time_epoch p = parse_timestamp_int fromiso (dget raw ''open_time'')"
    and "decide_positions True (ds_time_stop_ready (diagnostics r)) (parse_timestamp_int fromiso fin)
           (Some h) (ds_rollover_force_close_active (diagnostics r)) ps
         = Inr (close_decisions r, ds_position_diagnostics (diagnostics r))"
proof (rule evaluateE [OF assms(1)])
  fix ps cr
  assume tr: "traverse (prepare_row fromiso (strict_positive_int em) ec (parse_timestamp_float fromiso as_of_arg))
       (case sequence_rows positions of None \<Rightarrow> [] | Some xs \<Rightarrow> xs) = Inr ps"
    and acc: "ds_accepted (diagnostics r) \<longleftrightarrow>
       batch_reasons (strict_positive_int em) ec (strict_positive_int bars) (rollover_status guard) cr
         (ds_time_stop_reasons (diagnostics r)) (ds_rollover_force_close_active (diagnostics r))
         (sequence_rows positions) (mark_duplicates ps) = []"
    and dec: "decide_positions (ds_accepted (diagnostics r)) (ds_time_stop_ready (diagnostics r))
       (parse_timestamp_int fromiso fin) (strict_positive_int bars)
       (ds_rollover_force_close_active (diagnostics r)) (mark_duplicates ps)
       = Inr (close_decisions r, ds_position_diagnostics (diagnostics r))"
  note br = batch_reasons_Nil [OF acc [THEN iffD1, OF assms(2)]]
  from br(6) obtain rows where rows: "sequence_rows positions = Some rows" "list_all is_mapping rows" by blast
  have tr': "traverse (prepare_row fromiso (strict_positive_int em) ec (parse_timestamp_float fromiso as_of_arg))
      rows = Inr ps" using tr rows(1) by simp
  note ap = accepted_prepared [OF tr' br(7) rows(2)]
  from br(1) obtain m where m: "em = VInt m" "strict_positive_int em = Some m" by auto
  from br(3) obtain h where h: "bars = VInt h" "0 < h" "strict_positive_int bars = Some h" by auto
  show thesis
    by (rule that [OF rows(1) m(1) h(1,2) ap(2,3)])
      (use ap(4,5) m(2) dec assms(2) h(3) ap(1) in auto)
qed

lemma outcome_of_matching:
  assumes "row_matches raw p"
  shows "(\<exists>d g. position_outcome acc ready fin hor f1 p = Inr (Some d, g)) \<longleftrightarrow>
      time_stop_due_of (held_of acc ready fin hor p) hor \<or> acc \<and> f1"
    and "\<exists>out. position_outcome acc ready fin hor f1 p = Inr out"
proof -
  obtain d where "close_decision_of p (acc \<and> f1) (held_of acc ready fin hor p) = Inr d"
    using close_decision_of_ok [OF assms] by blast
  then show "(\<exists>d g. position_outcome acc ready fin hor f1 p = Inr (Some d, g)) \<longleftrightarrow>
      time_stop_due_of (held_of acc ready fin hor p) hor \<or> acc \<and> f1"
    and "\<exists>out. position_outcome acc ready fin hor f1 p = Inr out"
    by (auto simp: position_outcome_def Let_def)
qed

lemma row_matches_ticket: "row_matches raw p \<Longrightarrow> pp_ticket p = Some t \<Longrightarrow> dget raw ''ticket'' = VInt t"
  by (auto simp: row_matches_def)

lemma div60_interval: "{k. k mod 60 = 0 \<and> t div 60 * 60 \<le> k \<and> k \<le> m} = (\<lambda>j. j * 60) ` {t div 60 .. m div (60::int)}"
proof (intro set_eqI iffI)
  fix k assume "k \<in> {k. k mod 60 = 0 \<and> t div 60 * 60 \<le> k \<and> k \<le> m}"
  then have "k = k div 60 * 60" "t div 60 \<le> k div 60" "k div 60 \<le> m div 60" by auto
  then show "k \<in> (\<lambda>j. j * 60) ` {t div 60 .. m div 60}" by (metis atLeastAtMost_iff image_eqI)
next
  fix k assume "k \<in> (\<lambda>j. j * 60) ` {t div 60 .. m div (60::int)}"
  then show "k \<in> {k. k mod 60 = 0 \<and> t div 60 * 60 \<le> k \<and> k \<le> m}" by auto
qed

lemma decide_never_fails:
  assumes "mark_duplicates ps = ps"
    and "\<And>p. p \<in> set ps \<Longrightarrow> \<exists>raw. VDict raw \<in> set rows \<and> row_matches raw p \<and> Q p"
  shows "decide_positions acc ready fin hor f1 (mark_duplicates ps) \<noteq> Inl e"
proof
  assume "decide_positions acc ready fin hor f1 (mark_duplicates ps) = Inl e"
  then have "traverse (position_outcome acc ready fin hor f1) (sort_key position_sort_key ps) = Inl e"
    by (simp add: assms(1) decide_positions_def split: sum.splits)
  from traverse_Inl [OF this] obtain p where "p \<in> set ps" "position_outcome acc ready fin hor f1 p = Inl e"
    by auto
  with assms(2) outcome_of_matching(2) show False by (metis sum.distinct(1))
qed

lemma decide_rejected_total: "decide_positions False ready fin hor f1 ps \<noteq> Inl e"
proof
  assume "decide_positions False ready fin hor f1 ps = Inl e"
  then have "traverse (position_outcome False ready fin hor f1) (sort_key position_sort_key ps) = Inl e"
    by (simp add: decide_positions_def split: sum.splits)
  from traverse_Inl [OF this] show False
    by (auto simp: position_outcome_def held_of_def time_stop_due_of_def Let_def)
qed

lemma decided_for_row:
  assumes "\<And>d. d \<in> set ds \<longleftrightarrow> (\<exists>q \<in> set ps. \<exists>g. position_outcome acc ready fin hor f1 q = Inr (Some d, g))"
    and "distinct (map pp_ticket ps)" and "p \<in> set ps" and "row_matches raw p"
  shows "(\<exists>d \<in> set ds. dget raw ''ticket'' = VInt (cd_target_ticket d))
      \<longleftrightarrow> (\<exists>d g. position_outcome acc ready fin hor f1 p = Inr (Some d, g))"
proof
  assume "\<exists>d \<in> set ds. dget raw ''ticket'' = VInt (cd_target_ticket d)"
  then obtain d q g where d: "dget raw ''ticket'' = VInt (cd_target_ticket d)" "q \<in> set ps"
    "position_outcome acc ready fin hor f1 q = Inr (Some d, g)" using assms(1) by blast
  have "pp_ticket q = Some (cd_target_ticket d)"
    by (rule close_decision_fields(2) [OF position_outcome_closed(1) [OF d(3)]])
  moreover have "pp_ticket p = Some (cd_target_ticket d)" using assms(4) d(1) by (auto simp: row_matches_def)
  ultimately have "q = p" using assms(2,3) d(2) by (metis (no_types) distinct_map inj_on_eq_iff)
  then show "\<exists>d g. position_outcome acc ready fin hor f1 p = Inr (Some d, g)" using d(3) by blast
next
  assume "\<exists>d g. position_outcome acc ready fin hor f1 p = Inr (Some d, g)"
  then obtain d g where d: "position_outcome acc ready fin hor f1 p = Inr (Some d, g)" by blast
  have "pp_ticket p = Some (cd_target_ticket d)"
    by (rule close_decision_fields(2) [OF position_outcome_closed(1) [OF d]])
  then show "\<exists>d \<in> set ds. dget raw ''ticket'' = VInt (cd_target_ticket d)"
    using d assms(1,3) row_matches_ticket [OF assms(4)] by blast
qed

text \<open>What the batch has to satisfy, on its inputs: a row, the guard decision, the bar evidence and the whole batch.\<close>

definition row_valid :: "(string \<Rightarrow> (int option \<times> int) option) \<Rightarrow> int \<Rightarrow> pyfloat \<Rightarrow> pyval \<Rightarrow> bool" where
  "row_valid fromiso m a row \<longleftrightarrow>
     (\<exists>raw ticket symbol lots token t. row = VDict raw
        \<and> dget raw ''ticket'' = VInt ticket \<and> 0 < ticket
        \<and> dget raw ''symbol'' = VStr symbol \<and> symbol \<in> set IG_MT4_SCALP_SYMBOLS
        \<and> dget raw ''side'' \<in> {VStr ''BUY'', VStr ''SELL''}
        \<and> strict_positive_float (dget raw ''lots'') = Some lots
        \<and> dget raw ''magic'' = VInt m
        \<and> dget raw ''owner_token'' = VStr token \<and> owner_token_match token \<and> dget raw ''order_comment'' = VStr token
        \<and> dget raw ''ownership_contract'' = VStr TICKET_OWNER_CONTRACT
        \<and> parse_timestamp_int fromiso (dget raw ''open_time'') = Some t \<and> \<not> flt_int a t)"

definition guard_valid :: "guard_arg \<Rightarrow> pyfloat \<Rightarrow> bool" where
  "guard_valid g a =
     (case g of NoGuard \<Rightarrow> True | OtherObject \<Rightarrow> False
      | GuardDecision d \<Rightarrow>
          rg_schema_version d = PRODUCTION_SCALP_ROLLOVER_GUARD_SCHEMA_VERSION \<and> rg_accepted d
          \<and> (case rg_as_of_epoch d of None \<Rightarrow> False | Some x \<Rightarrow> \<not> flt micro (fabs (fsub x a))))"

definition guard_forces :: "guard_arg \<Rightarrow> bool" where
  "guard_forces g = (case g of GuardDecision d \<Rightarrow> force_close_active d | _ \<Rightarrow> False)"

text \<open>The finalized minute is a minute of the M1 grid that had closed at the time of the evaluation.\<close>

definition minute_closed :: "int option \<Rightarrow> pyfloat \<Rightarrow> bool" where
  "minute_closed fin a = (case fin of None \<Rightarrow> False | Some m \<Rightarrow> m mod 60 = 0 \<and> \<not> flt_int a (m + 60))"

definition row_field :: "string \<Rightarrow> pyval \<Rightarrow> pyval" where
  "row_field k row = (case row of VDict raw \<Rightarrow> dget raw k | _ \<Rightarrow> VNone)"

definition batch_valid ::
  "(string \<Rightarrow> (int option \<times> int) option) \<Rightarrow> pyval \<Rightarrow> pyval \<Rightarrow> pyval \<Rightarrow> pyval \<Rightarrow> string \<Rightarrow> pyval \<Rightarrow> guard_arg \<Rightarrow> bool" where
  "batch_valid fromiso positions fin as_of_arg em ec bars guard \<longleftrightarrow>
     (\<exists>m h a rows. em = VInt m \<and> 0 < m \<and> ec = TICKET_OWNER_CONTRACT \<and> bars = VInt h \<and> 0 < h
        \<and> parse_timestamp_float fromiso as_of_arg = Some a \<and> guard_valid guard a
        \<and> (minute_closed (parse_timestamp_int fromiso fin) a \<or> guard_forces guard)
        \<and> sequence_rows positions = Some rows \<and> list_all (row_valid fromiso m a) rows
        \<and> distinct (map (row_field ''ticket'') rows) \<and> distinct (map (row_field ''symbol'') rows))"

lemma time_stop_reasons_Nil: "time_stop_reasons_of fin (Some a) = [] \<longleftrightarrow> minute_closed fin a"
  by (simp add: time_stop_reasons_of_def minute_closed_def M1_SECONDS_def split: option.splits)

lemma guard_status_ok:
  assumes "rollover_clock_status g as_of = (gok, why, f1, [])" and "fst (rollover_status g)"
  obtains a where "as_of = Some a" and "guard_valid g a" and "f1 = guard_forces g"
proof (cases as_of)
  case None
  then show ?thesis using assms(1) by (simp add: rollover_clock_status_def split: prod.splits)
next
  case (Some a)
  show ?thesis
  proof (cases g)
    case (GuardDecision d)
    then show ?thesis
      using assms that [OF Some]
      by (auto simp: rollover_clock_status_def rollover_status_def guard_valid_def guard_forces_def guard_clock_ok_def Some
          split: if_splits option.splits)
  qed (use assms that [OF Some] in \<open>auto simp: rollover_clock_status_def rollover_status_def guard_valid_def guard_forces_def Some\<close>)
qed

lemma row_prepared_valid:
  assumes "prepare_position fromiso raw (Some m) TICKET_OWNER_CONTRACT (Some a) = Inr p" and "pp_reasons p = []"
  shows "row_valid fromiso m a (VDict raw)"
proof -
  have "row_reasons (strict_positive_int (dget raw ''ticket'')) (str_of (dget raw ''symbol''))
      (dget raw ''side'') (strict_positive_float (dget raw ''lots''))
      (strict_positive_int (dget raw ''magic'')) (Some m) (str_of (dget raw ''owner_token''))
      (dget raw ''order_comment'') (str_of (dget raw ''ownership_contract'')) TICKET_OWNER_CONTRACT
      (parse_timestamp_int fromiso (dget raw ''open_time'')) (Some a) = []"
    using assms by (auto simp: prepare_position_def Let_def split: if_splits)
  note rr = row_reasons_Nil [OF this]
  show ?thesis unfolding row_valid_def using rr by simp
qed

lemma accepted_rows:
  assumes "traverse (prepare_row fromiso (Some m) TICKET_OWNER_CONTRACT (Some a)) rows = Inr ps"
    and "list_all (\<lambda>p. pp_reasons p = []) (mark_duplicates ps)" and "list_all is_mapping rows"
  shows "list_all (row_valid fromiso m a) rows"
    and "distinct (map (row_field ''ticket'') rows)" and "distinct (map (row_field ''symbol'') rows)"
proof -
  note md = mark_duplicates_Nil_reasons [OF assms(2)]
  have rel: "list_all2 (\<lambda>row p. \<exists>raw. row = VDict raw
      \<and> prepare_position fromiso raw (Some m) TICKET_OWNER_CONTRACT (Some a) = Inr p \<and> pp_reasons p = []) rows ps"
  proof (rule list.rel_mono_strong [OF assms(1) [unfolded traverse_Inr_iff]])
    fix row p
    assume "row \<in> set rows" "p \<in> set ps" and "prepare_row fromiso (Some m) TICKET_OWNER_CONTRACT (Some a) row = Inr p"
    with assms(3) md(2) show "\<exists>raw. row = VDict raw
      \<and> prepare_position fromiso raw (Some m) TICKET_OWNER_CONTRACT (Some a) = Inr p \<and> pp_reasons p = []"
      by (auto simp: list_all_iff is_mapping_iff prepare_row_def)
  qed
  then show "list_all (row_valid fromiso m a) rows"
    by (induction rule: list_all2_induct) (auto intro: row_prepared_valid)
  have "list_all2 (\<lambda>row p. (\<exists>k. row_field ''ticket'' row = VInt k \<and> pp_ticket p = Some k)
      \<and> (\<exists>z. row_field ''symbol'' row = VStr z \<and> pp_symbol p = Some z)) rows ps"
    using rel by (rule list.rel_mono_strong) (auto dest!: prepare_position_ok(1) simp: row_field_def row_matches_def)
  then have "map (row_field ''ticket'') rows = map (\<lambda>p. VInt (the (pp_ticket p))) ps
      \<and> map (row_field ''symbol'') rows = map (\<lambda>p. VStr (the (pp_symbol p))) ps
      \<and> list_all (\<lambda>p. pp_ticket p \<noteq> None \<and> pp_symbol p \<noteq> None) ps"
    by (induction rule: list_all2_induct) auto
  moreover have "distinct (map pp_ticket ps)" "distinct (map pp_symbol ps)"
    using accepted_prepared(2,3) [OF assms] by blast+
  ultimately show "distinct (map (row_field ''ticket'') rows)" and "distinct (map (row_field ''symbol'') rows)"
    by (auto simp: distinct_map inj_on_def list_all_iff) (metis option.sel)+
qed

lemma accepted_valid:
  assumes "evaluate_scalp_position_lifecycle fromiso positions fin as_of_arg em ec bars guard = Inr r"
    and "ds_accepted (diagnostics r)"
  shows "batch_valid fromiso positions fin as_of_arg em ec bars guard"
    and "ds_rollover_force_close_active (diagnostics r) = guard_forces guard"
    and "\<exists>a. parse_timestamp_float fromiso as_of_arg = Some a
      \<and> ds_time_stop_ready (diagnostics r) = minute_closed (parse_timestamp_int fromiso fin) a"
proof -
  let ?tr = "ds_time_stop_reasons (diagnostics r)" and ?f1 = "ds_rollover_force_close_active (diagnostics r)"
  obtain ps cr gok why where tr: "traverse (prepare_row fromiso (strict_positive_int em) ec (parse_timestamp_float fromiso as_of_arg))
       (case sequence_rows positions of None \<Rightarrow> [] | Some xs \<Rightarrow> xs) = Inr ps"
    and acc: "batch_reasons (strict_positive_int em) ec (strict_positive_int bars) (rollover_status guard) cr ?tr ?f1
         (sequence_rows positions) (mark_duplicates ps) = []"
    and ready: "ds_time_stop_ready (diagnostics r) \<longleftrightarrow> ?tr = []"
    and ts: "?tr = time_stop_reasons_of (parse_timestamp_int fromiso fin) (parse_timestamp_float fromiso as_of_arg)"
    and rc: "rollover_clock_status guard (parse_timestamp_float fromiso as_of_arg) = (gok, why, ?f1, cr)"
    using assms(1) by (rule evaluateE) (use assms(2) in blast)
  note br = batch_reasons_Nil [OF acc]
  obtain a where a: "parse_timestamp_float fromiso as_of_arg = Some a" "guard_valid guard a" and f: "?f1 = guard_forces guard"
    by (rule guard_status_ok [OF rc [unfolded br(4)] br(8)])
  obtain m h rows where m: "strict_positive_int em = Some m" and h: "strict_positive_int bars = Some h"
    and rows: "sequence_rows positions = Some rows" "list_all is_mapping rows"
    using br(1,3,6) by blast
  have tr': "traverse (prepare_row fromiso (Some m) TICKET_OWNER_CONTRACT (Some a)) rows = Inr ps"
    using tr by (simp add: m rows(1) a(1) br(2))
  note ar = accepted_rows [OF tr' br(7) rows(2)]
  show "?f1 = guard_forces guard" by (rule f)
  show "\<exists>a. parse_timestamp_float fromiso as_of_arg = Some a
      \<and> ds_time_stop_ready (diagnostics r) = minute_closed (parse_timestamp_int fromiso fin) a"
    using a(1) ready ts time_stop_reasons_Nil by simp
  show "batch_valid fromiso positions fin as_of_arg em ec bars guard"
    unfolding batch_valid_def
    by (intro exI [of _ m] exI [of _ h] exI [of _ a] exI [of _ rows])
      (use m h a ar rows br(2,5) ts f time_stop_reasons_Nil in simp)
qed

text \<open>The evaluator raises only at the membership test of an unhashable side.\<close>

lemma raises_at_side:
  assumes "evaluate_scalp_position_lifecycle fromiso positions fin as_of_arg em ec bars guard = Inl e"
  shows "e = TypeError \<and> (\<exists>rows raw. sequence_rows positions = Some rows \<and> VDict raw \<in> set rows
     \<and> \<not> hashable (dget raw ''side''))"
proof -
  obtain gok why f1 cr where rc:
    "rollover_clock_status guard (parse_timestamp_float fromiso as_of_arg) = (gok, why, f1, cr)"
    by (metis prod_cases4)
  let ?as_of = "parse_timestamp_float fromiso as_of_arg"
  let ?prep = "prepare_row fromiso (strict_positive_int em) ec ?as_of"
  let ?rows = "case sequence_rows positions of None \<Rightarrow> [] | Some xs \<Rightarrow> xs"
  show ?thesis
  proof (cases "traverse ?prep ?rows")
    case (Inl e')
    then have "e' = e" using assms by (simp add: evaluate_scalp_position_lifecycle_def Let_def rc)
    with traverse_Inl [OF Inl] obtain row where "row \<in> set ?rows" "?prep row = Inl e" by blast
    moreover from this obtain rows where "sequence_rows positions = Some rows" "row \<in> set rows"
      by (cases "sequence_rows positions") auto
    ultimately show ?thesis
      by (auto simp: prepare_row_def prepare_position_def Let_def split: pyval.splits if_splits)
  next
    case (Inr ps)
    then obtain acc rs where acc: "acc \<longleftrightarrow> batch_reasons (strict_positive_int em) ec (strict_positive_int bars)
        (rollover_status guard) cr rs f1 (sequence_rows positions) (mark_duplicates ps) = []"
      and dec: "decide_positions acc (rs = []) (parse_timestamp_int fromiso fin) (strict_positive_int bars) f1
        (mark_duplicates ps) = Inl e"
      using assms by (auto simp: evaluate_scalp_position_lifecycle_def Let_def rc split: sum.splits prod.splits)
    show ?thesis
    proof (cases acc)
      case True
      note br = batch_reasons_Nil [OF acc [THEN iffD1, OF True]]
      from br(6) have "list_all is_mapping ?rows" by auto
      from decide_never_fails [OF accepted_prepared(1,4) [OF Inr br(7) this]] dec show ?thesis by simp
    next
      case False
      with dec show ?thesis by (simp add: decide_rejected_total)
    qed
  qed
qed

section \<open>Properties\<close>

text \<open>
  C28. Fail closed: unless every check on the inputs holds, no position is closed. The checks: the expected magic and the
  horizon are positive integers, the ownership contract is the ticket-owner contract, the clock reads, a supplied guard
  decision is an accepted one of the current schema for this clock, the finalized minute is a closed one of the M1 grid
  (or the guard forces the close), the positions are a sequence of mappings, no ticket and no symbol occurs twice, and
  every row has a positive ticket, a catalog symbol, a side, a positive size, the expected magic, an owner token that
  its order comment repeats, the contract and an open time that is not in the future. When one of them fails the
  evaluator returns its diagnostics with a reason and without close decisions, or it raises the \<open>TypeError\<close> of a row
  whose side is unhashable.
\<close>

theorem lifecycle_fail_closed:
  assumes "\<not> batch_valid fromiso positions fin as_of_arg em ec bars guard"
  shows "case evaluate_scalp_position_lifecycle fromiso positions fin as_of_arg em ec bars guard of
     Inr r \<Rightarrow> close_decisions r = [] \<and> \<not> ds_accepted (diagnostics r) \<and> ds_reasons (diagnostics r) \<noteq> []
   | Inl err \<Rightarrow> err = TypeError \<and> (\<exists>rows raw. sequence_rows positions = Some rows \<and> VDict raw \<in> set rows
       \<and> \<not> hashable (dget raw ''side''))"
proof (cases "evaluate_scalp_position_lifecycle fromiso positions fin as_of_arg em ec bars guard")
  case (Inl err)
  then show ?thesis using raises_at_side [OF Inl] by simp
next
  case (Inr r)
  have rej: "\<not> ds_accepted (diagnostics r)" using accepted_valid(1) [OF Inr] assms by blast
  have "close_decisions r = [] \<and> ds_reasons (diagnostics r) \<noteq> []"
    by (rule evaluateE [OF Inr]) (use rej in \<open>auto dest: decide_positions_rejected\<close>)
  then show ?thesis using Inr rej by simp
qed

text \<open>
  C29. Exact targeting: every close decision names the ticket, symbol, lots, magic and owner token of
  one supplied mapping row whose broker order comment equals its owner token and whose magic is the
  expected one.
\<close>

theorem lifecycle_exact_target:
  assumes "evaluate_scalp_position_lifecycle fromiso positions fin as_of_arg em ec bars guard = Inr r"
    and "d \<in> set (close_decisions r)"
  shows "\<exists>rows raw.
      sequence_rows positions = Some rows \<and> VDict raw \<in> set rows
      \<and> dget raw ''ticket'' = VInt (cd_target_ticket d) \<and> 0 < cd_target_ticket d
      \<and> dget raw ''symbol'' = VStr (cd_symbol d) \<and> cd_symbol d \<in> set IG_MT4_SCALP_SYMBOLS
      \<and> strict_positive_float (dget raw ''lots'') = Some (cd_lots d)
      \<and> dget raw ''magic'' = VInt (cd_magic d) \<and> em = VInt (cd_magic d)
      \<and> dget raw ''owner_token'' = VStr (cd_owner_token d)
      \<and> dget raw ''order_comment'' = VStr (cd_owner_token d)
      \<and> cd_ownership_contract d = TICKET_OWNER_CONTRACT"
proof (cases "ds_accepted (diagnostics r)")
  case True
  show ?thesis
  proof (rule acceptedE [OF assms(1) True])
    fix ps rows m h
    assume rows: "sequence_rows positions = Some rows" and em: "em = VInt m"
      and src: "\<And>p. p \<in> set ps \<Longrightarrow> \<exists>raw. VDict raw \<in> set rows \<and> row_matches raw p \<and> pp_magic p = Some m"
      and dec: "decide_positions True (ds_time_stop_ready (diagnostics r)) (parse_timestamp_int fromiso fin)
           (Some h) (ds_rollover_force_close_active (diagnostics r)) ps
         = Inr (close_decisions r, ds_position_diagnostics (diagnostics r))"
    from assms(2) decide_positions_iff [OF dec] obtain p g where p: "p \<in> set ps"
      and out: "position_outcome True (ds_time_stop_ready (diagnostics r)) (parse_timestamp_int fromiso fin)
           (Some h) (ds_rollover_force_close_active (diagnostics r)) p = Inr (Some d, g)" by blast
    note cd = close_decision_fields [OF position_outcome_closed(1) [OF out]]
    from src [OF p] obtain raw where raw: "VDict raw \<in> set rows" "row_matches raw p" "pp_magic p = Some m"
      by blast
    then show ?thesis
      using rows em cd unfolding row_matches_def by auto
  qed
next
  case False
  then have "close_decisions r = []"
    using assms(1) by (auto elim!: evaluateE dest: decide_positions_rejected)
  with assms(2) show ?thesis by simp
qed

text \<open>
  The close decisions are canonical: no ticket and no symbol occurs twice, and the list is in
  (symbol, ticket) order.
\<close>

theorem lifecycle_decisions_canonical:
  assumes "evaluate_scalp_position_lifecycle fromiso positions fin as_of_arg em ec bars guard = Inr r"
  shows "distinct (map cd_target_ticket (close_decisions r))
     \<and> distinct (map cd_symbol (close_decisions r))
     \<and> sorted (map (\<lambda>d. (cd_symbol d, cd_target_ticket d)) (close_decisions r))"
proof (cases "ds_accepted (diagnostics r)")
  case True
  show ?thesis
    by (rule acceptedE [OF assms True]) (blast intro: decide_positions_sorted_distinct)
next
  case False
  then have "close_decisions r = []"
    using assms by (auto elim!: evaluateE dest: decide_positions_rejected)
  then show ?thesis by simp
qed

text \<open>
  C30. Completeness: in an accepted batch a row is closed exactly when the guard forces every close, also without any
  valid bar evidence, or the finalized minute is a closed one of the M1 grid and the row has been held for the whole
  horizon by then.
\<close>

theorem lifecycle_closes_exactly_due:
  assumes "evaluate_scalp_position_lifecycle fromiso positions fin as_of_arg em ec (VInt n) guard = Inr r"
    and "ds_accepted (diagnostics r)"
    and "sequence_rows positions = Some rows" and "VDict raw \<in> set rows"
  shows "(\<exists>d \<in> set (close_decisions r). dget raw ''ticket'' = VInt (cd_target_ticket d)) \<longleftrightarrow>
     guard_forces guard
     \<or> (\<exists>m a t. parse_timestamp_int fromiso fin = Some m \<and> m mod 60 = 0
          \<and> parse_timestamp_float fromiso as_of_arg = Some a \<and> \<not> flt_int a (m + 60)
          \<and> parse_timestamp_int fromiso (dget raw ''open_time'') = Some t \<and> n \<le> bars_held t m)"
proof (rule acceptedE [OF assms(1,2)])
  let ?ready = "ds_time_stop_ready (diagnostics r)"
  let ?force = "ds_rollover_force_close_active (diagnostics r)"
  let ?fin = "parse_timestamp_int fromiso fin"
  fix ps rows' mg h
  assume rows': "sequence_rows positions = Some rows'" and h: "VInt n = VInt h"
    and dist: "distinct (map pp_ticket ps)"
    and tgt: "\<And>raw. VDict raw \<in> set rows' \<Longrightarrow> \<exists>p \<in> set ps. row_matches raw p
           \<and> pp_open_time_epoch p = parse_timestamp_int fromiso (dget raw ''open_time'')"
    and dec: "decide_positions True ?ready ?fin (Some h) ?force ps
         = Inr (close_decisions r, ds_position_diagnostics (diagnostics r))"
  have "VDict raw \<in> set rows'" using assms(3,4) rows' by simp
  from tgt [OF this] obtain p where p: "p \<in> set ps" "row_matches raw p"
    "pp_open_time_epoch p = parse_timestamp_int fromiso (dget raw ''open_time'')" by auto
  let ?out = "position_outcome True ?ready ?fin (Some n) ?force"
  have mem: "d \<in> set (close_decisions r) \<longleftrightarrow> (\<exists>q \<in> set ps. \<exists>g. ?out q = Inr (Some d, g))" for d
    using decide_positions_iff [OF dec] h by simp
  have "(\<exists>d \<in> set (close_decisions r). dget raw ''ticket'' = VInt (cd_target_ticket d))
      \<longleftrightarrow> (\<exists>d g. ?out p = Inr (Some d, g))"
    by (rule decided_for_row [OF mem dist p(1,2)])
  also have "\<dots> \<longleftrightarrow> ?force \<or> ?ready \<and> (\<exists>m t. ?fin = Some m
      \<and> parse_timestamp_int fromiso (dget raw ''open_time'') = Some t \<and> n \<le> bars_held t m)"
    using outcome_of_matching(1) [OF p(2), of True ?ready ?fin "Some n" ?force] p(3)
    by (auto simp: held_of_def time_stop_due_of_def split: option.splits)
  finally show ?thesis
    using accepted_valid(2,3) [OF assms(1,2)] by (auto simp: minute_closed_def split: option.splits)
qed

text \<open>
  C33. The evaluator is total on rows whose side is hashable: the only exception it can raise is the
  \<open>TypeError\<close> of testing an unhashable side for membership, and no internal assertion can fail.
\<close>

theorem lifecycle_raises_only_unhashable_side:
  assumes "evaluate_scalp_position_lifecycle fromiso positions fin as_of_arg em ec bars guard = Inl e"
  shows "e = TypeError \<and> (\<exists>rows raw. sequence_rows positions = Some rows \<and> VDict raw \<in> set rows
     \<and> \<not> hashable (dget raw ''side''))"
  using assms by (rule raises_at_side)

text \<open>
  The holding age counts closed bars: it is the number of minute-aligned epochs from the minute
  of the open to the finalized common minute.
\<close>

theorem bars_held_counts_bars:
  "bars_held t m = int (card {k. k mod M1_SECONDS = 0 \<and> t div M1_SECONDS * M1_SECONDS \<le> k \<and> k \<le> m})"
proof -
  have "card {k. k mod 60 = 0 \<and> t div 60 * 60 \<le> k \<and> k \<le> m} = nat (m div 60 - t div 60 + 1)"
    by (simp add: div60_interval card_image inj_on_def)
  moreover have "(m - t div 60 * 60) div 60 = m div 60 - t div 60"
    using div_mult_self1 [of 60 m "- (t div 60)"] by simp
  moreover have "m < t div 60 * 60 \<Longrightarrow> m div 60 < t div 60"
    and "\<not> m < t div 60 * 60 \<Longrightarrow> t div 60 \<le> m div 60" by linarith+
  ultimately show ?thesis
    by (auto simp: bars_held_def M1_SECONDS_def Let_def)
qed

section \<open>Witnesses\<close>

text \<open>One owned EURUSD position opened at 6000, evaluated at 7260 with a horizon of 20 bars.\<close>

definition no_iso :: "string \<Rightarrow> (int option \<times> int) option" where
  "no_iso s = None"

definition sample_row :: pydict where
  "sample_row =
     [(''ticket'', VInt 7), (''symbol'', VStr ''EURUSD''), (''side'', VStr ''BUY''),
      (''lots'', VFloat (Fin (1/4))), (''magic'', VInt 246810), (''owner_token'', VStr ''tok''),
      (''order_comment'', VStr ''tok''), (''ownership_contract'', VStr ''ticket_owner_v1''),
      (''open_time'', VInt 6000)]"

definition sample_rows :: pyval where
  "sample_rows = VList [VDict sample_row]"

definition sample_eval :: "pyval \<Rightarrow> pyval \<Rightarrow> pyerr + ScalpPositionLifecycleResult" where
  "sample_eval rows as_of =
     evaluate_scalp_position_lifecycle no_iso rows (VInt 7200) as_of (VInt 246810)
       TICKET_OWNER_CONTRACT (VInt 20) NoGuard"

definition sample_result :: ScalpPositionLifecycleResult where
  "sample_result = projr (sample_eval sample_rows (VInt 7260))"

definition early_result :: ScalpPositionLifecycleResult where
  "early_result = projr (sample_eval sample_rows (VInt 7200))"

lemma sample_returns: "sample_eval sample_rows (VInt 7260) = Inr sample_result"
  by code_simp

lemma early_returns: "sample_eval sample_rows (VInt 7200) = Inr early_result"
  by code_simp

lemma sample_accepted: "ds_accepted (diagnostics sample_result)"
  by code_simp

lemma sample_decisions: "map cd_target_ticket (close_decisions sample_result) = [7]"
  by code_simp

lemma early_rejected: "\<not> ds_accepted (diagnostics early_result)"
  by code_simp

lemma early_invalid:
  "\<not> batch_valid no_iso sample_rows (VInt 7200) (VInt 7200) (VInt 246810) TICKET_OWNER_CONTRACT (VInt 20) NoGuard"
proof -
  have a: "parse_timestamp_float no_iso (VInt 7200) = Some (Fin 7200)" by code_simp
  have "\<not> minute_closed (parse_timestamp_int no_iso (VInt 7200)) (Fin 7200)" by code_simp
  then show ?thesis by (auto simp: batch_valid_def a guard_forces_def)
qed

theorem lifecycle_fail_closed_witness: "\<not> ds_accepted (diagnostics early_result) \<and> close_decisions early_result = []"
  using lifecycle_fail_closed [OF early_invalid] early_returns by (simp add: sample_eval_def)

theorem lifecycle_exact_target_witness:
  "\<exists>rows raw. sequence_rows sample_rows = Some rows \<and> VDict raw \<in> set rows
     \<and> dget raw ''ticket'' = VInt (cd_target_ticket (hd (close_decisions sample_result)))
     \<and> dget raw ''order_comment'' = VStr (cd_owner_token (hd (close_decisions sample_result)))"
proof -
  have "hd (close_decisions sample_result) \<in> set (close_decisions sample_result)"
    using sample_decisions by (intro hd_in_set) auto
  from lifecycle_exact_target [OF sample_returns [unfolded sample_eval_def] this] show ?thesis by blast
qed

theorem lifecycle_decisions_canonical_witness:
  "map cd_target_ticket (close_decisions sample_result) = [7]
   \<and> distinct (map cd_symbol (close_decisions sample_result))"
  using lifecycle_decisions_canonical [OF sample_returns [unfolded sample_eval_def]] sample_decisions
  by simp

text \<open>The same row under a guard that forces the close, with a finalized minute that does not parse.\<close>

definition forcing_guard :: guard_arg where
  "forcing_guard = GuardDecision \<lparr>rg_accepted = True, rg_reason = [], rg_as_of_epoch = Some (Fin 7260),
     utc_second_of_day = None, entry_blackout_active = True, force_close_active = True, rg_entry_blackout_start_second = 0,
     rg_forced_close_start_second = 0, rg_blackout_end_second = 0, policy_config_sha256 = [],
     rg_schema_version = PRODUCTION_SCALP_ROLLOVER_GUARD_SCHEMA_VERSION\<rparr>"

definition forced_result :: ScalpPositionLifecycleResult where
  "forced_result = projr (evaluate_scalp_position_lifecycle no_iso sample_rows VNone (VInt 7260) (VInt 246810)
     TICKET_OWNER_CONTRACT (VInt 20) forcing_guard)"

theorem lifecycle_closes_exactly_due_witness:
  "(\<exists>d \<in> set (close_decisions sample_result). dget sample_row ''ticket'' = VInt (cd_target_ticket d))
   \<and> (\<exists>d \<in> set (close_decisions forced_result). dget sample_row ''ticket'' = VInt (cd_target_ticket d))"
proof -
  have rows: "sequence_rows sample_rows = Some [VDict sample_row]" "VDict sample_row \<in> set [VDict sample_row]"
    by (simp_all add: sample_rows_def)
  have h: "parse_timestamp_int no_iso (dget sample_row ''open_time'') = Some 6000" "parse_timestamp_int no_iso (VInt 7200) = Some 7200"
    "parse_timestamp_float no_iso (VInt 7260) = Some (Fin 7260)" "\<not> flt_int (Fin 7260) (7200 + 60)" "20 \<le> bars_held 6000 7200"
    "(7200 :: int) mod 60 = 0" by code_simp+
  have one: "\<exists>d \<in> set (close_decisions sample_result). dget sample_row ''ticket'' = VInt (cd_target_ticket d)"
    unfolding lifecycle_closes_exactly_due [OF sample_returns [unfolded sample_eval_def] sample_accepted rows]
    by (intro disjI2 exI [of _ 7200] exI [of _ "Fin 7260"] exI [of _ 6000] conjI) (fact h)+
  have f: "evaluate_scalp_position_lifecycle no_iso sample_rows VNone (VInt 7260) (VInt 246810)
     TICKET_OWNER_CONTRACT (VInt 20) forcing_guard = Inr forced_result" "ds_accepted (diagnostics forced_result)"
    "guard_forces forcing_guard" by code_simp+
  have "\<exists>d \<in> set (close_decisions forced_result). dget sample_row ''ticket'' = VInt (cd_target_ticket d)"
    unfolding lifecycle_closes_exactly_due [OF f(1,2) rows] using f(3) by blast
  with one show ?thesis by blast
qed

text \<open>A row whose side is a list makes the evaluator raise.\<close>

definition unhashable_rows :: pyval where
  "unhashable_rows = VList [VDict [(''side'', VList [])]]"

theorem lifecycle_raises_only_unhashable_side_witness:
  "\<exists>rows raw. sequence_rows unhashable_rows = Some rows \<and> VDict raw \<in> set rows
     \<and> \<not> hashable (dget raw ''side'')"
proof -
  have "sample_eval unhashable_rows (VInt 7260) = Inl TypeError" by code_simp
  from lifecycle_raises_only_unhashable_side [OF this [unfolded sample_eval_def]] show ?thesis by blast
qed

end
