(* ===== verification/Machine.thy ===== *)
theory Machine
  imports Main "HOL-Library.Sublist"
begin

text \<open>
  The contracts the stateful components share. A \<open>step_machine\<close> is a component whose operations, as
  events of one step function, keep an invariant for the events that may occur; runs are folds over
  event lists. A \<open>logged_machine\<close> also keeps an append-only log: what was recorded stays recorded, in
  order. A \<open>counted_machine\<close> has a natural-number measure that a step never lowers.
\<close>

locale step_machine =
  fixes step :: "'e \<Rightarrow> 's \<Rightarrow> 's"
    and ok :: "'e \<Rightarrow> bool"
    and invar :: "'s \<Rightarrow> bool"
  assumes step_invar: "invar s \<Longrightarrow> ok e \<Longrightarrow> invar (step e s)"
begin

lemma run_invar: "invar s \<Longrightarrow> list_all ok es \<Longrightarrow> invar (fold step es s)"
  by (induction es arbitrary: s) (auto intro: step_invar)

end

locale logged_machine = step_machine step ok invar
  for step :: "'e \<Rightarrow> 's \<Rightarrow> 's" and ok and invar +
  fixes logof :: "'s \<Rightarrow> 'l list"
  assumes step_log: "invar s \<Longrightarrow> ok e \<Longrightarrow> prefix (logof s) (logof (step e s))"
begin

lemma run_log: "invar s \<Longrightarrow> list_all ok es \<Longrightarrow> prefix (logof s) (logof (fold step es s))"
proof (induction es arbitrary: s)
  case (Cons e es)
  then have "prefix (logof s) (logof (step e s))" by (auto intro: step_log)
  also have "prefix (logof (step e s)) (logof (fold step es (step e s)))"
    using Cons by (intro Cons.IH) (auto intro: step_invar)
  finally show ?case by simp
qed simp

end

locale counted_machine = step_machine step ok invar
  for step :: "'e \<Rightarrow> 's \<Rightarrow> 's" and ok and invar +
  fixes measure_of :: "'s \<Rightarrow> int"
  assumes step_measure: "invar s \<Longrightarrow> ok e \<Longrightarrow> measure_of s \<le> measure_of (step e s)"
begin

lemma run_measure: "invar s \<Longrightarrow> list_all ok es \<Longrightarrow> measure_of s \<le> measure_of (fold step es s)"
proof (induction es arbitrary: s)
  case (Cons e es)
  have "measure_of s \<le> measure_of (step e s)" using Cons.prems by (auto intro: step_measure)
  also have "\<dots> \<le> measure_of (fold step es (step e s))"
    using Cons by (intro Cons.IH) (auto intro: step_invar)
  finally show ?case by simp
qed simp

end

end
