(* ===== verification/M1_Bars.thy ===== *)
theory M1_Bars
  imports Py_Value Machine
begin

text \<open>
  The M1 bar aggregator \<open>scalp/bars.py\<close>: ticks fold into per-symbol minute bars, silent minutes
  become explicit invalid markers, and finalized bars go to a bounded history. The state is the
  aggregator object; \<open>_current\<close> keeps its insertion order because \<open>flush_stale\<close> iterates it. The
  best-effort JSONL append of \<open>_emit\<close> is not part of the state (its failure is swallowed).
  Timestamps, quotes and spreads are floats, as the signature says.
\<close>

section \<open>Bars\<close>

record M1Bar =
  b_symbol :: string
  minute_epoch :: int
  b_open :: pyfloat
  b_high :: pyfloat
  b_low :: pyfloat
  b_close :: pyfloat
  bid_close :: pyfloat
  ask_close :: pyfloat
  spread_max_bps :: pyfloat
  spread_close_bps :: pyfloat
  tick_count :: int
  b_valid :: bool
  invalid_reason :: string
  quote_changes :: int

record bucket =
  c_minute :: int
  c_open :: pyfloat
  c_high :: pyfloat
  c_low :: pyfloat
  c_close :: pyfloat
  c_bid_close :: pyfloat
  c_ask_close :: pyfloat
  c_spread_max :: pyfloat
  c_spread_close :: pyfloat
  c_ticks :: int
  c_quote_changes :: int

record M1Aggregator =
  symbols :: "string list"
  min_ticks :: int
  history_bars :: nat
  current :: "(string \<times> bucket) list"
  history :: "string \<Rightarrow> M1Bar list"
  last_ts :: "string \<rightharpoonup> pyfloat"
  last_quote :: "string \<rightharpoonup> pyfloat \<times> pyfloat"
  last_emitted_minute :: "string \<rightharpoonup> int"

definition MAX_GAP_MARKERS :: nat where
  "MAX_GAP_MARKERS = 3"

definition finite_or_zero :: "pyfloat \<Rightarrow> pyfloat" where
  "finite_or_zero f = (if is_finite f then f else Fin 0)"

definition new_aggregator :: "string list \<Rightarrow> int \<Rightarrow> nat \<Rightarrow> M1Aggregator" where
  "new_aggregator syms min_ticks_per_bar maxlen =
     \<lparr>symbols = map py_upper syms, min_ticks = max 1 min_ticks_per_bar, history_bars = maxlen,
      current = [], history = (\<lambda>_. []), last_ts = Map.empty, last_quote = Map.empty,
      last_emitted_minute = Map.empty\<rparr>"

definition history_of :: "M1Aggregator \<Rightarrow> string \<Rightarrow> M1Bar list" where
  "history_of a symbol = (if py_upper symbol \<in> set (symbols a) then history a (py_upper symbol) else [])"

text \<open>The unbroken run of valid bars ending at the most recent bar.\<close>

definition consecutive_valid :: "M1Aggregator \<Rightarrow> string \<Rightarrow> M1Bar list" where
  "consecutive_valid a symbol = rev (takeWhile b_valid (rev (history_of a symbol)))"

section \<open>Emission\<close>

text \<open>\<open>deque(maxlen=n).append\<close>.\<close>

definition deque_append :: "nat \<Rightarrow> 'a list \<Rightarrow> 'a \<Rightarrow> 'a list" where
  "deque_append n xs x = drop (Suc (length xs) - n) (xs @ [x])"

definition emit :: "M1Bar \<Rightarrow> M1Aggregator \<Rightarrow> M1Aggregator" where
  "emit bar a =
     a\<lparr>history := (history a)(b_symbol bar := deque_append (history_bars a) (history a (b_symbol bar)) bar),
       last_emitted_minute := (last_emitted_minute a)(b_symbol bar \<mapsto>
         max (case last_emitted_minute a (b_symbol bar) of None \<Rightarrow> 0 | Some m \<Rightarrow> m) (minute_epoch bar))\<rparr>"

definition invalid_marker :: "string \<Rightarrow> int \<Rightarrow> string \<Rightarrow> M1Bar" where
  "invalid_marker s minute why =
     \<lparr>b_symbol = s, minute_epoch = minute, b_open = Fin 0, b_high = Fin 0, b_low = Fin 0,
      b_close = Fin 0, bid_close = Fin 0, ask_close = Fin 0, spread_max_bps = Fin 0,
      spread_close_bps = Fin 0, tick_count = 0, b_valid = False, invalid_reason = why,
      quote_changes = 0\<rparr>"

text \<open>\<open>range(start, end, 60)\<close>.\<close>

definition minute_range :: "int \<Rightarrow> int \<Rightarrow> int list" where
  "minute_range start stop = map (\<lambda>k. start + 60 * int k) [0..<nat ((stop - start + 59) div 60)]"

definition gap_bars :: "string \<Rightarrow> int \<Rightarrow> int \<Rightarrow> M1Bar list" where
  "gap_bars s start_minute end_minute =
     (let missed = minute_range start_minute end_minute;
          n = length missed in
      if n = 0 then []
      else if MAX_GAP_MARKERS < n
      then map (\<lambda>m. invalid_marker s m ''no_ticks_in_minute'') (take MAX_GAP_MARKERS missed)
           @ [invalid_marker s (last missed) (''no_ticks_gap_'' @ nat_str n @ ''_minutes'')]
      else map (\<lambda>m. invalid_marker s m ''no_ticks_in_minute'') missed)"

definition gap_markers :: "string \<Rightarrow> int \<Rightarrow> int \<Rightarrow> M1Aggregator \<Rightarrow> M1Bar list \<times> M1Aggregator" where
  "gap_markers s start_minute end_minute a =
     (let out = gap_bars s start_minute end_minute in (out, fold emit out a))"

definition bucket_verdict :: "int \<Rightarrow> bucket \<Rightarrow> bool \<times> string" where
  "bucket_verdict mt cur =
     (if c_ticks cur < mt then (False, ''too_few_ticks'')
      else if c_quote_changes cur < 1 then (False, ''frozen_quotes'')
      else (True, []))"

definition bucket_bar :: "string \<Rightarrow> int \<Rightarrow> bucket \<Rightarrow> M1Bar" where
  "bucket_bar s mt cur =
     (case bucket_verdict mt cur of (valid, why) \<Rightarrow>
        \<lparr>b_symbol = s, minute_epoch = c_minute cur, b_open = c_open cur, b_high = c_high cur,
         b_low = c_low cur, b_close = c_close cur, bid_close = c_bid_close cur,
         ask_close = c_ask_close cur, spread_max_bps = c_spread_max cur,
         spread_close_bps = c_spread_close cur, tick_count = c_ticks cur, b_valid = valid,
         invalid_reason = why, quote_changes = c_quote_changes cur\<rparr>)"

definition finalize :: "string \<Rightarrow> int \<Rightarrow> M1Aggregator \<Rightarrow> M1Bar list \<times> M1Aggregator" where
  "finalize s up_to_minute a =
     (case map_of (current a) s of
        None \<Rightarrow> ([], a)
      | Some cur \<Rightarrow>
          let bar = bucket_bar s (min_ticks a) cur;
              a1 = emit bar (a\<lparr>current := AList.delete s (current a)\<rparr>) in
          case gap_markers s (c_minute cur + 60) up_to_minute a1 of
            (gaps, a2) \<Rightarrow> (bar # gaps, a2))"

section \<open>Ticks\<close>

text \<open>\<open>ts // 60\<close> on floats: C's \<open>fmod\<close>, one rounded quotient, the correction towards the floor.\<close>

definition floor_div60 :: "rat \<Rightarrow> int" where
  "floor_div60 r =
     (let md = r - 60 * of_int (trunc_rat (r / 60));
          d0 = f64_raw (f64_raw (r - md) / 60);
          d = (if md < 0 then f64_raw (d0 - 1) else d0) in
      if 1/2 < d - of_int \<lfloor>d\<rfloor> then \<lfloor>d\<rfloor> + 1 else \<lfloor>d\<rfloor>)"

definition minute_of :: "pyfloat \<Rightarrow> pyerr + int" where
  "minute_of ts = (case ts of Fin r \<Rightarrow> Inr (floor_div60 r * 60) | _ \<Rightarrow> Inl ValueError)"

definition mid_of :: "pyfloat \<Rightarrow> pyfloat \<Rightarrow> pyfloat" where
  "mid_of bid ask = (case fdiv (fadd bid ask) (Fin 2) of Some m \<Rightarrow> m | None \<Rightarrow> NaN)"

definition first_bucket :: "int \<Rightarrow> pyfloat \<Rightarrow> pyfloat \<Rightarrow> pyfloat \<Rightarrow> bool \<Rightarrow> bucket" where
  "first_bucket minute bid ask spread changed =
     (let mid = mid_of bid ask in
      \<lparr>c_minute = minute, c_open = mid, c_high = mid, c_low = mid, c_close = mid,
       c_bid_close = bid, c_ask_close = ask, c_spread_max = spread, c_spread_close = spread,
       c_ticks = 1, c_quote_changes = (if changed then 1 else 0)\<rparr>)"

definition update_bucket :: "bucket \<Rightarrow> pyfloat \<Rightarrow> pyfloat \<Rightarrow> pyfloat \<Rightarrow> bool \<Rightarrow> bucket" where
  "update_bucket cur bid ask spread changed =
     (let mid = mid_of bid ask in
      cur\<lparr>c_high := fmax (c_high cur) mid, c_low := fmin (c_low cur) mid, c_close := mid,
          c_bid_close := bid, c_ask_close := ask, c_spread_max := fmax (c_spread_max cur) spread,
          c_spread_close := spread, c_ticks := c_ticks cur + 1,
          c_quote_changes := c_quote_changes cur + (if changed then 1 else 0)\<rparr>)"

text \<open>The bars a tick of this minute finalizes before it is folded in.\<close>

definition roll_forward :: "string \<Rightarrow> int \<Rightarrow> M1Aggregator \<Rightarrow> M1Bar list \<times> M1Aggregator" where
  "roll_forward s minute a =
     (case map_of (current a) s of
        Some cur \<Rightarrow> if c_minute cur < minute then finalize s minute a else ([], a)
      | None \<Rightarrow>
          (case last_emitted_minute a s of
             Some emitted \<Rightarrow>
               if emitted + 60 < minute then gap_markers s (emitted + 60) minute a else ([], a)
           | None \<Rightarrow> ([], a)))"

definition fold_tick ::
  "string \<Rightarrow> int \<Rightarrow> pyfloat \<Rightarrow> pyfloat \<Rightarrow> pyfloat \<Rightarrow> M1Aggregator \<Rightarrow> M1Aggregator" where
  "fold_tick s minute bid ask spread a =
     (let quote_changed = (case last_quote a s of None \<Rightarrow> False | Some q \<Rightarrow> (bid, ask) \<noteq> q);
          b = (case map_of (current a) s of
                 None \<Rightarrow> first_bucket minute bid ask spread quote_changed
               | Some cur \<Rightarrow>
                   if c_minute cur \<noteq> minute then first_bucket minute bid ask spread quote_changed
                   else update_bucket cur bid ask spread quote_changed) in
      a\<lparr>last_quote := (last_quote a)(s \<mapsto> (bid, ask)), current := AList.update s b (current a)\<rparr>)"

definition ingest_tick ::
  "string \<Rightarrow> pyfloat \<Rightarrow> pyfloat \<Rightarrow> pyfloat \<Rightarrow> pyfloat \<Rightarrow> M1Aggregator
     \<Rightarrow> (pyerr + M1Bar list) \<times> M1Aggregator" where
  "ingest_tick symbol bid ask spread_bps ts a =
     (let s = py_upper symbol; bid_f = finite_or_zero bid; ask_f = finite_or_zero ask in
      if s \<notin> set (symbols a) then (Inr [], a)
      else if fle bid_f (Fin 0) \<or> fle ask_f (Fin 0) \<or> flt ask_f bid_f then (Inr [], a)
      else if fle ts (case last_ts a s of None \<Rightarrow> Fin 0 | Some t \<Rightarrow> t) then (Inr [], a)
      else
        let a1 = a\<lparr>last_ts := (last_ts a)(s \<mapsto> ts)\<rparr> in
        case minute_of ts of
          Inl e \<Rightarrow> (Inl e, a1)
        | Inr minute \<Rightarrow>
            if (case last_emitted_minute a1 s of None \<Rightarrow> False | Some emitted \<Rightarrow> minute \<le> emitted)
            then (Inr [], a1)
            else
              let spread = fmax (Fin 0) (finite_or_zero spread_bps) in
              case roll_forward s minute a1 of
                (finalized, a2) \<Rightarrow> (Inr finalized, fold_tick s minute bid_f ask_f spread a2))"

section \<open>Flushing\<close>

fun flush_symbols :: "int \<Rightarrow> string list \<Rightarrow> M1Aggregator \<Rightarrow> M1Bar list \<times> M1Aggregator" where
  "flush_symbols boundary [] a = ([], a)"
| "flush_symbols boundary (s # ss) a =
     (case (case map_of (current a) s of
              Some cur \<Rightarrow> if c_minute cur < boundary then finalize s boundary a else ([], a)
            | None \<Rightarrow> ([], a)) of
        (out, a1) \<Rightarrow>
          (case flush_symbols boundary ss a1 of (outs, a2) \<Rightarrow> (out @ outs, a2)))"

definition flush_stale :: "pyfloat \<Rightarrow> M1Aggregator \<Rightarrow> (pyerr + M1Bar list) \<times> M1Aggregator" where
  "flush_stale now a =
     (case minute_of now of
        Inl e \<Rightarrow> (Inl e, a)
      | Inr boundary \<Rightarrow>
          (case flush_symbols boundary (map fst (current a)) a of (out, a1) \<Rightarrow> (Inr out, a1)))"

section \<open>Windows\<close>

definition window_is_complete :: "int \<Rightarrow> int \<Rightarrow> bool" where
  "window_is_complete minute bar_minutes =
     (let step = max 1 bar_minutes in
      if step = 1 then True else ((minute div 60) + 1) mod step = 0)"

definition fmax_list :: "pyfloat list \<Rightarrow> pyfloat" where
  "fmax_list xs = foldl fmax (hd xs) (tl xs)"

definition fmin_list :: "pyfloat list \<Rightarrow> pyfloat" where
  "fmin_list xs = foldl fmin (hd xs) (tl xs)"

definition fold_bucket :: "int \<Rightarrow> M1Bar list \<Rightarrow> M1Bar list" where
  "fold_bucket step bs =
     (if int (length bs) \<noteq> step then []
      else if list_ex (\<lambda>b. \<not> b_valid b) bs then []
      else
        let first = hd bs; final = last bs in
        [\<lparr>b_symbol = b_symbol first, minute_epoch = minute_epoch first, b_open = b_open first,
          b_high = fmax_list (map b_high bs), b_low = fmin_list (map b_low bs),
          b_close = b_close final, bid_close = bid_close final, ask_close = ask_close final,
          spread_max_bps = fmax_list (map spread_max_bps bs),
          spread_close_bps = spread_close_bps final,
          tick_count = sum_list (map tick_count bs), b_valid = True, invalid_reason = [],
          quote_changes = sum_list (map quote_changes bs)\<rparr>])"

fun aggregate_loop :: "int \<Rightarrow> M1Bar list \<Rightarrow> M1Bar list \<Rightarrow> M1Bar list" where
  "aggregate_loop step bs [] = fold_bucket step bs"
| "aggregate_loop step bs (b # rest) =
     (let minute_index = minute_epoch b div 60;
          bucket_start = (minute_index div step) * step in
      if bs \<noteq> [] \<and> (minute_epoch (hd bs) div 60) div step \<noteq> bucket_start div step
      then fold_bucket step bs @ aggregate_loop step [b] rest
      else aggregate_loop step (bs @ [b]) rest)"

definition aggregate_bars :: "M1Bar list \<Rightarrow> int \<Rightarrow> M1Bar list" where
  "aggregate_bars bars bar_minutes =
     (let step = max 1 bar_minutes in
      if step = 1 then bars else aggregate_loop step [] bars)"

section \<open>Indicators\<close>

definition true_range :: "M1Bar \<Rightarrow> M1Bar \<Rightarrow> pyfloat" where
  "true_range prev cur =
     fmax (fmax (fsub (b_high cur) (b_low cur)) (fabs (fsub (b_high cur) (b_close prev))))
       (fabs (fsub (b_low cur) (b_close prev)))"

definition true_ranges :: "M1Bar list \<Rightarrow> pyfloat list" where
  "true_ranges usable =
     map (\<lambda>(prev, cur).
        case fdiv (true_range prev cur) (b_close cur) of
          Some q \<Rightarrow> fmul q (Fin 10000) | None \<Rightarrow> NaN)
       (zip usable (tl usable))"

definition atr_bps :: "M1Bar list \<Rightarrow> int \<Rightarrow> pyfloat" where
  "atr_bps bars periods =
     (let usable = filter (\<lambda>b. b_valid b \<and> flt (Fin 0) (b_close b)) bars in
      if length usable < 2 then Fin 0
      else
        let trs = true_ranges usable;
            tail = drop (length trs - nat (max 1 periods)) trs in
        case fdiv (foldl fadd (Fin 0) tail) (float_of_int (int (length tail))) of
          Some q \<Rightarrow> q | None \<Rightarrow> NaN)"

definition ema :: "pyfloat list \<Rightarrow> int \<Rightarrow> pyfloat" where
  "ema xs periods =
     (case xs of [] \<Rightarrow> Fin 0
      | x # rest \<Rightarrow>
          (case fdiv (Fin 2) (fadd (float_of_int (max 1 periods)) (Fin 1)) of
             None \<Rightarrow> NaN
           | Some k \<Rightarrow> foldl (\<lambda>acc v. fadd (fmul v k) (fmul acc (fsub (Fin 1) k))) x rest))"

section \<open>Events\<close>

datatype bar_event =
    Tick string pyfloat pyfloat pyfloat pyfloat
  | Flush pyfloat

fun agg_step :: "bar_event \<Rightarrow> M1Aggregator \<Rightarrow> M1Aggregator" where
  "agg_step (Tick symbol bid ask spread ts) a = snd (ingest_tick symbol bid ask spread ts a)"
| "agg_step (Flush now) a = snd (flush_stale now a)"

text \<open>The clock behind every event is a finite number.\<close>

fun agg_ok :: "bar_event \<Rightarrow> bool" where
  "agg_ok (Tick symbol bid ask spread ts) = is_finite ts"
| "agg_ok (Flush now) = (is_finite now \<and> \<not> flt now (Fin 0))"

section \<open>Invariant\<close>

text \<open>Neighbouring bars: minutes advance, and a hole only next to an invalid bar.\<close>

definition linked :: "M1Bar \<Rightarrow> M1Bar \<Rightarrow> bool" where
  "linked b c = (minute_epoch b < minute_epoch c
     \<and> (minute_epoch c = minute_epoch b + 60 \<or> \<not> b_valid b \<or> \<not> b_valid c))"

definition hist_inv :: "M1Aggregator \<Rightarrow> string \<Rightarrow> bool" where
  "hist_inv a s =
     (successively linked (history a s)
      \<and> (case last_emitted_minute a s of
           None \<Rightarrow> history a s = []
         | Some m \<Rightarrow> 0 \<le> m \<and> m mod 60 = 0
             \<and> (history a s \<noteq> [] \<longrightarrow> minute_epoch (last (history a s)) = m)))"

definition cur_inv :: "M1Aggregator \<Rightarrow> string \<Rightarrow> bool" where
  "cur_inv a s =
     (\<forall>c. map_of (current a) s = Some c \<longrightarrow>
        0 \<le> c_minute c \<and> c_minute c mod 60 = 0
        \<and> (\<forall>m. last_emitted_minute a s = Some m \<longrightarrow> c_minute c = m + 60))"

definition clock_inv :: "M1Aggregator \<Rightarrow> bool" where
  "clock_inv a = (\<forall>s t. last_ts a s = Some t \<longrightarrow> is_finite t \<and> flt (Fin 0) t)"

definition agg_inv :: "M1Aggregator \<Rightarrow> bool" where
  "agg_inv a = (clock_inv a \<and> (\<forall>s. hist_inv a s \<and> cur_inv a s))"

section \<open>Emission facts\<close>

lemma deque_append_suffix: "suffix (deque_append n xs x) (xs @ [x])"
  unfolding deque_append_def by (rule suffix_drop)

lemma last_deque_append: "deque_append n xs x \<noteq> [] \<Longrightarrow> last (deque_append n xs x) = x"
  by (auto simp: deque_append_def last_drop)

lemma successively_suffix: "suffix ys xs \<Longrightarrow> successively R xs \<Longrightarrow> successively R ys"
  by (auto simp: suffix_def successively_append_iff)

lemma emit_fields [simp]:
  "current (emit b a) = current a" "symbols (emit b a) = symbols a" "last_ts (emit b a) = last_ts a"
  "last_quote (emit b a) = last_quote a" "min_ticks (emit b a) = min_ticks a"
  "history_bars (emit b a) = history_bars a"
  by (simp_all add: emit_def)

lemma emit_other [simp]:
  "s \<noteq> b_symbol b \<Longrightarrow> history (emit b a) s = history a s"
  "s \<noteq> b_symbol b \<Longrightarrow> last_emitted_minute (emit b a) s = last_emitted_minute a s"
  by (simp_all add: emit_def)

lemma fold_emit_fields [simp]:
  "current (fold emit bs a) = current a" "symbols (fold emit bs a) = symbols a"
  "last_ts (fold emit bs a) = last_ts a" "last_quote (fold emit bs a) = last_quote a"
  "min_ticks (fold emit bs a) = min_ticks a"
  by (induction bs arbitrary: a) simp_all

lemma fold_emit_other:
  "list_all (\<lambda>b. b_symbol b = s) bs \<Longrightarrow> t \<noteq> s \<Longrightarrow>
     history (fold emit bs a) t = history a t \<and> last_emitted_minute (fold emit bs a) t = last_emitted_minute a t"
  by (induction bs arbitrary: a) auto

lemma fold_emit_suffix:
  "list_all (\<lambda>b. b_symbol b = s) bs \<Longrightarrow> suffix (history (fold emit bs a) s) (history a s @ bs)"
proof (induction bs arbitrary: a)
  case (Cons b bs)
  have "suffix (history (fold emit bs (emit b a)) s) (history (emit b a) s @ bs)"
    using Cons by simp
  also have "suffix (history (emit b a) s @ bs) ((history a s @ [b]) @ bs)"
  proof -
    obtain zs where "history a s @ [b] = zs @ deque_append (history_bars a) (history a s) b"
      using deque_append_suffix [of "history_bars a" "history a s" b] unfolding suffix_def by blast
    then have "(history a s @ [b]) @ bs = zs @ (history (emit b a) s @ bs)"
      using Cons.prems by (simp add: emit_def)
    then show ?thesis by (simp only: suffix_def) blast
  qed
  finally show ?case by simp
qed simp

lemma fold_emit_history_cong:
  "history x = history y \<Longrightarrow> history_bars x = history_bars y \<Longrightarrow>
     history (fold emit bs x) = history (fold emit bs y)"
  by (induction bs arbitrary: x y) (auto simp: emit_def)

lemma emit_hist_inv:
  assumes "hist_inv a s" and "b_symbol b = s" and "0 \<le> minute_epoch b" and "minute_epoch b mod 60 = 0"
    and "\<And>m. last_emitted_minute a s = Some m \<Longrightarrow> m < minute_epoch b
           \<and> (minute_epoch b = m + 60 \<or> \<not> b_valid b)"
  shows "hist_inv (emit b a) s" and "last_emitted_minute (emit b a) s = Some (minute_epoch b)"
proof -
  show last: "last_emitted_minute (emit b a) s = Some (minute_epoch b)"
    using assms(2,3,5) by (auto simp: emit_def split: option.splits)
  have "successively linked (history a s @ [b])"
  proof (cases "history a s = []")
    case False
    then obtain m where m: "last_emitted_minute a s = Some m" "minute_epoch (last (history a s)) = m"
      using assms(1) by (auto simp: hist_inv_def split: option.splits)
    with assms(5) [OF m(1)] have "linked (last (history a s)) b" by (auto simp: linked_def)
    then show ?thesis
      using assms(1) by (auto simp: hist_inv_def successively_append_iff)
  qed simp
  then have "successively linked (history (emit b a) s)"
    using assms(2) by (auto simp: emit_def intro: successively_suffix [OF deque_append_suffix])
  moreover have "history (emit b a) s \<noteq> [] \<Longrightarrow> minute_epoch (last (history (emit b a) s)) = minute_epoch b"
    using assms(2) by (auto simp: emit_def last_deque_append)
  ultimately show "hist_inv (emit b a) s"
    using assms(3,4) last by (simp add: hist_inv_def)
qed

lemma fold_emit_gap:
  assumes "hist_inv a s" and "last_emitted_minute a s = Some m"
    and "list_all (\<lambda>b. b_symbol b = s \<and> \<not> b_valid b \<and> minute_epoch b mod 60 = 0) bs"
    and "sorted_wrt (<) (m # map minute_epoch bs)"
  shows "hist_inv (fold emit bs a) s
     \<and> last_emitted_minute (fold emit bs a) s = Some (last (m # map minute_epoch bs))"
  using assms
proof (induction bs arbitrary: a m)
  case (Cons b bs)
  have m0: "0 \<le> m" using Cons.prems(1,2) by (simp add: hist_inv_def)
  have e: "hist_inv (emit b a) s" "last_emitted_minute (emit b a) s = Some (minute_epoch b)"
    using Cons.prems m0 by (intro emit_hist_inv; auto)+
  show ?case
    using Cons.IH [OF e] Cons.prems(3,4) by auto
qed simp

lemma minute_range_aligned:
  assumes "start \<le> stop" and "(stop - start) mod 60 = 0"
  shows "minute_range start stop = map (\<lambda>k. start + 60 * int k) [0..<nat ((stop - start) div 60)]"
proof -
  have "stop - start = 60 * ((stop - start) div 60)" using assms(2) by auto
  then have "(stop - start + 59) div 60 = (stop - start) div 60" by linarith
  then show ?thesis by (simp add: minute_range_def)
qed

lemma gap_bars_facts:
  assumes "start \<le> stop" and "start mod 60 = 0" and "stop mod 60 = 0"
  shows "list_all (\<lambda>b. b_symbol b = s \<and> \<not> b_valid b \<and> minute_epoch b mod 60 = 0) (gap_bars s start stop)"
    and "sorted_wrt (<) ((start - 60) # map minute_epoch (gap_bars s start stop))"
    and "last ((start - 60) # map minute_epoch (gap_bars s start stop)) = stop - 60"
proof -
  define n where "n = nat ((stop - start) div 60)"
  have al: "(stop - start) mod 60 = 0" using assms(2,3) by presburger
  then have st: "stop = start + 60 * int n" using assms(1) unfolding n_def by auto
  have mr: "minute_range start stop = map (\<lambda>k. start + 60 * int k) [0..<n]"
    unfolding n_def by (rule minute_range_aligned [OF assms(1) al])
  have md: "(start + 60 * int k) mod 60 = 0" for k using assms(2) by presburger
  have big: "gap_bars s start stop =
      map (\<lambda>m. invalid_marker s m ''no_ticks_in_minute'') [start, start + 60, start + 120]
      @ [invalid_marker s (start + 60 * int (n - 1)) (''no_ticks_gap_'' @ nat_str n @ ''_minutes'')]"
    if "3 < n"
  proof -
    have "[0..<n] = [0, 1, 2] @ [3..<n]" using that by (simp add: upt_rec numeral_eq_Suc)
    then have "take 3 (map (\<lambda>k. start + 60 * int k) [0..<n]) = [start, start + 60, start + 120]" by simp
    then show ?thesis
      using that by (simp add: gap_bars_def mr Let_def MAX_GAP_MARKERS_def last_map)
  qed
  have small: "gap_bars s start stop =
      map (\<lambda>m. invalid_marker s m ''no_ticks_in_minute'') (map (\<lambda>k. start + 60 * int k) [0..<n])"
    if "\<not> 3 < n" using that by (auto simp: gap_bars_def mr Let_def MAX_GAP_MARKERS_def)
  show "list_all (\<lambda>b. b_symbol b = s \<and> \<not> b_valid b \<and> minute_epoch b mod 60 = 0) (gap_bars s start stop)"
  proof (cases "3 < n")
    case True
    show ?thesis using md [of 0] md [of 1] md [of 2] md [of "n - 1"]
      by (simp add: big [OF True] invalid_marker_def)
  next
    case False
    then show ?thesis using md by (simp add: small invalid_marker_def list_all_iff)
  qed
  show "sorted_wrt (<) ((start - 60) # map minute_epoch (gap_bars s start stop))"
  proof (cases "3 < n")
    case True
    then show ?thesis by (simp add: big [OF True] invalid_marker_def)
  next
    case False
    then show ?thesis
      by (auto simp: small invalid_marker_def comp_def sorted_wrt_map
          intro!: sorted_wrt_mono_rel [OF _ sorted_wrt_upt])
  qed
  show "last ((start - 60) # map minute_epoch (gap_bars s start stop)) = stop - 60"
  proof (cases "3 < n")
    case True
    have "start + 60 * int (n - 1) = stop - 60" using True by (simp add: st of_nat_diff)
    then show ?thesis unfolding big [OF True] by (simp add: invalid_marker_def)
  next
    case False
    then show ?thesis unfolding small [OF False]
      by (cases n) (auto simp: invalid_marker_def st comp_def last_map)
  qed
qed

section \<open>Every operation keeps the invariant\<close>

text \<open>What an operation on one symbol leaves alone.\<close>

definition same_others :: "string \<Rightarrow> M1Aggregator \<Rightarrow> M1Aggregator \<Rightarrow> bool" where
  "same_others s a b =
     (\<forall>t. t \<noteq> s \<longrightarrow> history b t = history a t \<and> last_emitted_minute b t = last_emitted_minute a t
        \<and> map_of (current b) t = map_of (current a) t)"

lemma same_others_inv:
  assumes "same_others s a b" and "t \<noteq> s"
  shows "hist_inv b t = hist_inv a t" and "cur_inv b t = cur_inv a t"
proof -
  have e: "history b t = history a t" "last_emitted_minute b t = last_emitted_minute a t"
    "map_of (current b) t = map_of (current a) t"
    using assms unfolding same_others_def by blast+
  show "hist_inv b t = hist_inv a t" unfolding hist_inv_def e ..
  show "cur_inv b t = cur_inv a t" unfolding cur_inv_def e ..
qed

lemma same_others_trans: "same_others s a b \<Longrightarrow> same_others s b c \<Longrightarrow> same_others s a c"
  unfolding same_others_def by presburger

lemma gap_markers_inv:
  assumes "hist_inv a s" and "last_emitted_minute a s = Some m" and "m + 60 \<le> stop" and "stop mod 60 = 0"
    and "gap_markers s (m + 60) stop a = (out, b)"
  shows "hist_inv b s" and "last_emitted_minute b s = Some (stop - 60)" and "current b = current a"
    and "last_ts b = last_ts a" and "same_others s a b" and "list_all (\<lambda>x. b_symbol x = s) out"
    and "b = fold emit out a"
proof -
  have m: "m mod 60 = 0" using assms(1,2) by (simp add: hist_inv_def)
  then have m60: "(m + 60) mod 60 = 0" by simp
  have o: "out = gap_bars s (m + 60) stop" and b: "b = fold emit out a"
    using assms(5) by (auto simp: gap_markers_def Let_def)
  note g = gap_bars_facts [OF assms(3) m60 assms(4), of s]
  from fold_emit_gap [OF assms(1,2) g(1)] g(2,3)
  show "hist_inv b s" "last_emitted_minute b s = Some (stop - 60)" by (simp_all add: b o)
  show sy: "list_all (\<lambda>x. b_symbol x = s) out" using g(1) by (auto simp: o list_all_iff)
  show "current b = current a" "last_ts b = last_ts a" by (simp_all add: b)
  show "same_others s a b" using fold_emit_other [OF sy] by (simp add: same_others_def b)
  show "b = fold emit out a" by (rule b)
qed

lemma bucket_bar_fields [simp]:
  "b_symbol (bucket_bar s mt c) = s" "minute_epoch (bucket_bar s mt c) = c_minute c"
  by (simp_all add: bucket_bar_def split: prod.splits)

lemma finalize_inv:
  assumes "hist_inv a s" and "cur_inv a s" and "map_of (current a) s = Some c"
    and "c_minute c < stop" and "stop mod 60 = 0" and "finalize s stop a = (out, b)"
  shows "hist_inv b s" and "last_emitted_minute b s = Some (stop - 60)"
    and "map_of (current b) s = None" and "last_ts b = last_ts a" and "same_others s a b"
    and "list_all (\<lambda>x. b_symbol x = s) out" and "history b = history (fold emit out a)"
    and "symbols b = symbols a"
proof -
  define bar where "bar = bucket_bar s (min_ticks a) c"
  define a0 where "a0 = a\<lparr>current := AList.delete s (current a)\<rparr>"
  obtain gaps b' where gm: "gap_markers s (c_minute c + 60) stop (emit bar a0) = (gaps, b')"
    by (cases "gap_markers s (c_minute c + 60) stop (emit bar a0)")
  have ob: "out = bar # gaps" "b = b'"
    using assms(6) gm by (auto simp: finalize_def assms(3) Let_def bar_def a0_def)
  have c: "0 \<le> c_minute c" "c_minute c mod 60 = 0"
    "\<And>m. last_emitted_minute a s = Some m \<Longrightarrow> c_minute c = m + 60"
    using assms(2,3) by (auto simp: cur_inv_def)
  have f0: "history a0 = history a" "last_emitted_minute a0 = last_emitted_minute a" by (simp_all add: a0_def)
  have h0: "hist_inv a0 s" using assms(1) unfolding hist_inv_def f0 .
  have e: "hist_inv (emit bar a0) s" "last_emitted_minute (emit bar a0) s = Some (c_minute c)"
    using emit_hist_inv [OF h0, of bar] c by (auto simp: bar_def a0_def)
  have st: "c_minute c + 60 \<le> stop" using assms(4,5) c(2) by presburger
  note g = gap_markers_inv [OF e st assms(5) gm]
  show "hist_inv b s" "last_emitted_minute b s = Some (stop - 60)" using g(1,2) ob by simp_all
  show "map_of (current b) s = None" using g(3) by (simp add: ob a0_def delete_conv)
  show "last_ts b = last_ts a" using g(4) by (simp add: ob a0_def)
  have o0: "same_others s a (emit bar a0)"
    by (simp add: same_others_def bar_def a0_def delete_conv)
  show "same_others s a b" using same_others_trans [OF o0 g(5)] by (simp add: ob)
  show "list_all (\<lambda>x. b_symbol x = s) out" using g(6) by (simp add: ob bar_def)
  have f: "b = fold emit out a0" using g(7) by (simp add: ob)
  show "history b = history (fold emit out a)"
    unfolding f by (rule fold_emit_history_cong) (simp_all add: a0_def)
  show "symbols b = symbols a" by (simp add: f a0_def)
qed

lemma roll_forward_inv:
  assumes "hist_inv a s" and "cur_inv a s" and "minute mod 60 = 0" and "0 \<le> minute"
    and "\<And>m. last_emitted_minute a s = Some m \<Longrightarrow> m < minute" and "roll_forward s minute a = (out, b)"
  shows "hist_inv b s" and "\<And>m. last_emitted_minute b s = Some m \<Longrightarrow> minute = m + 60"
    and "last_ts b = last_ts a" and "same_others s a b"
    and "list_all (\<lambda>x. b_symbol x = s) out" and "history b = history (fold emit out a)"
    and "symbols b = symbols a"
proof -
  have near: "minute = m + 60" if "last_emitted_minute a s = Some m" "minute \<le> m + 60" for m
  proof -
    have "m mod 60 = 0" using assms(1) that(1) by (simp add: hist_inv_def)
    then show ?thesis using that(2) assms(3) assms(5) [OF that(1)] by presburger
  qed
  have all: "hist_inv b s \<and> (\<forall>m. last_emitted_minute b s = Some m \<longrightarrow> minute = m + 60)
      \<and> last_ts b = last_ts a \<and> same_others s a b \<and> list_all (\<lambda>x. b_symbol x = s) out
      \<and> history b = history (fold emit out a) \<and> symbols b = symbols a"
  proof (cases "map_of (current a) s")
    case (Some c)
    show ?thesis
    proof (cases "c_minute c < minute")
      case True
      then have "finalize s minute a = (out, b)" using assms(6) Some by (simp add: roll_forward_def)
      from finalize_inv [OF assms(1,2) Some True assms(3) this] show ?thesis by auto
    next
      case False
      then have "out = []" "b = a" using assms(6) Some by (simp_all add: roll_forward_def)
      moreover have "minute \<le> m + 60" if "last_emitted_minute a s = Some m" for m
        using assms(2) Some False that by (force simp: cur_inv_def)
      ultimately show ?thesis using assms(1) near by (auto simp: same_others_def)
    qed
  next
    case None
    show ?thesis
    proof (cases "\<exists>m. last_emitted_minute a s = Some m \<and> m + 60 < minute")
      case True
      then obtain m where m: "last_emitted_minute a s = Some m" "m + 60 < minute" by blast
      then have gm: "gap_markers s (m + 60) minute a = (out, b)"
        using assms(6) None by (simp add: roll_forward_def)
      from gap_markers_inv [OF assms(1) m(1) _ assms(3) gm] m(2) show ?thesis by auto
    next
      case False
      then have "out = []" "b = a" using assms(6) None by (auto simp: roll_forward_def split: option.splits if_splits)
      then show ?thesis using False assms(1) near by (auto simp: same_others_def not_less)
    qed
  qed
  from all show "hist_inv b s" "last_ts b = last_ts a" "same_others s a b"
    "list_all (\<lambda>x. b_symbol x = s) out" "history b = history (fold emit out a)" "symbols b = symbols a" by auto
  show "\<And>m. last_emitted_minute b s = Some m \<Longrightarrow> minute = m + 60" using all by blast
qed

lemma fold_tick_inv:
  assumes "hist_inv a s" and "0 \<le> minute" and "minute mod 60 = 0"
    and "\<And>m. last_emitted_minute a s = Some m \<Longrightarrow> minute = m + 60"
  shows "hist_inv (fold_tick s minute bid ask sp a) s" and "cur_inv (fold_tick s minute bid ask sp a) s"
    and "same_others s a (fold_tick s minute bid ask sp a)"
    and "last_ts (fold_tick s minute bid ask sp a) = last_ts a"
    and "history (fold_tick s minute bid ask sp a) = history a"
  using assms
  by (auto simp: fold_tick_def Let_def hist_inv_def cur_inv_def same_others_def update_conv
      first_bucket_def update_bucket_def split: option.splits if_splits)

lemma floor_div60_nonneg: "0 \<le> r \<Longrightarrow> 0 \<le> floor_div60 r"
proof -
  assume r: "0 \<le> r"
  define q where "q = trunc_rat (r / 60)"
  have q: "q = \<lfloor>r / 60\<rfloor>" using r by (simp add: q_def trunc_rat_def)
  then have q0: "0 \<le> q" using r by simp
  have "of_int q \<le> r / 60" unfolding q by (rule of_int_floor_le)
  then have md: "\<not> r - 60 * of_int q < 0" by linarith
  have e: "r - (r - 60 * of_int q) = 60 * of_int q" by simp
  define d where "d = f64_raw (f64_raw (60 * of_int q) / 60)"
  have "0 \<le> d" using q0 by (auto simp: d_def intro!: f64_raw_nonneg divide_nonneg_nonneg)
  then have "0 \<le> \<lfloor>d\<rfloor>" by simp
  then show ?thesis
    unfolding floor_div60_def Let_def q_def [symmetric] e d_def [symmetric] using md by auto
qed

lemma minute_of_ok:
  assumes "is_finite ts" and "\<not> flt ts (Fin 0)"
  shows "\<exists>k. minute_of ts = Inr k \<and> 0 \<le> k \<and> k mod 60 = 0"
  using assms floor_div60_nonneg by (cases ts) (auto simp: minute_of_def)

lemma agg_inv_fields:
  assumes "history b = history a" and "last_emitted_minute b = last_emitted_minute a"
    and "current b = current a"
  shows "hist_inv b s = hist_inv a s" and "cur_inv b s = cur_inv a s"
  unfolding hist_inv_def cur_inv_def assms by (rule refl)+

text \<open>One accepted tick, with the clock already advanced.\<close>

lemma accepted_tick_inv:
  assumes inv: "\<And>t. hist_inv a t \<and> cur_inv a t" and "minute mod 60 = 0" and "0 \<le> minute"
    and "\<And>m. last_emitted_minute a s = Some m \<Longrightarrow> m < minute"
    and "roll_forward s minute a = (out, a2)" and "b = fold_tick s minute bid ask sp a2"
  shows "hist_inv b t \<and> cur_inv b t" and "last_ts b = last_ts a" and "same_others s a b"
    and "list_all (\<lambda>x. b_symbol x = s) out" and "history b = history (fold emit out a)"
proof -
  have i: "hist_inv a s" "cur_inv a s" using inv by auto
  note r = roll_forward_inv [OF i assms(2,3,4,5)]
  note f = fold_tick_inv [OF r(1) assms(3,2) r(2), where bid = bid and ask = ask and sp = sp,
      folded assms(6)]
  show so: "same_others s a b" by (rule same_others_trans [OF r(4) f(3)])
  show "hist_inv b t \<and> cur_inv b t"
    using f(1,2) inv [of t] same_others_inv [OF so] by (cases "t = s") auto
  show "last_ts b = last_ts a" "list_all (\<lambda>x. b_symbol x = s) out"
    "history b = history (fold emit out a)" using r f by auto
qed

lemma late_clock_positive:
  assumes "clock_inv a" and "is_finite ts"
    and "\<not> fle ts (case last_ts a s of None \<Rightarrow> Fin 0 | Some t \<Rightarrow> t)"
  shows "flt (Fin 0) ts"
proof (cases "last_ts a s")
  case None
  then show ?thesis using assms(2,3) by (cases ts) (auto simp: fle_def feq_def)
next
  case (Some t)
  then have "is_finite t" "flt (Fin 0) t" using assms(1) by (auto simp: clock_inv_def)
  then show ?thesis using assms(2,3) Some by (cases ts; cases t) (auto simp: fle_def feq_def)
qed

lemma ingest_tick_inv:
  assumes inv: "agg_inv a" and fin: "is_finite ts"
    and run: "ingest_tick symbol bid ask spread ts a = (r, b)"
  shows "agg_inv b \<and> (\<exists>out. r = Inr out \<and> same_others (py_upper symbol) a b
    \<and> list_all (\<lambda>x. b_symbol x = py_upper symbol) out \<and> history b = history (fold emit out a))"
proof -
  define s where "s = py_upper symbol"
  define a1 where "a1 = a\<lparr>last_ts := (last_ts a)(s \<mapsto> ts)\<rparr>"
  have f1: "history a1 = history a" "last_emitted_minute a1 = last_emitted_minute a" "current a1 = current a"
    by (simp_all add: a1_def)
  have i1: "hist_inv a1 t \<and> cur_inv a1 t" for t
    using inv unfolding agg_inv_fields [OF f1] by (simp add: agg_inv_def)
  consider (skip) "r = Inr []" "b = a"
    | (clock) "flt (Fin 0) ts" "ingest_tick symbol bid ask spread ts a =
        (case minute_of ts of Inl e \<Rightarrow> (Inl e, a1)
         | Inr minute \<Rightarrow>
            if (case last_emitted_minute a1 s of None \<Rightarrow> False | Some emitted \<Rightarrow> minute \<le> emitted)
            then (Inr [], a1)
            else case roll_forward s minute a1 of (finalized, a2) \<Rightarrow>
              (Inr finalized, fold_tick s minute (finite_or_zero bid) (finite_or_zero ask)
                (fmax (Fin 0) (finite_or_zero spread)) a2))"
    using run late_clock_positive [OF _ fin, of a s] inv
    unfolding ingest_tick_def Let_def s_def [symmetric] a1_def [symmetric] agg_inv_def
    by (auto split: if_splits)
  then show ?thesis
  proof cases
    case skip
    then show ?thesis using inv by (auto simp: same_others_def)
  next
    case clock
    have nn: "\<not> flt ts (Fin 0)" using clock(1) by (cases ts) auto
    from minute_of_ok [OF fin nn] obtain k where k: "minute_of ts = Inr k" "0 \<le> k" "k mod 60 = 0"
      by (elim exE conjE)
    have c1: "clock_inv a1" using inv fin clock(1) by (auto simp: agg_inv_def clock_inv_def a1_def)
    have so1: "same_others s a a1" by (simp add: same_others_def f1)
    have he: "history (fold emit xs a1) = history (fold emit xs a)" for xs
      by (rule fold_emit_history_cong) (simp_all add: a1_def)
    show ?thesis
    proof (cases "\<exists>m. last_emitted_minute a1 s = Some m \<and> k \<le> m")
      case True
      then have "r = Inr []" "b = a1" using run clock(2) k(1) by auto
      moreover have "agg_inv a1" using i1 c1 by (simp add: agg_inv_def)
      ultimately show ?thesis using so1 f1(1) by (simp add: s_def)
    next
      case False
      obtain out a2 where rf: "roll_forward s k a1 = (out, a2)" by fastforce
      have rb: "r = Inr out" "b = fold_tick s k (finite_or_zero bid) (finite_or_zero ask)
          (fmax (Fin 0) (finite_or_zero spread)) a2"
        using run clock(2) k(1) False rf by (auto split: option.splits)
      have lt: "\<And>m. last_emitted_minute a1 s = Some m \<Longrightarrow> m < k" using False by force
      note t = accepted_tick_inv [OF i1 k(3,2) lt rf rb(2)]
      have "agg_inv b" using t(1,2) c1 by (simp add: agg_inv_def clock_inv_def)
      moreover have "same_others s a b" by (rule same_others_trans [OF so1 t(3)])
      moreover have "history b = history (fold emit out a)" using t(5) he by simp
      ultimately show ?thesis using t(4) rb(1) unfolding s_def by blast
    qed
  qed
qed

text \<open>What an operation returns is exactly what it appended, up to the eviction of the oldest bars.\<close>

definition appended :: "M1Bar list \<Rightarrow> M1Aggregator \<Rightarrow> M1Aggregator \<Rightarrow> bool" where
  "appended out a b =
     (\<forall>t. suffix (history b t) (history a t @ filter (\<lambda>x. b_symbol x = t) out))"

lemma fold_emit_appended:
  assumes "list_all (\<lambda>x. b_symbol x = s) out" and "history b = history (fold emit out a)"
  shows "appended out a b"
proof -
  have "suffix (history b t) (history a t @ filter (\<lambda>x. b_symbol x = t) out)" for t
  proof (cases "t = s")
    case True
    then have "filter (\<lambda>x. b_symbol x = t) out = out" using assms(1) by (auto simp: list_all_iff)
    then show ?thesis using fold_emit_suffix [OF assms(1), of a] True by (simp add: assms(2))
  next
    case False
    then have "filter (\<lambda>x. b_symbol x = t) out = []" using assms(1) by (auto simp: list_all_iff filter_empty_conv)
    then show ?thesis using fold_emit_other [OF assms(1) False] by (simp add: assms(2))
  qed
  then show ?thesis by (simp add: appended_def)
qed

lemma appended_trans:
  assumes "appended xs a b" and "appended ys b c"
  shows "appended (xs @ ys) a c"
proof -
  have "suffix (history c t) (history a t @ filter (\<lambda>x. b_symbol x = t) (xs @ ys))" for t
  proof -
    obtain zs where "history a t @ filter (\<lambda>x. b_symbol x = t) xs = zs @ history b t"
      using assms(1) unfolding appended_def suffix_def by metis
    then have "history a t @ filter (\<lambda>x. b_symbol x = t) (xs @ ys)
        = zs @ (history b t @ filter (\<lambda>x. b_symbol x = t) ys)" by simp
    then show ?thesis using assms(2) unfolding appended_def by (metis suffix_append suffix_order.trans suffix_def)
  qed
  then show ?thesis by (simp add: appended_def)
qed

lemma appended_Nil [simp]: "appended [] a a"
  by (simp add: appended_def)

lemma flush_symbols_inv:
  assumes "\<And>t. hist_inv a t \<and> cur_inv a t" and "boundary mod 60 = 0"
    and "flush_symbols boundary ss a = (out, b)"
  shows "(\<forall>t. hist_inv b t \<and> cur_inv b t) \<and> last_ts b = last_ts a \<and> appended out a b
    \<and> (\<forall>t c. map_of (current b) t = Some c \<longrightarrow>
         map_of (current a) t = Some c \<and> (t \<in> set ss \<longrightarrow> boundary \<le> c_minute c))"
  using assms
proof (induction ss arbitrary: a out)
  case (Cons s ss)
  show ?case
  proof (cases "\<exists>c. map_of (current a) s = Some c \<and> c_minute c < boundary")
    case True
    then obtain c where c: "map_of (current a) s = Some c" "c_minute c < boundary" by blast
    obtain o1 a1 where fz: "finalize s boundary a = (o1, a1)" by fastforce
    obtain o2 where fl: "flush_symbols boundary ss a1 = (o2, b)" and o: "out = o1 @ o2"
      using Cons.prems(3) c fz by (auto split: prod.splits)
    have ia: "hist_inv a s" "cur_inv a s" using Cons.prems(1) by auto
    note f = finalize_inv [OF ia c Cons.prems(2) fz]
    have i1: "hist_inv a1 t \<and> cur_inv a1 t" for t
      using Cons.prems(1) [of t] f(1,3) same_others_inv [OF f(5), of t]
      by (cases "t = s") (auto simp: cur_inv_def)
    note ih = Cons.IH [OF i1 Cons.prems(2) fl]
    have "appended out a b"
      using appended_trans [OF fold_emit_appended [OF f(6,7)]] ih by (simp add: o)
    moreover have "map_of (current a) t = Some d \<and> (t \<in> set (s # ss) \<longrightarrow> boundary \<le> c_minute d)"
      if "map_of (current b) t = Some d" for t d
    proof -
      have 1: "map_of (current a1) t = Some d" "t \<in> set ss \<longrightarrow> boundary \<le> c_minute d"
        using ih that by auto
      then have "t \<noteq> s" using f(3) by auto
      then show ?thesis using 1 f(5) by (auto simp: same_others_def)
    qed
    ultimately show ?thesis using ih f(4) by auto
  next
    case False
    then have fl: "flush_symbols boundary ss a = (out, b)"
      using Cons.prems(3) by (auto split: option.splits if_splits prod.splits)
    show ?thesis using Cons.IH [OF Cons.prems(1,2) fl] False by force
  qed
qed auto

lemma flush_stale_inv:
  assumes inv: "agg_inv a" and fin: "is_finite now" "\<not> flt now (Fin 0)"
    and run: "flush_stale now a = (r, b)"
  shows "agg_inv b \<and> (\<exists>out k. r = Inr out \<and> minute_of now = Inr k \<and> appended out a b
    \<and> (\<forall>t c. map_of (current b) t = Some c \<longrightarrow> map_of (current a) t = Some c \<and> k \<le> c_minute c))"
proof -
  from minute_of_ok [OF fin] obtain k where k: "minute_of now = Inr k" "k mod 60 = 0"
    by (elim exE conjE)
  obtain out where fl: "flush_symbols k (map fst (current a)) a = (out, b)" and r: "r = Inr out"
    using run k(1) by (auto simp: flush_stale_def split: prod.splits)
  have i: "\<And>t. hist_inv a t \<and> cur_inv a t" using inv by (simp add: agg_inv_def)
  note f = flush_symbols_inv [OF i k(2) fl]
  have "k \<le> c_minute c" if "map_of (current b) t = Some c" for t c
  proof -
    have "map_of (current a) t = Some c" using f that by blast
    then have "t \<in> set (map fst (current a))" by (auto dest: map_of_SomeD simp: image_iff intro!: bexI)
    then show ?thesis using f that by blast
  qed
  then show ?thesis
    using f inv k(1) r by (auto simp: agg_inv_def clock_inv_def)
qed

lemma agg_step_inv:
  assumes "agg_inv a" and "agg_ok e"
  shows "agg_inv (agg_step e a)"
proof (cases e)
  case (Tick symbol bid ask spread ts)
  then show ?thesis
    using ingest_tick_inv [OF assms(1), of ts symbol bid ask spread] assms(2)
    by (cases "ingest_tick symbol bid ask spread ts a") auto
next
  case (Flush now)
  then show ?thesis
    using flush_stale_inv [OF assms(1), of now] assms(2) by (cases "flush_stale now a") auto
qed

interpretation agg: step_machine agg_step agg_ok agg_inv
  by unfold_locales (rule agg_step_inv)

lemma new_aggregator_inv: "agg_inv (new_aggregator syms mt n)"
  by (simp add: agg_inv_def clock_inv_def hist_inv_def cur_inv_def new_aggregator_def)

lemmas agg_reachable_inv = agg.run_invar [OF new_aggregator_inv]

section \<open>Bar quality\<close>

definition bucket_ok :: "bucket \<Rightarrow> bool" where
  "bucket_ok c = (fle (c_low c) (c_open c) \<and> fle (c_open c) (c_high c) \<and> fle (c_low c) (c_close c)
     \<and> fle (c_close c) (c_high c) \<and> flt (Fin 0) (c_bid_close c) \<and> fle (c_bid_close c) (c_ask_close c)
     \<and> fle (Fin 0) (c_spread_close c) \<and> fle (c_spread_close c) (c_spread_max c)
     \<and> 1 \<le> c_ticks c \<and> 0 \<le> c_quote_changes c \<and> c_quote_changes c \<le> c_ticks c)"

definition bar_ok :: "int \<Rightarrow> M1Bar \<Rightarrow> bool" where
  "bar_ok mt b = (b_valid b \<longrightarrow>
     fle (b_low b) (b_open b) \<and> fle (b_open b) (b_high b) \<and> fle (b_low b) (b_close b)
     \<and> fle (b_close b) (b_high b) \<and> flt (Fin 0) (bid_close b) \<and> fle (bid_close b) (ask_close b)
     \<and> fle (Fin 0) (spread_close_bps b) \<and> fle (spread_close_bps b) (spread_max_bps b)
     \<and> mt \<le> tick_count b \<and> 1 \<le> quote_changes b \<and> quote_changes b \<le> tick_count b)"

definition qual_inv :: "M1Aggregator \<Rightarrow> bool" where
  "qual_inv a = (list_all (\<lambda>p. bucket_ok (snd p)) (current a)
     \<and> (\<forall>s. list_all (bar_ok (min_ticks a)) (history a s)))"

lemma fle_refl: "x \<noteq> NaN \<Longrightarrow> fle x x"
  by (simp add: fle_def feq_def)

lemma fle_fmax: "fle x y \<Longrightarrow> fle x (fmax y z)" "z \<noteq> NaN \<Longrightarrow> y \<noteq> NaN \<Longrightarrow> fle z (fmax y z)"
  by (cases x; cases y; cases z; force simp: fle_def feq_def fmax_def)+

lemma fmin_fle: "fle y x \<Longrightarrow> fle (fmin y z) x" "z \<noteq> NaN \<Longrightarrow> y \<noteq> NaN \<Longrightarrow> fle (fmin y z) z"
  by (cases x; cases y; cases z; force simp: fle_def feq_def fmin_def)+

lemma fle_not_NaN: "fle x y \<Longrightarrow> x \<noteq> NaN \<and> y \<noteq> NaN"
  by (cases x; cases y) (simp_all add: fle_def feq_def)

lemma mid_of_not_NaN: "is_finite bid \<Longrightarrow> is_finite ask \<Longrightarrow> mid_of bid ask \<noteq> NaN"
  by (cases bid; cases ask; cases "f64 (case bid of Fin r \<Rightarrow> (case ask of Fin q \<Rightarrow> r + q))")
    (auto simp: mid_of_def f64_not_NaN inf_of_sign_def split: if_splits)

lemma emit_qual: "qual_inv a \<Longrightarrow> bar_ok (min_ticks a) bar \<Longrightarrow> qual_inv (emit bar a)"
  by (auto simp: qual_inv_def emit_def deque_append_def list_all_iff dest: in_set_dropD)

lemma fold_emit_qual: "qual_inv a \<Longrightarrow> list_all (bar_ok (min_ticks a)) bs \<Longrightarrow> qual_inv (fold emit bs a)"
  by (induction bs arbitrary: a) (auto simp: emit_qual)

lemma gap_markers_qual: "qual_inv a \<Longrightarrow> qual_inv (snd (gap_markers s m k a))"
proof -
  assume a: "qual_inv a"
  have "list_all (bar_ok mt) (gap_bars s m k)" for mt
    by (simp add: gap_bars_def Let_def bar_ok_def invalid_marker_def list_all_iff)
  with a show ?thesis unfolding gap_markers_def Let_def snd_conv by (rule fold_emit_qual)
qed

lemma bucket_bar_ok: "bucket_ok c \<Longrightarrow> bar_ok mt (bucket_bar s mt c)"
  by (auto simp: bucket_bar_def bucket_verdict_def bar_ok_def bucket_ok_def)

lemma finalize_qual:
  assumes "qual_inv a"
  shows "qual_inv (snd (finalize s k a))"
proof (cases "map_of (current a) s")
  case (Some c)
  define a0 where "a0 = a\<lparr>current := AList.delete s (current a)\<rparr>"
  have "bucket_ok c" using assms map_of_SomeD [OF Some] by (auto simp: qual_inv_def list_all_iff)
  moreover have "qual_inv a0"
    using assms by (auto simp: qual_inv_def a0_def list_all_iff AList.delete_eq)
  ultimately have "qual_inv (emit (bucket_bar s (min_ticks a) c) a0)"
    by (intro emit_qual) (simp_all add: a0_def bucket_bar_ok)
  from gap_markers_qual [OF this, of s "c_minute c + 60" k] show ?thesis
    by (auto simp: finalize_def Some Let_def a0_def split: prod.splits)
qed (simp add: finalize_def assms)

lemma roll_forward_qual: "qual_inv a \<Longrightarrow> qual_inv (snd (roll_forward s k a))"
  by (auto simp: roll_forward_def finalize_qual gap_markers_qual split: option.splits)

lemma update_bucket_ok:
  assumes "bucket_ok c" and "mid_of bid ask \<noteq> NaN" and "flt (Fin 0) bid" and "fle bid ask" and "fle (Fin 0) sp"
  shows "bucket_ok (update_bucket c bid ask sp ch)"
proof -
  have "fle sp (fmax (c_spread_max c) sp)"
    using assms(1,5) fle_not_NaN by (intro fle_fmax(2)) (auto simp: bucket_ok_def)
  then show ?thesis
    using assms by (auto simp: bucket_ok_def update_bucket_def Let_def fle_fmax fmin_fle dest: fle_not_NaN)
qed

lemma first_bucket_ok:
  assumes "mid_of bid ask \<noteq> NaN" and "flt (Fin 0) bid" and "fle bid ask" and "fle (Fin 0) sp"
  shows "bucket_ok (first_bucket k bid ask sp ch)"
  using assms by (auto simp: bucket_ok_def first_bucket_def Let_def fle_refl dest: fle_not_NaN)

lemma fold_tick_qual:
  assumes "qual_inv a" and "mid_of bid ask \<noteq> NaN" and "flt (Fin 0) bid" and "fle bid ask" and "fle (Fin 0) sp"
  shows "qual_inv (fold_tick s k bid ask sp a)"
proof -
  define ch where "ch = (case last_quote a s of None \<Rightarrow> False | Some q \<Rightarrow> (bid, ask) \<noteq> q)"
  define c where "c = (case map_of (current a) s of
      None \<Rightarrow> first_bucket k bid ask sp ch
    | Some cur \<Rightarrow> if c_minute cur \<noteq> k then first_bucket k bid ask sp ch else update_bucket cur bid ask sp ch)"
  have ft: "current (fold_tick s k bid ask sp a) = AList.update s c (current a)"
    unfolding fold_tick_def Let_def ch_def [symmetric] c_def [symmetric] by simp
  have "bucket_ok d" if "map_of (current a) s = Some d" for d
    using assms(1) map_of_SomeD [OF that] by (auto simp: qual_inv_def list_all_iff)
  then have c: "bucket_ok c"
    using assms(2-5) by (auto simp: c_def first_bucket_ok update_bucket_ok split: option.splits)
  have "list_all (\<lambda>p. bucket_ok (snd p)) (AList.update s c xs)"
    if "list_all (\<lambda>p. bucket_ok (snd p)) xs" for xs
    using that c by (induction xs) auto
  from this [of "current a"] have "list_all (\<lambda>p. bucket_ok (snd p)) (AList.update s c (current a))"
    using assms(1) by (simp add: qual_inv_def)
  then show ?thesis
    using assms(1) ft by (auto simp: qual_inv_def fold_tick_def Let_def)
qed

lemma qual_inv_last_ts [simp]: "qual_inv (a\<lparr>last_ts := x\<rparr>) = qual_inv a"
  by (simp add: qual_inv_def)

lemma ingest_tick_qual:
  assumes "qual_inv a"
  shows "qual_inv (snd (ingest_tick symbol bid ask spread ts a))"
proof -
  define s where "s = py_upper symbol"
  define bf where "bf = finite_or_zero bid"
  define af where "af = finite_or_zero ask"
  have fin: "is_finite bf" "is_finite af" by (simp_all add: bf_def af_def finite_or_zero_def)
  have ft: "qual_inv (fold_tick s k bf af (fmax (Fin 0) (finite_or_zero spread)) b)"
    if "qual_inv b" "\<not> fle bf (Fin 0)" "\<not> flt af bf" for k b
  proof (rule fold_tick_qual [OF that(1) mid_of_not_NaN [OF fin]])
    show "flt (Fin 0) bf" "fle bf af"
      using that(2,3) fin by (cases bf; cases af; auto simp: fle_def feq_def)+
    show "fle (Fin 0) (fmax (Fin 0) (finite_or_zero spread))" by (simp add: fle_fmax fle_refl)
  qed
  have rf: "qual_inv (snd (roll_forward s k (a\<lparr>last_ts := x\<rparr>)))" for k x
    by (rule roll_forward_qual) (simp add: assms)
  show ?thesis
    unfolding ingest_tick_def Let_def s_def [symmetric] bf_def [symmetric] af_def [symmetric]
    using assms ft rf
    by (auto split: sum.split prod.split) (metis snd_conv)+
qed

lemma flush_symbols_qual: "qual_inv a \<Longrightarrow> qual_inv (snd (flush_symbols k ss a))"
proof (induction ss arbitrary: a)
  case (Cons s ss)
  define p where "p = (case map_of (current a) s of
      Some cur \<Rightarrow> if c_minute cur < k then finalize s k a else ([], a) | None \<Rightarrow> ([], a))"
  have "qual_inv (snd p)" using Cons.prems by (auto simp: p_def finalize_qual split: option.splits)
  from Cons.IH [OF this] show ?case
    unfolding flush_symbols.simps p_def [symmetric] by (auto split: prod.splits)
qed simp

text \<open>The configuration of an aggregator never changes.\<close>

definition same_config :: "M1Aggregator \<Rightarrow> M1Aggregator \<Rightarrow> bool" where
  "same_config a b = (min_ticks b = min_ticks a \<and> symbols b = symbols a)"

lemma same_config_gap: "same_config a (snd (gap_markers s m k a))"
  by (simp add: same_config_def gap_markers_def Let_def)

lemma same_config_finalize: "same_config a (snd (finalize s k a))"
  by (auto simp: same_config_def finalize_def gap_markers_def Let_def split: option.splits)

lemma same_config_ingest: "same_config a (snd (ingest_tick symbol bid ask spread ts a))"
proof -
  have "same_config a (snd (roll_forward s k (a\<lparr>last_ts := x\<rparr>)))" for s k x
    using same_config_gap [of "a\<lparr>last_ts := x\<rparr>"] same_config_finalize [of "a\<lparr>last_ts := x\<rparr>"]
    by (auto simp: roll_forward_def same_config_def split: option.splits)
  then have "same_config a (fold_tick s k b c d (snd (roll_forward s k (a\<lparr>last_ts := x\<rparr>))))" for s k x b c d
    by (simp add: same_config_def fold_tick_def Let_def)
  then show ?thesis
    by (auto simp: ingest_tick_def Let_def split: sum.split prod.split)
      (simp_all add: same_config_def, metis snd_conv)
qed

lemma same_config_flush: "same_config a (snd (flush_symbols k ss a))"
proof (induction ss arbitrary: a)
  case (Cons s ss)
  define p where "p = (case map_of (current a) s of
      Some cur \<Rightarrow> if c_minute cur < k then finalize s k a else ([], a) | None \<Rightarrow> ([], a))"
  have "same_config a (snd p)"
    using same_config_finalize by (auto simp: p_def same_config_def split: option.splits)
  with Cons.IH [of "snd p"] show ?case
    unfolding flush_symbols.simps p_def [symmetric] by (auto simp: same_config_def split: prod.splits)
qed (simp add: same_config_def)

lemma same_config_refl: "same_config a a"
  by (simp add: same_config_def)

lemma flush_stale_snd:
  "snd (flush_stale now a) =
     (case minute_of now of Inl e \<Rightarrow> a | Inr k \<Rightarrow> snd (flush_symbols k (map fst (current a)) a))"
  by (simp add: flush_stale_def split: sum.split prod.split)

lemma same_config_step: "same_config a (agg_step e a)"
  by (cases e) (simp_all add: same_config_ingest flush_stale_snd same_config_refl same_config_flush
      split: sum.split)

lemma fold_agg_config: "same_config a (fold agg_step es a)"
proof (induction es arbitrary: a)
  case (Cons e es)
  show ?case using Cons [of "agg_step e a"] same_config_step [of a e] by (simp add: same_config_def)
qed (simp add: same_config_def)

lemma agg_step_qual: "qual_inv a \<Longrightarrow> qual_inv (agg_step e a)"
  by (cases e) (simp_all add: ingest_tick_qual flush_stale_snd flush_symbols_qual split: sum.split)

interpretation agg_quality: step_machine agg_step "\<lambda>_. True" qual_inv
  by unfold_locales (rule agg_step_qual)

lemma new_aggregator_qual: "qual_inv (new_aggregator syms mt n)"
  by (simp add: qual_inv_def new_aggregator_def)

lemma agg_reachable_qual: "qual_inv (fold agg_step es (new_aggregator syms mt n))"
  using agg_quality.run_invar [OF new_aggregator_qual] by (simp add: list_all_iff)

section \<open>Properties\<close>

lemma successively_valid_run:
  assumes "successively linked bs" and "list_all b_valid bs"
  shows "map minute_epoch bs = map (\<lambda>k. minute_epoch (hd bs) + 60 * int k) [0..<length bs]"
  using assms
proof (induction bs)
  case (Cons b bs)
  show ?case
  proof (cases bs)
    case (Cons c cs)
    have c: "minute_epoch c = minute_epoch b + 60"
      using Cons.prems \<open>bs = c # cs\<close> by (auto simp: linked_def)
    have ih: "map minute_epoch bs = map (\<lambda>k. minute_epoch (hd bs) + 60 * int k) [0..<length bs]"
      using Cons.prems \<open>bs = c # cs\<close> by (intro Cons.IH) auto
    have "map minute_epoch (b # bs) = minute_epoch b # map (\<lambda>k. minute_epoch b + 60 * int (Suc k)) [0..<length bs]"
      using ih c \<open>bs = c # cs\<close> by (simp add: algebra_simps)
    also have "\<dots> = map (\<lambda>k. minute_epoch b + 60 * int k) [0..<Suc (length bs)]"
      by (simp add: upt_conv_Cons map_Suc_upt [symmetric] comp_def del: upt_Suc)
    finally show ?thesis by simp
  qed simp
qed simp

lemma consecutive_valid_suffix: "suffix (consecutive_valid a s) (history_of a s)"
  unfolding consecutive_valid_def
  by (metis append_Nil2 rev_append rev_rev_ident suffix_def takeWhile_dropWhile_id)

lemma consecutive_valid_all: "list_all b_valid (consecutive_valid a s)"
  by (auto simp: consecutive_valid_def list_all_iff dest: set_takeWhileD)

lemma history_of_linked: "agg_inv a \<Longrightarrow> successively linked (history_of a s)"
  by (simp add: agg_inv_def history_of_def hist_inv_def)

text \<open>
  C23. In every state the aggregator can reach from its construction by finite-clock ticks and
  flushes, the run of valid bars that the signal engine reads is contiguous: its minutes are
  exactly sixty seconds apart, so no silent minute is hidden inside it.
\<close>

theorem valid_run_contiguous:
  assumes "list_all agg_ok es"
    and run_def: "run = consecutive_valid (fold agg_step es (new_aggregator syms mt n)) s"
  shows "map minute_epoch run = map (\<lambda>k. minute_epoch (hd run) + 60 * int k) [0..<length run]"
  unfolding run_def
  by (rule successively_valid_run [OF successively_suffix [OF consecutive_valid_suffix] consecutive_valid_all])
    (rule history_of_linked [OF agg_reachable_inv [OF assms(1)]])

definition demo_ticks :: "bar_event list" where
  "demo_ticks =
     [Tick ''eurusd'' (Fin 1) (Fin 2) (Fin 1) (Fin 60), Tick ''eurusd'' (Fin 1) (Fin 3) (Fin 1) (Fin 70),
      Tick ''eurusd'' (Fin 1) (Fin 2) (Fin 1) (Fin 121), Tick ''eurusd'' (Fin 1) (Fin 3) (Fin 1) (Fin 130),
      Tick ''eurusd'' (Fin 2) (Fin 2) (Fin 1) (Fin 480), Tick ''eurusd'' (Fin 2) (Fin 3) (Fin 1) (Fin 481),
      Tick ''eurusd'' (Fin 2) (Fin 4) (Fin 1) (Fin 541), Tick ''eurusd'' (Fin 2) (Fin 3) (Fin 1) (Fin 545),
      Flush (Fin 600)]"

theorem valid_run_contiguous_witness:
  "list_all agg_ok demo_ticks
   \<and> (let run = consecutive_valid (fold agg_step demo_ticks (new_aggregator [''eurusd''] 2 10)) ''EURUSD'' in
      map minute_epoch run = map (\<lambda>k. minute_epoch (hd run) + 60 * int k) [0..<length run]
      \<and> map minute_epoch run = [480, 540])"
proof -
  have ok: "list_all agg_ok demo_ticks" by code_simp
  have "map minute_epoch (consecutive_valid (fold agg_step demo_ticks (new_aggregator [''eurusd''] 2 10)) ''EURUSD'')
      = [480, 540]" by code_simp
  then show ?thesis
    using ok valid_run_contiguous [OF ok refl, of "[''eurusd'']" 2 10 "''EURUSD''"] unfolding Let_def by blast
qed

text \<open>
  Accepting a tick in a reachable state returns exactly the bars it finalized: they all belong
  to the tick's symbol, its history is extended by them at the end (only the oldest bars may fall
  off), and no other symbol's history changes. It never raises on a finite clock.
\<close>

theorem ingest_tick_appends:
  assumes "list_all agg_ok es" and "a = fold agg_step es (new_aggregator syms mt n)" and "is_finite ts"
  shows "\<exists>out b. ingest_tick symbol bid ask spread ts a = (Inr out, b)
    \<and> list_all (\<lambda>x. b_symbol x = py_upper symbol) out
    \<and> suffix (history b (py_upper symbol)) (history a (py_upper symbol) @ out)
    \<and> (\<forall>t. t \<noteq> py_upper symbol \<longrightarrow> history b t = history a t)"
proof -
  have inv: "agg_inv a" using agg_reachable_inv [OF assms(1)] assms(2) by simp
  obtain r b where run: "ingest_tick symbol bid ask spread ts a = (r, b)" by fastforce
  from ingest_tick_inv [OF inv assms(3) run] obtain out where o: "r = Inr out"
    "same_others (py_upper symbol) a b" "list_all (\<lambda>x. b_symbol x = py_upper symbol) out"
    "history b = history (fold emit out a)" by blast
  then have "suffix (history b (py_upper symbol)) (history a (py_upper symbol) @ out)"
    using fold_emit_suffix [OF o(3), of a] by simp
  then show ?thesis using run o(1,2,3) by (auto simp: same_others_def)
qed

theorem ingest_tick_appends_witness:
  "\<exists>out b. ingest_tick ''eurusd'' (Fin 2) (Fin 3) (Fin 1) (Fin 605)
      (fold agg_step demo_ticks (new_aggregator [''eurusd''] 2 10)) = (Inr out, b)
    \<and> list_all (\<lambda>x. b_symbol x = py_upper ''eurusd'') out
    \<and> suffix (history b (py_upper ''eurusd''))
        (history (fold agg_step demo_ticks (new_aggregator [''eurusd''] 2 10)) (py_upper ''eurusd'') @ out)
    \<and> (\<forall>t. t \<noteq> py_upper ''eurusd'' \<longrightarrow>
         history b t = history (fold agg_step demo_ticks (new_aggregator [''eurusd''] 2 10)) t)"
proof -
  have "list_all agg_ok demo_ticks" by code_simp
  from ingest_tick_appends [OF this refl, of "Fin 605"] show ?thesis by simp
qed

text \<open>
  After a flush at a finite clock, no bucket of an elapsed minute is left open, the buckets
  still open are untouched, and the flushed bars are exactly what was appended to the histories.
\<close>

theorem flush_stale_closes_elapsed:
  assumes "list_all agg_ok es" and "a = fold agg_step es (new_aggregator syms mt n)"
    and "is_finite now" and "\<not> flt now (Fin 0)"
  shows "\<exists>out b boundary. flush_stale now a = (Inr out, b) \<and> minute_of now = Inr boundary
    \<and> appended out a b
    \<and> (\<forall>t c. map_of (current b) t = Some c \<longrightarrow> map_of (current a) t = Some c \<and> boundary \<le> c_minute c)"
proof -
  have inv: "agg_inv a" using agg_reachable_inv [OF assms(1)] assms(2) by simp
  obtain r b where run: "flush_stale now a = (r, b)" by fastforce
  from flush_stale_inv [OF inv assms(3,4) run] run show ?thesis by blast
qed

theorem flush_stale_closes_elapsed_witness:
  "\<exists>out b boundary. flush_stale (Fin 600) (fold agg_step (butlast demo_ticks) (new_aggregator [''eurusd''] 2 10))
      = (Inr out, b) \<and> minute_of (Fin 600) = Inr boundary
    \<and> appended out (fold agg_step (butlast demo_ticks) (new_aggregator [''eurusd''] 2 10)) b
    \<and> (\<forall>t c. map_of (current b) t = Some c \<longrightarrow>
         map_of (current (fold agg_step (butlast demo_ticks) (new_aggregator [''eurusd''] 2 10))) t = Some c
         \<and> boundary \<le> c_minute c)"
proof -
  have "list_all agg_ok (butlast demo_ticks)" by code_simp
  from flush_stale_closes_elapsed [OF this refl, of "Fin 600"] show ?thesis by simp
qed

text \<open>
  C31. Whatever events arrive, with whatever floats (infinities and NaN included), every bar the
  aggregator marks valid is well formed: low \<le> open, close \<le> high, a positive bid not above the ask,
  the worst spread not below the closing one, at least the configured number of ticks and at least
  one quote change.
\<close>

theorem valid_bars_well_formed:
  "list_all (bar_ok (max 1 mt)) (history_of (fold agg_step es (new_aggregator syms mt n)) s)"
proof -
  have "min_ticks (fold agg_step es (new_aggregator syms mt n)) = max 1 mt"
    using fold_agg_config [of "new_aggregator syms mt n" es] by (simp add: same_config_def new_aggregator_def)
  then show ?thesis
    using agg_reachable_qual [of es syms mt n] by (auto simp: qual_inv_def history_of_def list_all_iff)
qed

text \<open>
  The finalized past is immutable: a tick whose minute was already emitted changes neither the
  history nor the open buckets and returns nothing, whatever it quotes.
\<close>

theorem late_tick_dropped:
  assumes "minute_of ts = Inr k" and "last_emitted_minute a (py_upper symbol) = Some m" and "k \<le> m"
  shows "fst (ingest_tick symbol bid ask spread ts a) = Inr []
    \<and> history (snd (ingest_tick symbol bid ask spread ts a)) = history a
    \<and> current (snd (ingest_tick symbol bid ask spread ts a)) = current a"
  using assms by (simp add: ingest_tick_def Let_def)

theorem late_tick_dropped_witness:
  "fst (ingest_tick ''eurusd'' (Fin 2) (Fin 3) (Fin 1) (Fin 599)
       (fold agg_step demo_ticks (new_aggregator [''eurusd''] 2 10))) = Inr []"
proof -
  have 1: "minute_of (Fin 599) = Inr 540" by code_simp
  have 2: "last_emitted_minute (fold agg_step demo_ticks (new_aggregator [''eurusd''] 2 10)) (py_upper ''eurusd'')
      = Some 540" by code_simp
  from late_tick_dropped [OF 1 2] show ?thesis by simp
qed

section \<open>Aggregated candles\<close>

definition window_of :: "int \<Rightarrow> M1Bar \<Rightarrow> int" where
  "window_of step b = (minute_epoch b div 60) div step"

lemma aggregate_loop_sound:
  assumes "0 < step" and "c \<in> set (aggregate_loop step bs rest)"
    and "\<forall>x \<in> set bs. window_of step x = window_of step (hd bs)"
  shows "\<exists>xs ys zs. bs @ rest = xs @ ys @ zs \<and> c \<in> set (fold_bucket step ys)
    \<and> (\<forall>x \<in> set ys. window_of step x = window_of step (hd ys))"
  using assms(2,3)
proof (induction rest arbitrary: bs)
  case Nil
  then show ?case by (intro exI [of _ "[]"] exI [of _ bs]) simp
next
  case (Cons b rest)
  have w: "((minute_epoch b div 60) div step * step) div step = window_of step b"
    using assms(1) by (simp add: window_of_def)
  show ?case
  proof (cases "bs \<noteq> [] \<and> window_of step (hd bs) \<noteq> window_of step b")
    case True
    then have "c \<in> set (fold_bucket step bs) \<or> c \<in> set (aggregate_loop step [b] rest)"
      using Cons.prems(1) w by (simp add: Let_def window_of_def)
    then show ?thesis
    proof
      assume "c \<in> set (fold_bucket step bs)"
      then show ?thesis using Cons.prems(2) by (intro exI [of _ "[]"] exI [of _ bs] exI [of _ "b # rest"]) simp
    next
      assume "c \<in> set (aggregate_loop step [b] rest)"
      moreover have "\<forall>x \<in> set [b]. window_of step x = window_of step (hd [b])" by simp
      ultimately obtain xs ys zs where "[b] @ rest = xs @ ys @ zs \<and> c \<in> set (fold_bucket step ys)
        \<and> (\<forall>x \<in> set ys. window_of step x = window_of step (hd ys))"
        using Cons.IH [of "[b]"] by meson
      then show ?thesis by (intro exI [of _ "bs @ xs"] exI [of _ ys] exI [of _ zs]) simp
    qed
  next
    case False
    then have "c \<in> set (aggregate_loop step (bs @ [b]) rest)"
      using Cons.prems(1) w by (auto simp: Let_def window_of_def)
    moreover have "\<forall>x \<in> set (bs @ [b]). window_of step x = window_of step (hd (bs @ [b]))"
    proof (cases "bs = []")
      case nonempty: False
      then have "hd (bs @ [b]) = hd bs" "window_of step b = window_of step (hd bs)" using False by auto
      then show ?thesis using Cons.prems(2) by (simp only: set_append) auto
    qed simp
    ultimately show ?thesis using Cons.IH [of "bs @ [b]"] by simp
  qed
qed

lemma increasing_gap:
  fixes xs :: "int list"
  assumes "sorted_wrt (<) xs" and "j < length xs" and "i \<le> j"
  shows "xs ! i + int (j - i) \<le> xs ! j"
  using assms(2,3)
proof (induction j)
  case (Suc j)
  show ?case
  proof (cases "i = Suc j")
    case False
    then have "xs ! i + int (j - i) \<le> xs ! j" using Suc by simp
    moreover have "xs ! j < xs ! Suc j" using Suc.prems(1) by (intro sorted_wrt_nth_less [OF assms(1)]) auto
    ultimately show ?thesis using False Suc.prems by (simp add: Suc_diff_le)
  qed simp
qed simp

lemma full_window:
  fixes xs :: "int list"
  assumes "sorted_wrt (<) xs" and "0 < k" and "int (length xs) = k" and "\<forall>x \<in> set xs. x div k = w"
  shows "xs = map (\<lambda>i. w * k + int i) [0..<length xs]"
proof (rule nth_equalityI)
  fix i assume i: "i < length xs"
  have bounds: "w * k \<le> x \<and> x < w * k + k" if "x \<in> set xs" for x
  proof -
    have "x div k = w" using assms(4) that by blast
    then have "x = w * k + x mod k" using div_mult_mod_eq [of x k] by simp
    then show ?thesis using pos_mod_bound [OF assms(2), of x] pos_mod_sign [OF assms(2), of x] by linarith
  qed
  have "xs ! 0 + int i \<le> xs ! i" using increasing_gap [OF assms(1) i, of 0] by simp
  moreover have "xs ! i + int (length xs - 1 - i) \<le> xs ! (length xs - 1)"
    using i by (intro increasing_gap [OF assms(1)]) auto
  moreover have "w * k \<le> xs ! 0" "xs ! (length xs - 1) < w * k + k"
    using bounds [OF nth_mem, of 0] bounds [OF nth_mem, of "length xs - 1"] i by linarith+
  ultimately have "xs ! i = w * k + int i" using i assms(3) by linarith
  then show "xs ! i = map (\<lambda>i. w * k + int i) [0..<length xs] ! i" using i by simp
qed simp

text \<open>
  C32. On bars in increasing minute order, every aggregated candle stands for a fully observed,
  aligned interval: it is folded from exactly \<open>bar_minutes\<close> neighbouring valid bars of the input,
  whose minute indices are precisely those of one window starting at a multiple of \<open>bar_minutes\<close>.
\<close>

theorem aggregate_bars_full_windows:
  assumes "1 < bar_minutes" and "sorted_wrt (<) (map (\<lambda>b. minute_epoch b div 60) bars)"
    and "c \<in> set (aggregate_bars bars bar_minutes)"
  shows "\<exists>xs ys zs. bars = xs @ ys @ zs \<and> fold_bucket bar_minutes ys = [c] \<and> list_all b_valid ys
    \<and> map (\<lambda>b. minute_epoch b div 60) ys
        = map (\<lambda>i. window_of bar_minutes c * bar_minutes + int i) [0..<nat bar_minutes]"
proof -
  have loop: "c \<in> set (aggregate_loop bar_minutes [] bars)"
    using assms(1,3) by (simp add: aggregate_bars_def Let_def max_def)
  have pos: "0 < bar_minutes" using assms(1) by simp
  from aggregate_loop_sound [OF pos loop] obtain xs ys zs where
    split: "bars = xs @ ys @ zs" and fold: "c \<in> set (fold_bucket bar_minutes ys)"
    and win: "\<forall>x \<in> set ys. window_of bar_minutes x = window_of bar_minutes (hd ys)" by auto
  have len: "int (length ys) = bar_minutes" and val: "list_all b_valid ys" and one: "fold_bucket bar_minutes ys = [c]"
    and cm: "minute_epoch c = minute_epoch (hd ys)"
    using fold by (auto simp: fold_bucket_def Let_def list_all_iff list_ex_iff split: if_splits)
  have "sorted_wrt (<) (map (\<lambda>b. minute_epoch b div 60) ys)"
    using assms(2) split by (simp add: sorted_wrt_append)
  moreover have "\<forall>x \<in> set (map (\<lambda>b. minute_epoch b div 60) ys). x div bar_minutes = window_of bar_minutes c"
    using win cm by (auto simp: window_of_def)
  ultimately have "map (\<lambda>b. minute_epoch b div 60) ys
      = map (\<lambda>i. window_of bar_minutes c * bar_minutes + int i) [0..<length ys]"
    using full_window [OF _ pos, of "map (\<lambda>b. minute_epoch b div 60) ys"] len by simp
  moreover have "nat bar_minutes = length ys" using len by simp
  ultimately show ?thesis using split val one by metis
qed

definition demo_bar :: "int \<Rightarrow> bool \<Rightarrow> M1Bar" where
  "demo_bar minute valid = (invalid_marker ''EURUSD'' minute [])\<lparr>b_valid := valid\<rparr>"

theorem aggregate_bars_full_windows_witness:
  "\<exists>c xs ys zs. map (\<lambda>k. demo_bar (60 * k) (k \<noteq> 7)) [1, 2, 3, 4, 5, 6, 7, 8] = xs @ ys @ zs
    \<and> fold_bucket 3 ys = [c] \<and> list_all b_valid ys
    \<and> map (\<lambda>b. minute_epoch b div 60) ys = map (\<lambda>i. window_of 3 c * 3 + int i) [0..<nat 3]"
proof -
  let ?bars = "map (\<lambda>k. demo_bar (60 * k) (k \<noteq> 7)) [1, 2, 3, 4, 5, 6, 7, 8]"
  have srt: "sorted_wrt (<) (map (\<lambda>b. minute_epoch b div 60) ?bars)" by code_simp
  have "(aggregate_bars ?bars 3) \<noteq> []" by code_simp
  then have "hd (aggregate_bars ?bars 3) \<in> set (aggregate_bars ?bars 3)" by simp
  from aggregate_bars_full_windows [OF _ srt this] show ?thesis by auto
qed

end
