(* ===== verification/Dto.thy ===== *)
theory Dto
  imports Py_Value
begin

text \<open>
  The execution DTOs \<open>runtime/dto.py\<close>: the command record with its unconditional validation, the
  ingress constructors of commands and acknowledgements from raw payloads, and the ownership fields
  put on the wire. Dataclass fields have their annotated types; payloads and metadata stay dynamic.
  A check that fails is \<open>Rejected\<close> with the source's message (the two messages that interpolate a
  number keep their fixed part); a conversion that raises is \<open>Raised\<close>. Two library functions are
  arguments: \<open>uuid5\<close> (the hexadecimal digits of \<open>uuid.uuid5\<close> over the URL namespace) and \<open>loads\<close>
  (\<open>json.loads\<close>, \<open>None\<close> when it raises).
\<close>

datatype dto_error = Rejected string | Raised pyerr

section \<open>Constants\<close>

definition SUPPORTED_COMMANDS :: "string list" where
  "SUPPORTED_COMMANDS = [''BUY'', ''SELL'', ''CLOSE'', ''CLOSE_ALL'', ''CLOSE_PARTIAL'', ''MODIFY_SL'', ''INFO'']"

definition ENTRY_COMMANDS :: "string list" where
  "ENTRY_COMMANDS = [''BUY'', ''SELL'']"

definition TICKET_MANAGEMENT_COMMANDS :: "string list" where
  "TICKET_MANAGEMENT_COMMANDS = [''CLOSE'', ''CLOSE_PARTIAL'', ''MODIFY_SL'']"

definition OWNER_TOKEN_MAX_LENGTH :: nat where
  "OWNER_TOKEN_MAX_LENGTH = 31"

definition DTO_TICKET_OWNER_CONTRACT :: string where
  "DTO_TICKET_OWNER_CONTRACT = ''ticket_owner_v1''"

definition LEGACY_ELBRIDGE_CONTRACT :: string where
  "LEGACY_ELBRIDGE_CONTRACT = ''legacy_elbridge_v1''"

definition PRODUCTION_SCALPER_LANE :: string where
  "PRODUCTION_SCALPER_LANE = ''production_scalper''"

definition OWNER_TOKEN_RE :: "string \<Rightarrow> bool" where
  "OWNER_TOKEN_RE s =
     (1 \<le> length s \<and> length s \<le> OWNER_TOKEN_MAX_LENGTH
      \<and> list_all (\<lambda>c. is_alpha c \<or> is_digit c \<or> c \<in> set ''._:-'') s)"

section \<open>Helpers\<close>

text \<open>A conversion inside a constructor: its exception escapes.\<close>

definition conv :: "pyerr + 'a \<Rightarrow> dto_error + 'a" where
  "conv m = (case m of Inl e \<Rightarrow> Inl (Raised e) | Inr x \<Rightarrow> Inr x)"

definition normalize_intent :: "string \<Rightarrow> pyval \<Rightarrow> string" where
  "normalize_intent cmd raw =
     (let cmd_up = py_upper (py_strip cmd) in
      if norm_text raw \<noteq> [] then py_upper (py_strip (py_str raw))
      else if cmd_up \<in> {''BUY'', ''SELL''} then ''ENTRY''
      else if cmd_up \<in> {''CLOSE'', ''CLOSE_PARTIAL''} then ''EXIT''
      else if cmd_up = ''MODIFY_SL'' then ''ADJUST''
      else if cmd_up = ''CLOSE_ALL'' then ''CLOSE_ALL''
      else if cmd_up = ''INFO'' then ''INFO''
      else ''UNKNOWN'')"

definition finite_positive :: "pyfloat \<Rightarrow> bool" where
  "finite_positive f = (is_finite f \<and> \<not> fle f (Fin 0))"

text \<open>\<open>_require_finite_positive\<close> as the checks it makes.\<close>

definition require_finite_positive :: "pyfloat option \<Rightarrow> string \<Rightarrow> (bool \<times> dto_error) list" where
  "require_finite_positive value field_name =
     [(value = None, Rejected (field_name @ '' is required'')),
      (case value of None \<Rightarrow> False | Some f \<Rightarrow> \<not> finite_positive f,
       Rejected (field_name @ '' must be a finite positive number''))]"

definition coerce_json_mapping :: "(string \<Rightarrow> pyval option) \<Rightarrow> pyval \<Rightarrow> pydict" where
  "coerce_json_mapping loads value =
     (case value of
        VDict d \<Rightarrow> d
      | VStr s \<Rightarrow>
          if py_strip s = [] then []
          else (case loads s of Some (VDict d) \<Rightarrow> d | _ \<Rightarrow> [])
      | _ \<Rightarrow> [])"

definition is_absent :: "pyval \<Rightarrow> bool" where
  "is_absent value = (value = VNone \<or> py_eq value (VStr []))"

definition strict_ack_integer :: "pyval \<Rightarrow> string \<Rightarrow> dto_error + int" where
  "strict_ack_integer value field_name =
     (if is_absent value then Inr (- 1)
      else case value of
        VBool b \<Rightarrow> Inl (Rejected (field_name @ '' must be an integer''))
      | _ \<Rightarrow>
          (case py_float value of
             Inr (Fin r) \<Rightarrow>
               if of_int \<lfloor>r\<rfloor> = r then Inr \<lfloor>r\<rfloor>
               else Inl (Rejected (field_name @ '' must be an integer''))
           | _ \<Rightarrow> Inl (Rejected (field_name @ '' must be an integer''))))"

definition optional_ack_float :: "pyval \<Rightarrow> string \<Rightarrow> dto_error + pyfloat option" where
  "optional_ack_float value field_name =
     (if is_absent value then Inr None
      else case value of
        VBool b \<Rightarrow> Inl (Rejected (field_name @ '' must be a finite number''))
      | _ \<Rightarrow>
          (case py_float value of
             Inr (Fin r) \<Rightarrow> Inr (Some (Fin r))
           | _ \<Rightarrow> Inl (Rejected (field_name @ '' must be a finite number''))))"

definition ack_reasons :: "pyval \<Rightarrow> string list" where
  "ack_reasons value =
     (let values = (case value of VNone \<Rightarrow> [] | VList xs \<Rightarrow> xs | VTuple xs \<Rightarrow> xs | v \<Rightarrow> [v]) in
      py_unique (filter (\<lambda>t. t \<noteq> []) (map norm_text values)))"

definition derived_entry_owner_token :: "(string \<Rightarrow> string) \<Rightarrow> string \<Rightarrow> string \<Rightarrow> int \<Rightarrow> string" where
  "derived_entry_owner_token uuid5 command_id session_id magic =
     (let material = json_dumps (VDict
            [(''command_id'', VStr (py_strip command_id)), (''session_id'', VStr (py_strip session_id)),
             (''magic'', VInt magic)]) in
      ''fxs-'' @ take 18 (uuid5 material))"

definition require_owner_token :: "string \<Rightarrow> dto_error + string" where
  "require_owner_token value =
     (let owner_token = py_strip value in
      if OWNER_TOKEN_RE owner_token then Inr owner_token
      else Inl (Rejected (''owner_token must be 1-31 characters using only letters, digits, ''
        @ [CHR 0x27] @ ''.'' @ [CHR 0x27] @ '', '' @ [CHR 0x27] @ ''_'' @ [CHR 0x27] @ '', ''
        @ [CHR 0x27] @ '':'' @ [CHR 0x27] @ '', or '' @ [CHR 0x27] @ ''-'' @ [CHR 0x27])))"

text \<open>\<open>str(uuid)\<close>: the digits in groups of 8, 4, 4, 4 and 12.\<close>

definition uuid_text :: "string \<Rightarrow> string" where
  "uuid_text h =
     join_str ''-'' [take 8 h, take 4 (drop 8 h), take 4 (drop 12 h), take 4 (drop 16 h), drop 20 h]"

definition opt_float :: "pyfloat option \<Rightarrow> pyval" where
  "opt_float f = (case f of None \<Rightarrow> VNone | Some x \<Rightarrow> VFloat x)"

definition fallback_command_id ::
  "(string \<Rightarrow> string) \<Rightarrow> string \<Rightarrow> string \<Rightarrow> string \<Rightarrow> pyfloat \<Rightarrow> pyfloat \<Rightarrow> pyfloat option \<Rightarrow> pyfloat option
     \<Rightarrow> pyfloat option \<Rightarrow> int \<Rightarrow> string \<Rightarrow> string \<Rightarrow> string \<Rightarrow> string \<Rightarrow> int \<Rightarrow> string \<Rightarrow> string" where
  "fallback_command_id uuid5 session_id cmd symbol lots close_lots tp_cash tp_price sl_price magic
       intent action reversal_token idempotency_key target_ticket owner_token =
     (let material =
            (if py_strip idempotency_key \<noteq> []
             then [(''session_id'', VStr (py_strip session_id)),
                   (''idempotency_key'', VStr (py_strip idempotency_key))]
             else [(''session_id'', VStr (py_strip session_id)),
                   (''cmd'', VStr (py_upper (py_strip cmd))),
                   (''symbol'', VStr (py_upper (py_strip symbol))),
                   (''lots'', VFloat lots), (''close_lots'', VFloat close_lots),
                   (''tp_cash'', opt_float tp_cash), (''tp_price'', opt_float tp_price),
                   (''sl_price'', opt_float sl_price), (''magic'', VInt magic),
                   (''intent'', VStr (py_upper (py_strip intent))),
                   (''action'', VStr (py_strip action)),
                   (''reversal_token'', VStr (py_strip reversal_token)),
                   (''target_ticket'', VInt target_ticket),
                   (''owner_token'', VStr (py_strip owner_token))]) in
      uuid_text (uuid5 (json_dumps (VDict material))))"

section \<open>Commands\<close>

record ExecutionCommand =
  ec_command_id :: string
  ec_session_id :: string
  ec_proto :: string
  ec_cmd :: string
  ec_symbol :: string
  ec_lots :: pyfloat
  ec_tp_cash :: "pyfloat option"
  ec_tp_price :: "pyfloat option"
  ec_sl_price :: "pyfloat option"
  ec_close_lots :: pyfloat
  ec_magic :: int
  ec_target_ticket :: int
  ec_owner_token :: string
  ec_ownership_contract :: string
  ec_intent :: string
  ec_trace_id :: string
  ec_correlation_id :: string
  ec_thread_id :: string
  ec_idempotency_key :: string
  ec_schema_version :: string
  ec_orchestration_meta_json :: pydict
  ec_action :: string
  ec_action_score :: pyfloat
  ec_reversal_token :: string
  ec_status :: string
  ec_created_at :: pyfloat
  ec_updated_at :: pyfloat
  ec_expires_at :: pyfloat
  ec_delivered_count :: int
  ec_payload :: pydict

definition finite_nonneg :: "pyfloat \<Rightarrow> bool" where
  "finite_nonneg f = (is_finite f \<and> \<not> flt f (Fin 0))"

definition base_checks :: "ExecutionCommand \<Rightarrow> (bool \<times> dto_error) list" where
  "base_checks c =
     (let timestamps = [ec_created_at c, ec_updated_at c, ec_expires_at c];
          present = list_ex (\<lambda>v. \<not> feq v (Fin 0)) timestamps in
      [(py_strip (ec_command_id c) = [], Rejected ''command_id is required''),
       (py_strip (ec_cmd c) = [], Rejected ''cmd is required''),
       (py_upper (ec_cmd c) \<notin> set SUPPORTED_COMMANDS, Rejected (''unsupported cmd: '' @ ec_cmd c)),
       (\<not> finite_nonneg (ec_lots c), Rejected ''lots must be a finite non-negative number''),
       (\<not> finite_nonneg (ec_close_lots c), Rejected ''close_lots must be a finite non-negative number''),
       (case ec_tp_cash c of None \<Rightarrow> False | Some f \<Rightarrow> \<not> is_finite f, Rejected ''tp_cash must be finite''),
       (\<not> is_finite (ec_action_score c), Rejected ''action_score must be finite''),
       (list_ex (\<lambda>v. \<not> is_finite v) timestamps, Rejected ''command timestamps must be finite''),
       (present \<and> list_ex (\<lambda>v. fle v (Fin 0)) timestamps,
        Rejected ''command timestamps must all be positive when present''),
       (present \<and> fle (ec_expires_at c) (ec_created_at c),
        Rejected ''expires_at must be later than created_at'')])"

text \<open>The entry deadline: \<open>None\<close> when it is not a representable integer time.\<close>

definition entry_deadline :: "pyval \<Rightarrow> rat option" where
  "entry_deadline raw =
     (case raw of VBool b \<Rightarrow> None
      | _ \<Rightarrow>
          (case py_float raw of
             Inr (Fin d) \<Rightarrow> if 0 < d \<and> of_int \<lfloor>d\<rfloor> = d \<and> d \<le> 2147483647 then Some d else None
           | _ \<Rightarrow> None))"

definition scalper_checks :: "ExecutionCommand \<Rightarrow> (bool \<times> dto_error) list" where
  "scalper_checks c =
     (let payload = ec_payload c; deadline = entry_deadline (dget payload ''entry_deadline_epoch'') in
      [(norm_lower (dget payload ''execution_type'') \<noteq> ''market'',
        Rejected ''production scalp entries must use execution_type=market''),
       (dget payload ''pending_orders_forbidden'' \<noteq> VBool True,
        Rejected ''production scalp entries must forbid pending orders''),
       (deadline = None, Rejected ''entry_deadline_epoch must be an integer''),
       (case deadline of None \<Rightarrow> False
        | Some d \<Rightarrow> flt (Fin 0) (ec_created_at c) \<and> flt (Fin d) (ec_expires_at c),
        Rejected ''expires_at cannot exceed entry_deadline_epoch'')])"

definition claims_production_scalper :: "pydict \<Rightarrow> pyval \<Rightarrow> bool" where
  "claims_production_scalper payload intent =
     (norm_lower (dget payload ''strategy_lane'') = PRODUCTION_SCALPER_LANE
      \<or> norm_lower (py_or (dget payload ''intent'') intent) = ''production_scalper_entry'')"

definition owner_token_checks :: "string \<Rightarrow> (bool \<times> dto_error) list" where
  "owner_token_checks token =
     (case require_owner_token token of Inl e \<Rightarrow> [(True, e)] | Inr t \<Rightarrow> [])"

definition entry_checks :: "ExecutionCommand \<Rightarrow> (bool \<times> dto_error) list" where
  "entry_checks c =
     require_finite_positive (Some (ec_lots c)) ''lots''
     @ [(ec_magic c \<le> 0, Rejected ''magic must be a positive integer for exposure-increasing commands'')]
     @ (if py_strip (ec_owner_token c) \<noteq> [] \<or> py_strip (ec_ownership_contract c) \<noteq> []
        then owner_token_checks (ec_owner_token c)
          @ [(ec_ownership_contract c \<noteq> DTO_TICKET_OWNER_CONTRACT,
              Rejected (''ownership_contract must be '' @ DTO_TICKET_OWNER_CONTRACT
                @ '' for exposure-increasing commands''))]
        else [])
     @ (if truthy (dget (ec_payload c) ''entry_protection_required'')
        then require_finite_positive (ec_sl_price c) ''sl_price''
          @ require_finite_positive (ec_tp_price c) ''tp_price''
        else [])
     @ (if claims_production_scalper (ec_payload c) (VStr (ec_intent c)) then scalper_checks c else [])"

definition strict_requested :: "int \<Rightarrow> string \<Rightarrow> pydict \<Rightarrow> bool \<Rightarrow> bool" where
  "strict_requested target_ticket owner_token payload production_scalper =
     (0 \<le> target_ticket \<or> py_strip owner_token \<noteq> [] \<or> dhas payload ''target_ticket''
      \<or> dhas payload ''owner_token'' \<or> production_scalper)"

definition management_checks :: "string \<Rightarrow> ExecutionCommand \<Rightarrow> (bool \<times> dto_error) list" where
  "management_checks cmd c =
     [(ec_magic c \<le> 0, Rejected (''magic must be a positive integer for '' @ cmd))]
     @ (if strict_requested (ec_target_ticket c) (ec_owner_token c) (ec_payload c)
             (norm_lower (dget (ec_payload c) ''strategy_lane'') = PRODUCTION_SCALPER_LANE)
        then [(ec_target_ticket c \<le> 0,
               Rejected (''target_ticket must be a positive broker ticket for '' @ cmd))]
          @ owner_token_checks (ec_owner_token c)
          @ [(ec_ownership_contract c \<noteq> DTO_TICKET_OWNER_CONTRACT,
              Rejected (''ownership_contract must be '' @ DTO_TICKET_OWNER_CONTRACT @ '' for '' @ cmd))]
        else [(ec_ownership_contract c \<noteq> [] \<and> ec_ownership_contract c \<noteq> LEGACY_ELBRIDGE_CONTRACT,
               Rejected (''legacy '' @ cmd @ '' must use the isolated '' @ LEGACY_ELBRIDGE_CONTRACT
                 @ '' contract''))])"

definition price_checks :: "ExecutionCommand \<Rightarrow> (bool \<times> dto_error) list" where
  "price_checks c =
     [(case ec_tp_price c of None \<Rightarrow> False | Some f \<Rightarrow> \<not> finite_positive f,
       Rejected ''tp_price must be a finite positive number''),
      (case ec_sl_price c of None \<Rightarrow> False | Some f \<Rightarrow> \<not> finite_positive f,
       Rejected ''sl_price must be a finite positive number'')]"

definition validate_checks :: "ExecutionCommand \<Rightarrow> (bool \<times> dto_error) list" where
  "validate_checks c =
     (let cmd = py_upper (ec_cmd c) in
      base_checks c
      @ [(cmd \<in> {''BUY'', ''SELL'', ''CLOSE'', ''CLOSE_PARTIAL'', ''MODIFY_SL''} \<and> py_strip (ec_symbol c) = [],
          Rejected (''symbol is required for '' @ cmd))]
      @ (if cmd \<in> set ENTRY_COMMANDS then entry_checks c else [])
      @ (if cmd \<in> set TICKET_MANAGEMENT_COMMANDS then management_checks cmd c else [])
      @ [(cmd = ''CLOSE_ALL'' \<and> ec_magic c \<le> 0, Rejected ''magic must be a positive integer for CLOSE_ALL'')]
      @ (if cmd = ''CLOSE_PARTIAL''
         then require_finite_positive
           (Some (if flt (Fin 0) (ec_close_lots c) then ec_close_lots c else ec_lots c)) ''close_lots''
         else [])
      @ (if cmd = ''MODIFY_SL'' then require_finite_positive (ec_sl_price c) ''sl_price'' else [])
      @ price_checks c)"

definition validate :: "ExecutionCommand \<Rightarrow> dto_error + unit" where
  "validate c = first_error (validate_checks c)"

section \<open>Ingress\<close>

text \<open>\<open>None if payload.get(k) is None else float(payload.get(k))\<close>.\<close>

definition opt_payload_float :: "pydict \<Rightarrow> string \<Rightarrow> dto_error + pyfloat option" where
  "opt_payload_float payload k =
     (case dget payload k of VNone \<Rightarrow> Inr None
      | v \<Rightarrow> ebind (conv (py_float v)) (\<lambda>f. Inr (Some f)))"

definition payload_int :: "pydict \<Rightarrow> string \<Rightarrow> int \<Rightarrow> dto_error + int" where
  "payload_int payload k d =
     (case dget payload k of VNone \<Rightarrow> Inr d | v \<Rightarrow> conv (py_int v))"

text \<open>\<open>float(payload.get(k, d) or d)\<close>.\<close>

definition payload_float :: "pydict \<Rightarrow> string \<Rightarrow> pyval \<Rightarrow> pyfloat \<Rightarrow> dto_error + pyfloat" where
  "payload_float payload k v d = conv (py_float (py_or (dget_default payload k v) (VFloat d)))"

text \<open>The lifetime granted to an entry of the production scalper: at most up to its deadline.\<close>

definition scalper_ttl :: "pydict \<Rightarrow> pyfloat \<Rightarrow> pyfloat \<Rightarrow> dto_error + (int \<times> pyfloat)" where
  "scalper_ttl payload now ttl =
     (if norm_lower (dget payload ''execution_type'') \<noteq> ''market''
      then Inl (Rejected ''production scalp entries must use execution_type=market'')
      else if dget payload ''pending_orders_forbidden'' \<noteq> VBool True
      then Inl (Rejected ''production scalp entries must forbid pending orders'')
      else case entry_deadline (dget payload ''entry_deadline_epoch'') of
        None \<Rightarrow> Inl (Rejected ''entry_deadline_epoch must be an integer'')
      | Some d \<Rightarrow>
          let remaining = fsub (Fin d) now in
          if fle remaining (Fin 0) then Inl (Rejected ''entry_deadline_epoch has expired'')
          else Inr (\<lfloor>d\<rfloor>, fmin ttl remaining))"

definition ownership_contract_for :: "string \<Rightarrow> bool \<Rightarrow> string" where
  "ownership_contract_for cmd strict_ownership =
     (if strict_ownership then DTO_TICKET_OWNER_CONTRACT
      else if cmd \<in> set TICKET_MANAGEMENT_COMMANDS \<or> cmd = ''CLOSE_ALL'' then LEGACY_ELBRIDGE_CONTRACT
      else [])"

definition normalize_payload :: "pydict \<Rightarrow> int \<Rightarrow> string \<Rightarrow> int \<Rightarrow> string \<Rightarrow> pydict" where
  "normalize_payload payload magic owner_token target_ticket contract =
     (let p1 = dput ''magic'' (VInt magic) payload;
          p2 = (if owner_token \<noteq> [] then dput ''owner_token'' (VStr owner_token) p1 else p1);
          p3 = (if 0 < target_ticket then dput ''target_ticket'' (VInt target_ticket) p2 else p2) in
      if contract \<noteq> [] then dput ''ownership_contract'' (VStr contract) p3 else p3)"

definition scalper_payload :: "int \<Rightarrow> pydict \<Rightarrow> pydict" where
  "scalper_payload deadline payload =
     dput ''entry_deadline_epoch'' (VInt deadline)
       (dput ''pending_orders_forbidden'' (VBool True)
         (dput ''execution_type'' (VStr ''market'') payload))"

text \<open>The lifetime checks of the server: the ttl and the created-at metadata.\<close>

definition requested_lifetime :: "pydict \<Rightarrow> pyfloat \<Rightarrow> pyfloat \<Rightarrow> dto_error + pyfloat" where
  "requested_lifetime payload server_ttl now =
     (if \<not> finite_positive server_ttl
      then Inl (Rejected ''server command ttl_secs must be a finite positive number'')
      else ebind (payload_float payload ''created_at'' (VFloat now) now) (\<lambda>requested_created_at.
        if \<not> finite_positive requested_created_at
        then Inl (Rejected ''created_at must be a finite positive timestamp'')
        else if flt (fadd now (Fin 5)) requested_created_at
        then Inl (Rejected ''created_at cannot be in the future'')
        else ebind (payload_float payload ''ttl_secs'' (VFloat server_ttl) server_ttl) (\<lambda>requested_ttl.
          if \<not> finite_positive requested_ttl
          then Inl (Rejected ''ttl_secs must be a finite positive number'')
          else if flt server_ttl requested_ttl
          then Inl (Rejected ''ttl_secs cannot exceed the server limit'')
          else Inr requested_ttl)))"

text \<open>The fields of a command that are read before its lifetime is decided.\<close>

definition from_payload_head ::
  "(string \<Rightarrow> string) \<Rightarrow> (string \<Rightarrow> pyval option) \<Rightarrow> pydict \<Rightarrow> string \<Rightarrow> pyfloat \<Rightarrow> dto_error + ExecutionCommand" where
  "from_payload_head uuid5 loads payload default_session_id now =
     (let cmd = py_upper (py_strip (py_str (dget_default payload ''cmd'' (VStr []))));
          sid = py_strip (py_str (py_or (dget payload ''session_id'') (VStr default_session_id)));
          session_id = (if sid = [] then default_session_id else sid);
          symbol = py_upper (py_strip (py_str (dget_default payload ''symbol'' (VStr [])))) in
      ebind (payload_float payload ''lots'' (VFloat (Fin 0)) (Fin 0)) (\<lambda>lots.
      ebind (payload_float payload ''close_lots'' (dget_default payload ''lots'' (VFloat (Fin 0))) (Fin 0)) (\<lambda>close_lots.
      ebind (opt_payload_float payload ''tp_cash'') (\<lambda>tp_cash.
      ebind (opt_payload_float payload ''tp_price'') (\<lambda>tp_price.
      ebind (opt_payload_float payload ''sl_price'') (\<lambda>sl_price.
      ebind (payload_int payload ''magic'' 246810) (\<lambda>magic.
      ebind (payload_int payload ''target_ticket'' (- 1)) (\<lambda>target_ticket.
        let token = norm_text (dget payload ''owner_token'');
            intent = normalize_intent cmd (dget payload ''intent'');
            action = str_or_empty (dget payload ''action'');
            reversal_token = str_or_empty (dget payload ''reversal_token'');
            idempotency_key = str_or_empty (dget payload ''idempotency_key'');
            command_id = py_str (py_or (dget payload ''command_id'') (py_or (dget payload ''id'')
              (py_or (dget payload ''signal_id'')
                (VStr (fallback_command_id uuid5 session_id cmd symbol lots close_lots tp_cash tp_price
                  sl_price magic intent action reversal_token idempotency_key target_ticket token)))));
            owner_token = (if cmd \<in> set ENTRY_COMMANDS \<and> token = []
              then derived_entry_owner_token uuid5 command_id session_id magic else token);
            production_scalper = claims_production_scalper payload VNone;
            strict_ownership = (cmd \<in> set ENTRY_COMMANDS
              \<or> (cmd \<in> set TICKET_MANAGEMENT_COMMANDS
                 \<and> (dhas payload ''target_ticket'' \<or> dhas payload ''owner_token'' \<or> 0 \<le> target_ticket
                    \<or> owner_token \<noteq> [] \<or> production_scalper)));
            contract = ownership_contract_for cmd strict_ownership in
        Inr \<lparr>ec_command_id = command_id, ec_session_id = session_id, ec_proto = ''v2'', ec_cmd = cmd,
          ec_symbol = symbol, ec_lots = lots, ec_tp_cash = tp_cash, ec_tp_price = tp_price,
          ec_sl_price = sl_price, ec_close_lots = close_lots, ec_magic = magic,
          ec_target_ticket = target_ticket, ec_owner_token = owner_token,
          ec_ownership_contract = contract, ec_intent = intent,
          ec_trace_id = py_str (py_or (dget payload ''trace_id'') (VStr command_id)),
          ec_correlation_id = str_or_empty (dget payload ''correlation_id''),
          ec_thread_id = str_or_empty (dget payload ''thread_id''),
          ec_idempotency_key = idempotency_key,
          ec_schema_version = str_or_empty (dget payload ''schema_version''),
          ec_orchestration_meta_json = coerce_json_mapping loads (dget payload ''orchestration_meta_json''),
          ec_action = action, ec_action_score = Fin 0, ec_reversal_token = reversal_token,
          ec_status = ''queued'', ec_created_at = now, ec_updated_at = now, ec_expires_at = now,
          ec_delivered_count = 0,
          ec_payload = normalize_payload payload magic owner_token target_ticket contract\<rparr>))))))))"

text \<open>The granted lifetime and the payload it is recorded in.\<close>

definition granted_lifetime ::
  "pydict \<Rightarrow> ExecutionCommand \<Rightarrow> pyfloat \<Rightarrow> pyfloat \<Rightarrow> dto_error + (pyfloat \<times> pydict)" where
  "granted_lifetime payload c0 now requested_ttl =
     (if claims_production_scalper payload VNone \<and> ec_cmd c0 \<in> set ENTRY_COMMANDS
      then ebind (scalper_ttl payload now requested_ttl)
        (\<lambda>(deadline, ttl). Inr (ttl, scalper_payload deadline (ec_payload c0)))
      else Inr (requested_ttl, ec_payload c0))"

definition from_payload ::
  "(string \<Rightarrow> string) \<Rightarrow> (string \<Rightarrow> pyval option) \<Rightarrow> pydict \<Rightarrow> string \<Rightarrow> pyfloat \<Rightarrow> pyfloat
     \<Rightarrow> dto_error + ExecutionCommand" where
  "from_payload uuid5 loads payload default_session_id ttl_secs now =
     ebind (from_payload_head uuid5 loads payload default_session_id now) (\<lambda>c0.
     ebind (requested_lifetime payload ttl_secs now) (\<lambda>requested_ttl.
     ebind (granted_lifetime payload c0 now requested_ttl) (\<lambda>(ttl, payload1).
     ebind (payload_float payload ''action_score'' (VFloat (Fin 0)) (Fin 0)) (\<lambda>action_score.
       let c = c0\<lparr>ec_action_score := action_score, ec_expires_at := fadd now ttl, ec_payload := payload1\<rparr> in
       ebind (validate c) (\<lambda>_. Inr c)))))"

definition to_dict :: "ExecutionCommand \<Rightarrow> pydict" where
  "to_dict c =
     [(''command_id'', VStr (ec_command_id c)), (''session_id'', VStr (ec_session_id c)),
      (''proto'', VStr (ec_proto c)), (''cmd'', VStr (ec_cmd c)), (''symbol'', VStr (ec_symbol c)),
      (''lots'', VFloat (ec_lots c)), (''tp_cash'', opt_float (ec_tp_cash c)),
      (''tp_price'', opt_float (ec_tp_price c)), (''sl_price'', opt_float (ec_sl_price c)),
      (''close_lots'', VFloat (ec_close_lots c)), (''magic'', VInt (ec_magic c)),
      (''target_ticket'', VInt (ec_target_ticket c)), (''owner_token'', VStr (ec_owner_token c)),
      (''ownership_contract'', VStr (ec_ownership_contract c)), (''intent'', VStr (ec_intent c)),
      (''trace_id'', VStr (ec_trace_id c)), (''correlation_id'', VStr (ec_correlation_id c)),
      (''thread_id'', VStr (ec_thread_id c)), (''idempotency_key'', VStr (ec_idempotency_key c)),
      (''schema_version'', VStr (ec_schema_version c)),
      (''orchestration_meta_json'', VDict (ec_orchestration_meta_json c)),
      (''action'', VStr (ec_action c)), (''action_score'', VFloat (ec_action_score c)),
      (''reversal_token'', VStr (ec_reversal_token c)), (''status'', VStr (ec_status c)),
      (''created_at'', VFloat (ec_created_at c)), (''updated_at'', VFloat (ec_updated_at c)),
      (''expires_at'', VFloat (ec_expires_at c)), (''delivered_count'', VInt (ec_delivered_count c)),
      (''payload'', VDict (ec_payload c))]"

definition command_ownership_fields ::
  "(string \<Rightarrow> string) \<Rightarrow> ExecutionCommand \<Rightarrow> dto_error + (string \<times> int \<times> string)" where
  "command_ownership_fields uuid5 c =
     (let payload = ec_payload c; cmd = py_upper (py_strip (ec_cmd c)); magic = ec_magic c in
      ebind (if ec_target_ticket c < 0 then payload_int payload ''target_ticket'' (ec_target_ticket c)
             else Inr (ec_target_ticket c)) (\<lambda>target_ticket.
        let own = py_strip (ec_owner_token c);
            owner_token = (if own = [] then norm_text (dget payload ''owner_token'') else own);
            scalper = (norm_lower (dget payload ''strategy_lane'') = PRODUCTION_SCALPER_LANE) in
        if cmd \<in> set ENTRY_COMMANDS then
          (if magic \<le> 0
           then Inl (Rejected ''magic must be a positive integer for exposure-increasing commands'')
           else ebind (require_owner_token
               (if owner_token = [] then derived_entry_owner_token uuid5 (ec_command_id c) (ec_session_id c) magic
                else owner_token)) (\<lambda>t. Inr (DTO_TICKET_OWNER_CONTRACT, - 1, t)))
        else if cmd \<in> set TICKET_MANAGEMENT_COMMANDS then
          (if strict_requested target_ticket owner_token payload scalper then
             (if target_ticket \<le> 0
              then Inl (Rejected (''target_ticket must be a positive broker ticket for '' @ cmd))
              else if magic \<le> 0 then Inl (Rejected (''magic must be a positive integer for '' @ cmd))
              else ebind (require_owner_token owner_token) (\<lambda>t. Inr (DTO_TICKET_OWNER_CONTRACT, target_ticket, t)))
           else if magic \<le> 0 then Inl (Rejected (''magic must be a positive integer for legacy '' @ cmd))
           else Inr (LEGACY_ELBRIDGE_CONTRACT, - 1, []))
        else if cmd = ''CLOSE_ALL'' then
          (if magic \<le> 0 then Inl (Rejected ''magic must be a positive integer for legacy CLOSE_ALL'')
           else Inr (LEGACY_ELBRIDGE_CONTRACT, - 1, []))
        else Inr ([], - 1, [])))"

section \<open>Acknowledgements\<close>

record ExecutionAck =
  ak_command_id :: string
  ak_status :: string
  ak_symbol :: string
  ak_ticket :: int
  ak_magic :: int
  ak_owner_token :: string
  ak_broker_symbol :: string
  ak_cmd :: string
  ak_side :: string
  ak_execution_type :: string
  ak_mutation_state :: string
  ak_target_ticket :: int
  ak_actual_lots :: "pyfloat option"
  ak_actual_open_price :: "pyfloat option"
  ak_actual_sl_price :: "pyfloat option"
  ak_actual_tp_price :: "pyfloat option"
  ak_order_comment :: string
  ak_attestation_reasons :: "string list"
  ak_error_code :: int
  ak_message :: string
  ak_trace_id :: string
  ak_correlation_id :: string
  ak_thread_id :: string
  ak_idempotency_key :: string
  ak_schema_version :: string
  ak_orchestration_meta_json :: pydict
  ak_updated_at :: pyfloat
  ak_count_as_trade :: bool
  ak_raw :: pydict

definition ack_status_of :: "string \<Rightarrow> dto_error + string" where
  "ack_status_of raw_status =
     (if raw_status = [] then Inl (Rejected ''ack status is required'')
      else if raw_status \<in> {''ok'', ''success'', ''done'', ''executed'', ''filled'', ''acked''} then Inr ''acked''
      else if raw_status \<in> {''failed'', ''error'', ''rejected''} then Inr ''failed''
      else if raw_status \<in> {''delivered'', ''queued'', ''retry''} then Inr ''delivered''
      else if raw_status = ''duplicate'' then Inr ''duplicate''
      else if raw_status \<in> {''reconcile_required'', ''reconciliation_required'', ''execution_uncertain''}
      then Inr ''reconcile_required''
      else Inl (Rejected (''unsupported ack status: '' @ raw_status)))"

text \<open>\<open>payload.get(a, payload.get(b))\<close> and \<open>payload.get(a) or payload.get(b)\<close>.\<close>

definition get_either :: "pydict \<Rightarrow> string \<Rightarrow> string \<Rightarrow> pyval" where
  "get_either payload a b = dget_default payload a (dget payload b)"

definition or_either :: "pydict \<Rightarrow> string \<Rightarrow> string \<Rightarrow> pyval" where
  "or_either payload a b = py_or (dget payload a) (dget payload b)"

definition ack_from_payload ::
  "(string \<Rightarrow> pyval option) \<Rightarrow> pydict \<Rightarrow> pyfloat \<Rightarrow> dto_error + ExecutionAck" where
  "ack_from_payload loads payload now =
     ebind (ack_status_of (py_lower (py_strip (py_str (dget_default payload ''status'' (VStr [])))))) (\<lambda>status.
     ebind (strict_ack_integer (get_either payload ''ticket'' ''actual_ticket'') ''ticket'') (\<lambda>ticket.
     ebind (strict_ack_integer (dget payload ''magic'') ''magic'') (\<lambda>magic.
     ebind (strict_ack_integer (get_either payload ''target_ticket'' ''actual_target_ticket'') ''target_ticket'')
       (\<lambda>target_ticket.
     let mutation_state = norm_lower (dget payload ''mutation_state'') in
     if mutation_state \<noteq> []
        \<and> mutation_state \<notin> {''not_attempted'', ''attempted'', ''confirmed'', ''unknown''}
     then Inl (Rejected ''unsupported mutation_state'')
     else
     ebind (optional_ack_float (get_either payload ''actual_lots'' ''lots'') ''actual_lots'') (\<lambda>lots.
     ebind (optional_ack_float (get_either payload ''actual_open_price'' ''open_price'') ''actual_open_price'') (\<lambda>op.
     ebind (optional_ack_float (get_either payload ''actual_sl_price'' ''sl_price'') ''actual_sl_price'') (\<lambda>slp.
     ebind (optional_ack_float (get_either payload ''actual_tp_price'' ''tp_price'') ''actual_tp_price'') (\<lambda>tpp.
     ebind (conv (py_int (py_or (dget payload ''error_code'') (VInt 0)))) (\<lambda>error_code.
       let ack = \<lparr>
         ak_command_id = str_or_empty (py_or (dget payload ''command_id'')
           (or_either payload ''id'' ''signal_id'')),
         ak_status = status, ak_symbol = py_str (dget_default payload ''symbol'' (VStr [])),
         ak_ticket = ticket, ak_magic = magic, ak_owner_token = norm_text (dget payload ''owner_token''),
         ak_broker_symbol = norm_text (or_either payload ''broker_symbol'' ''actual_broker_symbol''),
         ak_cmd = norm_upper (or_either payload ''cmd'' ''actual_cmd''),
         ak_side = norm_upper (or_either payload ''side'' ''actual_side''),
         ak_execution_type = norm_lower (or_either payload ''execution_type'' ''actual_execution_type''),
         ak_mutation_state = mutation_state, ak_target_ticket = target_ticket,
         ak_actual_lots = lots, ak_actual_open_price = op, ak_actual_sl_price = slp,
         ak_actual_tp_price = tpp,
         ak_order_comment = str_or_empty (or_either payload ''order_comment'' ''actual_order_comment''),
         ak_attestation_reasons = ack_reasons (or_either payload ''attestation_reasons'' ''attestation_reason''),
         ak_error_code = error_code,
         ak_message = str_or_empty (py_or (dget payload ''message'') (or_either payload ''status_reason'' ''error'')),
         ak_trace_id = py_str (dget_default payload ''trace_id'' (VStr [])),
         ak_correlation_id = str_or_empty (dget payload ''correlation_id''),
         ak_thread_id = str_or_empty (dget payload ''thread_id''),
         ak_idempotency_key = str_or_empty (dget payload ''idempotency_key''),
         ak_schema_version = str_or_empty (dget payload ''schema_version''),
         ak_orchestration_meta_json = coerce_json_mapping loads (dget payload ''orchestration_meta_json''),
         ak_updated_at = now, ak_count_as_trade = (status = ''acked'' \<and> 0 < ticket), ak_raw = payload\<rparr> in
       if py_strip (ak_command_id ack) = [] \<and> py_strip (ak_idempotency_key ack) = []
       then Inl (Rejected ''ack command_id or idempotency_key is required'')
       else Inr ack)))))))))"

definition ack_to_dict :: "ExecutionAck \<Rightarrow> pydict" where
  "ack_to_dict a =
     [(''command_id'', VStr (ak_command_id a)), (''status'', VStr (ak_status a)),
      (''symbol'', VStr (ak_symbol a)), (''ticket'', VInt (ak_ticket a)), (''magic'', VInt (ak_magic a)),
      (''owner_token'', VStr (ak_owner_token a)), (''broker_symbol'', VStr (ak_broker_symbol a)),
      (''cmd'', VStr (ak_cmd a)), (''side'', VStr (ak_side a)),
      (''execution_type'', VStr (ak_execution_type a)),
      (''mutation_state'', VStr (ak_mutation_state a)), (''target_ticket'', VInt (ak_target_ticket a)),
      (''actual_lots'', opt_float (ak_actual_lots a)),
      (''actual_open_price'', opt_float (ak_actual_open_price a)),
      (''actual_sl_price'', opt_float (ak_actual_sl_price a)),
      (''actual_tp_price'', opt_float (ak_actual_tp_price a)),
      (''order_comment'', VStr (ak_order_comment a)),
      (''attestation_reasons'', VList (map VStr (ak_attestation_reasons a))),
      (''error_code'', VInt (ak_error_code a)), (''message'', VStr (ak_message a)),
      (''trace_id'', VStr (ak_trace_id a)), (''correlation_id'', VStr (ak_correlation_id a)),
      (''thread_id'', VStr (ak_thread_id a)), (''idempotency_key'', VStr (ak_idempotency_key a)),
      (''schema_version'', VStr (ak_schema_version a)),
      (''orchestration_meta_json'', VDict (ak_orchestration_meta_json a)),
      (''updated_at'', VFloat (ak_updated_at a)), (''count_as_trade'', VBool (ak_count_as_trade a)),
      (''raw'', VDict (ak_raw a))]"

section \<open>Facts\<close>

lemma if_Inl_Inr: "((if b then Inl e else m) = Inr y) = (\<not> b \<and> m = Inr y)"
  by simp

lemma py_strip_idem [simp]: "py_strip (py_strip s) = py_strip s"
proof -
  define t where "t = dropWhile is_space s"
  have l: "t = [] \<or> \<not> is_space (hd t)" unfolding t_def using hd_dropWhile by blast
  define u where "u = rev (dropWhile is_space (rev t))"
  obtain w where w: "rev t = w @ rev u" "dropWhile is_space (rev t) = rev u"
    unfolding u_def by (metis rev_rev_ident takeWhile_dropWhile_id)
  then have tu: "t = u @ rev w" by (metis rev_append rev_rev_ident)
  have "dropWhile is_space u = u"
  proof (cases u)
    case (Cons x xs)
    then have "\<not> is_space x" using l tu by auto
    then show ?thesis using Cons by simp
  qed simp
  moreover have "dropWhile is_space (rev u) = rev u"
    using w(2) by (metis dropWhile_idem)
  ultimately show ?thesis
    unfolding py_strip_def py_lstrip_def t_def [symmetric] u_def [symmetric] by simp
qed

lemma require_owner_token_Inr: "require_owner_token v = Inr t \<longleftrightarrow> t = py_strip v \<and> OWNER_TOKEN_RE t"
  by (auto simp: require_owner_token_def Let_def)

lemma owner_token_checks_ok: "list_all (\<lambda>c. \<not> fst c) (owner_token_checks v) \<longleftrightarrow> OWNER_TOKEN_RE (py_strip v)"
  by (auto simp: owner_token_checks_def require_owner_token_def Let_def)

lemma require_finite_positive_ok:
  "list_all (\<lambda>c. \<not> fst c) (require_finite_positive v n) \<longleftrightarrow> (\<exists>f. v = Some f \<and> finite_positive f)"
  by (cases v) (simp_all add: require_finite_positive_def)

lemmas checks_ok = owner_token_checks_ok require_finite_positive_ok first_error_Inr

lemma validate_base:
  assumes "validate c = Inr ()"
  shows "list_all (\<lambda>p. \<not> fst p) (base_checks c)"
    and "py_upper (ec_cmd c) \<in> set ENTRY_COMMANDS \<Longrightarrow> list_all (\<lambda>p. \<not> fst p) (entry_checks c)"
    and "py_upper (ec_cmd c) \<in> set TICKET_MANAGEMENT_COMMANDS \<Longrightarrow>
      list_all (\<lambda>p. \<not> fst p) (management_checks (py_upper (ec_cmd c)) c)"
    and "py_upper (ec_cmd c) \<in> set SUPPORTED_COMMANDS - {''CLOSE_ALL'', ''INFO''} \<Longrightarrow> py_strip (ec_symbol c) \<noteq> []"
  using assms
  by (auto simp: validate_def first_error_Inr validate_checks_def Let_def SUPPORTED_COMMANDS_def split: if_splits)

lemma validate_entryD:
  assumes "validate c = Inr ()" and "py_upper (ec_cmd c) \<in> set ENTRY_COMMANDS"
  shows "finite_positive (ec_lots c)" and "0 < ec_magic c"
    and "py_strip (ec_owner_token c) \<noteq> [] \<or> py_strip (ec_ownership_contract c) \<noteq> [] \<Longrightarrow>
      OWNER_TOKEN_RE (py_strip (ec_owner_token c)) \<and> ec_ownership_contract c = DTO_TICKET_OWNER_CONTRACT"
    and "claims_production_scalper (ec_payload c) (VStr (ec_intent c)) \<Longrightarrow> list_all (\<lambda>p. \<not> fst p) (scalper_checks c)"
  using validate_base(2) [OF assms] by (auto simp: entry_checks_def checks_ok split: if_splits)

lemma validate_managementD:
  assumes "validate c = Inr ()" and "py_upper (ec_cmd c) \<in> set TICKET_MANAGEMENT_COMMANDS"
    and "strict = strict_requested (ec_target_ticket c) (ec_owner_token c) (ec_payload c)
             (norm_lower (dget (ec_payload c) ''strategy_lane'') = PRODUCTION_SCALPER_LANE)"
  shows "0 < ec_magic c"
    and "strict \<Longrightarrow> 0 < ec_target_ticket c \<and> OWNER_TOKEN_RE (py_strip (ec_owner_token c))
      \<and> ec_ownership_contract c = DTO_TICKET_OWNER_CONTRACT"
    and "\<not> strict \<Longrightarrow> ec_ownership_contract c = [] \<or> ec_ownership_contract c = LEGACY_ELBRIDGE_CONTRACT"
  using validate_base(3) [OF assms(1,2)] assms(3)
  by (auto simp: management_checks_def checks_ok split: if_splits)

lemma timestampsD:
  assumes "validate c = Inr ()" and "\<not> feq (ec_created_at c) (Fin 0)"
  shows "finite_positive (ec_created_at c)" and "is_finite (ec_expires_at c)"
    and "flt (ec_created_at c) (ec_expires_at c)"
proof -
  have b: "list_all (\<lambda>p. \<not> fst p) (base_checks c)" by (rule validate_base(1) [OF assms(1)])
  then have f: "is_finite (ec_created_at c)" "is_finite (ec_expires_at c)"
    and p: "\<not> fle (ec_created_at c) (Fin 0)" "\<not> fle (ec_expires_at c) (ec_created_at c)"
    using assms(2) by (simp_all add: base_checks_def Let_def)
  show "finite_positive (ec_created_at c)" "is_finite (ec_expires_at c)"
    using f p by (simp_all add: finite_positive_def)
  show "flt (ec_created_at c) (ec_expires_at c)"
    using f p(2) by (cases "ec_created_at c"; cases "ec_expires_at c") (auto simp: fle_def feq_def)
qed

lemma granted_lifetimeD:
  assumes "granted_lifetime payload c0 now rttl = Inr (ttl, payload1)"
  shows "ttl = rttl \<or> (\<exists>x. ttl = fmin rttl x)"
    and "payload1 = ec_payload c0 \<or> (ec_cmd c0 \<in> set ENTRY_COMMANDS \<and> (\<exists>d. payload1 = scalper_payload d (ec_payload c0)))"
  using assms
  by (auto simp: granted_lifetime_def scalper_ttl_def Let_def elim!: ebindE split: if_splits option.splits)

lemma from_payloadE:
  assumes "from_payload uuid5 loads payload sid ttl_secs now = Inr c"
  obtains c0 rttl ttl payload1 score where
    "from_payload_head uuid5 loads payload sid now = Inr c0"
    "requested_lifetime payload ttl_secs now = Inr rttl"
    "granted_lifetime payload c0 now rttl = Inr (ttl, payload1)"
    "c = c0\<lparr>ec_action_score := score, ec_expires_at := fadd now ttl, ec_payload := payload1\<rparr>"
    "validate c = Inr ()"
  using assms unfolding from_payload_def Let_def by (auto elim!: ebindE)

lemma requested_lifetimeD:
  assumes "requested_lifetime payload ttl_secs now = Inr t"
  shows "finite_positive t" and "\<not> flt ttl_secs t" and "finite_positive ttl_secs"
  using assms unfolding requested_lifetime_def by (auto split: if_splits elim!: ebindE)

lemma finite_positiveE: "finite_positive f \<Longrightarrow> (\<And>r. f = Fin r \<Longrightarrow> 0 < r \<Longrightarrow> P) \<Longrightarrow> P"
  by (cases f) (auto simp: finite_positive_def fle_def feq_def)

lemma granted_ttl_bound:
  assumes "granted_lifetime payload c0 now rttl = Inr (ttl, payload1)" and "finite_positive rttl"
  shows "ttl \<noteq> NaN \<and> ttl \<le> rttl"
proof -
  have "fmin rttl x \<noteq> NaN \<and> fmin rttl x \<le> rttl" for x
    using assms(2) by (cases rttl; cases x) (auto simp: fmin_def finite_positive_def less_eq_pyfloat_def)
  moreover have "rttl \<noteq> NaN" using assms(2) by (auto elim: finite_positiveE)
  ultimately show ?thesis using granted_lifetimeD(1) [OF assms(1)] by auto
qed

lemma from_payload_head_fields:
  assumes "from_payload_head uuid5 loads payload sid now = Inr c0"
  shows "ec_created_at c0 = now" and "ec_updated_at c0 = now" and "ec_status c0 = ''queued''"
    and "ec_delivered_count c0 = 0"
    and "\<exists>s. ec_ownership_contract c0 = ownership_contract_for (ec_cmd c0) s
      \<and> (ec_cmd c0 \<in> set ENTRY_COMMANDS \<longrightarrow> s)"
    and "payload_int payload ''target_ticket'' (- 1) = Inr (ec_target_ticket c0)"
    and "ec_payload c0 = normalize_payload payload (ec_magic c0) (ec_owner_token c0)
      (ec_target_ticket c0) (ec_ownership_contract c0)"
  using assms unfolding from_payload_head_def Let_def
  by (auto elim!: ebindE)

lemma dget_normalize_payload:
  "k \<notin> {''magic'', ''owner_token'', ''target_ticket'', ''ownership_contract''} \<Longrightarrow>
     dget (normalize_payload p m t i c) k = dget p k"
  "k \<notin> {''magic'', ''owner_token'', ''target_ticket'', ''ownership_contract''} \<Longrightarrow>
     dhas (normalize_payload p m t i c) k = dhas p k"
  "dhas (normalize_payload p m t i c) ''target_ticket'' = (dhas p ''target_ticket'' \<or> 0 < i)"
  "dhas (normalize_payload p m t i c) ''owner_token'' = (dhas p ''owner_token'' \<or> t \<noteq> [])"
  by (auto simp: normalize_payload_def Let_def)

lemma dhas_dget: "\<not> dhas p k \<Longrightarrow> dget p k = VNone"
  by (auto simp: dhas_def dget_def split: option.splits)

lemma ingress_payload_lookup:
  assumes "payload1 = ec_payload c0 \<or> (\<exists>d. payload1 = scalper_payload d (ec_payload c0))"
    and "ec_payload c0 = normalize_payload payload m t i ct" and "k = ''strategy_lane'' \<or> k = ''intent''"
  shows "dget payload1 k = dget payload k"
  using assms by (auto simp: dget_normalize_payload scalper_payload_def)

lemma claims_ingress:
  assumes "claims_production_scalper payload VNone"
    and "dget p ''strategy_lane'' = dget payload ''strategy_lane''" and "dget p ''intent'' = dget payload ''intent''"
  shows "claims_production_scalper p v"
proof -
  have "truthy x" if "norm_lower (py_or x VNone) = ''production_scalper_entry''" for x
    using that by (auto simp: py_or_def split: if_splits)
  then show ?thesis using assms by (auto simp: claims_production_scalper_def py_or_def)
qed

lemma fadd_mono_right:
  assumes "is_finite x" and "y \<noteq> NaN" and "z \<noteq> NaN" and "y \<le> z"
  shows "fle (fadd x y) (fadd x z)"
proof -
  have "fle a b" if "a \<le> b" "b \<noteq> NaN" for a b
    using that by (cases a; cases b) (auto simp: fle_def feq_def less_eq_pyfloat_def)
  moreover have "NegInf \<le> a" "b \<noteq> NaN \<Longrightarrow> b \<le> PosInf" for a b
    by (cases a; cases b; simp add: less_eq_pyfloat_def)+
  then have "fadd x y \<le> fadd x z"
    using assms by (cases x; cases y; cases z)
      (auto simp: less_eq_pyfloat_def [of "Fin _"] less_eq_pyfloat_def [of PosInf "Fin _"] intro: f64_mono)
  moreover have "fadd x z \<noteq> NaN" using assms(1,3) by (cases x; cases z) auto
  ultimately show ?thesis by blast
qed

lemma command_literals:
  assumes "x \<in> set ENTRY_COMMANDS \<union> set TICKET_MANAGEMENT_COMMANDS"
  shows "py_upper x = x" and "py_strip x = x"
proof -
  have "list_all (\<lambda>x. py_upper x = x \<and> py_strip x = x) (ENTRY_COMMANDS @ TICKET_MANAGEMENT_COMMANDS)" by code_simp
  then show "py_upper x = x" "py_strip x = x" using assms by (auto simp: list_all_iff)
qed

lemma commands_disjoint: "x \<in> set TICKET_MANAGEMENT_COMMANDS \<Longrightarrow> x \<notin> set ENTRY_COMMANDS"
  by (auto simp: ENTRY_COMMANDS_def TICKET_MANAGEMENT_COMMANDS_def)

lemma owner_token_nonempty: "OWNER_TOKEN_RE s \<Longrightarrow> s \<noteq> []"
  by (auto simp: OWNER_TOKEN_RE_def)

lemma wire_ticket:
  assumes "payload1 = ec_payload c0 \<or> (\<exists>d. payload1 = scalper_payload d (ec_payload c0))"
    and "ec_payload c0 = normalize_payload payload m t (ec_target_ticket c0) ct"
    and "payload_int payload ''target_ticket'' (- 1) = Inr (ec_target_ticket c0)"
    and "ec_target_ticket c0 < 0"
  shows "payload_int payload1 ''target_ticket'' (ec_target_ticket c0) = Inr (ec_target_ticket c0)"
proof -
  have "dget payload1 ''target_ticket'' = dget payload ''target_ticket''"
    using assms(1,2,4) by (auto simp: normalize_payload_def scalper_payload_def Let_def)
  then show ?thesis
    using assms(3) by (cases "dget payload ''target_ticket''") (simp_all add: payload_int_def)
qed

lemma entry_wire:
  assumes h: "from_payload_head uuid5 loads payload sid now = Inr c0"
    and g: "granted_lifetime payload c0 now rttl = Inr (ttl, payload1)"
    and c: "c = c0\<lparr>ec_action_score := score, ec_expires_at := fadd now ttl, ec_payload := payload1\<rparr>"
    and v: "validate c = Inr ()" and e: "ec_cmd c \<in> set ENTRY_COMMANDS"
  shows "command_ownership_fields uuid5 c = Inr (ec_ownership_contract c, - 1, py_strip (ec_owner_token c))"
proof -
  note hd = from_payload_head_fields [OF h]
  have lit: "py_upper (ec_cmd c) = ec_cmd c" "py_strip (ec_cmd c) = ec_cmd c" using command_literals e by auto
  then have e': "py_upper (ec_cmd c) \<in> set ENTRY_COMMANDS" using e by simp
  note d = validate_entryD [OF v e']
  have ct: "ec_ownership_contract c = DTO_TICKET_OWNER_CONTRACT"
    using hd(5) e c by (auto simp: ownership_contract_for_def)
  have "py_strip (ec_ownership_contract c) \<noteq> []" unfolding ct by code_simp
  then have tok: "OWNER_TOKEN_RE (py_strip (ec_owner_token c))" using d(3) by blast
  have ne: "py_strip (ec_owner_token c) \<noteq> []" by (rule owner_token_nonempty [OF tok])
  have pl: "payload1 = ec_payload c0 \<or> (\<exists>d. payload1 = scalper_payload d (ec_payload c0))"
    using granted_lifetimeD(2) [OF g] by auto
  have tt: "(if ec_target_ticket c < 0 then payload_int (ec_payload c) ''target_ticket'' (ec_target_ticket c)
      else Inr (ec_target_ticket c)) = Inr (ec_target_ticket c)"
    using wire_ticket [OF pl hd(7,6)] c by simp
  have rt: "require_owner_token (py_strip (ec_owner_token c)) = Inr (py_strip (ec_owner_token c))"
    using tok by (simp add: require_owner_token_Inr)
  show ?thesis
    unfolding command_ownership_fields_def Let_def tt lit
    using e ne rt ct d(2) by simp
qed

lemma management_wire:
  assumes h: "from_payload_head uuid5 loads payload sid now = Inr c0"
    and g: "granted_lifetime payload c0 now rttl = Inr (ttl, payload1)"
    and c: "c = c0\<lparr>ec_action_score := score, ec_expires_at := fadd now ttl, ec_payload := payload1\<rparr>"
    and v: "validate c = Inr ()" and m: "ec_cmd c \<in> set TICKET_MANAGEMENT_COMMANDS"
  shows "command_ownership_fields uuid5 c =
    Inr (ec_ownership_contract c, ec_target_ticket c, py_strip (ec_owner_token c))"
proof -
  note hd = from_payload_head_fields [OF h]
  have ne: "ec_cmd c \<notin> set ENTRY_COMMANDS" using m by (rule commands_disjoint)
  have lit: "py_upper (ec_cmd c) = ec_cmd c" "py_strip (ec_cmd c) = ec_cmd c" using command_literals m by auto
  then have m': "py_upper (ec_cmd c) \<in> set TICKET_MANAGEMENT_COMMANDS" using m by simp
  have pl: "ec_payload c = normalize_payload payload (ec_magic c) (ec_owner_token c) (ec_target_ticket c)
      (ec_ownership_contract c)"
    using granted_lifetimeD(2) [OF g] hd(7) ne c by auto
  define lane where "lane = (norm_lower (dget (ec_payload c) ''strategy_lane'') = PRODUCTION_SCALPER_LANE)"
  note d = validate_managementD [OF v m' refl, folded lane_def]
  show ?thesis
  proof (cases "strict_requested (ec_target_ticket c) (ec_owner_token c) (ec_payload c) lane")
    case True
    note s = d(2) [OF True]
    have own: "py_strip (ec_owner_token c) \<noteq> []" using s owner_token_nonempty by blast
    have rt: "require_owner_token (py_strip (ec_owner_token c)) = Inr (py_strip (ec_owner_token c))"
      using s by (simp add: require_owner_token_Inr)
    have st: "strict_requested (ec_target_ticket c) (py_strip (ec_owner_token c)) (ec_payload c) lane"
      using s by (simp add: strict_requested_def)
    show ?thesis
      unfolding command_ownership_fields_def Let_def lit lane_def [symmetric]
      using ne m s own rt st d(1) by simp
  next
    case False
    have keys: "\<not> dhas (ec_payload c) ''target_ticket''" "\<not> dhas (ec_payload c) ''owner_token''"
      and neg: "ec_target_ticket c < 0" and own: "py_strip (ec_owner_token c) = []" and nl: "\<not> lane"
      using False by (auto simp: strict_requested_def)
    have pk: "\<not> dhas payload ''target_ticket''" using keys(1) pl by (simp add: dget_normalize_payload)
    have t1: "ec_target_ticket c = - 1"
      using hd(6) dhas_dget [OF pk] c by (simp add: payload_int_def)
    have ct: "ec_ownership_contract c = LEGACY_ELBRIDGE_CONTRACT"
      using d(3) [OF False] hd(5) m c
      by (auto simp: ownership_contract_for_def DTO_TICKET_OWNER_CONTRACT_def LEGACY_ELBRIDGE_CONTRACT_def split: if_splits)
    have "payload_int (ec_payload c) ''target_ticket'' (- 1) = Inr (- 1)"
      using dhas_dget [OF keys(1)] by (simp add: payload_int_def)
    moreover have "norm_text (dget (ec_payload c) ''owner_token'') = []"
      using dhas_dget [OF keys(2)] by simp
    ultimately show ?thesis
      unfolding command_ownership_fields_def Let_def lit lane_def [symmetric] t1
      using ne m own ct d(1) keys nl by (simp add: strict_requested_def)
  qed
qed

section \<open>Properties\<close>

text \<open>
  C27. Server-authoritative lifetime: whatever timestamps and ttl a client sends, a command accepted
  at a positive clock is created now, queued and never delivered, expires strictly later than now
  and no later than the server's ttl allows.
\<close>

theorem ingress_lifetime_bounded:
  assumes "from_payload uuid5 loads payload sid ttl_secs now = Inr c" and "flt (Fin 0) now"
  shows "ec_status c = ''queued'' \<and> ec_delivered_count c = 0 \<and> ec_created_at c = now \<and> ec_updated_at c = now
    \<and> is_finite (ec_expires_at c) \<and> flt now (ec_expires_at c) \<and> fle (ec_expires_at c) (fadd now ttl_secs)"
proof -
  obtain c0 rttl ttl payload1 score where h: "from_payload_head uuid5 loads payload sid now = Inr c0"
    and r: "requested_lifetime payload ttl_secs now = Inr rttl"
    and g: "granted_lifetime payload c0 now rttl = Inr (ttl, payload1)"
    and c: "c = c0\<lparr>ec_action_score := score, ec_expires_at := fadd now ttl, ec_payload := payload1\<rparr>"
    and v: "validate c = Inr ()" by (rule from_payloadE [OF assms(1)])
  note hd = from_payload_head_fields [OF h]
  have cr: "ec_created_at c = now" using hd(1) c by simp
  have nz: "\<not> feq (ec_created_at c) (Fin 0)" using assms(2) cr by (cases now) (auto simp: feq_def)
  note ts = timestampsD [OF v nz]
  note q = requested_lifetimeD [OF r]
  have t: "ttl \<noteq> NaN" "ttl \<le> rttl" using granted_ttl_bound [OF g q(1)] by auto
  have "rttl \<le> ttl_secs" using q by (auto simp: less_eq_pyfloat_def elim!: finite_positiveE)
  with t have "ttl \<le> ttl_secs" by simp
  moreover have "is_finite now" using ts(1) cr by (auto simp: finite_positive_def)
  moreover have "ttl_secs \<noteq> NaN" using q(3) by (auto elim: finite_positiveE)
  ultimately have "fle (fadd now ttl) (fadd now ttl_secs)" using t(1) by (intro fadd_mono_right)
  then show ?thesis using hd ts c by simp
qed

text \<open>
  Entry contract: an accepted BUY or SELL has a finite positive size, a positive magic, a symbol,
  the ticket-owner contract and a wire-safe owner token; an entry of the production scalper moreover
  carries an integral deadline, and its expiry never exceeds it.
\<close>

theorem entry_command_contract:
  assumes "from_payload uuid5 loads payload sid ttl_secs now = Inr c" and "flt (Fin 0) now"
    and "ec_cmd c \<in> set ENTRY_COMMANDS"
  shows "finite_positive (ec_lots c) \<and> 0 < ec_magic c \<and> py_strip (ec_symbol c) \<noteq> []
    \<and> ec_ownership_contract c = DTO_TICKET_OWNER_CONTRACT \<and> OWNER_TOKEN_RE (py_strip (ec_owner_token c))
    \<and> (claims_production_scalper payload VNone \<longrightarrow>
        (\<exists>d. entry_deadline (dget (ec_payload c) ''entry_deadline_epoch'') = Some d
           \<and> fle (ec_expires_at c) (Fin d)))"
proof -
  obtain c0 rttl ttl payload1 score where h: "from_payload_head uuid5 loads payload sid now = Inr c0"
    and r: "requested_lifetime payload ttl_secs now = Inr rttl"
    and g: "granted_lifetime payload c0 now rttl = Inr (ttl, payload1)"
    and c: "c = c0\<lparr>ec_action_score := score, ec_expires_at := fadd now ttl, ec_payload := payload1\<rparr>"
    and v: "validate c = Inr ()" by (rule from_payloadE [OF assms(1)])
  note hd = from_payload_head_fields [OF h]
  have up: "py_upper (ec_cmd c) = ec_cmd c"
    using assms(3) by (auto simp: ENTRY_COMMANDS_def) (code_simp, code_simp)
  have e: "py_upper (ec_cmd c) \<in> set ENTRY_COMMANDS" using assms(3) up by simp
  note d = validate_entryD [OF v e]
  have ct: "ec_ownership_contract c = DTO_TICKET_OWNER_CONTRACT"
    using hd(5) assms(3) c by (auto simp: ownership_contract_for_def)
  have "py_strip (ec_ownership_contract c) \<noteq> []" unfolding ct by code_simp
  then have tok: "OWNER_TOKEN_RE (py_strip (ec_owner_token c))" using d(3) by blast
  have symb: "py_strip (ec_symbol c) \<noteq> []"
    using assms(3) by (intro validate_base(4) [OF v]) (auto simp: up ENTRY_COMMANDS_def SUPPORTED_COMMANDS_def)
  have "\<exists>x. entry_deadline (dget (ec_payload c) ''entry_deadline_epoch'') = Some x \<and> fle (ec_expires_at c) (Fin x)"
    if "claims_production_scalper payload VNone"
  proof -
    have pl: "payload1 = ec_payload c0 \<or> (\<exists>d. payload1 = scalper_payload d (ec_payload c0))"
      using granted_lifetimeD(2) [OF g] by auto
    have p1: "ec_payload c = payload1" by (simp add: c)
    have "claims_production_scalper (ec_payload c) (VStr (ec_intent c))"
      unfolding p1
      by (rule claims_ingress [OF that ingress_payload_lookup [OF pl hd(7)] ingress_payload_lookup [OF pl hd(7)]])
        simp_all
    from d(4) [OF this] obtain x where x: "entry_deadline (dget (ec_payload c) ''entry_deadline_epoch'') = Some x"
      "\<not> (flt (Fin 0) (ec_created_at c) \<and> flt (Fin x) (ec_expires_at c))"
      by (auto simp: scalper_checks_def Let_def)
    have cr: "ec_created_at c = now" using hd(1) c by simp
    have nz: "\<not> feq (ec_created_at c) (Fin 0)" using assms(2) cr by (cases now) (auto simp: feq_def)
    have "is_finite (ec_expires_at c)" by (rule timestampsD(2) [OF v nz])
    then have "fle (ec_expires_at c) (Fin x)"
      using x(2) assms(2) cr by (cases "ec_expires_at c") (auto simp: fle_def feq_def)
    with x(1) show ?thesis by blast
  qed
  then show ?thesis using d(1,2) ct tok symb by blast
qed

text \<open>
  Wire ownership: for an accepted entry or ticket-management command the ownership fields put on
  the wire are the validated ones. The contract is the command's own, an entry names no ticket, a
  management command names exactly its validated target, and the token is the command's token.
\<close>

theorem wire_ownership_agrees:
  assumes "from_payload uuid5 loads payload sid ttl_secs now = Inr c"
    and "ec_cmd c \<in> set ENTRY_COMMANDS \<union> set TICKET_MANAGEMENT_COMMANDS"
  shows "command_ownership_fields uuid5 c =
    Inr (ec_ownership_contract c,
         if ec_cmd c \<in> set ENTRY_COMMANDS then - 1 else ec_target_ticket c,
         py_strip (ec_owner_token c))"
proof -
  obtain c0 rttl ttl payload1 score where h: "from_payload_head uuid5 loads payload sid now = Inr c0"
    and r: "requested_lifetime payload ttl_secs now = Inr rttl"
    and g: "granted_lifetime payload c0 now rttl = Inr (ttl, payload1)"
    and c: "c = c0\<lparr>ec_action_score := score, ec_expires_at := fadd now ttl, ec_payload := payload1\<rparr>"
    and v: "validate c = Inr ()" by (rule from_payloadE [OF assms(1)])
  note hd = from_payload_head_fields [OF h]
  show ?thesis
  proof (cases "ec_cmd c \<in> set ENTRY_COMMANDS")
    case True
    show ?thesis using entry_wire [OF h g c v True] True by simp
  next
    case False
    then have m: "ec_cmd c \<in> set TICKET_MANAGEMENT_COMMANDS" using assms(2) by simp
    show ?thesis using management_wire [OF h g c v m] False by simp
  qed
qed

text \<open>
  C34. Acknowledgement ingress: every accepted broker report has one of the five queue statuses, a
  known or empty mutation state, finite actuals, a command or idempotency identity, and counts as a
  trade exactly when it is a success with a positive ticket.
\<close>

theorem ack_ingress_normalised:
  assumes "ack_from_payload loads payload now = Inr a"
  shows "ak_status a \<in> {''acked'', ''failed'', ''delivered'', ''duplicate'', ''reconcile_required''}
    \<and> ak_mutation_state a \<in> {[], ''not_attempted'', ''attempted'', ''confirmed'', ''unknown''}
    \<and> list_all (\<lambda>f. case f of None \<Rightarrow> True | Some x \<Rightarrow> is_finite x)
        [ak_actual_lots a, ak_actual_open_price a, ak_actual_sl_price a, ak_actual_tp_price a]
    \<and> (py_strip (ak_command_id a) \<noteq> [] \<or> py_strip (ak_idempotency_key a) \<noteq> [])
    \<and> (ak_count_as_trade a \<longleftrightarrow> ak_status a = ''acked'' \<and> 0 < ak_ticket a)"
proof -
  have st: "s \<in> {''acked'', ''failed'', ''delivered'', ''duplicate'', ''reconcile_required''}"
    if "ack_status_of r = Inr s" for r s
    using that by (auto simp: ack_status_of_def split: if_splits)
  have fl: "case f of None \<Rightarrow> True | Some x \<Rightarrow> is_finite x" if "optional_ack_float v n = Inr f" for v n f
    using that by (auto simp: optional_ack_float_def split: if_splits sum.splits pyfloat.splits pyval.splits)
  have known: "m \<in> {[], ''not_attempted'', ''attempted'', ''confirmed'', ''unknown''}"
    if "\<not> (m \<noteq> [] \<and> m \<notin> {''not_attempted'', ''attempted'', ''confirmed'', ''unknown''})" for m :: string
    using that by blast
  obtain status lots op slp tpp where
    p: "ack_status_of (py_lower (py_strip (py_str (dget_default payload ''status'' (VStr []))))) = Inr status"
    "optional_ack_float (get_either payload ''actual_lots'' ''lots'') ''actual_lots'' = Inr lots"
    "optional_ack_float (get_either payload ''actual_open_price'' ''open_price'') ''actual_open_price'' = Inr op"
    "optional_ack_float (get_either payload ''actual_sl_price'' ''sl_price'') ''actual_sl_price'' = Inr slp"
    "optional_ack_float (get_either payload ''actual_tp_price'' ''tp_price'') ''actual_tp_price'' = Inr tpp"
    and ms: "\<not> (norm_lower (dget payload ''mutation_state'') \<noteq> []
      \<and> norm_lower (dget payload ''mutation_state'') \<notin> {''not_attempted'', ''attempted'', ''confirmed'', ''unknown''})"
    and a: "ak_status a = status" "ak_actual_lots a = lots" "ak_actual_open_price a = op"
    "ak_actual_sl_price a = slp" "ak_actual_tp_price a = tpp"
    "ak_mutation_state a = norm_lower (dget payload ''mutation_state'')"
    "ak_count_as_trade a = (status = ''acked'' \<and> 0 < ak_ticket a)"
    "\<not> (py_strip (ak_command_id a) = [] \<and> py_strip (ak_idempotency_key a) = [])"
    using assms unfolding ack_from_payload_def Let_def ebind_Inr_iff if_Inl_Inr sum.inject
    by (elim exE conjE) (hypsubst, simp only: ExecutionAck.simps, blast)
  show ?thesis
    unfolding a list.pred_inject using st [OF p(1)] known [OF ms] p(2-5) [THEN fl] a(8) by (intro conjI) (assumption | simp)+
qed

section \<open>Witnesses\<close>

definition demo_uuid5 :: "string \<Rightarrow> string" where
  "demo_uuid5 s = ''0123456789abcdef0123456789abcdef''"

definition demo_entry_payload :: pydict where
  "demo_entry_payload =
     [(''cmd'', VStr ''buy''), (''symbol'', VStr ''eurusd''), (''lots'', VFloat (Fin (1/2))),
      (''strategy_lane'', VStr ''production_scalper''), (''execution_type'', VStr ''market''),
      (''pending_orders_forbidden'', VBool True), (''entry_deadline_epoch'', VInt 1030),
      (''created_at'', VFloat (Fin 900)), (''ttl_secs'', VInt 60)]"

definition demo_entry :: ExecutionCommand where
  "demo_entry = projr (from_payload demo_uuid5 (\<lambda>_. None) demo_entry_payload ''s1'' (Fin 60) (Fin 1000))"

definition demo_close_payload :: pydict where
  "demo_close_payload =
     [(''cmd'', VStr ''CLOSE''), (''symbol'', VStr ''EURUSD''), (''target_ticket'', VInt 77),
      (''owner_token'', VStr ''fxs-1'')]"

definition demo_close :: ExecutionCommand where
  "demo_close = projr (from_payload demo_uuid5 (\<lambda>_. None) demo_close_payload ''s1'' (Fin 60) (Fin 1000))"

lemma demo_entry_accepted:
  "from_payload demo_uuid5 (\<lambda>_. None) demo_entry_payload ''s1'' (Fin 60) (Fin 1000) = Inr demo_entry"
proof -
  have "isl (from_payload demo_uuid5 (\<lambda>_. None) demo_entry_payload ''s1'' (Fin 60) (Fin 1000)) = False" by code_simp
  then show ?thesis by (simp add: demo_entry_def)
qed

lemma demo_close_accepted:
  "from_payload demo_uuid5 (\<lambda>_. None) demo_close_payload ''s1'' (Fin 60) (Fin 1000) = Inr demo_close"
proof -
  have "isl (from_payload demo_uuid5 (\<lambda>_. None) demo_close_payload ''s1'' (Fin 60) (Fin 1000)) = False" by code_simp
  then show ?thesis by (simp add: demo_close_def)
qed

theorem ingress_lifetime_bounded_witness:
  "ec_created_at demo_entry = Fin 1000 \<and> flt (Fin 1000) (ec_expires_at demo_entry)
   \<and> fle (ec_expires_at demo_entry) (fadd (Fin 1000) (Fin 60))"
  using ingress_lifetime_bounded [OF demo_entry_accepted] by simp

theorem entry_command_contract_witness:
  "ec_ownership_contract demo_entry = DTO_TICKET_OWNER_CONTRACT
   \<and> (\<exists>d. entry_deadline (dget (ec_payload demo_entry) ''entry_deadline_epoch'') = Some d
        \<and> fle (ec_expires_at demo_entry) (Fin d))"
proof -
  have "ec_cmd demo_entry \<in> set ENTRY_COMMANDS" by code_simp
  moreover have "claims_production_scalper demo_entry_payload VNone" by code_simp
  ultimately show ?thesis using entry_command_contract [OF demo_entry_accepted] by simp
qed

theorem wire_ownership_agrees_witness:
  "command_ownership_fields demo_uuid5 demo_close =
     Inr (ec_ownership_contract demo_close,
       if ec_cmd demo_close \<in> set ENTRY_COMMANDS then - 1 else ec_target_ticket demo_close,
       py_strip (ec_owner_token demo_close))"
proof -
  have "ec_cmd demo_close \<in> set ENTRY_COMMANDS \<union> set TICKET_MANAGEMENT_COMMANDS" by code_simp
  from wire_ownership_agrees [OF demo_close_accepted this] show ?thesis .
qed

definition demo_ack_payload :: pydict where
  "demo_ack_payload =
     [(''command_id'', VStr ''c1''), (''status'', VStr '' Filled ''), (''ticket'', VStr ''77''),
      (''lots'', VFloat (Fin (1/2))), (''mutation_state'', VStr ''confirmed'')]"

definition demo_ack :: ExecutionAck where
  "demo_ack = projr (ack_from_payload (\<lambda>_. None) demo_ack_payload (Fin 1001))"

theorem ack_ingress_normalised_witness:
  "ak_status demo_ack \<in> {''acked'', ''failed'', ''delivered'', ''duplicate'', ''reconcile_required''}
   \<and> ak_count_as_trade demo_ack"
proof -
  have "isl (ack_from_payload (\<lambda>_. None) demo_ack_payload (Fin 1001)) = False" by code_simp
  then have "ack_from_payload (\<lambda>_. None) demo_ack_payload (Fin 1001) = Inr demo_ack" by (simp add: demo_ack_def)
  from ack_ingress_normalised [OF this]
  have "ak_status demo_ack \<in> {''acked'', ''failed'', ''delivered'', ''duplicate'', ''reconcile_required''}"
    and "ak_count_as_trade demo_ack = (ak_status demo_ack = ''acked'' \<and> 0 < ak_ticket demo_ack)" by blast+
  moreover have "ak_status demo_ack = ''acked'' \<and> 0 < ak_ticket demo_ack" by code_simp
  ultimately show ?thesis by blast
qed

end
