(* ===== verification/Ack_Attestation.thy ===== *)
theory Ack_Attestation
  imports Py_Value
begin

text \<open>
  The fail-closed classifier of broker acknowledgements, \<open>runtime/execution_ack_attestation.py\<close>:
  what the command expects, what the acknowledgement's containers report, the reasons that
  contradict an exact attestation in the order the source appends them, and the effective status.
  A Python set that is only measured or iterated when it has at most one element is a duplicate-free
  list. The containers of \<open>_ack_sources\<close> are fresh dictionaries, so its identity test keeps them all.
\<close>

section \<open>Constants\<close>

definition EXECUTION_ACK_ATTESTATION_SCHEMA :: string where
  "EXECUTION_ACK_ATTESTATION_SCHEMA = ''fxstack.execution_ack_attestation.v1''"

definition MT4_ORDER_ACTUALS_SCHEMA :: string where
  "MT4_ORDER_ACTUALS_SCHEMA = ''fxstack.mt4_order_actuals.v1''"

definition BROKER_MUTATING_COMMANDS :: "string list" where
  "BROKER_MUTATING_COMMANDS = [''BUY'', ''SELL'', ''CLOSE'', ''CLOSE_ALL'', ''CLOSE_PARTIAL'', ''MODIFY_SL'']"

definition ATT_ENTRY_COMMANDS :: "string list" where
  "ATT_ENTRY_COMMANDS = [''BUY'', ''SELL'']"

definition MANAGEMENT_COMMANDS :: "string list" where
  "MANAGEMENT_COMMANDS = [''CLOSE'', ''CLOSE_PARTIAL'', ''MODIFY_SL'']"

definition ACKED_STATUSES :: "string list" where
  "ACKED_STATUSES = [''acked'', ''ok'', ''success'', ''done'', ''executed'', ''filled'']"

definition FAILED_STATUSES :: "string list" where
  "FAILED_STATUSES = [''failed'', ''error'', ''rejected'', ''refused'']"

definition DELIVERED_STATUSES :: "string list" where
  "DELIVERED_STATUSES = [''delivered'', ''queued'', ''retry'', ''pending'']"

definition DUPLICATE_STATUSES :: "string list" where
  "DUPLICATE_STATUSES = [''duplicate'', ''duplicated'']"

definition RECONCILE_STATUSES :: "string list" where
  "RECONCILE_STATUSES =
     [''reconcile_required'', ''reconciliation_required'', ''uncertain'', ''unknown'', ''outcome_unknown'']"

definition NOT_ATTEMPTED_STATES :: "string list" where
  "NOT_ATTEMPTED_STATES =
     [''not_attempted'', ''not_started'', ''pre_mutation'', ''preflight_refused'', ''refused_before_mutation'']"

definition CONFIRMED_STATES :: "string list" where
  "CONFIRMED_STATES =
     [''confirmed'', ''attested'', ''broker_confirmed'', ''post_mutation_confirmed'', ''succeeded'']"

definition ATTEMPTED_STATES :: "string list" where
  "ATTEMPTED_STATES = [''attempted'', ''submitted'', ''sent'', ''post_mutation'', ''mutation_attempted'']"

definition UNKNOWN_STATES :: "string list" where
  "UNKNOWN_STATES = [''unknown'', ''uncertain'', ''outcome_unknown'', ''post_mutation_unknown'']"

section \<open>Data\<close>

record ExecutionAckActuals =
  aa_command_id :: string
  aa_cmd :: string
  aa_symbol :: string
  aa_broker_symbol :: string
  aa_side :: string
  aa_execution_type :: string
  aa_ticket :: int
  aa_target_ticket :: int
  aa_magic :: int
  aa_owner_token :: string
  aa_order_comment :: string
  aa_lots :: "pyfloat option"
  aa_sl_price :: "pyfloat option"
  aa_tp_price :: "pyfloat option"
  aa_open_price :: "pyfloat option"
  aa_remaining_lots :: "pyfloat option"
  aa_close_time :: "pyfloat option"

record ExecutionAckAttestation =
  at_effective_status :: string
  at_reported_status :: string
  at_mutation_state :: string
  at_broker_mutating :: bool
  at_attested :: bool
  at_terminal :: bool
  at_reasons :: "string list"
  at_actuals :: ExecutionAckActuals
  at_schema_version :: string

record CommandExpectation =
  ex_command_id :: string
  ex_cmd :: string
  ex_symbol :: string
  ex_broker_symbol :: string
  ex_side :: string
  ex_execution_type :: string
  ex_magic :: "int option"
  ex_owner_token :: string
  ex_target_ticket :: "int option"
  ex_lots :: "pyfloat option"
  ex_sl_price :: "pyfloat option"
  ex_tp_price :: "pyfloat option"
  ex_worst_fill_price :: "pyfloat option"
  ex_tick_size :: "pyfloat option"
  ex_lot_step :: "pyfloat option"
  ex_target_open_price :: "pyfloat option"
  ex_target_lots :: "pyfloat option"
  ex_expected_tp_price :: "pyfloat option"

definition none_or :: "pyfloat option \<Rightarrow> pyval" where
  "none_or f = (case f of None \<Rightarrow> VNone | Some x \<Rightarrow> VFloat x)"

definition actuals_to_dict :: "ExecutionAckActuals \<Rightarrow> pydict" where
  "actuals_to_dict a =
     [(''command_id'', VStr (aa_command_id a)), (''cmd'', VStr (aa_cmd a)), (''symbol'', VStr (aa_symbol a)),
      (''broker_symbol'', VStr (aa_broker_symbol a)), (''side'', VStr (aa_side a)),
      (''execution_type'', VStr (aa_execution_type a)), (''ticket'', VInt (aa_ticket a)),
      (''target_ticket'', VInt (aa_target_ticket a)), (''magic'', VInt (aa_magic a)),
      (''owner_token'', VStr (aa_owner_token a)), (''order_comment'', VStr (aa_order_comment a)),
      (''lots'', none_or (aa_lots a)), (''sl_price'', none_or (aa_sl_price a)),
      (''tp_price'', none_or (aa_tp_price a)), (''open_price'', none_or (aa_open_price a)),
      (''remaining_lots'', none_or (aa_remaining_lots a)), (''close_time'', none_or (aa_close_time a))]"

definition attestation_to_dict :: "ExecutionAckAttestation \<Rightarrow> pydict" where
  "attestation_to_dict t =
     [(''schema_version'', VStr (at_schema_version t)), (''effective_status'', VStr (at_effective_status t)),
      (''reported_status'', VStr (at_reported_status t)), (''mutation_state'', VStr (at_mutation_state t)),
      (''broker_mutating'', VBool (at_broker_mutating t)), (''attested'', VBool (at_attested t)),
      (''terminal'', VBool (at_terminal t)), (''reasons'', VList (map VStr (at_reasons t))),
      (''actuals'', VDict (actuals_to_dict (at_actuals t)))]"

section \<open>Containers\<close>

fun mapping :: "pyval \<Rightarrow> pydict" where
  "mapping (VDict d) = d"
| "mapping _ = []"

definition command_view :: "pydict \<Rightarrow> pydict" where
  "command_view msg =
     dmerge (dmerge (dmerge [] (mapping (dget msg ''payload_json''))) (mapping (dget msg ''payload'')))
       (filter (\<lambda>(k, v). k \<notin> {''payload'', ''payload_json''} \<and> v \<noteq> VNone) msg)"

definition ack_sources :: "pydict \<Rightarrow> pydict list" where
  "ack_sources msg =
     (let raw = mapping (dget msg ''raw'') in
      filter (\<lambda>d. d \<noteq> [])
        [mapping (dget msg ''actual_fields''), mapping (dget msg ''actuals''),
         mapping (dget msg ''broker_actual''), msg,
         mapping (dget raw ''actual_fields''), mapping (dget raw ''actuals''),
         mapping (dget raw ''broker_actual''), raw])"

definition wire_ack :: "pydict \<Rightarrow> pydict" where
  "wire_ack msg = (let raw = mapping (dget msg ''raw'') in if raw \<noteq> [] then raw else msg)"

fun blank :: "pyval \<Rightarrow> bool" where
  "blank VNone = True"
| "blank (VStr s) = (py_strip s = [])"
| "blank _ = False"

fun first_value :: "pydict \<Rightarrow> string list \<Rightarrow> pyval" where
  "first_value view [] = VNone"
| "first_value view (name # names) =
     (if dhas view name \<and> \<not> blank (dget view name) then dget view name else first_value view names)"

fun first_source_value :: "pydict list \<Rightarrow> string \<Rightarrow> pyval option" where
  "first_source_value [] name = None"
| "first_source_value (s # ss) name =
     (if dhas s name \<and> \<not> blank (dget s name) then Some (dget s name) else first_source_value ss name)"

fun first_ack_value :: "pydict list \<Rightarrow> string list \<Rightarrow> pyval" where
  "first_ack_value sources [] = VNone"
| "first_ack_value sources (name # names) =
     (case first_source_value sources name of Some v \<Rightarrow> v | None \<Rightarrow> first_ack_value sources names)"

definition all_ack_values :: "pydict list \<Rightarrow> string list \<Rightarrow> pyval list" where
  "all_ack_values sources names =
     concat (map (\<lambda>s. map (dget s) (filter (\<lambda>n. dhas s n \<and> \<not> blank (dget s n)) names)) sources)"

section \<open>Coercions\<close>

fun text_of :: "pyval \<Rightarrow> string" where
  "text_of (VStr s) = py_strip s"
| "text_of _ = []"

definition upper_of :: "pyval \<Rightarrow> string" where
  "upper_of v = py_upper (text_of v)"

definition lower_of :: "pyval \<Rightarrow> string" where
  "lower_of v = py_lower (text_of v)"

fun att_finite :: "pyval \<Rightarrow> pyfloat option" where
  "att_finite (VBool b) = None"
| "att_finite v = (case py_float v of Inr (Fin r) \<Rightarrow> Some (Fin r) | _ \<Rightarrow> None)"

definition att_positive :: "pyval \<Rightarrow> pyfloat option" where
  "att_positive v = (case att_finite v of Some f \<Rightarrow> if flt (Fin 0) f then Some f else None | None \<Rightarrow> None)"

definition att_nonnegative :: "pyval \<Rightarrow> pyfloat option" where
  "att_nonnegative v = (case att_finite v of Some f \<Rightarrow> if fle (Fin 0) f then Some f else None | None \<Rightarrow> None)"

fun att_positive_int :: "pyval \<Rightarrow> int option" where
  "att_positive_int (VBool b) = None"
| "att_positive_int v =
     (case (py_int v, py_float v) of
        (Inr n, Inr f) \<Rightarrow> if is_finite f \<and> feq (float_of_int n) f \<and> 0 < n then Some n else None
      | _ \<Rightarrow> None)"

text \<open>The first value of these names, over the containers, that the coercion accepts.\<close>

definition first_coerced :: "(pyval \<Rightarrow> 'a option) \<Rightarrow> pydict list \<Rightarrow> string list \<Rightarrow> 'a option" where
  "first_coerced f sources names =
     (case List.map_filter (\<lambda>v. f v)
         (concat (map (\<lambda>n. map (\<lambda>s. dget s n) (filter (\<lambda>s. dhas s n) sources)) names)) of
        [] \<Rightarrow> None | x # xs \<Rightarrow> Some x)"

definition first_positive_ack :: "pydict list \<Rightarrow> string list \<Rightarrow> pyfloat option" where
  "first_positive_ack = first_coerced att_positive"

definition first_nonnegative_ack :: "pydict list \<Rightarrow> string list \<Rightarrow> pyfloat option" where
  "first_nonnegative_ack = first_coerced att_nonnegative"

definition first_positive_int_ack :: "pydict list \<Rightarrow> string list \<Rightarrow> int option" where
  "first_positive_int_ack = first_coerced att_positive_int"

definition reported_ticket :: "pydict list \<Rightarrow> int" where
  "reported_ticket sources =
     (case List.map_filter att_positive_int (all_ack_values sources [''actual_ticket'', ''order_ticket'', ''ticket'']) of
        [] \<Rightarrow> - 1 | t # ts \<Rightarrow> t)"

definition normalize_status :: "string \<Rightarrow> string option" where
  "normalize_status raw =
     (if raw \<in> set ACKED_STATUSES then Some ''acked''
      else if raw \<in> set FAILED_STATUSES then Some ''failed''
      else if raw \<in> set DUPLICATE_STATUSES then Some ''duplicate''
      else if raw \<in> set DELIVERED_STATUSES then Some ''delivered''
      else if raw \<in> set RECONCILE_STATUSES then Some ''reconcile_required''
      else None)"

definition normalize_execution_type :: "pyval \<Rightarrow> string" where
  "normalize_execution_type raw =
     (let value = map (\<lambda>c. if c = CHR ''-'' \<or> c = CHR '' '' then CHR ''_'' else c) (lower_of raw) in
      if value \<in> {''market'', ''instant'', ''instant_market'', ''market_execution''} then ''market'' else value)"

definition unique_reasons :: "string list \<Rightarrow> string list" where
  "unique_reasons rs = py_unique (filter (\<lambda>r. r \<noteq> []) rs)"

text \<open>\<open>math.isclose\<close>.\<close>

definition isclose :: "pyfloat \<Rightarrow> pyfloat \<Rightarrow> pyfloat \<Rightarrow> pyfloat \<Rightarrow> bool" where
  "isclose a b rel_tol abs_tol =
     (if feq a b then True
      else if \<not> is_finite a \<or> \<not> is_finite b then False
      else
        let diff = fabs (fsub b a) in
        fle diff (fabs (fmul rel_tol b)) \<or> fle diff (fabs (fmul rel_tol a)) \<or> fle diff abs_tol)"

definition pico :: pyfloat where
  "pico = f64 (1 / 1000000000000)"

definition att_micro :: pyfloat where
  "att_micro = f64 (1 / 1000000)"

lemma tolerance_values [code]:
  "pico = Fin (4951760157141521 / 4951760157141521099596496896)"
  "att_micro = Fin (4722366482869645 / 4722366482869645213696)"
  by code_simp+

definition numeric_equal :: "pyfloat \<Rightarrow> pyfloat \<Rightarrow> pyfloat option \<Rightarrow> bool" where
  "numeric_equal actual expected quantum =
     (let absolute_tolerance =
            fmax (fmax pico (fmul (fabs expected) pico))
              (case quantum of Some q \<Rightarrow> if flt (Fin 0) q then fmul q att_micro else Fin 0 | None \<Rightarrow> Fin 0) in
      isclose actual expected pico absolute_tolerance)"

section \<open>What the command expects\<close>

definition expectation :: "pydict \<Rightarrow> CommandExpectation" where
  "expectation command =
     (let view = command_view command;
          plan = mapping (dget view ''broker_entry_plan'');
          cmd = upper_of (first_value view [''cmd'', ''command'']);
          lots_name = (if cmd = ''CLOSE_PARTIAL'' then ''close_lots'' else ''lots'');
          side = upper_of (first_value view [''target_side'', ''position_side'', ''side'']) in
      \<lparr>ex_command_id = text_of (first_value view [''command_id'', ''id'', ''signal_id'']),
       ex_cmd = cmd,
       ex_symbol = upper_of (first_value view [''symbol'', ''canonical_symbol'', ''logical_symbol'']),
       ex_broker_symbol = text_of (py_or (first_value view
         [''expected_broker_contract_broker_symbol'', ''expected_broker_symbol'', ''broker_symbol''])
         (dget plan ''broker_symbol'')),
       ex_side = (if side \<noteq> [] then side else if cmd \<in> set ATT_ENTRY_COMMANDS then cmd else []),
       ex_execution_type = normalize_execution_type (py_or (first_value view [''execution_type''])
         (VStr (if cmd \<in> set ATT_ENTRY_COMMANDS then ''market'' else []))),
       ex_magic = att_positive_int (first_value view [''magic'']),
       ex_owner_token = text_of (first_value view [''owner_token'']),
       ex_target_ticket = att_positive_int (first_value view [''target_ticket'']),
       ex_lots = att_positive (first_value view [lots_name]),
       ex_sl_price = att_positive (first_value view [''sl_price'', ''sl'']),
       ex_tp_price = att_positive (first_value view [''tp_price'', ''tp'']),
       ex_worst_fill_price = att_positive (py_or (first_value view [''worst_fill_price'', ''entry_price''])
         (dget plan ''worst_fill_price'')),
       ex_tick_size = att_positive (py_or (first_value view [''expected_broker_contract_tick_size'', ''tick_size''])
         (dget plan ''tick_size'')),
       ex_lot_step = att_positive (first_value view [''expected_broker_contract_lot_step'', ''lot_step'']),
       ex_target_open_price = att_positive (first_value view [''expected_open_price'', ''target_open_price'']),
       ex_target_lots = att_positive (first_value view [''expected_target_lots'', ''target_lots'', ''open_lots'']),
       ex_expected_tp_price = att_positive (first_value view [''expected_tp_price'', ''target_tp_price''])\<rparr>)"

section \<open>The mutation state the acknowledgement reports\<close>

definition canonical_state :: "string \<Rightarrow> string list" where
  "canonical_state raw_state =
     (if raw_state \<in> set NOT_ATTEMPTED_STATES then [''not_attempted'']
      else if raw_state \<in> set CONFIRMED_STATES then [''confirmed'']
      else if raw_state \<in> set ATTEMPTED_STATES then [''attempted'']
      else if raw_state \<in> set UNKNOWN_STATES then [''unknown'']
      else if raw_state \<noteq> [] then [''unknown'']
      else [])"

definition unsupported_state :: "string \<Rightarrow> bool" where
  "unsupported_state raw_state =
     (raw_state \<noteq> [] \<and> raw_state \<notin> set (NOT_ATTEMPTED_STATES @ CONFIRMED_STATES @ ATTEMPTED_STATES @ UNKNOWN_STATES))"

text \<open>The boolean evidence under these names and the reason of a conflict.\<close>

definition boolean_evidence :: "pydict list \<Rightarrow> string list \<Rightarrow> bool option \<times> string list" where
  "boolean_evidence sources names =
     (case remdups (List.map_filter (\<lambda>v. case v of VBool b \<Rightarrow> Some b | _ \<Rightarrow> None) (all_ack_values sources names)) of
        [] \<Rightarrow> (None, [])
      | [b] \<Rightarrow> (Some b, [])
      | _ \<Rightarrow> (None, [''ack_mutation_state_conflict'']))"

definition inferred_state :: "bool option \<Rightarrow> bool option \<Rightarrow> bool option \<Rightarrow> string" where
  "inferred_state attempted confirmed outcome_known =
     (if confirmed = Some True then ''confirmed''
      else if attempted = Some False then ''not_attempted''
      else if attempted = Some True \<and> outcome_known = Some False then ''unknown''
      else if attempted = Some True then ''attempted''
      else if outcome_known = Some False then ''unknown''
      else [])"

definition mutation_state :: "pydict list \<Rightarrow> string \<times> string list" where
  "mutation_state sources =
     (let raws = map lower_of (all_ack_values sources
            [''mutation_state'', ''broker_mutation_state'', ''execution_mutation_state'']);
          states = remdups (concat (map canonical_state raws));
          r1 = map (\<lambda>_. ''ack_mutation_state_unsupported'') (filter unsupported_state raws)
             @ (if 1 < length states then [''ack_mutation_state_conflict''] else []);
          state = (case states of [] \<Rightarrow> [] | [s] \<Rightarrow> s | _ \<Rightarrow> ''unknown'');
          (attempted, ra) = boolean_evidence sources [''broker_mutation_attempted'', ''mutation_attempted''];
          (confirmed, rc) = boolean_evidence sources [''broker_mutation_confirmed'', ''mutation_confirmed''];
          (outcome_known, ro) = boolean_evidence sources [''broker_outcome_known'', ''outcome_known''];
          inferred = inferred_state attempted confirmed outcome_known;
          reasons = r1 @ ra @ rc @ ro in
      if state \<noteq> [] \<and> inferred \<noteq> [] \<and> state \<noteq> inferred
      then (''unknown'', unique_reasons (reasons @ [''ack_mutation_state_conflict'']))
      else
        let state1 = (if state \<noteq> [] then state else inferred);
            c1 = (confirmed = Some False \<and> state1 = ''confirmed'');
            state2 = (if c1 then ''unknown'' else state1);
            c2 = (outcome_known = Some False \<and> state2 = ''confirmed'');
            state3 = (if c2 then ''unknown'' else state2) in
        (state3, unique_reasons (reasons
          @ (if c1 then [''ack_mutation_state_conflict''] else [])
          @ (if c2 then [''ack_mutation_state_conflict''] else []))))"

section \<open>Broker actuals\<close>

definition int_or :: "int option \<Rightarrow> int" where
  "int_or t = (case t of Some n \<Rightarrow> if n = 0 then - 1 else n | None \<Rightarrow> - 1)"

definition command_id_names :: "string list" where
  "command_id_names = [''actual_command_id'', ''command_id'', ''signal_id'', ''id'']"

definition symbol_names :: "string list" where
  "symbol_names = [''actual_symbol'', ''canonical_symbol'', ''logical_symbol'', ''symbol'']"

definition broker_symbol_names :: "string list" where
  "broker_symbol_names = [''actual_broker_symbol'', ''order_symbol'', ''broker_symbol'']"

definition cmd_names :: "string list" where
  "cmd_names = [''actual_cmd'', ''executed_cmd'', ''cmd'', ''command'']"

definition side_names :: "string list" where
  "side_names = [''actual_side'', ''order_side'', ''side'']"

definition magic_names :: "string list" where
  "magic_names = [''actual_magic'', ''order_magic'', ''magic'']"

definition ticket_names :: "string list" where
  "ticket_names = [''actual_ticket'', ''order_ticket'', ''ticket'']"

definition target_names :: "string list" where
  "target_names = [''actual_target_ticket'', ''target_ticket'']"

definition comment_names :: "string list" where
  "comment_names = [''actual_order_comment'', ''order_comment'', ''broker_comment'']"

definition owner_names :: "string list" where
  "owner_names = [''actual_owner_token'', ''owner_token'']"

definition actuals :: "pydict list \<Rightarrow> ExecutionAckActuals" where
  "actuals sources =
     \<lparr>aa_command_id = text_of (first_ack_value sources command_id_names),
      aa_cmd = upper_of (first_ack_value sources cmd_names),
      aa_symbol = upper_of (first_ack_value sources symbol_names),
      aa_broker_symbol = text_of (first_ack_value sources broker_symbol_names),
      aa_side = upper_of (first_ack_value sources side_names),
      aa_execution_type = normalize_execution_type (first_ack_value sources
        [''actual_execution_type'', ''execution_type'', ''order_kind'']),
      aa_ticket = reported_ticket sources,
      aa_target_ticket = int_or (first_positive_int_ack sources target_names),
      aa_magic = int_or (first_positive_int_ack sources magic_names),
      aa_owner_token = text_of (first_ack_value sources owner_names),
      aa_order_comment = text_of (first_ack_value sources comment_names),
      aa_lots = first_positive_ack sources
        [''actual_lots'', ''actual_closed_lots'', ''filled_lots'', ''closed_lots'', ''order_lots'', ''lots''],
      aa_sl_price = first_positive_ack sources [''actual_sl_price'', ''actual_sl'', ''order_sl'', ''sl_price'', ''sl''],
      aa_tp_price = first_positive_ack sources [''actual_tp_price'', ''actual_tp'', ''order_tp'', ''tp_price'', ''tp''],
      aa_open_price = first_positive_ack sources
        [''actual_open_price'', ''fill_price'', ''order_open_price'', ''executed_price'', ''open_price''],
      aa_remaining_lots = first_nonnegative_ack sources [''actual_remaining_lots'', ''remaining_lots''],
      aa_close_time = first_nonnegative_ack sources [''actual_close_time'', ''close_time'']\<rparr>"

definition has_true :: "pydict list \<Rightarrow> string list \<Rightarrow> bool" where
  "has_true sources names = (VBool True \<in> set (all_ack_values sources names))"

definition text_conflict :: "(string \<Rightarrow> string) \<Rightarrow> pyval list \<Rightarrow> bool" where
  "text_conflict nrm values =
     (1 < length (remdups (map nrm (filter (\<lambda>t. t \<noteq> []) (map text_of values)))))"

definition positive_ints :: "pydict list \<Rightarrow> string list \<Rightarrow> int list" where
  "positive_ints sources names = remdups (List.map_filter att_positive_int (all_ack_values sources names))"

section \<open>Reasons against an identity\<close>

text \<open>\<open>if c: reasons.append(r)\<close>.\<close>

abbreviation append_if :: "bool \<Rightarrow> string \<Rightarrow> string list" where
  "append_if c r \<equiv> if c then [r] else []"

definition owner_prefix_mismatch :: "string \<Rightarrow> pyval list \<Rightarrow> bool" where
  "owner_prefix_mismatch token values =
     list_ex (\<lambda>v. text_of v \<noteq> [] \<and> \<not> startswith (text_of v) token) values"

definition identity_reasons :: "CommandExpectation \<Rightarrow> ExecutionAckActuals \<Rightarrow> pydict list \<Rightarrow> string list" where
  "identity_reasons ex ac sources =
     (let values = all_ack_values sources in
      unique_reasons (
        append_if (text_conflict id (values command_id_names)) ''ack_command_id_conflict''
        @ (if aa_command_id ac = [] then [''ack_command_id_missing'']
           else append_if (ex_command_id ex = [] \<or> aa_command_id ac \<noteq> ex_command_id ex) ''ack_command_id_mismatch'')
        @ append_if (text_conflict py_upper (values symbol_names)) ''ack_symbol_conflict''
        @ append_if (aa_symbol ac \<noteq> [] \<and> ex_symbol ex \<noteq> [] \<and> aa_symbol ac \<noteq> ex_symbol ex) ''ack_symbol_mismatch''
        @ append_if (text_conflict id (values broker_symbol_names)) ''ack_broker_symbol_conflict''
        @ append_if (aa_broker_symbol ac \<noteq> [] \<and> ex_broker_symbol ex \<noteq> [] \<and> aa_broker_symbol ac \<noteq> ex_broker_symbol ex)
            ''ack_broker_symbol_mismatch''
        @ append_if (text_conflict py_upper (values cmd_names)) ''ack_cmd_conflict''
        @ append_if (aa_cmd ac \<noteq> [] \<and> ex_cmd ex \<noteq> [] \<and> aa_cmd ac \<noteq> ex_cmd ex) ''ack_cmd_mismatch''
        @ append_if (text_conflict py_upper (values side_names)) ''ack_side_conflict''
        @ append_if (aa_side ac \<noteq> [] \<and> ex_side ex \<noteq> [] \<and> aa_side ac \<noteq> ex_side ex) ''ack_side_mismatch''
        @ append_if (1 < length (positive_ints sources magic_names)) ''ack_magic_conflict''
        @ append_if (0 < aa_magic ac \<and> ex_magic ex \<noteq> None \<and> Some (aa_magic ac) \<noteq> ex_magic ex) ''ack_magic_mismatch''
        @ (if ex_owner_token ex \<noteq> []
           then append_if (owner_prefix_mismatch (ex_owner_token ex) (values comment_names)) ''ack_owner_comment_prefix_mismatch''
             @ append_if (owner_prefix_mismatch (ex_owner_token ex) (values owner_names)) ''ack_owner_token_prefix_mismatch''
           else [])
        @ append_if (1 < length (positive_ints sources ticket_names)) ''ack_ticket_conflict''
        @ (case ex_target_ticket ex of None \<Rightarrow> []
           | Some t \<Rightarrow>
               append_if (list_ex (\<lambda>u. u \<noteq> t) (positive_ints sources target_names)) ''ack_target_ticket_mismatch''
               @ append_if (0 < aa_ticket ac \<and> aa_ticket ac \<noteq> t) ''ack_ticket_target_mismatch'')))"

section \<open>Reasons against the broker actuals\<close>

text \<open>The labels a versioned read-back must carry, with their aliases, in insertion order.\<close>

definition required_actuals :: "string \<Rightarrow> (string \<times> string list) list" where
  "required_actuals cmd =
     (let r0 = [(''command_id'', [''actual_command_id'']), (''cmd'', [''actual_cmd'']),
            (''symbol'', [''actual_symbol'']), (''broker_symbol'', [''actual_broker_symbol'']),
            (''ticket'', [''actual_ticket'']), (''magic'', [''actual_magic'']),
            (''order_comment'', [''actual_order_comment''])];
          r1 = (if cmd \<in> set ATT_ENTRY_COMMANDS
            then r0 @ [(''side'', [''actual_side'']), (''execution_type'', [''actual_execution_type'']),
              (''lots'', [''actual_lots'']), (''sl_price'', [''actual_sl_price'', ''actual_sl'']),
              (''tp_price'', [''actual_tp_price'', ''actual_tp'']), (''open_price'', [''actual_open_price'']),
              (''remaining_lots'', [''actual_remaining_lots'']), (''close_time'', [''actual_close_time''])]
            else r0);
          r2 = (if cmd \<in> set MANAGEMENT_COMMANDS
            then r1 @ [(''target_ticket'', [''actual_target_ticket'']),
              (''lots'', [''actual_lots'', ''actual_closed_lots'', ''closed_lots'']),
              (''remaining_lots'', [''actual_remaining_lots'']), (''close_time'', [''actual_close_time''])]
            else r1) in
      if cmd = ''MODIFY_SL'' then r2 @ [(''sl_price'', [''actual_sl_price'', ''actual_sl''])] else r2)"

fun explicit_value :: "pydict \<Rightarrow> pydict \<Rightarrow> string list \<Rightarrow> pyval" where
  "explicit_value wire wire_actuals [] = VNone"
| "explicit_value wire wire_actuals (alias # aliases) =
     (if dhas wire alias then dget wire alias
      else if dhas wire_actuals alias then dget wire_actuals alias
      else explicit_value wire wire_actuals aliases)"

definition label_invalid :: "string \<Rightarrow> pyval \<Rightarrow> bool" where
  "label_invalid label value =
     (if label \<in> {''command_id'', ''cmd'', ''symbol'', ''broker_symbol'', ''order_comment'', ''side'', ''execution_type''}
      then text_of value = []
      else if label \<in> {''ticket'', ''target_ticket'', ''magic''} then att_positive_int value = None
      else if label \<in> {''lots'', ''sl_price'', ''tp_price'', ''open_price''} then att_positive value = None
      else if label \<in> {''remaining_lots'', ''close_time''} then att_nonnegative value = None
      else False)"

definition label_reasons :: "pydict \<Rightarrow> pydict \<Rightarrow> string \<times> string list \<Rightarrow> string list" where
  "label_reasons wire wire_actuals la =
     (case la of (label, aliases) \<Rightarrow>
        if \<not> list_ex (\<lambda>a. dhas wire a \<or> dhas wire_actuals a) aliases
        then [''ack_explicit_actual_'' @ label @ ''_missing'']
        else append_if (label_invalid label (explicit_value wire wire_actuals aliases))
          (''ack_explicit_actual_'' @ label @ ''_invalid''))"

definition explicit_actual_reasons :: "CommandExpectation \<Rightarrow> pydict \<Rightarrow> string list" where
  "explicit_actual_reasons ex ack =
     (let wire = wire_ack ack;
          af = mapping (dget wire ''actual_fields'');
          ba = mapping (dget wire ''broker_actual'');
          wire_actuals = (if af \<noteq> [] then af else if ba \<noteq> [] then ba else mapping (dget wire ''actuals'')) in
      unique_reasons (
        append_if (norm_text (dget wire ''actuals_schema'') \<noteq> MT4_ORDER_ACTUALS_SCHEMA) ''ack_actuals_schema_mismatch''
        @ concat (map (label_reasons wire wire_actuals) (required_actuals (ex_cmd ex)))))"

text \<open>
  The recurring comparisons of an optional actual with an optional expected number: both as in the
  success check (absence is a reason) and as in the mismatch check (absence is silent).
\<close>

definition mismatched :: "pyfloat option \<Rightarrow> pyfloat option \<Rightarrow> pyfloat option \<Rightarrow> bool" where
  "mismatched actual expected quantum =
     (case (actual, expected) of (Some a, Some e) \<Rightarrow> \<not> numeric_equal a e quantum | _ \<Rightarrow> False)"

definition compare_reasons ::
  "pyfloat option \<Rightarrow> pyfloat option \<Rightarrow> pyfloat option \<Rightarrow> string \<Rightarrow> string \<Rightarrow> string list" where
  "compare_reasons actual expected quantum missing mismatch =
     (if actual = None then [missing] else append_if (mismatched actual expected quantum) mismatch)"

definition fill_tolerance :: "CommandExpectation \<Rightarrow> pyfloat \<Rightarrow> pyfloat" where
  "fill_tolerance ex worst =
     fmax (fmax pico (fmul (case ex_tick_size ex of Some t \<Rightarrow> t | None \<Rightarrow> Fin 0) att_micro)) (fmul worst pico)"

definition fill_bound_reasons :: "CommandExpectation \<Rightarrow> ExecutionAckActuals \<Rightarrow> string list" where
  "fill_bound_reasons ex ac =
     (case (aa_open_price ac, ex_worst_fill_price ex) of
        (Some p, Some w) \<Rightarrow>
          append_if (ex_cmd ex = ''BUY'' \<and> flt (fadd w (fill_tolerance ex w)) p) ''ack_actual_open_price_exceeds_buy_bound''
          @ append_if (ex_cmd ex = ''SELL'' \<and> flt p (fsub w (fill_tolerance ex w))) ''ack_actual_open_price_exceeds_sell_bound''
      | _ \<Rightarrow> [])"

definition still_open_reasons :: "ExecutionAckActuals \<Rightarrow> string list" where
  "still_open_reasons ac =
     (case aa_close_time ac of None \<Rightarrow> [''ack_actual_close_time_missing'']
      | Some t \<Rightarrow> append_if (\<not> feq t (Fin 0)) ''ack_actual_close_time_not_open'')"

definition closed_reasons :: "ExecutionAckActuals \<Rightarrow> string list" where
  "closed_reasons ac =
     append_if (case aa_close_time ac of None \<Rightarrow> True | Some t \<Rightarrow> fle t (Fin 0)) ''ack_actual_close_time_missing''"

definition common_success_reasons :: "CommandExpectation \<Rightarrow> ExecutionAckActuals \<Rightarrow> string list" where
  "common_success_reasons ex ac =
     append_if (aa_command_id ac = []) ''ack_command_id_missing''
     @ append_if (ex_symbol ex = []) ''command_symbol_missing''
     @ append_if (aa_symbol ac = []) ''ack_symbol_missing''
     @ append_if (ex_broker_symbol ex = []) ''command_broker_symbol_missing''
     @ append_if (aa_broker_symbol ac = []) ''ack_broker_symbol_missing''
     @ append_if (aa_cmd ac = []) ''ack_cmd_missing''
     @ append_if (ex_magic ex = None) ''command_magic_missing''
     @ append_if (aa_magic ac \<le> 0) ''ack_magic_missing''
     @ append_if (ex_owner_token ex = []) ''command_owner_token_missing''
     @ (if aa_order_comment ac = [] then [''ack_owner_comment_missing'']
        else append_if (ex_owner_token ex \<noteq> [] \<and> \<not> startswith (aa_order_comment ac) (ex_owner_token ex))
          ''ack_owner_comment_prefix_mismatch'')
     @ append_if (aa_ticket ac \<le> 0) ''ack_positive_ticket_missing''"

definition entry_success_reasons :: "CommandExpectation \<Rightarrow> ExecutionAckActuals \<Rightarrow> string list" where
  "entry_success_reasons ex ac =
     append_if (aa_side ac \<noteq> ex_cmd ex) (if aa_side ac = [] then ''ack_side_missing'' else ''ack_side_mismatch'')
     @ append_if (ex_execution_type ex \<noteq> ''market'') ''command_execution_type_not_market''
     @ (if aa_execution_type ac = [] then [''ack_execution_type_missing'']
        else append_if (aa_execution_type ac \<noteq> ''market'') ''ack_execution_type_not_market'')
     @ append_if (ex_lots ex = None) ''command_lots_missing''
     @ compare_reasons (aa_lots ac) (ex_lots ex) (ex_lot_step ex) ''ack_actual_lots_missing'' ''ack_actual_lots_mismatch''
     @ append_if (ex_sl_price ex = None) ''command_sl_missing''
     @ compare_reasons (aa_sl_price ac) (ex_sl_price ex) (ex_tick_size ex) ''ack_actual_sl_missing'' ''ack_actual_sl_mismatch''
     @ append_if (ex_tp_price ex = None) ''command_tp_missing''
     @ compare_reasons (aa_tp_price ac) (ex_tp_price ex) (ex_tick_size ex) ''ack_actual_tp_missing'' ''ack_actual_tp_mismatch''
     @ append_if (ex_worst_fill_price ex = None) ''command_worst_fill_missing''
     @ (if aa_open_price ac = None then [''ack_actual_open_price_missing''] else fill_bound_reasons ex ac)
     @ compare_reasons (aa_remaining_lots ac) (ex_lots ex) (ex_lot_step ex)
         ''ack_actual_remaining_lots_missing'' ''ack_actual_remaining_lots_mismatch''
     @ still_open_reasons ac"

definition management_success_reasons :: "CommandExpectation \<Rightarrow> ExecutionAckActuals \<Rightarrow> string list" where
  "management_success_reasons ex ac =
     append_if (ex_target_ticket ex = None) ''command_target_ticket_missing''
     @ (if aa_target_ticket ac \<le> 0 then [''ack_target_ticket_missing'']
        else append_if (ex_target_ticket ex \<noteq> None \<and> ex_target_ticket ex \<noteq> Some (aa_target_ticket ac))
          ''ack_target_ticket_mismatch'')"

definition partial_remaining_reasons :: "CommandExpectation \<Rightarrow> ExecutionAckActuals \<Rightarrow> string list" where
  "partial_remaining_reasons ex ac =
     (case (aa_remaining_lots ac, ex_target_lots ex, ex_lots ex) of
        (None, _, _) \<Rightarrow> [''ack_actual_remaining_lots_missing'']
      | (Some rl, Some tlots, Some l) \<Rightarrow>
          let expected_remaining = fmax (Fin 0) (fsub tlots l) in
          append_if (\<not> numeric_equal rl expected_remaining (ex_lot_step ex)) ''ack_actual_remaining_lots_mismatch''
          @ (if flt (Fin 0) expected_remaining then still_open_reasons ac else closed_reasons ac)
      | _ \<Rightarrow> [])"

definition close_partial_reasons :: "CommandExpectation \<Rightarrow> ExecutionAckActuals \<Rightarrow> string list" where
  "close_partial_reasons ex ac =
     append_if (ex_lots ex = None) ''command_close_lots_missing''
     @ compare_reasons (aa_lots ac) (ex_lots ex) (ex_lot_step ex)
         ''ack_actual_close_lots_missing'' ''ack_actual_close_lots_mismatch''
     @ append_if (ex_target_lots ex = None) ''command_target_lots_missing''
     @ partial_remaining_reasons ex ac"

definition close_reasons :: "CommandExpectation \<Rightarrow> ExecutionAckActuals \<Rightarrow> string list" where
  "close_reasons ex ac =
     append_if (ex_target_lots ex = None) ''command_target_lots_missing''
     @ compare_reasons (aa_lots ac) (ex_target_lots ex) (ex_lot_step ex)
         ''ack_actual_close_lots_missing'' ''ack_actual_close_lots_mismatch''
     @ (case aa_remaining_lots ac of None \<Rightarrow> [''ack_actual_remaining_lots_missing'']
        | Some r \<Rightarrow> append_if (\<not> feq r (Fin 0)) ''ack_actual_remaining_lots_not_zero'')
     @ closed_reasons ac"

definition modify_sl_reasons :: "CommandExpectation \<Rightarrow> ExecutionAckActuals \<Rightarrow> string list" where
  "modify_sl_reasons ex ac =
     append_if (ex_sl_price ex = None) ''command_sl_missing''
     @ compare_reasons (aa_sl_price ac) (ex_sl_price ex) (ex_tick_size ex) ''ack_actual_sl_missing'' ''ack_actual_sl_mismatch''
     @ append_if (ex_target_lots ex = None) ''command_target_lots_missing''
     @ compare_reasons (aa_remaining_lots ac) (ex_target_lots ex) (ex_lot_step ex)
         ''ack_actual_remaining_lots_missing'' ''ack_actual_remaining_lots_mismatch''
     @ still_open_reasons ac"

definition successful_attestation_reasons :: "CommandExpectation \<Rightarrow> ExecutionAckActuals \<Rightarrow> string list" where
  "successful_attestation_reasons ex ac =
     unique_reasons (
       common_success_reasons ex ac
       @ (if ex_cmd ex \<in> set ATT_ENTRY_COMMANDS then entry_success_reasons ex ac else [])
       @ (if ex_cmd ex \<in> set MANAGEMENT_COMMANDS then management_success_reasons ex ac else [])
       @ (if ex_cmd ex = ''CLOSE_PARTIAL'' then close_partial_reasons ex ac else [])
       @ (if ex_cmd ex = ''CLOSE'' then close_reasons ex ac else [])
       @ (if ex_cmd ex = ''MODIFY_SL'' then modify_sl_reasons ex ac else [])
       @ append_if (mismatched (aa_open_price ac) (ex_target_open_price ex) (ex_tick_size ex)) ''ack_actual_open_price_mismatch''
       @ (if ex_cmd ex \<in> {''CLOSE'', ''CLOSE_PARTIAL''} then []
          else append_if (mismatched (aa_lots ac) (ex_target_lots ex) (ex_lot_step ex)) ''ack_actual_target_lots_mismatch'')
       @ (if ex_expected_tp_price ex = None then []
          else compare_reasons (aa_tp_price ac) (ex_expected_tp_price ex) (ex_tick_size ex)
            ''ack_actual_tp_missing'' ''ack_actual_tp_mismatch''))"

definition reported_economic_mismatch_reasons :: "CommandExpectation \<Rightarrow> ExecutionAckActuals \<Rightarrow> string list" where
  "reported_economic_mismatch_reasons ex ac =
     unique_reasons (
       (if ex_cmd ex \<in> set ATT_ENTRY_COMMANDS
        then append_if (aa_execution_type ac \<noteq> [] \<and> aa_execution_type ac \<noteq> ''market'') ''ack_execution_type_not_market''
          @ append_if (mismatched (aa_lots ac) (ex_lots ex) (ex_lot_step ex)) ''ack_actual_lots_mismatch''
          @ append_if (mismatched (aa_sl_price ac) (ex_sl_price ex) (ex_tick_size ex)) ''ack_actual_sl_mismatch''
          @ append_if (mismatched (aa_tp_price ac) (ex_tp_price ex) (ex_tick_size ex)) ''ack_actual_tp_mismatch''
          @ fill_bound_reasons ex ac
        else [])
       @ append_if (ex_cmd ex = ''CLOSE_PARTIAL'' \<and> mismatched (aa_lots ac) (ex_lots ex) (ex_lot_step ex))
           ''ack_actual_close_lots_mismatch''
       @ append_if (ex_cmd ex = ''CLOSE'' \<and> mismatched (aa_lots ac) (ex_target_lots ex) (ex_lot_step ex))
           ''ack_actual_close_lots_mismatch''
       @ append_if (ex_cmd ex = ''MODIFY_SL'' \<and> mismatched (aa_sl_price ac) (ex_sl_price ex) (ex_tick_size ex))
           ''ack_actual_sl_mismatch''
       @ append_if (mismatched (aa_open_price ac) (ex_target_open_price ex) (ex_tick_size ex)) ''ack_actual_open_price_mismatch''
       @ append_if (mismatched (aa_tp_price ac) (ex_expected_tp_price ex) (ex_tick_size ex)) ''ack_actual_tp_mismatch'')"

section \<open>Classification\<close>

definition status_names :: "string list" where
  "status_names = [''reported_status'', ''status'', ''ack_status'']"

definition mutating_reasons ::
  "CommandExpectation \<Rightarrow> ExecutionAckActuals \<Rightarrow> pydict \<Rightarrow> string option \<Rightarrow> string \<Rightarrow> string list" where
  "mutating_reasons ex ac ack normalized_status state =
     append_if (0 < aa_ticket ac \<and> state = ''not_attempted'') ''ack_ticket_conflicts_with_not_attempted''
     @ append_if (normalized_status = Some ''failed'' \<and> 0 < aa_ticket ac) ''ack_failed_with_positive_ticket''
     @ append_if (normalized_status = Some ''duplicate'' \<and> 0 < aa_ticket ac) ''ack_duplicate_with_positive_ticket''
     @ (if normalized_status = Some ''acked''
        then append_if (state \<noteq> ''confirmed'') ''ack_mutation_not_confirmed''
          @ explicit_actual_reasons ex ack
          @ successful_attestation_reasons ex ac
        else if normalized_status \<in> {Some ''failed'', Some ''duplicate''}
        then append_if (state \<noteq> ''not_attempted'') ''ack_not_conclusive_pre_mutation_refusal''
        else if normalized_status = Some ''delivered''
        then append_if (state \<noteq> ''not_attempted'') ''ack_unknown_post_mutation_outcome''
        else append_if (state \<in> {''attempted'', ''confirmed'', ''unknown''}) ''ack_unknown_post_mutation_outcome'')
     @ append_if (state \<in> {''attempted'', ''unknown''}) ''ack_unknown_post_mutation_outcome''"

definition explicit_reconcile :: "string option \<Rightarrow> pydict list \<Rightarrow> bool" where
  "explicit_reconcile normalized_status sources =
     (normalized_status = Some ''reconcile_required''
      \<or> has_true sources [''reconcile_required'', ''execution_uncertain'', ''broker_outcome_unknown''])"

definition classification_reasons :: "pydict \<Rightarrow> pydict \<Rightarrow> string list" where
  "classification_reasons command ack =
     (let ex = expectation command;
          sources = ack_sources ack;
          reported_status = text_of (first_ack_value sources status_names);
          normalized_status = normalize_status (py_lower reported_status);
          (state, state_reasons) = mutation_state sources;
          ac = actuals sources;
          observed = remdups (List.map_filter (\<lambda>v. normalize_status (lower_of v)) (all_ack_values sources status_names)) in
      unique_reasons (
        state_reasons
        @ identity_reasons ex ac sources
        @ reported_economic_mismatch_reasons ex ac
        @ append_if (1 < length observed) ''ack_status_conflict''
        @ append_if (explicit_reconcile normalized_status sources) ''ack_explicit_reconcile_required''
        @ (if normalized_status = None
           then [if reported_status = [] then ''ack_status_missing'' else ''ack_status_unsupported''] else [])
        @ append_if (ex_command_id ex = []) ''command_id_missing''
        @ (if ex_cmd ex = [] then [''command_cmd_missing'']
           else append_if (ex_cmd ex \<notin> set BROKER_MUTATING_COMMANDS \<and> ex_cmd ex \<noteq> ''INFO'')
             ''command_cmd_unsupported_for_attestation'')
        @ (if ex_cmd ex \<in> set BROKER_MUTATING_COMMANDS
           then mutating_reasons ex ac ack normalized_status state else [])))"

definition classify_execution_ack :: "pydict \<Rightarrow> pydict \<Rightarrow> ExecutionAckAttestation" where
  "classify_execution_ack command ack =
     (let ex = expectation command;
          sources = ack_sources ack;
          reported_status = text_of (first_ack_value sources status_names);
          normalized_status = normalize_status (py_lower reported_status);
          state = fst (mutation_state sources);
          broker_mutating = (ex_cmd ex \<in> set BROKER_MUTATING_COMMANDS);
          reasons = classification_reasons command ack;
          effective_status =
            (case normalized_status of
               None \<Rightarrow> ''reconcile_required''
             | Some s \<Rightarrow> if explicit_reconcile normalized_status sources \<or> reasons \<noteq> [] then ''reconcile_required'' else s) in
      \<lparr>at_effective_status = effective_status, at_reported_status = reported_status,
       at_mutation_state = state, at_broker_mutating = broker_mutating,
       at_attested = (effective_status = ''acked'' \<and> (\<not> broker_mutating \<or> state = ''confirmed'')),
       at_terminal = (effective_status \<in> {''acked'', ''failed'', ''duplicate''}),
       at_reasons = reasons, at_actuals = actuals sources,
       at_schema_version = EXECUTION_ACK_ATTESTATION_SCHEMA\<rparr>)"

section \<open>Facts\<close>

lemma unique_reasons_Nil: "unique_reasons rs = [] \<longleftrightarrow> list_all (\<lambda>r. r = []) rs"
  by (auto simp: unique_reasons_def list_all_iff filter_empty_conv)

lemma append_if_ok [simp]: "list_all (\<lambda>r. r = []) (append_if c (x # xs)) \<longleftrightarrow> \<not> c"
  by simp

lemma unique_reasons_nonempty [simp]: "list_all (\<lambda>r. r = []) (unique_reasons rs) \<longleftrightarrow> unique_reasons rs = []"
proof -
  have "\<forall>r \<in> set (unique_reasons rs). r \<noteq> []" by (simp add: unique_reasons_def)
  then show ?thesis by (cases "unique_reasons rs") (auto simp: list_all_iff)
qed

lemma compare_reasons_ok:
  "list_all (\<lambda>r. r = []) (compare_reasons a e q (m # ms) (n # ns)) \<longleftrightarrow>
     (\<exists>x. a = Some x \<and> (\<forall>y. e = Some y \<longrightarrow> numeric_equal x y q))"
  by (auto simp: compare_reasons_def mismatched_def split: option.splits)

lemma still_open_ok:
  "list_all (\<lambda>r. r = []) (still_open_reasons ac) \<longleftrightarrow> (\<exists>t. aa_close_time ac = Some t \<and> feq t (Fin 0))"
  by (auto simp: still_open_reasons_def split: option.splits)

lemma fill_bound_ok:
  "list_all (\<lambda>r. r = []) (fill_bound_reasons ex ac) \<longleftrightarrow>
     (\<forall>p w. aa_open_price ac = Some p \<longrightarrow> ex_worst_fill_price ex = Some w \<longrightarrow>
        (ex_cmd ex = ''BUY'' \<longrightarrow> \<not> flt (fadd w (fill_tolerance ex w)) p)
        \<and> (ex_cmd ex = ''SELL'' \<longrightarrow> \<not> flt p (fsub w (fill_tolerance ex w))))"
  by (auto simp: fill_bound_reasons_def split: option.splits)

lemmas reasons_ok = unique_reasons_Nil compare_reasons_ok still_open_ok fill_bound_ok

definition entry_exact :: "CommandExpectation \<Rightarrow> ExecutionAckActuals \<Rightarrow> bool" where
  "entry_exact ex ac =
     (aa_side ac = ex_cmd ex \<and> ex_execution_type ex = ''market'' \<and> aa_execution_type ac = ''market''
      \<and> (\<exists>l al. ex_lots ex = Some l \<and> aa_lots ac = Some al \<and> numeric_equal al l (ex_lot_step ex))
      \<and> (\<exists>p ap. ex_sl_price ex = Some p \<and> aa_sl_price ac = Some ap \<and> numeric_equal ap p (ex_tick_size ex))
      \<and> (\<exists>p ap. ex_tp_price ex = Some p \<and> aa_tp_price ac = Some ap \<and> numeric_equal ap p (ex_tick_size ex))
      \<and> (\<exists>w p. ex_worst_fill_price ex = Some w \<and> aa_open_price ac = Some p
           \<and> (ex_cmd ex = ''BUY'' \<longrightarrow> \<not> flt (fadd w (fill_tolerance ex w)) p)
           \<and> (ex_cmd ex = ''SELL'' \<longrightarrow> \<not> flt p (fsub w (fill_tolerance ex w))))
      \<and> (\<exists>t. aa_close_time ac = Some t \<and> feq t (Fin 0)))"

definition identity_exact :: "CommandExpectation \<Rightarrow> ExecutionAckActuals \<Rightarrow> bool" where
  "identity_exact ex ac =
     (aa_command_id ac = ex_command_id ex \<and> ex_command_id ex \<noteq> []
      \<and> aa_symbol ac = ex_symbol ex \<and> ex_symbol ex \<noteq> []
      \<and> aa_broker_symbol ac = ex_broker_symbol ex \<and> ex_broker_symbol ex \<noteq> []
      \<and> aa_cmd ac = ex_cmd ex
      \<and> ex_magic ex = Some (aa_magic ac) \<and> 0 < aa_magic ac
      \<and> ex_owner_token ex \<noteq> [] \<and> startswith (aa_order_comment ac) (ex_owner_token ex)
      \<and> 0 < aa_ticket ac)"

lemma entry_success_exact:
  assumes "list_all (\<lambda>r. r = []) (entry_success_reasons ex ac)"
  shows "entry_exact ex ac"
  using assms unfolding entry_success_reasons_def
  by (simp add: entry_exact_def list_all_append reasons_ok split: if_splits) fastforce

lemma common_success_identity:
  assumes "list_all (\<lambda>r. r = []) (common_success_reasons ex ac)"
    and "identity_reasons ex ac sources = []" and "ex_cmd ex \<noteq> []"
  shows "identity_exact ex ac"
  using assms unfolding common_success_reasons_def identity_reasons_def Let_def
  by (auto simp: identity_exact_def unique_reasons_Nil split: if_splits option.splits)

lemma management_success_target:
  assumes "list_all (\<lambda>r. r = []) (management_success_reasons ex ac)"
    and "identity_reasons ex ac sources = []" and "0 < aa_ticket ac"
  shows "ex_target_ticket ex = Some (aa_target_ticket ac)" and "aa_ticket ac = aa_target_ticket ac"
  using assms unfolding management_success_reasons_def identity_reasons_def Let_def
  by (auto simp: unique_reasons_Nil split: if_splits option.splits)

lemma nonblank_reasons:
  "list_all (\<lambda>r. r = []) (identity_reasons ex ac src) \<longleftrightarrow> identity_reasons ex ac src = []"
  "list_all (\<lambda>r. r = []) (successful_attestation_reasons ex ac) \<longleftrightarrow> successful_attestation_reasons ex ac = []"
  by (simp_all only: identity_reasons_def successful_attestation_reasons_def Let_def unique_reasons_nonempty)

lemmas successful_blank = nonblank_reasons(2)

lemma success_parts:
  assumes "successful_attestation_reasons ex ac = []"
  shows "list_all (\<lambda>r. r = []) (common_success_reasons ex ac)"
    and "ex_cmd ex \<in> set ATT_ENTRY_COMMANDS \<Longrightarrow> list_all (\<lambda>r. r = []) (entry_success_reasons ex ac)"
    and "ex_cmd ex \<in> set MANAGEMENT_COMMANDS \<Longrightarrow> list_all (\<lambda>r. r = []) (management_success_reasons ex ac)"
  using assms unfolding successful_attestation_reasons_def unique_reasons_Nil list_all_append by auto

lemma att_positive_int_pos: "att_positive_int v = Some n \<Longrightarrow> 0 < n"
  by (cases v) (auto split: sum.splits if_splits)

lemma reported_ticket_range: "aa_ticket (actuals sources) = - 1 \<or> 0 < aa_ticket (actuals sources)"
proof -
  have "0 < t" if "t \<in> set (List.map_filter att_positive_int vs)" for t vs
    using that by (auto simp: set_map_filter dest: att_positive_int_pos)
  note pos = this
  show ?thesis
  proof (cases "List.map_filter att_positive_int (all_ack_values sources [''actual_ticket'', ''order_ticket'', ''ticket''])")
    case (Cons t ts)
    then show ?thesis using pos [of t] by (metis (no_types, lifting) ExecutionAckActuals.select_convs(7)
      actuals_def list.case(2) list.set_intros(1) reported_ticket_def)
  qed (simp add: actuals_def reported_ticket_def)
qed

lemma classification_parts:
  assumes "classification_reasons command ack = []"
  shows "identity_reasons (expectation command) (actuals (ack_sources ack)) (ack_sources ack) = []"
    and "ex_cmd (expectation command) \<noteq> []"
    and "ex_cmd (expectation command) \<in> set BROKER_MUTATING_COMMANDS \<Longrightarrow>
      list_all (\<lambda>r. r = []) (mutating_reasons (expectation command) (actuals (ack_sources ack)) ack
        (normalize_status (py_lower (text_of (first_ack_value (ack_sources ack) status_names))))
        (fst (mutation_state (ack_sources ack))))"
  using assms unfolding classification_reasons_def Let_def
  by (auto simp: unique_reasons_Nil list_all_append nonblank_reasons split: prod.splits if_splits)

lemma classify_status:
  "at_effective_status (classify_execution_ack c a) = ''reconcile_required'' \<or>
   (normalize_status (py_lower (text_of (first_ack_value (ack_sources a) status_names)))
      = Some (at_effective_status (classify_execution_ack c a))
    \<and> classification_reasons c a = [])"
  by (auto simp: classify_execution_ack_def Let_def split: option.splits)

lemma normalize_status_range:
  "normalize_status r = Some s \<Longrightarrow> s \<in> {''acked'', ''failed'', ''duplicate'', ''delivered'', ''reconcile_required''}"
  by (auto simp: normalize_status_def split: if_splits)

lemma classify_fields [simp]:
  "at_mutation_state (classify_execution_ack c a) = fst (mutation_state (ack_sources a))"
  "at_broker_mutating (classify_execution_ack c a) = (ex_cmd (expectation c) \<in> set BROKER_MUTATING_COMMANDS)"
  "at_actuals (classify_execution_ack c a) = actuals (ack_sources a)"
  "at_reasons (classify_execution_ack c a) = classification_reasons c a"
  "at_terminal (classify_execution_ack c a) =
     (at_effective_status (classify_execution_ack c a) \<in> {''acked'', ''failed'', ''duplicate''})"
  by (simp_all add: classify_execution_ack_def Let_def)

section \<open>Properties\<close>

text \<open>
  C24. Exact success: a broker-mutating command is acknowledged as executed only with a confirmed
  mutation and a positive ticket whose command id, symbol, broker symbol, verb, magic and owner
  comment are those of the command. For an entry the side, the market execution, lots, stop, target
  and the worst-fill bound agree as well, and the position is still open; a ticket-management
  command names the very ticket the broker reports.
\<close>

theorem attested_success_is_exact:
  assumes "at_effective_status (classify_execution_ack command ack) = ''acked''"
    and "ex_cmd (expectation command) \<in> set BROKER_MUTATING_COMMANDS"
  shows "at_mutation_state (classify_execution_ack command ack) = ''confirmed''
    \<and> identity_exact (expectation command) (actuals (ack_sources ack))
    \<and> (ex_cmd (expectation command) \<in> set ATT_ENTRY_COMMANDS \<longrightarrow>
        entry_exact (expectation command) (actuals (ack_sources ack)))
    \<and> (ex_cmd (expectation command) \<in> set MANAGEMENT_COMMANDS \<longrightarrow>
        ex_target_ticket (expectation command) = Some (aa_ticket (actuals (ack_sources ack))))"
proof -
  let ?ex = "expectation command" and ?ac = "actuals (ack_sources ack)"
  have st: "normalize_status (py_lower (text_of (first_ack_value (ack_sources ack) status_names))) = Some ''acked''"
    and nil: "classification_reasons command ack = []"
    using classify_status [of command ack] assms(1) by auto
  note p = classification_parts [OF nil]
  have m: "list_all (\<lambda>r. r = []) (mutating_reasons ?ex ?ac ack (Some ''acked'') (fst (mutation_state (ack_sources ack))))"
    using p(3) [OF assms(2)] st by simp
  then have conf: "fst (mutation_state (ack_sources ack)) = ''confirmed''"
    and suc: "successful_attestation_reasons ?ex ?ac = []"
    by (simp_all add: mutating_reasons_def successful_blank split: if_splits)
  note s = success_parts [OF suc]
  have id: "identity_exact ?ex ?ac" by (rule common_success_identity [OF s(1) p(1,2)])
  then have "0 < aa_ticket ?ac" by (simp add: identity_exact_def)
  then show ?thesis
    using conf id s(2) s(3) entry_success_exact management_success_target [OF _ p(1)] by auto
qed

text \<open>
  C25. Conclusive refusal: a broker-mutating command is closed as failed or duplicate, or kept as
  merely delivered, only when the acknowledgement states that no mutation was attempted and no
  container of it carries a broker ticket.
\<close>

theorem refusal_is_conclusive:
  assumes "at_effective_status (classify_execution_ack command ack) \<in> {''failed'', ''duplicate'', ''delivered''}"
    and "ex_cmd (expectation command) \<in> set BROKER_MUTATING_COMMANDS"
  shows "at_mutation_state (classify_execution_ack command ack) = ''not_attempted''
    \<and> aa_ticket (actuals (ack_sources ack)) = - 1"
proof -
  let ?ex = "expectation command" and ?ac = "actuals (ack_sources ack)"
  obtain s where s: "at_effective_status (classify_execution_ack command ack) = s"
    "s \<in> {''failed'', ''duplicate'', ''delivered''}" using assms(1) by blast
  have st: "normalize_status (py_lower (text_of (first_ack_value (ack_sources ack) status_names))) = Some s"
    and nil: "classification_reasons command ack = []"
    using classify_status [of command ack] s by auto
  have m: "list_all (\<lambda>r. r = []) (mutating_reasons ?ex ?ac ack (Some s) (fst (mutation_state (ack_sources ack))))"
    using classification_parts(3) [OF nil assms(2)] st by simp
  then have "fst (mutation_state (ack_sources ack)) = ''not_attempted''" "\<not> 0 < aa_ticket ?ac"
    using s(2) by (auto simp: mutating_reasons_def split: if_splits)
  moreover have "aa_ticket ?ac = - 1 \<or> 0 < aa_ticket ?ac" by (rule reported_ticket_range)
  ultimately show ?thesis by auto
qed

text \<open>
  C26. Ambiguity is never terminal: whatever else the acknowledgement says, a broker-mutating command
  whose reported mutation state is neither confirmed nor not-attempted, or whose containers report
  two different tickets, requires reconciliation.
\<close>

theorem ambiguous_outcome_reconciles:
  assumes "ex_cmd (expectation command) \<in> set BROKER_MUTATING_COMMANDS"
    and "fst (mutation_state (ack_sources ack)) \<notin> {''confirmed'', ''not_attempted''}
      \<or> 1 < length (positive_ints (ack_sources ack) ticket_names)"
  shows "at_effective_status (classify_execution_ack command ack) = ''reconcile_required''
    \<and> \<not> at_terminal (classify_execution_ack command ack)"
proof (rule ccontr)
  let ?ex = "expectation command" and ?ac = "actuals (ack_sources ack)"
  let ?st = "normalize_status (py_lower (text_of (first_ack_value (ack_sources ack) status_names)))"
  assume "\<not> ?thesis"
  then have ne: "at_effective_status (classify_execution_ack command ack) \<noteq> ''reconcile_required''" by auto
  then have nil: "classification_reasons command ack = []"
    and st: "?st = Some (at_effective_status (classify_execution_ack command ack))"
    using classify_status [of command ack] by auto
  note p = classification_parts [OF nil]
  have "\<not> 1 < length (positive_ints (ack_sources ack) ticket_names)"
    using p(1) unfolding identity_reasons_def Let_def by (auto simp: unique_reasons_Nil split: if_splits)
  moreover have "fst (mutation_state (ack_sources ack)) \<in> {''confirmed'', ''not_attempted''}"
    using p(3) [OF assms(1)] ne normalize_status_range [OF st] unfolding st
    by (auto simp: mutating_reasons_def split: if_splits)
  ultimately show False using assms(2) by blast
qed

text \<open>
  The classifier is fail closed on its own reasons: an acknowledgement is terminal only without
  any reason, the effective status is always one of the five queue statuses, and a recorded reason
  always means reconciliation.
\<close>

theorem classification_fail_closed:
  "at_terminal (classify_execution_ack c a)
     = (at_effective_status (classify_execution_ack c a) \<in> {''acked'', ''failed'', ''duplicate''})
   \<and> (if at_reasons (classify_execution_ack c a) = []
      then at_effective_status (classify_execution_ack c a)
        \<in> {''acked'', ''failed'', ''duplicate'', ''delivered'', ''reconcile_required''}
      else at_effective_status (classify_execution_ack c a) = ''reconcile_required'')"
  using classify_status [of c a] normalize_status_range by auto

section \<open>Witnesses\<close>

definition demo_row :: pydict where
  "demo_row =
     [(''command_id'', VStr ''c1''), (''cmd'', VStr ''BUY''), (''symbol'', VStr ''EURUSD''),
      (''lots'', VFloat (Fin (1/2))), (''sl_price'', VFloat (Fin 1)), (''tp_price'', VFloat (Fin 2)),
      (''magic'', VInt 246810),
      (''payload_json'', VDict [(''owner_token'', VStr ''fxs-1''), (''broker_symbol'', VStr ''EURUSD.i''),
         (''worst_fill_price'', VFloat (Fin (3/2)))])]"

definition demo_success :: pydict where
  "demo_success =
     [(''command_id'', VStr ''c1''), (''status'', VStr ''filled''), (''mutation_state'', VStr ''confirmed''),
      (''actuals_schema'', VStr MT4_ORDER_ACTUALS_SCHEMA),
      (''actual_command_id'', VStr ''c1''), (''actual_cmd'', VStr ''BUY''), (''actual_symbol'', VStr ''EURUSD''),
      (''actual_broker_symbol'', VStr ''EURUSD.i''), (''actual_ticket'', VInt 77), (''actual_magic'', VInt 246810),
      (''actual_order_comment'', VStr ''fxs-1[x]''), (''actual_side'', VStr ''BUY''),
      (''actual_execution_type'', VStr ''instant''), (''actual_lots'', VFloat (Fin (1/2))),
      (''actual_sl_price'', VFloat (Fin 1)), (''actual_tp_price'', VFloat (Fin 2)),
      (''actual_open_price'', VFloat (Fin (3/2))), (''actual_remaining_lots'', VFloat (Fin (1/2))),
      (''actual_close_time'', VInt 0)]"

definition demo_refusal :: pydict where
  "demo_refusal =
     [(''command_id'', VStr ''c1''), (''status'', VStr ''rejected''), (''mutation_state'', VStr ''not_attempted'')]"

definition demo_unclear :: pydict where
  "demo_unclear =
     [(''command_id'', VStr ''c1''), (''status'', VStr ''rejected''), (''mutation_state'', VStr ''attempted'')]"

definition demo_expectation :: CommandExpectation where
  "demo_expectation =
     \<lparr>ex_command_id = ''c1'', ex_cmd = ''BUY'', ex_symbol = ''EURUSD'', ex_broker_symbol = ''EURUSD.i'',
      ex_side = ''BUY'', ex_execution_type = ''market'', ex_magic = Some 246810, ex_owner_token = ''fxs-1'',
      ex_target_ticket = None, ex_lots = Some (Fin (1/2)), ex_sl_price = Some (Fin 1),
      ex_tp_price = Some (Fin 2), ex_worst_fill_price = Some (Fin (3/2)), ex_tick_size = None,
      ex_lot_step = None, ex_target_open_price = None, ex_target_lots = None, ex_expected_tp_price = None\<rparr>"

definition demo_actuals :: ExecutionAckActuals where
  "demo_actuals =
     \<lparr>aa_command_id = ''c1'', aa_cmd = ''BUY'', aa_symbol = ''EURUSD'', aa_broker_symbol = ''EURUSD.i'',
      aa_side = ''BUY'', aa_execution_type = ''market'', aa_ticket = 77, aa_target_ticket = - 1,
      aa_magic = 246810, aa_owner_token = [], aa_order_comment = ''fxs-1[x]'', aa_lots = Some (Fin (1/2)),
      aa_sl_price = Some (Fin 1), aa_tp_price = Some (Fin 2), aa_open_price = Some (Fin (3/2)),
      aa_remaining_lots = Some (Fin (1/2)), aa_close_time = Some (Fin 0)\<rparr>"

lemma demo_evaluation:
  "expectation demo_row = demo_expectation"
  "ack_sources demo_success = [demo_success]"
  "actuals [demo_success] = demo_actuals"
  "mutation_state [demo_success] = (''confirmed'', [])"
  "text_of (first_ack_value [demo_success] status_names) = ''filled''"
  "normalize_status (py_lower ''filled'') = Some ''acked''"
  "explicit_reconcile (Some ''acked'') [demo_success] = False"
  by code_simp+

lemma demo_identity: "identity_reasons demo_expectation demo_actuals [demo_success] = []"
  by code_simp

lemma demo_economic: "reported_economic_mismatch_reasons demo_expectation demo_actuals = []"
  by code_simp

lemma demo_successful: "successful_attestation_reasons demo_expectation demo_actuals = []"
  by code_simp

lemma demo_explicit: "explicit_actual_reasons demo_expectation demo_success = []"
  by code_simp

lemmas demo_no_reasons = demo_identity demo_economic demo_successful demo_explicit

lemma demo_attested: "at_effective_status (classify_execution_ack demo_row demo_success) = ''acked''"
proof -
  have m: "mutating_reasons demo_expectation demo_actuals demo_success (Some ''acked'') ''confirmed'' = []"
    unfolding mutating_reasons_def demo_no_reasons by (simp add: demo_actuals_def)
  have o: "length (remdups (List.map_filter (\<lambda>v. normalize_status (lower_of v))
      (all_ack_values [demo_success] status_names))) = 1" by code_simp
  have "classification_reasons demo_row demo_success = []"
    unfolding classification_reasons_def Let_def demo_evaluation demo_no_reasons m o prod.case
    by (simp add: demo_expectation_def unique_reasons_def BROKER_MUTATING_COMMANDS_def)
  then show ?thesis
    unfolding classify_execution_ack_def Let_def demo_evaluation by simp
qed

theorem attested_success_is_exact_witness:
  "at_effective_status (classify_execution_ack demo_row demo_success) = ''acked''
   \<and> entry_exact (expectation demo_row) (actuals (ack_sources demo_success))"
proof -
  have m: "ex_cmd (expectation demo_row) \<in> set BROKER_MUTATING_COMMANDS"
    and e: "ex_cmd (expectation demo_row) \<in> set ATT_ENTRY_COMMANDS"
    unfolding demo_evaluation by code_simp+
  from attested_success_is_exact [OF demo_attested m] e demo_attested show ?thesis by blast
qed

theorem refusal_is_conclusive_witness:
  "at_effective_status (classify_execution_ack demo_row demo_refusal) = ''failed''
   \<and> aa_ticket (actuals (ack_sources demo_refusal)) = - 1"
proof -
  have s: "at_effective_status (classify_execution_ack demo_row demo_refusal) = ''failed''" by code_simp
  have m: "ex_cmd (expectation demo_row) \<in> set BROKER_MUTATING_COMMANDS" by code_simp
  have "at_effective_status (classify_execution_ack demo_row demo_refusal) \<in> {''failed'', ''duplicate'', ''delivered''}"
    unfolding s by simp
  from refusal_is_conclusive [OF this m] s show ?thesis by blast
qed

theorem ambiguous_outcome_reconciles_witness:
  "at_effective_status (classify_execution_ack demo_row demo_unclear) = ''reconcile_required''"
proof -
  have m: "ex_cmd (expectation demo_row) \<in> set BROKER_MUTATING_COMMANDS" by code_simp
  have "fst (mutation_state (ack_sources demo_unclear)) \<notin> {''confirmed'', ''not_attempted''}
      \<or> 1 < length (positive_ints (ack_sources demo_unclear) ticket_names)" by code_simp
  from ambiguous_outcome_reconciles [OF m this] show ?thesis by blast
qed

end
