(* ===== verification/Runtime_Store.thy ===== *)
theory Runtime_Store
  imports Dto Ack_Attestation
begin

text \<open>
  The tables of \<open>runtime/postgres_store.py\<close> that the execution queue reads and writes, as a record:
  the \<open>commands\<close> rows in insertion order, the \<open>command_events\<close> log, the single
  \<open>runtime_state\<close> snapshot row (absent before the first write) and the \<open>decision_snapshots\<close> log. The
  store lock makes every operation one transaction, so an operation is a function on this record. The
  clock \<open>_now()\<close> is an argument of the model, a function from the number of readings made so far,
  and the record counts the readings. Text columns are never NULL in rows the store itself
  inserts; the four nullable acknowledgement columns are options. An \<open>UPDATE \<dots> RETURNING\<close> and a
  \<open>SELECT\<close> without an order deliver rows in insertion order. Timestamps in the rows are compared
  with Python's order.
\<close>

section \<open>Conversions of \<open>JSON\<close> values\<close>

fun pair_item :: "pyval \<Rightarrow> pyerr + (string \<times> pyval)" where
  "pair_item (VList [VStr k, v]) = Inr (k, v)"
| "pair_item (VList xs) = Inl ValueError"
| "pair_item (VStr [a, b]) = Inr ([a], VStr [b])"
| "pair_item (VStr s) = Inl ValueError"
| "pair_item (VDict [(a, v), (b, w)]) = Inr (a, VStr b)"
| "pair_item (VDict d) = Inl ValueError"
| "pair_item _ = Inl TypeError"

text \<open>\<open>dict(x or {})\<close> and \<open>list(x or [])\<close>.\<close>

fun as_dict :: "pyval \<Rightarrow> pyerr + pydict" where
  "as_dict (VDict d) = Inr d"
| "as_dict (VList xs) = (case traverse pair_item xs of Inl e \<Rightarrow> Inl e | Inr ps \<Rightarrow> Inr (dmerge [] ps))"
| "as_dict (VStr s) = (if s = [] then Inr [] else Inl ValueError)"
| "as_dict v = (if truthy v then Inl TypeError else Inr [])"

fun as_list :: "pyval \<Rightarrow> pyerr + pyval list" where
  "as_list (VList xs) = Inr xs"
| "as_list (VTuple xs) = Inr xs"
| "as_list (VStr s) = Inr (map (\<lambda>c. VStr [c]) s)"
| "as_list (VDict d) = Inr (map (VStr \<circ> fst) d)"
| "as_list v = (if truthy v then Inl TypeError else Inr [])"

fun is_dict :: "pyval \<Rightarrow> bool" where
  "is_dict (VDict d) = True"
| "is_dict _ = False"

fun is_list :: "pyval \<Rightarrow> bool" where
  "is_list (VList xs) = True"
| "is_list _ = False"

definition safe_int :: "pyval \<Rightarrow> int \<Rightarrow> int" where
  "safe_int v d = (case py_int v of Inl e \<Rightarrow> d | Inr n \<Rightarrow> n)"

text \<open>\<open>d.pop(k, None)\<close> on a dictionary.\<close>

definition dpop :: "string \<Rightarrow> pydict \<Rightarrow> pydict" where
  "dpop k d = AList.delete k d"

definition dpops :: "string list \<Rightarrow> pydict \<Rightarrow> pydict" where
  "dpops ks d = fold dpop ks d"

text \<open>A sequence of \<open>if \<dots>: return "reason"\<close> checks; the empty text is the passing answer.\<close>

fun first_reason :: "(bool \<times> string) list \<Rightarrow> string" where
  "first_reason [] = []"
| "first_reason ((b, why) # cs) = (if b then why else first_reason cs)"

section \<open>Tables\<close>

record CommandRow =
  r_command_id :: string
  r_session_id :: string
  r_proto :: string
  r_cmd :: string
  r_symbol :: string
  r_lots :: pyfloat
  r_tp_cash :: "pyfloat option"
  r_tp_price :: "pyfloat option"
  r_sl_price :: "pyfloat option"
  r_magic :: int
  r_intent :: string
  r_trace_id :: string
  r_correlation_id :: string
  r_thread_id :: string
  r_idempotency_key :: string
  r_schema_version :: string
  r_orchestration_meta_json :: pydict
  r_status :: string
  r_created_at :: pyfloat
  r_updated_at :: pyfloat
  r_expires_at :: pyfloat
  r_delivered_count :: int
  r_reason :: string
  r_payload_json :: pydict
  r_ack_json :: pydict
  r_ack_policy_scope :: "string option"
  r_ack_attestation_schema :: "string option"
  r_ack_terminal_safe :: bool
  r_ack_ticket :: "int option"
  r_ack_mutation_state :: "string option"

record CommandEvent =
  ev_command_id :: string
  ev_status :: string
  ev_reason :: string
  ev_ts :: pyfloat
  ev_json :: pydict

record DecisionSnapshot =
  ds_ts :: pyfloat
  ds_vol :: pyfloat
  ds_decisions :: "pyval list"
  ds_diagnostics :: pydict

record Store =
  s_commands :: "CommandRow list"
  s_events :: "CommandEvent list"
  s_state :: "pydict option"
  s_decisions :: "DecisionSnapshot list"
  s_reads :: nat

definition empty_store :: Store where
  "empty_store = \<lparr>s_commands = [], s_events = [], s_state = None, s_decisions = [], s_reads = 0\<rparr>"

definition opt_text :: "string option \<Rightarrow> pyval" where
  "opt_text x = (case x of None \<Rightarrow> VNone | Some s \<Rightarrow> VStr s)"

text \<open>\<open>dict(row)\<close> of a selected row, in column order.\<close>

definition row_dict :: "CommandRow \<Rightarrow> pydict" where
  "row_dict r =
     [(''command_id'', VStr (r_command_id r)), (''session_id'', VStr (r_session_id r)),
      (''proto'', VStr (r_proto r)), (''cmd'', VStr (r_cmd r)), (''symbol'', VStr (r_symbol r)),
      (''lots'', VFloat (r_lots r)), (''tp_cash'', opt_float (r_tp_cash r)),
      (''tp_price'', opt_float (r_tp_price r)), (''sl_price'', opt_float (r_sl_price r)),
      (''magic'', VInt (r_magic r)), (''intent'', VStr (r_intent r)), (''trace_id'', VStr (r_trace_id r)),
      (''correlation_id'', VStr (r_correlation_id r)), (''thread_id'', VStr (r_thread_id r)),
      (''idempotency_key'', VStr (r_idempotency_key r)), (''schema_version'', VStr (r_schema_version r)),
      (''orchestration_meta_json'', VDict (r_orchestration_meta_json r)), (''status'', VStr (r_status r)),
      (''created_at'', VFloat (r_created_at r)), (''updated_at'', VFloat (r_updated_at r)),
      (''expires_at'', VFloat (r_expires_at r)), (''delivered_count'', VInt (r_delivered_count r)),
      (''reason'', VStr (r_reason r)), (''payload_json'', VDict (r_payload_json r)),
      (''ack_json'', VDict (r_ack_json r)), (''ack_policy_scope'', opt_text (r_ack_policy_scope r)),
      (''ack_attestation_schema'', opt_text (r_ack_attestation_schema r)),
      (''ack_terminal_safe'', VBool (r_ack_terminal_safe r)),
      (''ack_ticket'', (case r_ack_ticket r of None \<Rightarrow> VNone | Some n \<Rightarrow> VInt n)),
      (''ack_mutation_state'', opt_text (r_ack_mutation_state r))]"

section \<open>The environment of an operation\<close>

text \<open>
  What an operation reads outside the tables: the clock, \<open>datetime.fromisoformat(\<dots>).timestamp()\<close>
  (\<open>None\<close> when it raises; for a text without an offset it depends on the host's time zone), the
  settings, the SHA-256 hex digest of a text, the rows of \<open>market_ticks\<close> a transaction sees, and two groups of
  checks that are left open: the broker contract of a symbol in a given state (\<open>broker_contract_state.py\<close>) and
  the price of the order against it (geometry, entry envelope and cash risk); each raises or gives a
  reason. \<open>en_wall\<close> is \<open>time.time()\<close> as the authority check reads it for a command, beside the
  readings of \<open>_now()\<close>.
\<close>

record LiveEntryRequest =
  le_pair :: string
  le_account_mode :: string
  le_account_scope :: string
  le_authority_revision :: int
  le_now_ts :: pyfloat
  le_release_generation_id :: string
  le_release_request_sha256 :: string
  le_model_identity_sha256 :: string
  le_manifest_file_sha256 :: string
  le_runtime_boot_id :: string
  le_command_payload :: pydict
  le_command_id :: string
  le_strategy_authority :: "pydict option"

text \<open>A row of \<open>market_ticks\<close>; the ten identity columns are kept as a dictionary.\<close>

record MarketTick =
  tk_id :: int
  tk_symbol :: string
  tk_bid :: "pyfloat option"
  tk_ask :: "pyfloat option"
  tk_ts :: pyfloat
  tk_identity :: pydict

record Env =
  en_clock :: "nat \<Rightarrow> pyfloat"
  en_iso :: "string \<Rightarrow> pyfloat option"
  en_stale_heartbeat_secs :: pyfloat
  en_prune_stale_keys :: bool
  en_stale_keys :: "string list"
  en_wall :: "nat \<Rightarrow> string \<Rightarrow> pyfloat"
  en_sha256 :: "string \<Rightarrow> string"
  en_contract_failure :: "pydict \<Rightarrow> pydict \<Rightarrow> string \<Rightarrow> pyfloat \<Rightarrow> pyerr + string"
  en_stale_tick_secs :: pyfloat
  en_market_ticks :: "nat \<Rightarrow> MarketTick list"
  en_order_failure :: "pydict \<Rightarrow> LiveEntryRequest \<Rightarrow> (string \<times> MarketTick) list \<Rightarrow> pyerr + string"

definition now_read :: "Env \<Rightarrow> Store \<Rightarrow> pyfloat \<times> Store" where
  "now_read e s = (en_clock e (s_reads s), s\<lparr>s_reads := Suc (s_reads s)\<rparr>)"

definition replace_z :: "string \<Rightarrow> string" where
  "replace_z s = concat (map (\<lambda>c. if c = CHR ''Z'' then ''+00:00'' else [c]) s)"

definition parse_iso_ts :: "Env \<Rightarrow> pyval \<Rightarrow> pyerr + pyfloat" where
  "parse_iso_ts e v =
     (case v of
        VNone \<Rightarrow> Inr (Fin 0)
      | VBool b \<Rightarrow> py_float v
      | VInt n \<Rightarrow> py_float v
      | VFloat f \<Rightarrow> Inr f
      | _ \<Rightarrow>
        let txt = py_strip (py_str v) in
        if txt = [] then Inr (Fin 0)
        else case en_iso e (replace_z txt) of None \<Rightarrow> Inr (Fin 0) | Some f \<Rightarrow> Inr f)"

text \<open>\<open>_timestamp_age_secs\<close> with its default skew of five seconds.\<close>

definition timestamp_age_secs :: "Env \<Rightarrow> pyval \<Rightarrow> pyfloat \<Rightarrow> pyerr + pyfloat option" where
  "timestamp_age_secs e v now =
     ebind (parse_iso_ts e v) (\<lambda>parsed.
       if \<not> is_finite parsed \<or> fle parsed (Fin 0) \<or> \<not> is_finite now then Inr None
       else let age = fsub now parsed in
            if flt age (Fin (- 5)) then Inr None else Inr (Some (fmax (Fin 0) age)))"

section \<open>Statements\<close>

text \<open>\<open>UPDATE commands SET \<dots> WHERE \<dots>\<close> and the rows it returns.\<close>

definition update_where :: "(CommandRow \<Rightarrow> bool) \<Rightarrow> (CommandRow \<Rightarrow> CommandRow) \<Rightarrow> Store \<Rightarrow> Store" where
  "update_where P f s = s\<lparr>s_commands := map (\<lambda>r. if P r then f r else r) (s_commands s)\<rparr>"

definition set_status :: "string \<Rightarrow> pyfloat \<Rightarrow> string \<Rightarrow> CommandRow \<Rightarrow> CommandRow" where
  "set_status st ts why r = r\<lparr>r_status := st, r_updated_at := ts, r_reason := why\<rparr>"

definition append_command_events ::
  "Env \<Rightarrow> (string \<times> string \<times> string \<times> pydict) list \<Rightarrow> Store \<Rightarrow> Store" where
  "append_command_events e evs s =
     (if evs = [] then s
      else case now_read e s of (event_ts, s1) \<Rightarrow>
        s1\<lparr>s_events := s_events s1 @
            map (\<lambda>(cid, st, why, p). \<lparr>ev_command_id = cid, ev_status = st, ev_reason = why,
                                       ev_ts = event_ts, ev_json = p\<rparr>) evs\<rparr>)"

definition append_command_event ::
  "Env \<Rightarrow> string \<Rightarrow> string \<Rightarrow> string \<Rightarrow> pydict \<Rightarrow> Store \<Rightarrow> Store" where
  "append_command_event e cid st why p = append_command_events e [(cid, st, why, p)]"

definition find_row :: "string \<Rightarrow> Store \<Rightarrow> CommandRow option" where
  "find_row cid s = find (\<lambda>r. r_command_id r = cid) (s_commands s)"

definition state_dict :: "Store \<Rightarrow> pydict" where
  "state_dict s = (case s_state s of None \<Rightarrow> [] | Some d \<Rightarrow> d)"

text \<open>A transaction that raises leaves the tables as they were; the clock has moved on.\<close>

definition rollback :: "Store \<Rightarrow> Store \<Rightarrow> Store" where
  "rollback before later = before\<lparr>s_reads := s_reads later\<rparr>"

section \<open>Facts\<close>

lemma dget_dpop [simp]: "dget (dpop k d) k' = (if k' = k then VNone else dget d k')"
  by (simp add: dget_def dpop_def delete_conv)

lemma dhas_dpop [simp]: "dhas (dpop k d) k' = (k' \<noteq> k \<and> dhas d k')"
  by (simp add: dhas_def dpop_def delete_conv)

lemma dhas_dpops: "dhas (dpops ks d) k = (k \<notin> set ks \<and> dhas d k)"
  by (induction ks arbitrary: d) (auto simp: dpops_def)

lemma dget_dpops: "dget (dpops ks d) k = (if k \<in> set ks then VNone else dget d k)"
  by (induction ks arbitrary: d) (auto simp: dpops_def)

lemma first_reason_Nil:
  "list_all (\<lambda>c. snd c \<noteq> []) cs \<Longrightarrow> first_reason cs = [] \<longleftrightarrow> list_all (\<lambda>c. \<not> fst c) cs"
  by (induction cs rule: first_reason.induct) auto

lemma first_reason_append:
  "list_all (\<lambda>c. snd c \<noteq> []) xs \<Longrightarrow>
     first_reason (xs @ ys) = (if first_reason xs = [] then first_reason ys else first_reason xs)"
  by (induction xs rule: first_reason.induct) auto

lemma as_dict_VNone [simp]: "as_dict VNone = Inr []"
  by simp

lemma as_dict_VDict: "as_dict (VDict d) = Inr d"
  by simp

lemma now_read_fst [simp]: "fst (now_read e s) = en_clock e (s_reads s)"
  by (simp add: now_read_def)

lemma append_command_events_tables [simp]:
  "s_commands (append_command_events e evs s) = s_commands s"
  "s_state (append_command_events e evs s) = s_state s"
  "s_decisions (append_command_events e evs s) = s_decisions s"
  by (simp_all add: append_command_events_def now_read_def)

lemma append_command_event_tables [simp]:
  "s_commands (append_command_event e c st w p s) = s_commands s"
  "s_state (append_command_event e c st w p s) = s_state s"
  "s_decisions (append_command_event e c st w p s) = s_decisions s"
  by (simp_all add: append_command_event_def)

lemma append_command_events_log:
  "s_events (append_command_events e evs s) =
     s_events s @ map (\<lambda>(cid, st, why, p). \<lparr>ev_command_id = cid, ev_status = st, ev_reason = why,
       ev_ts = en_clock e (s_reads s), ev_json = p\<rparr>) evs"
  by (simp add: append_command_events_def now_read_def)

lemma append_command_event_log:
  "s_events (append_command_event e c st w p s) =
     s_events s @ [\<lparr>ev_command_id = c, ev_status = st, ev_reason = w,
       ev_ts = en_clock e (s_reads s), ev_json = p\<rparr>]"
  by (simp add: append_command_event_def append_command_events_log)

lemma update_where_tables [simp]:
  "s_events (update_where P f s) = s_events s"
  "s_state (update_where P f s) = s_state s"
  "s_decisions (update_where P f s) = s_decisions s"
  "s_reads (update_where P f s) = s_reads s"
  by (simp_all add: update_where_def)

lemma update_where_commands:
  "s_commands (update_where P f s) = map (\<lambda>r. if P r then f r else r) (s_commands s)"
  by (simp add: update_where_def)

lemma rollback_tables [simp]:
  "s_commands (rollback s t) = s_commands s" "s_events (rollback s t) = s_events s"
  "s_state (rollback s t) = s_state s" "s_decisions (rollback s t) = s_decisions s"
  by (simp_all add: rollback_def)

lemma set_status_fields [simp]:
  "r_status (set_status st ts w r) = st" "r_command_id (set_status st ts w r) = r_command_id r"
  "r_delivered_count (set_status st ts w r) = r_delivered_count r"
  "r_cmd (set_status st ts w r) = r_cmd r"
  "r_ack_json (set_status st ts w r) = r_ack_json r"
  "r_symbol (set_status st ts w r) = r_symbol r"
  "r_payload_json (set_status st ts w r) = r_payload_json r"
  "r_expires_at (set_status st ts w r) = r_expires_at r"
  "r_created_at (set_status st ts w r) = r_created_at r"
  "r_intent (set_status st ts w r) = r_intent r"
  by (simp_all add: set_status_def)

lemma find_row_Some: "find_row cid s = Some r \<Longrightarrow> r \<in> set (s_commands s) \<and> r_command_id r = cid"
  by (auto simp: find_row_def find_Some_iff)

lemma find_row_None: "find_row cid s = None \<longleftrightarrow> cid \<notin> r_command_id ` set (s_commands s)"
  by (auto simp: find_row_def find_None_iff)

lemma find_row_unique:
  "distinct (map r_command_id (s_commands s)) \<Longrightarrow> r \<in> set (s_commands s) \<Longrightarrow>
     find_row (r_command_id r) s = Some r"
proof -
  assume d: "distinct (map r_command_id (s_commands s))" and r: "r \<in> set (s_commands s)"
  then obtain q where "find_row (r_command_id r) s = Some q"
    using find_row_None [of "r_command_id r" s] by (cases "find_row (r_command_id r) s") auto
  with find_row_Some [OF this] d r show ?thesis by (auto simp: distinct_map inj_on_def)
qed

end
