(* ===== verification/Runtime_State.thy ===== *)
theory Runtime_State
  imports Runtime_Store Ig_Catalog
begin

text \<open>
  The transactions of \<open>runtime/postgres_store.py\<close> on the \<open>runtime_state\<close> snapshot: the generic state
  patch of the runner and the bridge, the bridge consumer lease, the operator's mutation of the live
  authority, and arming and disarming of broker egress. A transaction that raises leaves the snapshot as
  it was. A Python set of normalised texts that is only compared or tested for membership is a HOL set.
\<close>

datatype store_error = Builtin pyerr | ValueErr string | RuntimeErr string

definition sconv :: "pyerr + 'a \<Rightarrow> store_error + 'a" where
  "sconv m = (case m of Inl e \<Rightarrow> Inl (Builtin e) | Inr x \<Rightarrow> Inr x)"

section \<open>Constants\<close>

definition ORCHESTRATION_LIVE_AUTHORITY_FIELDS :: "string list" where
  "ORCHESTRATION_LIVE_AUTHORITY_FIELDS =
     [''authority_revision'', ''enabled'', ''mode'', ''runtime_enabled'', ''queue_kill_active'',
      ''queue_kill_reason'', ''queue_killed_at'', ''active_pair_scope'', ''active_sleeve_scope'',
      ''active_intent_scope'', ''active_pair_scope_configured'', ''active_sleeve_scope_configured'',
      ''active_intent_scope_configured'', ''ramp_steps_pct'', ''current_stage_index'', ''current_stage_pct'',
      ''budget_scale'', ''promotion_pack_path'', ''signoff_records'', ''release_status'', ''bundle_run_id'',
      ''last_kill_reason'', ''last_kill_at'', ''purged_command_count'']"

definition ORCHESTRATION_LIVE_REVISION_TRIGGER_FIELDS :: "string list" where
  "ORCHESTRATION_LIVE_REVISION_TRIGGER_FIELDS =
     filter (\<lambda>f. f \<noteq> ''authority_revision'') ORCHESTRATION_LIVE_AUTHORITY_FIELDS"

definition ORCHESTRATION_LIVE_STAGE_IDENTITY_FIELDS :: "string list" where
  "ORCHESTRATION_LIVE_STAGE_IDENTITY_FIELDS = [''current_stage_index'', ''current_stage_pct'', ''bundle_run_id'']"

definition ORCHESTRATION_LIVE_ENTRY_EVIDENCE_FIELDS :: "string list" where
  "ORCHESTRATION_LIVE_ENTRY_EVIDENCE_FIELDS =
     [''entry_ratio_vs_baseline'', ''entry_ratio_evaluable'', ''entry_ratio_status'',
      ''entry_ratio_approved_count'', ''entry_ratio_submitted_count'', ''entry_ratio_accepted_count'',
      ''entry_ratio_observed_at'', ''entry_ratio_stage_index'', ''entry_ratio_stage_pct'',
      ''entry_evidence_by_pair'']"

definition EXECUTION_EGRESS_SCHEMA :: string where
  "EXECUTION_EGRESS_SCHEMA = ''fxstack_execution_egress_authority_v1''"

definition release_owned_keys :: "string list" where
  "release_owned_keys =
     [''release_authority'', ''release_witness_nonce_ledger'', ''execution_egress_enabled'',
      ''execution_egress_authority'', ''production_scalp_authority'']"

definition protected_state_keys :: "string list" where
  "protected_state_keys = release_owned_keys @ [''runtime_attestation'']"

section \<open>Selected fields\<close>

definition selected_state_fields :: "pydict \<Rightarrow> string list \<Rightarrow> pydict" where
  "selected_state_fields payload names = map (\<lambda>f. (f, dget payload f)) names"

definition preserve_selected_state_fields :: "pydict \<Rightarrow> pydict \<Rightarrow> string list \<Rightarrow> pydict" where
  "preserve_selected_state_fields incoming current names =
     fold (\<lambda>f d. if dhas current f then dput f (dget current f) d else dpop f d) names incoming"

definition dict_ne :: "pydict \<Rightarrow> pydict \<Rightarrow> bool" where
  "dict_ne a b = (\<not> py_eq (VDict a) (VDict b))"

definition live_revision :: "pydict \<Rightarrow> int" where
  "live_revision live = max 0 (safe_int (dget live ''authority_revision'') 0)"

section \<open>The generic state patch: \<open>_commit_state_patch\<close>\<close>

text \<open>
  The live section of an incoming \<open>runtime_diag\<close>: authority fields are restored from the snapshot when
  a release is active or egress is enabled, and when the writer's expected authority is not the current
  one; then the revision is recomputed from the snapshot's.
\<close>

definition preserve_live_authority :: "pydict \<Rightarrow> pyval \<Rightarrow> pydict \<Rightarrow> pydict \<Rightarrow> pyerr + pydict" where
  "preserve_live_authority merged expected current_live incoming_live =
     ebind (as_dict (dget merged ''release_authority'')) (\<lambda>release.
       let il1 = (if norm_lower (dget release ''status'') = ''active''
                     \<or> truthy (dget merged ''execution_egress_enabled'')
                  then preserve_selected_state_fields incoming_live current_live
                         ORCHESTRATION_LIVE_AUTHORITY_FIELDS
                  else incoming_live) in
       case expected of
         VDict expected_live \<Rightarrow>
           if dict_ne (selected_state_fields current_live ORCHESTRATION_LIVE_AUTHORITY_FIELDS)
                (selected_state_fields expected_live ORCHESTRATION_LIVE_AUTHORITY_FIELDS)
           then let il2 = preserve_selected_state_fields il1 current_live ORCHESTRATION_LIVE_AUTHORITY_FIELDS in
             if dict_ne (selected_state_fields current_live ORCHESTRATION_LIVE_STAGE_IDENTITY_FIELDS)
                  (selected_state_fields expected_live ORCHESTRATION_LIVE_STAGE_IDENTITY_FIELDS)
             then Inr (preserve_selected_state_fields il2 current_live ORCHESTRATION_LIVE_ENTRY_EVIDENCE_FIELDS)
             else Inr il2
           else Inr il1
       | _ \<Rightarrow> Inr il1)"

definition admission_changed :: "pydict \<Rightarrow> pydict \<Rightarrow> pyerr + bool" where
  "admission_changed current_rd incoming_rd =
     (if dhas incoming_rd ''live_command_admission''
      then ebind (as_dict (dget incoming_rd ''live_command_admission'')) (\<lambda>i.
           ebind (as_dict (dget current_rd ''live_command_admission'')) (\<lambda>c. Inr (dict_ne i c)))
      else Inr False)"

definition patched_live ::
  "pydict \<Rightarrow> pyval \<Rightarrow> pydict \<Rightarrow> pydict \<Rightarrow> pydict \<Rightarrow> pyerr + pydict" where
  "patched_live merged expected current_rd current_live incoming_rd =
     ebind (as_dict (dget incoming_rd ''orchestration_live'')) (\<lambda>incoming_live.
     ebind (preserve_live_authority merged expected current_live incoming_live) (\<lambda>il.
       let authority_changed =
             dict_ne (selected_state_fields il ORCHESTRATION_LIVE_REVISION_TRIGGER_FIELDS)
               (selected_state_fields current_live ORCHESTRATION_LIVE_REVISION_TRIGGER_FIELDS) in
       ebind (admission_changed current_rd incoming_rd) (\<lambda>adm.
         Inr (dput ''authority_revision''
                (VInt (live_revision current_live + (if authority_changed \<or> adm then 1 else 0))) il))))"

definition patched_runtime_diag :: "pydict \<Rightarrow> pyval \<Rightarrow> pydict \<Rightarrow> pyerr + pydict" where
  "patched_runtime_diag merged expected incoming_rd =
     ebind (as_dict (dget merged ''runtime_diag'')) (\<lambda>current_rd.
     ebind (as_dict (dget current_rd ''orchestration_live'')) (\<lambda>current_live.
       if dhas incoming_rd ''orchestration_live''
       then ebind (patched_live merged expected current_rd current_live incoming_rd) (\<lambda>il.
            Inr (dput ''orchestration_live'' (VDict il) incoming_rd))
       else Inr incoming_rd))"

text \<open>The dictionary the transaction merges, from the caller's patch and the locked snapshot.\<close>

definition nested_diag_patch :: "pydict \<Rightarrow> pydict option \<Rightarrow> string list \<Rightarrow> pydict \<Rightarrow> pyerr + pydict" where
  "nested_diag_patch merged rd_patch rd_remove incoming =
     (if rd_patch \<noteq> None \<or> rd_remove \<noteq> []
      then ebind (as_dict (dget merged ''runtime_diag'')) (\<lambda>rd.
        let rd1 = dpops rd_remove rd;
            rd2 = (case rd_patch of None \<Rightarrow> rd1 | Some p \<Rightarrow> dmerge rd1 p) in
        Inr (dput ''runtime_diag'' (VDict rd2) incoming))
      else Inr incoming)"

definition effective_patch ::
  "pydict \<Rightarrow> pyval \<Rightarrow> pydict option \<Rightarrow> string list \<Rightarrow> pydict \<Rightarrow> pyerr + pydict" where
  "effective_patch merged expected rd_patch rd_remove incoming0 =
     ebind (nested_diag_patch merged rd_patch rd_remove incoming0) (\<lambda>incoming.
       case dget incoming ''runtime_diag'' of
         VDict rd \<Rightarrow> ebind (patched_runtime_diag merged expected rd) (\<lambda>rd'.
           Inr (dput ''runtime_diag'' (VDict rd') incoming))
       | _ \<Rightarrow> Inr incoming)"

definition prune_stale :: "string list \<Rightarrow> pydict \<Rightarrow> pydict \<Rightarrow> pydict" where
  "prune_stale stale incoming merged =
     fold (\<lambda>k d. if k \<noteq> [] \<and> k \<notin> set protected_state_keys \<and> \<not> dhas incoming k \<and> dhas d k
                 then dpop k d else d) stale merged"

definition merge_patch :: "Env \<Rightarrow> bool \<Rightarrow> pydict \<Rightarrow> pydict \<Rightarrow> pydict" where
  "merge_patch e force_prune incoming merged =
     (let previous_profile = str_or_empty (dget merged ''runtime_profile'');
          m = dmerge merged incoming;
          next_profile = str_or_empty (dget m ''runtime_profile'') in
      if force_prune \<or> (en_prune_stale_keys e \<and> next_profile \<noteq> [] \<and> next_profile \<noteq> previous_profile)
      then prune_stale (en_stale_keys e) incoming m
      else m)"

definition write_state :: "pydict \<Rightarrow> Store \<Rightarrow> Store" where
  "write_state d s = s\<lparr>s_state := Some d\<rparr>"

definition stripped_patch :: "pydict \<Rightarrow> pydict" where
  "stripped_patch patch =
     dpops ([''__prune_stale__'', ''__expected_orchestration_live_authority__''] @ release_owned_keys) patch"

definition commit_state_patch ::
  "Env \<Rightarrow> pydict \<Rightarrow> pydict option \<Rightarrow> string list \<Rightarrow> (pyval list \<times> pyfloat \<times> pydict) option \<Rightarrow> Store
     \<Rightarrow> Store \<times> (store_error + unit)" where
  "commit_state_patch e patch rd_patch rd_remove decision_snapshot s =
     (if (rd_patch \<noteq> None \<or> rd_remove \<noteq> []) \<and> dhas patch ''runtime_diag''
      then (s, Inl (ValueErr ''runtime_diag cannot be supplied with a nested diagnostic mutation''))
      else
        let remove = py_unique (filter (\<lambda>k. k \<noteq> []) rd_remove);
            force_prune = truthy (dget patch ''__prune_stale__'');
            expected = dget patch ''__expected_orchestration_live_authority__'';
            incoming0 = stripped_patch patch;
            merged = state_dict s in
        case effective_patch merged expected rd_patch remove incoming0 of
          Inl err \<Rightarrow> (s, Inl (Builtin err))
        | Inr incoming \<Rightarrow>
            (case now_read e s of (now, s1) \<Rightarrow>
               let s2 = write_state (dput ''last_update'' (VFloat now) (merge_patch e force_prune incoming merged)) s1 in
               (case decision_snapshot of
                  None \<Rightarrow> (s2, Inr ())
                | Some (decisions, vol, diagnostics) \<Rightarrow>
                    (s2\<lparr>s_decisions := s_decisions s2 @
                        [\<lparr>ds_ts = now, ds_vol = vol, ds_decisions = decisions,
                          ds_diagnostics = diagnostics\<rparr>]\<rparr>, Inr ()))))"

definition update_state_patch ::
  "Env \<Rightarrow> pydict \<Rightarrow> pydict option \<Rightarrow> string list \<Rightarrow> Store \<Rightarrow> Store \<times> (store_error + unit)" where
  "update_state_patch e patch rd_patch rd_remove = commit_state_patch e patch rd_patch rd_remove None"

definition commit_state_and_decisions ::
  "Env \<Rightarrow> pydict \<Rightarrow> pydict option \<Rightarrow> string list \<Rightarrow> pyval list \<Rightarrow> pyfloat \<Rightarrow> pydict \<Rightarrow> Store
     \<Rightarrow> Store \<times> (store_error + unit)" where
  "commit_state_and_decisions e patch rd_patch rd_remove decisions vol diagnostics =
     commit_state_patch e patch rd_patch rd_remove (Some (decisions, vol, diagnostics))"

section \<open>The bridge consumer lease\<close>

record LeaseClaim =
  lc_consumer_identity :: string
  lc_producer_instance_id :: string
  lc_terminal_lease_scope :: string
  lc_credential_generation_id :: string
  lc_bridge_protocol_version :: string
  lc_channel :: string
  lc_lease_secs :: pyfloat

datatype lease_reply = LeaseRefused string | LeaseBusy pyfloat | LeaseGranted pydict

definition lease_identity :: "LeaseClaim \<Rightarrow> pydict" where
  "lease_identity c =
     [(''consumer_identity'', VStr (py_strip (lc_consumer_identity c))),
      (''producer_instance_id'', VStr (py_strip (lc_producer_instance_id c))),
      (''terminal_lease_scope'', VStr (py_strip (lc_terminal_lease_scope c))),
      (''credential_generation_id'', VStr (py_strip (lc_credential_generation_id c))),
      (''bridge_protocol_version'', VStr (py_strip (lc_bridge_protocol_version c)))]"

definition lease_channels :: "string list" where
  "lease_channels = [''poll'', ''ack'', ''heartbeat'', ''tick'', ''bars'', ''report'']"

definition lease_ttl :: "pyfloat \<Rightarrow> pyfloat" where
  "lease_ttl secs = fmin (Fin 120) (fmax (Fin 5) secs)"

definition same_lease_identity :: "LeaseClaim \<Rightarrow> pydict \<Rightarrow> bool" where
  "same_lease_identity c current =
     list_all (\<lambda>(k, v). VStr (str_or_empty (dget current k)) = v) (lease_identity c)"

definition granted_lease :: "LeaseClaim \<Rightarrow> pydict \<Rightarrow> pyfloat \<Rightarrow> pyfloat \<Rightarrow> pydict" where
  "granted_lease c current acquired now =
     dmerge current
       ([(''schema_version'', VStr ''fxstack_bridge_consumer_lease_v2'')] @ lease_identity c @
        [(''acquired_at'', VFloat acquired), (''renewed_at'', VFloat now),
         (''expires_at'', VFloat (fadd now (lease_ttl (lc_lease_secs c)))),
         (py_lower (py_strip (lc_channel c)) @ ''_authenticated_at'', VFloat now)])"

definition claim_bridge_consumer_lease ::
  "Env \<Rightarrow> LeaseClaim \<Rightarrow> Store \<Rightarrow> Store \<times> (pyerr + lease_reply)" where
  "claim_bridge_consumer_lease e c s =
     (if list_ex (\<lambda>(k, v). v = VStr []) (lease_identity c)
      then (s, Inr (LeaseRefused ''bridge_consumer_identity_incomplete''))
      else if py_lower (py_strip (lc_channel c)) \<notin> set lease_channels
      then (s, Inr (LeaseRefused ''bridge_consumer_channel_invalid''))
      else
        case now_read e s of (now, s1) \<Rightarrow>
        let merged = state_dict s in
        case ebind (as_dict (dget merged ''bridge_consumer_lease'')) (\<lambda>current.
             ebind (py_float (py_or (dget current ''expires_at'') (VFloat (Fin 0)))) (\<lambda>expires_at.
             let same = same_lease_identity c current in
             if flt now expires_at \<and> \<not> same then Inr (Inl expires_at)
             else ebind (if same then py_float (py_or (dget current ''acquired_at'') (VFloat now)) else Inr now)
               (\<lambda>acquired. Inr (Inr (granted_lease c current acquired now))))) of
          Inl err \<Rightarrow> (s1, Inl err)
        | Inr (Inl expires_at) \<Rightarrow> (s1, Inr (LeaseBusy expires_at))
        | Inr (Inr lease) \<Rightarrow>
            (write_state (dput ''last_update'' (VFloat now) (dput ''bridge_consumer_lease'' (VDict lease) merged)) s1,
             Inr (LeaseGranted lease)))"

section \<open>Operator mutation of the live authority\<close>

definition live_enabled :: "pydict \<Rightarrow> bool" where
  "live_enabled live =
     (truthy (dget live ''runtime_enabled'') \<and> \<not> truthy (dget live ''queue_kill_active''))"

definition requests_enabled :: "pydict \<Rightarrow> pydict \<Rightarrow> bool" where
  "requests_enabled updates live =
     (truthy (dget_default updates ''runtime_enabled'' (dget live ''runtime_enabled''))
      \<and> \<not> truthy (dget_default updates ''queue_kill_active'' (dget live ''queue_kill_active'')))"

definition live_patch_conflict :: "pydict \<Rightarrow> pydict \<Rightarrow> pydict \<Rightarrow> bool \<Rightarrow> string" where
  "live_patch_conflict updates expected live allow_reenable =
     (if dict_ne (selected_state_fields live ORCHESTRATION_LIVE_AUTHORITY_FIELDS)
           (selected_state_fields expected ORCHESTRATION_LIVE_AUTHORITY_FIELDS)
      then ''orchestration_live_authority_conflict''
      else if requests_enabled updates live \<and> \<not> live_enabled live \<and> \<not> allow_reenable
      then ''orchestration_live_reenable_requires_start''
      else [])"

definition patch_orchestration_live_state ::
  "Env \<Rightarrow> pydict \<Rightarrow> pydict option \<Rightarrow> bool \<Rightarrow> bool \<Rightarrow> Store \<Rightarrow> Store \<times> (store_error + pydict)" where
  "patch_orchestration_live_state e updates expected safety_dominant allow_reenable s =
     (if \<not> safety_dominant \<and> expected = None then (s, Inl (ValueErr ''expected_live_authority_required''))
      else if safety_dominant \<and> truthy (dget_default updates ''runtime_enabled'' (VBool True))
              \<and> \<not> truthy (dget updates ''queue_kill_active'')
      then (s, Inl (ValueErr ''safety_dominant_mutation_must_disable_entries''))
      else
        let merged = state_dict s in
        case ebind (as_dict (dget merged ''runtime_diag'')) (\<lambda>rd.
             ebind (as_dict (dget rd ''orchestration_live'')) (\<lambda>live. Inr (rd, live))) of
          Inl err \<Rightarrow> (s, Inl (Builtin err))
        | Inr (rd, live) \<Rightarrow>
            let conflict = (if safety_dominant then []
              else live_patch_conflict updates (case expected of None \<Rightarrow> [] | Some d \<Rightarrow> d) live allow_reenable) in
            if conflict \<noteq> [] then (s, Inl (RuntimeErr conflict))
            else
              let live' = dput ''authority_revision'' (VInt (live_revision live + 1)) (dmerge live updates);
                  merged' = dput ''runtime_diag'' (VDict (dput ''orchestration_live'' (VDict live') rd)) merged in
              case now_read e s of (now, s1) \<Rightarrow>
                (write_state (dput ''last_update'' (VFloat now) merged') s1, Inr live'))"

section \<open>Broker egress\<close>

definition disable_execution_egress_in_state :: "string \<Rightarrow> pyfloat \<Rightarrow> pydict \<Rightarrow> pydict" where
  "disable_execution_egress_in_state why now st =
     dput ''execution_egress_authority''
       (VDict [(''schema_version'', VStr EXECUTION_EGRESS_SCHEMA), (''enabled'', VBool False),
         (''reason'', VStr (if why = [] then ''execution_egress_disabled'' else why)),
         (''generation_id'', VStr []), (''request_sha256'', VStr []), (''runtime_boot_id'', VStr []),
         (''updated_at'', VFloat now)])
       (dput ''execution_egress_enabled'' (VBool False) st)"

definition revoke_production_scalp_authority_in_state :: "string \<Rightarrow> pyfloat \<Rightarrow> pydict \<Rightarrow> pyerr + pydict" where
  "revoke_production_scalp_authority_in_state why now st =
     ebind (as_dict (dget st ''production_scalp_authority'')) (\<lambda>current.
       if current = [] then Inr st
       else Inr (dput ''production_scalp_authority''
         (VDict (dmerge current
           [(''status'', VStr ''revoked''),
            (''reason'', VStr (if why = [] then ''execution_egress_disabled'' else why)),
            (''updated_at'', VFloat now)])) st))"

text \<open>\<open>{str(item).strip().upper() for item in list(x or []) if str(item).strip()}\<close> and its lower-case twin.\<close>

definition scope_items :: "(string \<Rightarrow> string) \<Rightarrow> pyval \<Rightarrow> pyerr + string list" where
  "scope_items f v =
     ebind (as_list v) (\<lambda>xs. Inr (map (\<lambda>x. f (py_strip (py_str x))) (filter (\<lambda>x. py_strip (py_str x) \<noteq> []) xs)))"

definition sorted_scope :: "string list \<Rightarrow> string list" where
  "sorted_scope xs = sort (remdups xs)"

definition live_armed :: "pydict \<Rightarrow> bool" where
  "live_armed live =
     (truthy (dget live ''enabled'') \<and> norm_lower (dget live ''mode'') = ''live''
      \<and> truthy (dget live ''runtime_enabled'') \<and> \<not> truthy (dget live ''queue_kill_active''))"

definition production_egress ::
  "string \<Rightarrow> int \<Rightarrow> string list \<Rightarrow> string list \<Rightarrow> string list \<Rightarrow> pyfloat \<Rightarrow> pydict" where
  "production_egress boot_id revision pairs sleeves intents now =
     (let protective = (set pairs = set IG_MT4_SCALP_SYMBOLS \<and> sleeves = [''scalp''] \<and> intents = [''exit'']) in
      [(''schema_version'', VStr EXECUTION_EGRESS_SCHEMA), (''enabled'', VBool True),
       (''source'', VStr ''production_runtime''), (''runtime_boot_id'', VStr boot_id),
       (''authority_revision'', VInt revision), (''pair_scope'', VList (map VStr pairs)),
       (''sleeve_scope'', VList (map VStr sleeves)), (''intent_scope'', VList (map VStr intents)),
       (''protective_management_only'', VBool protective),
       (''reason'', VStr (if protective then ''signed_scalp_entry_invalid_protective_management_only''
                          else ''operator_armed_production_runtime'')),
       (''updated_at'', VFloat now)])"

definition arm_production_egress :: "string \<Rightarrow> pyfloat \<Rightarrow> pydict \<Rightarrow> store_error + (pydict \<times> int)" where
  "arm_production_egress boot_id now merged =
     ebind (sconv (as_dict (dget merged ''runtime_diag''))) (\<lambda>rd.
     ebind (sconv (as_dict (dget rd ''orchestration_live''))) (\<lambda>live.
     ebind (sconv (as_dict (dget merged ''runtime_startup''))) (\<lambda>startup.
       if \<not> live_armed live then Inl (RuntimeErr ''production_live_authority_inactive'')
       else let revision = live_revision live in
       if revision \<le> 0 then Inl (RuntimeErr ''production_live_authority_unattested'')
       else if norm_text (dget startup ''boot_id'') \<noteq> boot_id
       then Inl (RuntimeErr ''production_runtime_boot_mismatch'')
       else if norm_lower (dget merged ''runtime_status'') \<noteq> ''running''
       then Inl (RuntimeErr ''production_runtime_not_running'')
       else
         ebind (sconv (scope_items py_upper (dget live ''active_pair_scope''))) (\<lambda>pairs.
         ebind (sconv (scope_items py_lower (dget live ''active_sleeve_scope''))) (\<lambda>sleeves.
         ebind (sconv (scope_items py_lower (dget live ''active_intent_scope''))) (\<lambda>intents.
           if pairs = [] \<or> sleeves = [] \<or> intents = []
           then Inl (RuntimeErr ''production_live_scope_incomplete'')
           else Inr (dput ''execution_egress_authority''
                       (VDict (production_egress boot_id revision (sorted_scope pairs)
                          (sorted_scope sleeves) (sorted_scope intents) now))
                       (dput ''execution_egress_enabled'' (VBool True) merged), revision)))))))"

definition enable_production_execution_egress ::
  "Env \<Rightarrow> string \<Rightarrow> Store \<Rightarrow> Store \<times> (store_error + int)" where
  "enable_production_execution_egress e runtime_boot_id s =
     (let boot_id = py_strip runtime_boot_id in
      if boot_id = [] then (s, Inl (ValueErr ''runtime_boot_id_required''))
      else case now_read e s of (now, s1) \<Rightarrow>
        (case arm_production_egress boot_id now (state_dict s) of
           Inl err \<Rightarrow> (s1, Inl err)
         | Inr (merged, revision) \<Rightarrow>
             (write_state (dput ''last_update'' (VFloat now) merged) s1, Inr revision)))"

section \<open>Facts\<close>

lemma map_of_dput: "map_of (dput k v d) = (map_of d)(k \<mapsto> v)"
  by (simp add: dput_def update_conv')

lemma map_of_dpop: "map_of (dpop k d) = (map_of d)(k := None)"
  by (simp add: dpop_def delete_conv')

lemma map_of_dpops: "map_of (dpops ks d) k = (if k \<in> set ks then None else map_of d k)"
  by (induction ks arbitrary: d) (auto simp: dpops_def map_of_dpop)

lemma map_of_dmerge: "k \<notin> fst ` set e \<Longrightarrow> map_of (dmerge d e) k = map_of d k"
  by (induction e arbitrary: d) (auto simp: dmerge_def map_of_dput)

lemma dhas_iff: "dhas d k \<longleftrightarrow> k \<in> fst ` set d"
  by (simp add: dhas_def map_of_eq_None_iff)

lemma dget_dmerge: "\<not> dhas e k \<Longrightarrow> dget (dmerge d e) k = dget d k"
  by (simp add: dget_def map_of_dmerge dhas_iff)

lemma dget_dmerge_all: "list_all (\<lambda>(k', v). k' \<noteq> k) e \<Longrightarrow> dget (dmerge d e) k = dget d k"
  by (rule dget_dmerge) (auto simp: dhas_iff list_all_iff)

lemma map_of_preserve:
  "map_of (preserve_selected_state_fields incoming current names) f =
     (if f \<in> set names then map_of current f else map_of incoming f)"
proof (induction names arbitrary: incoming)
  case (Cons n ns)
  then show ?case
    by (auto simp: preserve_selected_state_fields_def map_of_dput map_of_dpop dhas_def dget_def)
qed (simp add: preserve_selected_state_fields_def)

lemma map_of_prune: "k \<in> set protected_state_keys \<or> dhas incoming k \<Longrightarrow> map_of (prune_stale ks incoming m) k = map_of m k"
  by (induction ks arbitrary: m) (auto simp: prune_stale_def map_of_dpop)

lemma effective_patch_keys:
  assumes "effective_patch merged expected rp rr incoming0 = Inr incoming"
    and "k \<noteq> ''runtime_diag''"
  shows "map_of incoming k = map_of incoming0 k"
  using assms
  by (auto simp: effective_patch_def nested_diag_patch_def Let_def map_of_dput
      elim!: ebindE split: if_splits pyval.splits)

lemma merge_patch_outside:
  assumes "\<not> dhas incoming k" and "k \<in> set protected_state_keys"
  shows "map_of (merge_patch e fp incoming merged) k = map_of merged k"
  using assms by (simp add: merge_patch_def Let_def map_of_prune map_of_dmerge dhas_iff)

lemma merge_patch_inside:
  assumes "dhas incoming k" and "map_of (dmerge merged incoming) k = Some v"
  shows "map_of (merge_patch e fp incoming merged) k = Some v"
  using assms by (simp add: merge_patch_def Let_def map_of_prune)

lemma map_of_dmerge_Some: "distinct (map fst e) \<Longrightarrow> map_of e k = Some v \<Longrightarrow> map_of (dmerge d e) k = Some v"
proof (induction e arbitrary: d)
  case (Cons p e)
  obtain k' v' where p: "p = (k', v')" by (cases p)
  show ?case
  proof (cases "k = k'")
    case True
    then have "map_of (dmerge (dput k' v' d) e) k = Some v"
      using Cons.prems p by (subst map_of_dmerge) (auto simp: map_of_dput)
    then show ?thesis by (simp add: p dmerge_def)
  next
    case False
    then show ?thesis using Cons p by (simp add: dmerge_def)
  qed
qed simp

text \<open>The live section of a snapshot, empty when it is absent or malformed.\<close>

definition live_of :: "pydict \<Rightarrow> pydict" where
  "live_of st =
     (case ebind (as_dict (dget st ''runtime_diag'')) (\<lambda>rd. as_dict (dget rd ''orchestration_live'')) of
        Inl e \<Rightarrow> [] | Inr live \<Rightarrow> live)"

lemma live_revision_dput [simp]: "live_revision (dput ''authority_revision'' (VInt n) d) = max 0 n"
  by (simp add: live_revision_def safe_int_def)

lemma live_revision_nonneg [simp]: "0 \<le> live_revision l"
  by (simp add: live_revision_def)

lemma write_state_fields [simp]:
  "s_state (write_state d s) = Some d" "s_commands (write_state d s) = s_commands s"
  "s_events (write_state d s) = s_events s" "state_dict (write_state d s) = d"
  by (simp_all add: write_state_def state_dict_def)

lemma now_read_tables [simp]:
  "s_commands (snd (now_read e s)) = s_commands s" "s_events (snd (now_read e s)) = s_events s"
  "s_state (snd (now_read e s)) = s_state s" "s_decisions (snd (now_read e s)) = s_decisions s"
  "state_dict (snd (now_read e s)) = state_dict s"
  by (simp_all add: now_read_def state_dict_def)

lemma commit_state_patch_tables [simp]:
  "s_commands (fst (commit_state_patch e p rp rr ds s)) = s_commands s"
  "s_events (fst (commit_state_patch e p rp rr ds s)) = s_events s"
  by (simp_all add: commit_state_patch_def Let_def now_read_def split: sum.splits option.splits)

text \<open>The two outcomes of a patch.\<close>

lemma commit_state_patch_cases:
  obtains (refused) err where "commit_state_patch e p rp rr ds s = (s, Inl err)"
  | (committed) incoming where
      "effective_patch (state_dict s) (dget p ''__expected_orchestration_live_authority__'') rp
         (py_unique (filter (\<lambda>k. k \<noteq> []) rr))
         (stripped_patch p)
         = Inr incoming"
      "state_dict (fst (commit_state_patch e p rp rr ds s)) =
         dput ''last_update'' (VFloat (en_clock e (s_reads s)))
           (merge_patch e (truthy (dget p ''__prune_stale__'')) incoming (state_dict s))"
      "snd (commit_state_patch e p rp rr ds s) = Inr ()"
proof (cases "(rp \<noteq> None \<or> rr \<noteq> []) \<and> dhas p ''runtime_diag''")
  case True
  show ?thesis by (rule refused) (unfold commit_state_patch_def if_P [OF True], rule refl)
next
  case no: False
  show ?thesis
  proof (cases "effective_patch (state_dict s) (dget p ''__expected_orchestration_live_authority__'') rp
         (py_unique (filter (\<lambda>k. k \<noteq> []) rr))
         (stripped_patch p)")
    case (Inl err)
    show ?thesis by (rule refused) (unfold commit_state_patch_def if_not_P [OF no] Let_def Inl sum.case, rule refl)
  next
    case (Inr incoming)
    show ?thesis
      by (rule committed [OF Inr])
        (unfold commit_state_patch_def if_not_P [OF no] Let_def Inr sum.case,
         auto simp: now_read_def state_dict_def write_state_def split: option.splits)
  qed
qed

lemma release_owned_facts:
  "k \<in> set release_owned_keys \<Longrightarrow> k \<in> set protected_state_keys \<and> k \<noteq> ''runtime_diag'' \<and> k \<noteq> ''last_update''"
  by (auto simp: release_owned_keys_def protected_state_keys_def)

lemma map_of_dget: "dget d k = (case map_of d k of None \<Rightarrow> VNone | Some v \<Rightarrow> v)"
  by (simp add: dget_def)

lemma distinct_dput: "distinct (map fst d) \<Longrightarrow> distinct (map fst (dput k v d))"
  by (simp add: dput_def distinct_update)

lemma distinct_dpops: "distinct (map fst d) \<Longrightarrow> distinct (map fst (dpops ks d))"
  by (induction ks arbitrary: d) (auto simp: dpops_def dpop_def distinct_delete)

lemma preserve_live_authority_pinned:
  assumes "preserve_live_authority merged expected current incoming = Inr il"
    and "truthy (dget merged ''execution_egress_enabled'')"
    and "f \<in> set ORCHESTRATION_LIVE_AUTHORITY_FIELDS"
  shows "map_of il f = map_of current f"
  using assms
  by (auto simp: preserve_live_authority_def Let_def map_of_preserve elim!: ebindE split: pyval.splits if_splits)

lemma patched_live_result:
  assumes "patched_live merged expected crd current ird = Inr il'"
  obtains il n where "il' = dput ''authority_revision'' (VInt n) il"
    and "live_revision current \<le> n" and "n \<le> live_revision current + 1"
    and "\<And>f. truthy (dget merged ''execution_egress_enabled'') \<Longrightarrow>
      f \<in> set ORCHESTRATION_LIVE_AUTHORITY_FIELDS \<Longrightarrow> map_of il f = map_of current f"
  using assms unfolding patched_live_def Let_def
  by (elim ebindE) (rule that, drule Inr_inject, erule sym, auto intro: preserve_live_authority_pinned)

lemma trigger_fields:
  "f \<in> set ORCHESTRATION_LIVE_REVISION_TRIGGER_FIELDS \<Longrightarrow>
     f \<in> set ORCHESTRATION_LIVE_AUTHORITY_FIELDS \<and> f \<noteq> ''authority_revision''"
  by (simp add: ORCHESTRATION_LIVE_REVISION_TRIGGER_FIELDS_def)

text \<open>What a committed patch that brings a \<open>runtime_diag\<close>, whole or as a nested mutation of the stored one, stores.\<close>

lemma dhas_dmerge: "dhas (dmerge d e) k \<longleftrightarrow> dhas d k \<or> dhas e k"
proof (induction e arbitrary: d)
  case (Cons p e)
  obtain k' v where p: "p = (k', v)" by (cases p)
  have "dmerge d (p # e) = dmerge (dput k' v d) e" by (simp add: dmerge_def p)
  then show ?case using Cons.IH [of "dput k' v d"] by (auto simp: p)
qed (simp add: dmerge_def)

definition brought_diag :: "pydict \<Rightarrow> pydict \<Rightarrow> pydict option \<Rightarrow> string list \<Rightarrow> pyerr + pyval" where
  "brought_diag st p rp rr =
     (let remove = py_unique (filter (\<lambda>k. k \<noteq> []) rr) in
      if rp \<noteq> None \<or> remove \<noteq> []
      then ebind (as_dict (dget st ''runtime_diag'')) (\<lambda>rd.
        Inr (VDict (case rp of None \<Rightarrow> dpops remove rd | Some d \<Rightarrow> dmerge (dpops remove rd) d)))
      else Inr (dget p ''runtime_diag''))"

lemma nested_brings:
  assumes "nested_diag_patch st rp (py_unique (filter (\<lambda>k. k \<noteq> []) rr)) incoming0 = Inr inc"
    and "dget incoming0 ''runtime_diag'' = dget p ''runtime_diag''" and "distinct (map fst incoming0)"
  shows "brought_diag st p rp rr = Inr (dget inc ''runtime_diag'')" and "distinct (map fst inc)"
proof -
  let ?remove = "py_unique (filter (\<lambda>k. k \<noteq> []) rr)"
  have "brought_diag st p rp rr = Inr (dget inc ''runtime_diag'') \<and> distinct (map fst inc)"
  proof (cases "rp \<noteq> None \<or> ?remove \<noteq> []")
    case True
    show ?thesis
    proof (cases "as_dict (dget st ''runtime_diag'')")
      case (Inl err)
      then show ?thesis using assms(1) by (simp only: nested_diag_patch_def if_P [OF True] ebind.simps sum.distinct)
    next
      case (Inr rd)
      have inc: "inc = dput ''runtime_diag'' (VDict (case rp of None \<Rightarrow> dpops ?remove rd | Some d \<Rightarrow> dmerge (dpops ?remove rd) d)) incoming0"
        using assms(1) by (simp only: nested_diag_patch_def if_P [OF True] Inr ebind.simps Let_def sum.inject)
      show ?thesis
        unfolding inc brought_diag_def Let_def if_P [OF True] Inr ebind.simps
        using distinct_dput [OF assms(3)] by (simp add: dget_def map_of_dput)
    qed
  next
    case False
    then have "inc = incoming0" using assms(1) by (simp only: nested_diag_patch_def if_False sum.inject)
    then show ?thesis using False assms(2,3) by (simp only: brought_diag_def Let_def if_False simp_thms)
  qed
  then show "brought_diag st p rp rr = Inr (dget inc ''runtime_diag'')" and "distinct (map fst inc)" by blast+
qed

lemma committed_brought_diag:
  assumes "snd (commit_state_patch e p rp rr ds s) = Inr ()"
    and "distinct (map fst p)" and "\<And>v. brought_diag (state_dict s) p rp rr = Inr v \<Longrightarrow> v = VDict rd"
  obtains rd' where
    "patched_runtime_diag (state_dict s) (dget p ''__expected_orchestration_live_authority__'') rd = Inr rd'"
    and "dget (state_dict (fst (commit_state_patch e p rp rr ds s))) ''runtime_diag'' = VDict rd'"
proof (cases rule: commit_state_patch_cases [of e p rp rr ds s])
  case (refused err)
  then show ?thesis using assms(1) by simp
next
  case (committed incoming)
  have same: "dget (stripped_patch p) ''runtime_diag'' = dget p ''runtime_diag''"
    by (simp add: stripped_patch_def dget_dpops release_owned_keys_def)
  from committed(1) obtain inc where inc: "nested_diag_patch (state_dict s) rp (py_unique (filter (\<lambda>k. k \<noteq> []) rr)) (stripped_patch p) = Inr inc"
    unfolding effective_patch_def by (elim ebindE)
  have in0: "distinct (map fst (stripped_patch p))" unfolding stripped_patch_def by (rule distinct_dpops [OF assms(2)])
  have rd: "dget inc ''runtime_diag'' = VDict rd" by (rule assms(3) [OF nested_brings(1) [OF inc same in0]])
  have d: "distinct (map fst inc)" by (rule nested_brings(2) [OF inc same in0])
  from committed(1) obtain rd' where
    rd': "patched_runtime_diag (state_dict s) (dget p ''__expected_orchestration_live_authority__'') rd = Inr rd'"
    and i: "incoming = dput ''runtime_diag'' (VDict rd') inc"
    by (auto simp: effective_patch_def inc rd elim!: ebindE)
  have "map_of (dmerge (state_dict s) incoming) ''runtime_diag'' = Some (VDict rd')"
    by (rule map_of_dmerge_Some) (simp_all add: i distinct_dput [OF d] map_of_dput)
  moreover have "dhas incoming ''runtime_diag''" by (simp add: i)
  ultimately show ?thesis
    using rd' by (intro that) (auto simp: committed(2) dget_def map_of_dput merge_patch_inside)
qed

lemma live_of_stored:
  "dget st ''runtime_diag'' = VDict (dput ''orchestration_live'' (VDict live) rd) \<Longrightarrow> live_of st = live"
  by (simp add: live_of_def)

text \<open>A patch that replaces \<open>runtime_diag\<close> by one without a live section drops the live authority.\<close>

lemma bare_diag_patch_drops_live_authority:
  assumes "snd (commit_state_patch e p rp rr ds s) = Inr ()" and "distinct (map fst p)"
    and "dget p ''runtime_diag'' = VDict rd" and "\<not> dhas rd ''orchestration_live''"
  shows "live_of (state_dict (fst (commit_state_patch e p rp rr ds s))) = []"
proof -
  obtain rd' where "patched_runtime_diag (state_dict s) (dget p ''__expected_orchestration_live_authority__'') rd = Inr rd'"
    and d: "dget (state_dict (fst (commit_state_patch e p rp rr ds s))) ''runtime_diag'' = VDict rd'"
  proof (rule committed_brought_diag [OF assms(1,2)])
    have "dhas p ''runtime_diag''" using assms(3) by (auto simp: dhas_def dget_def split: option.splits)
    then have "rp = None" "rr = []" using assms(1) by (auto simp: commit_state_patch_def split: if_splits)
    then show "\<And>v. brought_diag (state_dict s) p rp rr = Inr v \<Longrightarrow> v = VDict rd"
      using assms(3) by (simp add: brought_diag_def)
  qed
  then have "rd' = rd" using assms(4) by (auto simp: patched_runtime_diag_def elim!: ebindE)
  then show ?thesis using assms(4) d by (simp add: live_of_def dhas_def dget_def)
qed

lemma dget_dmerge_default:
  assumes "distinct (map fst updates)"
  shows "dget (dmerge live updates) k = dget_default updates k (dget live k)"
proof (cases "map_of updates k")
  case None
  then have "map_of (dmerge live updates) k = map_of live k" by (simp add: map_of_dmerge map_of_eq_None_iff)
  with None show ?thesis by (simp add: dget_def dget_default_def)
next
  case (Some v)
  then show ?thesis using map_of_dmerge_Some [OF assms Some] by (simp add: dget_def dget_default_def)
qed

lemma dget_default_truthy:
  "truthy (dget d k) \<Longrightarrow> truthy (dget_default d k x)"
  "\<not> truthy (dget_default d k (VBool True)) \<Longrightarrow> \<not> truthy (dget_default d k x)"
  by (auto simp: dget_def dget_default_def split: option.splits)

lemma live_mutation_result:
  assumes "snd (patch_orchestration_live_state e updates expected safety_dominant allow_reenable s) = Inr live'"
  obtains rd live where
    "as_dict (dget (state_dict s) ''runtime_diag'') = Inr rd" and "as_dict (dget rd ''orchestration_live'') = Inr live"
    and "safety_dominant \<longrightarrow> truthy (dget updates ''queue_kill_active'')
        \<or> \<not> truthy (dget_default updates ''runtime_enabled'' (VBool True))"
    and "\<not> safety_dominant \<longrightarrow> (\<exists>d. expected = Some d \<and> live_patch_conflict updates d live allow_reenable = [])"
    and "live' = dput ''authority_revision'' (VInt (live_revision live + 1)) (dmerge live updates)"
    and "live_of (state_dict (fst (patch_orchestration_live_state e updates expected safety_dominant allow_reenable s))) = live'"
proof -
  have g: "\<not> (\<not> safety_dominant \<and> expected = None)"
    "\<not> (safety_dominant \<and> truthy (dget_default updates ''runtime_enabled'' (VBool True))
        \<and> \<not> truthy (dget updates ''queue_kill_active''))"
    using assms by (auto simp: patch_orchestration_live_state_def split: if_splits)
  note eq = patch_orchestration_live_state_def if_not_P [OF g(1)] if_not_P [OF g(2)] Let_def
  obtain rd live where l: "as_dict (dget (state_dict s) ''runtime_diag'') = Inr rd"
      "as_dict (dget rd ''orchestration_live'') = Inr live"
    using assms unfolding eq by (auto split: sum.splits elim: ebindE)
  define conflict where "conflict = (if safety_dominant then []
      else live_patch_conflict updates (case expected of None \<Rightarrow> [] | Some d \<Rightarrow> d) live allow_reenable)"
  have nc: "conflict = []"
    using assms unfolding eq l ebind.simps sum.case prod.case conflict_def [symmetric] by (auto split: if_splits)
  have res: "live' = dput ''authority_revision'' (VInt (live_revision live + 1)) (dmerge live updates)"
    "live_of (state_dict (fst (patch_orchestration_live_state e updates expected safety_dominant allow_reenable s))) = live'"
    using assms unfolding eq l ebind.simps sum.case prod.case conflict_def [symmetric] nc
    by (auto simp: now_read_def live_of_def)
  show thesis
    by (rule that [OF l _ _ res]) (use g nc in \<open>auto simp: conflict_def split: option.splits\<close>)
qed

lemma granted_lease_fields:
  assumes "py_lower (py_strip (lc_channel c)) \<in> set lease_channels"
  shows "(k, v) \<in> set (lease_identity c) \<Longrightarrow> dget (granted_lease c current acq now) k = v"
    and "dget (granted_lease c current acq now) ''expires_at'' = VFloat (fadd now (lease_ttl (lc_lease_secs c)))"
proof -
  let ?new = "[(''schema_version'', VStr ''fxstack_bridge_consumer_lease_v2'')] @ lease_identity c @
        [(''acquired_at'', VFloat acq), (''renewed_at'', VFloat now),
         (''expires_at'', VFloat (fadd now (lease_ttl (lc_lease_secs c)))),
         (py_lower (py_strip (lc_channel c)) @ ''_authenticated_at'', VFloat now)]"
  have d: "distinct (map fst ?new)"
    using assms by (auto simp: lease_identity_def lease_channels_def)
  have "dget (granted_lease c current acq now) k = v" if "(k, v) \<in> set ?new" for k v
    using map_of_dmerge_Some [OF d, of k v current] map_of_is_SomeI [OF d that]
    by (simp add: granted_lease_def dget_def)
  then show "(k, v) \<in> set (lease_identity c) \<Longrightarrow> dget (granted_lease c current acq now) k = v"
    and "dget (granted_lease c current acq now) ''expires_at'' = VFloat (fadd now (lease_ttl (lc_lease_secs c)))"
    by simp_all
qed

lemma lease_granted:
  assumes "claim_bridge_consumer_lease e a s = (s1, Inr (LeaseGranted l))"
  obtains current acq where "py_lower (py_strip (lc_channel a)) \<in> set lease_channels"
    and "l = granted_lease a current acq (en_clock e (s_reads s))"
  using assms
  by (auto simp: claim_bridge_consumer_lease_def Let_def now_read_def elim!: ebindE
      split: if_splits sum.splits)

lemma same_identity_iff:
  assumes "\<And>k v. (k, v) \<in> set (lease_identity a) \<Longrightarrow> dget l k = v"
  shows "same_lease_identity b l \<longleftrightarrow> lease_identity b = lease_identity a"
proof -
  have "map (dget l \<circ> fst) (lease_identity a) = map snd (lease_identity a)"
    using assms by (intro map_cong) auto
  then show ?thesis by (auto simp: same_lease_identity_def lease_identity_def)
qed

lemma lease_ttl_range: "fle (Fin 5) (lease_ttl x) \<and> fle (lease_ttl x) (Fin 120)"
  by (cases x) (auto simp: lease_ttl_def fmin_def fmax_def fle_def feq_def)

section \<open>Properties\<close>

lemma patch_keeps_owned_key:
  assumes "k \<in> set release_owned_keys"
  shows "map_of (state_dict (fst (commit_state_patch e p rp rr ds s))) k = map_of (state_dict s) k"
proof (cases rule: commit_state_patch_cases [of e p rp rr ds s])
  case (refused err)
  then show ?thesis by simp
next
  case (committed incoming)
  have "map_of (merge_patch e (truthy (dget p ''__prune_stale__'')) incoming (state_dict s)) k = map_of (state_dict s) k"
  proof (rule merge_patch_outside)
    have "map_of incoming k = None"
      using effective_patch_keys [OF committed(1)] release_owned_facts [OF assms] assms
      by (auto simp: stripped_patch_def map_of_dpops)
    then show "\<not> dhas incoming k" by (simp add: dhas_def)
  qed (use release_owned_facts [OF assms] in blast)
  then show ?thesis
    unfolding committed(2) using release_owned_facts [OF assms] by (simp add: map_of_dput)
qed

text \<open>
  C36. Whatever a runner cycle, a bridge caller or a state repair puts into a generic state patch, the
  release authority, its nonce ledger, the broker egress flag and authority and the scalp authority are
  stored after the patch exactly as before it, also when stale keys are pruned.
\<close>

theorem patch_keeps_release_authority:
  "list_all (\<lambda>k. map_of (state_dict (fst (commit_state_patch e p rp rr ds s))) k = map_of (state_dict s) k)
     release_owned_keys"
  unfolding list_all_iff using patch_keeps_owned_key by blast

text \<open>The patch brings a live section: as part of a whole \<open>runtime_diag\<close>, or by a mutation of the stored one.\<close>

definition carries_live_section :: "pydict \<Rightarrow> pydict \<Rightarrow> pydict option \<Rightarrow> string list \<Rightarrow> bool" where
  "carries_live_section st p rp rr =
     (if rp = None \<and> filter (\<lambda>k. k \<noteq> []) rr = []
      then (case dget p ''runtime_diag'' of VDict rd \<Rightarrow> dhas rd ''orchestration_live'' | _ \<Rightarrow> False)
      else (case rp of None \<Rightarrow> False | Some d \<Rightarrow> dhas d ''orchestration_live'')
        \<or> ''orchestration_live'' \<notin> set rr
          \<and> (case dget st ''runtime_diag'' of VDict rd \<Rightarrow> dhas rd ''orchestration_live'' | _ \<Rightarrow> False))"

lemma committed_brings:
  assumes "snd (commit_state_patch e p rp rr ds s) = Inr ()" and "distinct (map fst p)"
  shows "\<exists>v. brought_diag (state_dict s) p rp rr = Inr v"
proof (cases rule: commit_state_patch_cases [of e p rp rr ds s])
  case (committed incoming)
  have same: "dget (stripped_patch p) ''runtime_diag'' = dget p ''runtime_diag''"
    by (simp add: stripped_patch_def dget_dpops release_owned_keys_def)
  have in0: "distinct (map fst (stripped_patch p))" unfolding stripped_patch_def by (rule distinct_dpops [OF assms(2)])
  from committed(1) obtain inc where "nested_diag_patch (state_dict s) rp (py_unique (filter (\<lambda>k. k \<noteq> []) rr)) (stripped_patch p) = Inr inc"
    unfolding effective_patch_def by (elim ebindE)
  from nested_brings(1) [OF this same in0] show ?thesis by blast
qed (use assms in simp)

lemma carried_diag:
  assumes "carries_live_section st p rp rr" and "brought_diag st p rp rr = Inr v"
  shows "\<exists>rd. v = VDict rd \<and> dhas rd ''orchestration_live''"
proof (cases "rp = None \<and> filter (\<lambda>k. k \<noteq> []) rr = []")
  case True
  then show ?thesis using assms by (auto simp: brought_diag_def carries_live_section_def split: pyval.splits)
next
  case False
  then have nested: "rp \<noteq> None \<or> py_unique (filter (\<lambda>k. k \<noteq> []) rr) \<noteq> []" by auto
  obtain rd where rd: "as_dict (dget st ''runtime_diag'') = Inr rd"
    and v: "v = VDict (case rp of None \<Rightarrow> dpops (py_unique (filter (\<lambda>k. k \<noteq> []) rr)) rd
        | Some d \<Rightarrow> dmerge (dpops (py_unique (filter (\<lambda>k. k \<noteq> []) rr)) rd) d)"
    using assms(2) unfolding brought_diag_def Let_def if_P [OF nested] by (elim ebindE) simp
  have c: "(case rp of None \<Rightarrow> False | Some d \<Rightarrow> dhas d ''orchestration_live'')
        \<or> ''orchestration_live'' \<notin> set rr
          \<and> (case dget st ''runtime_diag'' of VDict rd \<Rightarrow> dhas rd ''orchestration_live'' | _ \<Rightarrow> False)"
    using assms(1) unfolding carries_live_section_def if_not_P [OF False] .
  show ?thesis unfolding v using c rd by (auto simp: dhas_dpops dhas_dmerge py_unique_def split: option.splits pyval.splits)
qed

text \<open>
  C37. While broker egress is enabled, a state patch cannot change the live authority: after a committed patch whose
  \<open>runtime_diag\<close> has a live section, whether the patch supplies \<open>runtime_diag\<close> as a whole or updates and removes keys of
  the stored one (as the scalp live loop does), every authority and scope field of the stored section is the one stored
  before, and the authority revision has stayed or grown by one. A patch is a dictionary: its keys are distinct.
\<close>

theorem live_authority_pinned:
  assumes "snd (commit_state_patch e p rp rr ds s) = Inr ()"
    and "distinct (map fst p)" and "carries_live_section (state_dict s) p rp rr"
    and "truthy (dget (state_dict s) ''execution_egress_enabled'')"
  shows "list_all (\<lambda>f. map_of (live_of (state_dict (fst (commit_state_patch e p rp rr ds s)))) f
             = map_of (live_of (state_dict s)) f) ORCHESTRATION_LIVE_REVISION_TRIGGER_FIELDS
    \<and> live_revision (live_of (state_dict s))
        \<le> live_revision (live_of (state_dict (fst (commit_state_patch e p rp rr ds s))))
    \<and> live_revision (live_of (state_dict (fst (commit_state_patch e p rp rr ds s))))
        \<le> live_revision (live_of (state_dict s)) + 1"
proof -
  obtain v where v: "brought_diag (state_dict s) p rp rr = Inr v"
    using committed_brings [OF assms(1,2)] by blast
  then obtain rd where rd: "v = VDict rd" and has: "dhas rd ''orchestration_live''"
    using carried_diag [OF assms(3)] by blast
  obtain rd' where
    patched: "patched_runtime_diag (state_dict s) (dget p ''__expected_orchestration_live_authority__'') rd = Inr rd'"
    and d: "dget (state_dict (fst (commit_state_patch e p rp rr ds s))) ''runtime_diag'' = VDict rd'"
    by (rule committed_brought_diag [OF assms(1,2), of rd]) (use v rd in auto)
  from has patched obtain crd current il' where
    c: "as_dict (dget (state_dict s) ''runtime_diag'') = Inr crd"
       "as_dict (dget crd ''orchestration_live'') = Inr current"
    and il': "patched_live (state_dict s) (dget p ''__expected_orchestration_live_authority__'') crd current rd = Inr il'"
    and rd': "rd' = dput ''orchestration_live'' (VDict il') rd"
    by (auto simp: patched_runtime_diag_def elim!: ebindE)
  from il' obtain il n where n: "il' = dput ''authority_revision'' (VInt n) il"
      "live_revision current \<le> n" "n \<le> live_revision current + 1"
    and il: "\<And>f. f \<in> set ORCHESTRATION_LIVE_AUTHORITY_FIELDS \<Longrightarrow> map_of il f = map_of current f"
    using assms(4) by (rule_tac patched_live_result [OF il']) auto
  have before: "live_of (state_dict s) = current" by (simp add: live_of_def c)
  have after: "live_of (state_dict (fst (commit_state_patch e p rp rr ds s))) = il'"
    using d unfolding rd' by (rule live_of_stored)
  have "0 \<le> n" using n(2) live_revision_nonneg [of current] by linarith
  with n il trigger_fields show ?thesis
    unfolding before after by (auto simp: list_all_iff map_of_dput)
qed

text \<open>
  C35. An operator mutation of the live authority that returns has raised the stored revision by exactly
  one, and what it returns is what it stored. Unless it is safety-dominant it was based on the authority stored at that
  moment (field by field, so two operators cannot overwrite each other) and it left entries enabled only where they were
  enabled before or on an explicit start; a safety-dominant one leaves entries disabled. The updates are a dictionary:
  their keys are distinct.
\<close>

theorem live_mutation_is_serialised:
  assumes "snd (patch_orchestration_live_state e updates expected safety_dominant allow_reenable s) = Inr live'"
    and "distinct (map fst updates)"
  shows "live_of (state_dict (fst (patch_orchestration_live_state e updates expected safety_dominant allow_reenable s))) = live'
    \<and> live_revision live' = live_revision (live_of (state_dict s)) + 1
    \<and> (if safety_dominant then \<not> live_enabled live'
       else (\<exists>d. expected = Some d \<and> \<not> dict_ne (selected_state_fields (live_of (state_dict s)) ORCHESTRATION_LIVE_AUTHORITY_FIELDS)
                (selected_state_fields d ORCHESTRATION_LIVE_AUTHORITY_FIELDS))
            \<and> (if live_enabled live' then live_enabled (live_of (state_dict s)) \<or> allow_reenable else True))"
proof -
  obtain rd live where
    live: "as_dict (dget (state_dict s) ''runtime_diag'') = Inr rd" "as_dict (dget rd ''orchestration_live'') = Inr live"
    and safe: "safety_dominant \<longrightarrow> truthy (dget updates ''queue_kill_active'')
        \<or> \<not> truthy (dget_default updates ''runtime_enabled'' (VBool True))"
    and cas: "\<not> safety_dominant \<longrightarrow> (\<exists>d. expected = Some d \<and> live_patch_conflict updates d live allow_reenable = [])"
    and live': "live' = dput ''authority_revision'' (VInt (live_revision live + 1)) (dmerge live updates)"
    and st: "live_of (state_dict (fst (patch_orchestration_live_state e updates expected safety_dominant allow_reenable s))) = live'"
    using assms(1) by (rule live_mutation_result)
  have before: "live_of (state_dict s) = live" by (simp add: live_of_def live)
  have en: "live_enabled live' = requests_enabled updates live"
    unfolding live' using dget_dmerge_default [OF assms(2)] by (simp add: live_enabled_def requests_enabled_def)
  have "\<not> requests_enabled updates live" if safety_dominant
    using safe that dget_default_truthy by (auto simp: requests_enabled_def)
  with cas show ?thesis
    unfolding st before en
    by (auto simp: live' live_patch_conflict_def split: if_splits)
qed

text \<open>
  C38. The bridge lease is exclusive: while a granted lease is stored and has not expired, a claim by any
  other consumer identity (terminal, instance, scope, credential generation or protocol version) is
  refused and changes nothing. A lease lasts between five seconds and two minutes whatever is asked for.
\<close>

theorem lease_is_exclusive:
  assumes "claim_bridge_consumer_lease e a s = (s1, Inr (LeaseGranted l))"
    and "dget (state_dict s2) ''bridge_consumer_lease'' = VDict l"
    and "lease_identity b \<noteq> lease_identity a"
    and "flt (en_clock e (s_reads s2)) (fadd (en_clock e (s_reads s)) (lease_ttl (lc_lease_secs a)))"
  shows "state_dict (fst (claim_bridge_consumer_lease e b s2)) = state_dict s2
    \<and> (\<exists>r. snd (claim_bridge_consumer_lease e b s2) \<in>
          {Inr (LeaseRefused r), Inr (LeaseBusy (fadd (en_clock e (s_reads s)) (lease_ttl (lc_lease_secs a))))})
    \<and> fle (Fin 5) (lease_ttl (lc_lease_secs a)) \<and> fle (lease_ttl (lc_lease_secs a)) (Fin 120)"
proof -
  obtain current acq where ch: "py_lower (py_strip (lc_channel a)) \<in> set lease_channels"
    and l: "l = granted_lease a current acq (en_clock e (s_reads s))"
    using assms(1) by (rule lease_granted)
  have other: "\<not> same_lease_identity b l"
    using assms(3) same_identity_iff [of a l b] granted_lease_fields(1) [OF ch] by (simp add: l)
  have ex: "dget l ''expires_at'' = VFloat (fadd (en_clock e (s_reads s)) (lease_ttl (lc_lease_secs a)))"
    using granted_lease_fields(2) [OF ch] by (simp add: l)
  then have "py_float (py_or (dget l ''expires_at'') (VFloat (Fin 0)))
      = Inr (fadd (en_clock e (s_reads s)) (lease_ttl (lc_lease_secs a)))"
    by (auto simp: py_or_def)
  then show ?thesis
    using other assms(2,4) lease_ttl_range
    by (auto simp: claim_bridge_consumer_lease_def now_read_def state_dict_def)
qed

section \<open>Witnesses\<close>

definition demo_digest :: "string \<Rightarrow> string" where
  "demo_digest s = replicate 64 CHR ''a''"

definition demo_tick :: MarketTick where
  "demo_tick = \<lparr>tk_id = 1, tk_symbol = ''EURUSD'', tk_bid = Some (Fin 1), tk_ask = Some (Fin 2), tk_ts = Fin 995,
     tk_identity = [(''market_source_schema'', VStr ''fxstack_authenticated_broker_market_source_v2''),
        (''market_source_id'', VStr (demo_digest [])), (''market_source_authenticated'', VInt 1),
        (''broker_account_scope'', VStr ''acct''), (''broker_venue_id'', VStr ''ig_mt4''), (''producer_identity'', VStr ''ea''),
        (''producer_instance_id'', VStr ''i1''), (''terminal_lease_scope'', VStr ''t1''), (''credential_generation_id'', VStr ''k1''),
        (''bridge_protocol_version'', VStr ''v3.0.0'')]\<rparr>"

definition demo_env :: Env where
  "demo_env = \<lparr>en_clock = (\<lambda>n. Fin (1000 + of_nat n)), en_iso = (\<lambda>t. None), en_stale_heartbeat_secs = Fin 15,
     en_prune_stale_keys = False, en_stale_keys = [], en_wall = (\<lambda>n c. Fin 1000), en_sha256 = demo_digest,
     en_contract_failure = (\<lambda>st p pair now. Inr []), en_stale_tick_secs = Fin 15,
     en_market_ticks = (\<lambda>n. [demo_tick]), en_order_failure = (\<lambda>st q ticks. Inr [])\<rparr>"

definition armed_store :: Store where
  "armed_store = empty_store\<lparr>s_state := Some
     [(''execution_egress_enabled'', VBool True),
      (''runtime_diag'', VDict [(''orchestration_live'',
         VDict [(''authority_revision'', VInt 7), (''enabled'', VBool True), (''runtime_enabled'', VBool True)])])]\<rparr>"

definition demo_patch :: pydict where
  "demo_patch = [(''runtime_diag'', VDict [(''orchestration_live'', VDict [(''enabled'', VBool False)])]),
     (''execution_egress_enabled'', VBool False)]"

definition demo_diag_patch :: pydict where
  "demo_diag_patch = [(''orchestration_live'', VDict [(''enabled'', VBool False)])]"

theorem live_authority_pinned_witness:
  "map_of (live_of (state_dict (fst (commit_state_patch demo_env demo_patch None [] None armed_store)))) ''enabled''
     = Some (VBool True)
   \<and> map_of (live_of (state_dict (fst (commit_state_patch demo_env [] (Some demo_diag_patch) [''note''] None armed_store)))) ''enabled''
     = Some (VBool True)"
proof -
  have committed: "snd (commit_state_patch demo_env demo_patch None [] None armed_store) = Inr ()"
    "snd (commit_state_patch demo_env [] (Some demo_diag_patch) [''note''] None armed_store) = Inr ()"
    by (simp_all add: commit_state_patch_def demo_patch_def demo_diag_patch_def armed_store_def empty_store_def state_dict_def
        Let_def stripped_patch_def dpops_def dpop_def release_owned_keys_def effective_patch_def nested_diag_patch_def
        dmerge_def py_unique_def patched_runtime_diag_def patched_live_def preserve_live_authority_def admission_changed_def now_read_def)
  have hyps: "distinct (map fst demo_patch)" "carries_live_section (state_dict armed_store) demo_patch None []"
    "distinct (map fst ([] :: pydict))" "carries_live_section (state_dict armed_store) [] (Some demo_diag_patch) [''note'']"
    "truthy (dget (state_dict armed_store) ''execution_egress_enabled'')"
    by code_simp+
  have "''enabled'' \<in> set ORCHESTRATION_LIVE_REVISION_TRIGGER_FIELDS"
    "map_of (live_of (state_dict armed_store)) ''enabled'' = Some (VBool True)"
    by (simp_all add: ORCHESTRATION_LIVE_REVISION_TRIGGER_FIELDS_def ORCHESTRATION_LIVE_AUTHORITY_FIELDS_def
        live_of_def armed_store_def empty_store_def state_dict_def)
  with live_authority_pinned [OF committed(1) hyps(1,2,5)] live_authority_pinned [OF committed(2) hyps(3,4,5)]
  show ?thesis by (simp add: list_all_iff)
qed

theorem live_mutation_is_serialised_witness:
  "snd (patch_orchestration_live_state demo_env [(''queue_kill_active'', VBool True)] None True False armed_store)
     = Inr [(''authority_revision'', VInt 8), (''enabled'', VBool True), (''runtime_enabled'', VBool True),
            (''queue_kill_active'', VBool True)]
   \<and> \<not> live_enabled [(''authority_revision'', VInt 8), (''enabled'', VBool True), (''runtime_enabled'', VBool True),
            (''queue_kill_active'', VBool True)]"
proof -
  have h: "snd (patch_orchestration_live_state demo_env [(''queue_kill_active'', VBool True)] None True False armed_store)
     = Inr [(''authority_revision'', VInt 8), (''enabled'', VBool True), (''runtime_enabled'', VBool True),
            (''queue_kill_active'', VBool True)]"
    "distinct (map fst [(''queue_kill_active'', VBool True)])"
    by code_simp+
  from live_mutation_is_serialised [OF h] h(1) show ?thesis by simp
qed

definition demo_claim :: "string \<Rightarrow> LeaseClaim" where
  "demo_claim who = \<lparr>lc_consumer_identity = who, lc_producer_instance_id = ''i1'', lc_terminal_lease_scope = ''t'',
     lc_credential_generation_id = ''g'', lc_bridge_protocol_version = ''2'', lc_channel = ''poll'',
     lc_lease_secs = Fin 30\<rparr>"

definition leased_store :: Store where
  "leased_store = fst (claim_bridge_consumer_lease demo_env (demo_claim ''ea1'') empty_store)"

definition demo_lease :: pydict where
  "demo_lease = granted_lease (demo_claim ''ea1'') [] (Fin 1000) (Fin 1000)"

theorem lease_is_exclusive_witness:
  "state_dict (fst (claim_bridge_consumer_lease demo_env (demo_claim ''ea2'') leased_store)) = state_dict leased_store"
proof -
  have h: "claim_bridge_consumer_lease demo_env (demo_claim ''ea1'') empty_store = (leased_store, Inr (LeaseGranted demo_lease))"
    "dget (state_dict leased_store) ''bridge_consumer_lease'' = VDict demo_lease"
    "lease_identity (demo_claim ''ea2'') \<noteq> lease_identity (demo_claim ''ea1'')"
    "flt (en_clock demo_env (s_reads leased_store))
       (fadd (en_clock demo_env (s_reads empty_store)) (lease_ttl (lc_lease_secs (demo_claim ''ea1''))))"
    by code_simp+
  from lease_is_exclusive [OF h] show ?thesis by blast
qed

end
