(* ===== verification/Scalp_Authority.thy ===== *)
theory Scalp_Authority
  imports Runtime_State
begin

text \<open>
  The identity contract of the production scalper, \<open>runtime/scalp_execution_authority.py\<close>: the expectation
  of one runtime boot and its validation, the active authority document built from it, the check of
  a stored authority against an expectation, the witness of an activation, the identity stamped
  into every entry command and its recheck, and the parsing of a past entry for protective closes. The hash
  is an argument \<open>sha\<close>: the hexadecimal SHA-256 digest of a text.
\<close>

section \<open>Constants\<close>

definition IG_MT4_SCALP_SCOPE_VERSION :: string where
  "IG_MT4_SCALP_SCOPE_VERSION = ''fxstack.ig_mt4.scalp_scope.v3''"

definition MTVCLC_STRATEGY_ID :: string where
  "MTVCLC_STRATEGY_ID = ''ig_mt4_tick_volume_close_location_continuation''"

definition MTVCLC_STRATEGY_VERSION :: string where
  "MTVCLC_STRATEGY_VERSION = ''mtvclc.v1''"

definition MTVCLC_CONFIG_ID :: string where
  "MTVCLC_CONFIG_ID = ''mtvclc_v1_vq90_cl80_b1k_h30_t4k_s8k''"

definition MTVCLC_CONFIG_SHA256 :: string where
  "MTVCLC_CONFIG_SHA256 = ''aac8e4bd98d71243b41993983d63ab1da1f8836b74b9243c7e60232f0eb00701''"

definition SCALP_EXECUTION_AUTHORITY_SCHEMA :: string where
  "SCALP_EXECUTION_AUTHORITY_SCHEMA = ''fxstack_production_scalp_authority_v3''"

definition SCALP_LEGACY_EXECUTION_AUTHORITY_SCHEMA :: string where
  "SCALP_LEGACY_EXECUTION_AUTHORITY_SCHEMA = ''fxstack_production_scalp_authority_v2''"

definition SCALP_EXECUTION_LANE :: string where
  "SCALP_EXECUTION_LANE = ''production_scalper''"

definition SCALP_ENTRY_INTENT :: string where
  "SCALP_ENTRY_INTENT = ''production_scalper_entry''"

definition SCALP_ADMISSION_MODE_SIGNED :: string where
  "SCALP_ADMISSION_MODE_SIGNED = ''signed_validation''"

definition SCALP_ADMISSION_MODE_DIRECT_DEMO :: string where
  "SCALP_ADMISSION_MODE_DIRECT_DEMO = ''direct_demo''"

definition BROKER_NATIVE_BRACKET_POLICY :: string where
  "BROKER_NATIVE_BRACKET_POLICY = ''broker_native_sl_tp''"

definition MAX_ENTRIES_PER_SYMBOL_UTC_DAY :: int where
  "MAX_ENTRIES_PER_SYMBOL_UTC_DAY = 1"

definition AUTHORITY_BINDING_FIELDS_V3 :: "string list" where
  "AUTHORITY_BINDING_FIELDS_V3 =
     [''schema_version'', ''source'', ''admission_mode'', ''account_mode'', ''generation_id'', ''strategy_id'',
      ''strategy_version'', ''engine_sha256'', ''config_id'', ''config_sha256'',
      ''runtime_release_certificate_sha256'', ''runtime_release_signing_key_id'', ''research_evidence_sha256'',
      ''research_evidence_signing_key_id'', ''registry_generation_id'', ''registry_revision'', ''registry_sha256'',
      ''qualification_surface_sha256'', ''cost_mapping_sha256'', ''execution_contract_sha256'',
      ''validation_expires_at_epoch'', ''venue_id'', ''scope_version'', ''symbol_scope'', ''bracket_policy'',
      ''max_entries_per_symbol_utc_day'', ''runtime_boot_id'', ''authority_revision'']"

definition AUTHORITY_BINDING_FIELDS_V2 :: "string list" where
  "AUTHORITY_BINDING_FIELDS_V2 =
     [''schema_version'', ''source'', ''admission_mode'', ''account_mode'', ''generation_id'', ''strategy_id'',
      ''engine_sha256'', ''config_sha256'', ''validation_evidence_sha256'', ''validation_expires_at_epoch'',
      ''venue_id'', ''symbol_scope'', ''bracket_policy'', ''max_entries_per_symbol_utc_day'', ''runtime_boot_id'',
      ''authority_revision'']"

definition COMMAND_BINDING_FIELDS_V3 :: "(string \<times> string) list" where
  "COMMAND_BINDING_FIELDS_V3 =
     [(''expected_strategy_authority_schema'', ''schema_version''),
      (''expected_strategy_admission_mode'', ''admission_mode''),
      (''expected_strategy_account_mode'', ''account_mode''),
      (''expected_strategy_generation_id'', ''generation_id''),
      (''expected_strategy_id'', ''strategy_id''),
      (''expected_strategy_version'', ''strategy_version''),
      (''expected_strategy_engine_sha256'', ''engine_sha256''),
      (''expected_strategy_config_id'', ''config_id''),
      (''expected_strategy_config_sha256'', ''config_sha256''),
      (''expected_strategy_runtime_release_certificate_sha256'', ''runtime_release_certificate_sha256''),
      (''expected_strategy_runtime_release_signing_key_id'', ''runtime_release_signing_key_id''),
      (''expected_strategy_research_evidence_sha256'', ''research_evidence_sha256''),
      (''expected_strategy_research_evidence_signing_key_id'', ''research_evidence_signing_key_id''),
      (''expected_strategy_registry_generation_id'', ''registry_generation_id''),
      (''expected_strategy_registry_revision'', ''registry_revision''),
      (''expected_strategy_registry_sha256'', ''registry_sha256''),
      (''expected_strategy_qualification_surface_sha256'', ''qualification_surface_sha256''),
      (''expected_strategy_cost_mapping_sha256'', ''cost_mapping_sha256''),
      (''expected_strategy_execution_contract_sha256'', ''execution_contract_sha256''),
      (''expected_strategy_validation_expires_at_epoch'', ''validation_expires_at_epoch''),
      (''expected_strategy_venue_id'', ''venue_id''),
      (''expected_strategy_scope_version'', ''scope_version''),
      (''expected_strategy_binding_sha256'', ''binding_sha256''),
      (''expected_strategy_runtime_boot_id'', ''runtime_boot_id''),
      (''expected_strategy_authority_revision'', ''authority_revision'')]"

definition COMMAND_BINDING_FIELDS_V2 :: "(string \<times> string) list" where
  "COMMAND_BINDING_FIELDS_V2 =
     [(''expected_strategy_authority_schema'', ''schema_version''),
      (''expected_strategy_admission_mode'', ''admission_mode''),
      (''expected_strategy_account_mode'', ''account_mode''),
      (''expected_strategy_generation_id'', ''generation_id''),
      (''expected_strategy_id'', ''strategy_id''),
      (''expected_strategy_engine_sha256'', ''engine_sha256''),
      (''expected_strategy_config_sha256'', ''config_sha256''),
      (''expected_strategy_validation_evidence_sha256'', ''validation_evidence_sha256''),
      (''expected_strategy_validation_expires_at_epoch'', ''validation_expires_at_epoch''),
      (''expected_strategy_venue_id'', ''venue_id''),
      (''expected_strategy_binding_sha256'', ''binding_sha256''),
      (''expected_strategy_runtime_boot_id'', ''runtime_boot_id''),
      (''expected_strategy_authority_revision'', ''authority_revision'')]"

section \<open>Helpers\<close>

definition sha256_json :: "(string \<Rightarrow> string) \<Rightarrow> pyval \<Rightarrow> string" where
  "sha256_json sha v = sha (json_dumps v)"

definition is_sha256 :: "pyval \<Rightarrow> bool" where
  "is_sha256 v =
     (let txt = norm_lower v in length txt = 64 \<and> list_all (\<lambda>c. c \<in> set ''0123456789abcdef'') txt)"

definition safe_float :: "pyval \<Rightarrow> pyfloat" where
  "safe_float v = (case py_float v of Inl e \<Rightarrow> Fin 0 | Inr f \<Rightarrow> if is_finite f then f else Fin 0)"

definition normalized_symbols :: "pyval list \<Rightarrow> string list" where
  "normalized_symbols = map norm_upper"

definition symbol_scope_error :: "pyval list \<Rightarrow> string" where
  "symbol_scope_error vs =
     (let symbols = normalized_symbols vs in
      first_reason
        [(symbols = [], ''scalp_authority_symbol_scope_missing''),
         ([] \<in> set symbols, ''scalp_authority_symbol_scope_malformed''),
         (\<not> distinct symbols, ''scalp_authority_symbol_scope_duplicate''),
         (set symbols \<noteq> set IG_MT4_SCALP_SYMBOLS, ''scalp_authority_symbol_scope_incomplete''),
         (symbols \<noteq> IG_MT4_SCALP_SYMBOLS, ''scalp_authority_symbol_scope_order_changed'')])"

definition authority_binding_fields :: "pydict \<Rightarrow> string list" where
  "authority_binding_fields authority =
     (if str_or_empty (dget authority ''schema_version'') = SCALP_LEGACY_EXECUTION_AUTHORITY_SCHEMA
      then AUTHORITY_BINDING_FIELDS_V2 else AUTHORITY_BINDING_FIELDS_V3)"

definition authority_binding_sha256 :: "(string \<Rightarrow> string) \<Rightarrow> pydict \<Rightarrow> pyerr + string" where
  "authority_binding_sha256 sha authority =
     (let payload = map (\<lambda>f. (f, dget authority f)) (authority_binding_fields authority) in
      ebind (as_list (dget payload ''symbol_scope'')) (\<lambda>scope.
        Inr (sha256_json sha (VDict (dput ''symbol_scope'' (VList (map VStr (normalized_symbols scope))) payload)))))"

section \<open>The expectation of a runtime boot\<close>

record ScalpAuthorityExpectation =
  se_generation_id :: string
  se_strategy_id :: string
  se_engine_sha256 :: string
  se_config_sha256 :: string
  se_validation_expires_at_epoch :: pyfloat
  se_runtime_boot_id :: string
  se_authority_revision :: int
  se_strategy_version :: string
  se_config_id :: string
  se_runtime_release_certificate_sha256 :: string
  se_runtime_release_signing_key_id :: string
  se_research_evidence_sha256 :: string
  se_research_evidence_signing_key_id :: string
  se_registry_generation_id :: string
  se_registry_revision :: int
  se_registry_sha256 :: string
  se_qualification_surface_sha256 :: string
  se_cost_mapping_sha256 :: string
  se_execution_contract_sha256 :: string
  se_validation_evidence_sha256 :: string
  se_admission_mode :: string
  se_account_mode :: string
  se_venue_id :: string
  se_scope_version :: string
  se_bracket_policy :: string
  se_max_entries_per_symbol_utc_day :: int
  se_symbol_scope :: "string list"

definition expectation_identity_checks :: "ScalpAuthorityExpectation \<Rightarrow> (bool \<times> string) list" where
  "expectation_identity_checks x =
     [(py_lower (py_strip (se_admission_mode x)) \<noteq> SCALP_ADMISSION_MODE_SIGNED,
       ''scalp_authority_admission_mode_invalid''),
      (py_lower (py_strip (se_account_mode x)) \<notin> {''demo'', ''real''}, ''scalp_authority_account_mode_invalid''),
      (py_strip (se_generation_id x) = [], ''scalp_authority_generation_missing''),
      (se_strategy_id x \<noteq> MTVCLC_STRATEGY_ID, ''scalp_authority_strategy_missing''),
      (se_strategy_version x \<noteq> MTVCLC_STRATEGY_VERSION, ''scalp_authority_strategy_version_invalid''),
      (\<not> is_sha256 (VStr (se_engine_sha256 x)), ''scalp_authority_engine_identity_invalid''),
      (se_config_id x \<noteq> MTVCLC_CONFIG_ID, ''scalp_authority_config_id_invalid''),
      (\<not> is_sha256 (VStr (se_config_sha256 x)) \<or> se_config_sha256 x \<noteq> MTVCLC_CONFIG_SHA256,
       ''scalp_authority_config_identity_invalid''),
      (se_validation_evidence_sha256 x \<noteq> [], ''scalp_authority_legacy_validation_identity_forbidden'')]"

definition expectation_digests :: "ScalpAuthorityExpectation \<Rightarrow> (string \<times> string) list" where
  "expectation_digests x =
     [(se_runtime_release_certificate_sha256 x, ''scalp_authority_runtime_release_certificate_invalid''),
      (se_runtime_release_signing_key_id x, ''scalp_authority_runtime_release_key_invalid''),
      (se_research_evidence_sha256 x, ''scalp_authority_research_evidence_invalid''),
      (se_research_evidence_signing_key_id x, ''scalp_authority_research_evidence_key_invalid''),
      (se_registry_sha256 x, ''scalp_authority_registry_identity_invalid''),
      (se_qualification_surface_sha256 x, ''scalp_authority_qualification_surface_invalid''),
      (se_cost_mapping_sha256 x, ''scalp_authority_cost_mapping_invalid''),
      (se_execution_contract_sha256 x, ''scalp_authority_execution_contract_invalid'')]"

definition expectation_lease_checks :: "ScalpAuthorityExpectation \<Rightarrow> (bool \<times> string) list" where
  "expectation_lease_checks x =
     [(py_strip (se_registry_generation_id x) = [] \<or> se_registry_generation_id x \<noteq> se_generation_id x,
       ''scalp_authority_registry_generation_invalid''),
      (se_registry_revision x \<le> 0, ''scalp_authority_registry_revision_invalid''),
      (\<not> is_finite (se_validation_expires_at_epoch x) \<or> fle (se_validation_expires_at_epoch x) (Fin 0),
       ''scalp_authority_validation_expiry_invalid''),
      (py_strip (se_runtime_boot_id x) = [], ''scalp_authority_runtime_boot_missing''),
      (se_authority_revision x \<le> 0, ''scalp_authority_revision_invalid''),
      (py_lower (py_strip (se_venue_id x)) \<noteq> IG_MT4_VENUE_ID, ''scalp_authority_venue_invalid''),
      (se_scope_version x \<noteq> IG_MT4_SCALP_SCOPE_VERSION, ''scalp_authority_scope_version_invalid''),
      (py_lower (py_strip (se_bracket_policy x)) \<noteq> BROKER_NATIVE_BRACKET_POLICY,
       ''scalp_authority_bracket_policy_invalid''),
      (se_max_entries_per_symbol_utc_day x \<noteq> MAX_ENTRIES_PER_SYMBOL_UTC_DAY,
       ''scalp_authority_daily_frequency_invalid'')]"

definition expectation_checks :: "ScalpAuthorityExpectation \<Rightarrow> (bool \<times> string) list" where
  "expectation_checks x =
     expectation_identity_checks x
     @ map (\<lambda>(v, why). (\<not> is_sha256 (VStr v), why)) (expectation_digests x)
     @ expectation_lease_checks x"

definition expectation_validation_error :: "ScalpAuthorityExpectation \<Rightarrow> string" where
  "expectation_validation_error x =
     (let why = first_reason (expectation_checks x) in
      if why \<noteq> [] then why else symbol_scope_error (map VStr (se_symbol_scope x)))"

text \<open>The legacy identity, only for revoked authority and protective closes.\<close>

definition legacy_v2_checks :: "pydict \<Rightarrow> (bool \<times> string) list" where
  "legacy_v2_checks current =
     (let admission_mode = norm_lower (dget current ''admission_mode'');
          account_mode = norm_lower (dget current ''account_mode'') in
      [(admission_mode \<notin> {SCALP_ADMISSION_MODE_SIGNED, SCALP_ADMISSION_MODE_DIRECT_DEMO},
        ''scalp_authority_admission_mode_invalid''),
       (admission_mode = SCALP_ADMISSION_MODE_DIRECT_DEMO \<and> account_mode \<noteq> ''demo'',
        ''scalp_authority_direct_demo_account_mode_invalid''),
       (admission_mode = SCALP_ADMISSION_MODE_SIGNED \<and> account_mode \<notin> {''demo'', ''real''},
        ''scalp_authority_account_mode_invalid''),
       (norm_text (dget current ''generation_id'') = [], ''scalp_authority_generation_missing''),
       (norm_text (dget current ''strategy_id'') = [], ''scalp_authority_strategy_missing''),
       (norm_text (dget current ''runtime_boot_id'') = [], ''scalp_authority_runtime_boot_missing''),
       (\<not> is_sha256 (dget current ''engine_sha256''), ''scalp_authority_engine_identity_invalid''),
       (\<not> is_sha256 (dget current ''config_sha256''), ''scalp_authority_config_identity_invalid''),
       (\<not> is_sha256 (dget current ''validation_evidence_sha256''), ''scalp_authority_validation_evidence_invalid''),
       (fle (safe_float (dget current ''validation_expires_at_epoch'')) (Fin 0),
        ''scalp_authority_validation_expiry_invalid''),
       (safe_int (dget current ''authority_revision'') 0 \<le> 0, ''scalp_authority_revision_invalid''),
       (norm_lower (dget current ''venue_id'') \<noteq> IG_MT4_VENUE_ID, ''scalp_authority_venue_invalid''),
       (norm_lower (dget current ''bracket_policy'') \<noteq> BROKER_NATIVE_BRACKET_POLICY,
        ''scalp_authority_bracket_policy_invalid''),
       (safe_int (dget current ''max_entries_per_symbol_utc_day'') 0 \<noteq> MAX_ENTRIES_PER_SYMBOL_UTC_DAY,
        ''scalp_authority_daily_frequency_invalid'')])"

definition legacy_v2_authority_identity_error :: "pydict \<Rightarrow> pyerr + string" where
  "legacy_v2_authority_identity_error current =
     (let why = first_reason (legacy_v2_checks current) in
      if why \<noteq> [] then Inr why
      else ebind (as_list (dget current ''symbol_scope'')) (\<lambda>scope. Inr (symbol_scope_error scope)))"

section \<open>The active authority document\<close>

definition active_authority_fields :: "ScalpAuthorityExpectation \<Rightarrow> pyfloat \<Rightarrow> pydict" where
  "active_authority_fields x activated =
     [(''schema_version'', VStr SCALP_EXECUTION_AUTHORITY_SCHEMA),
      (''status'', VStr ''active''),
      (''source'', VStr ''production_runtime''),
      (''admission_mode'', VStr (py_lower (py_strip (se_admission_mode x)))),
      (''account_mode'', VStr (py_lower (py_strip (se_account_mode x)))),
      (''generation_id'', VStr (py_strip (se_generation_id x))),
      (''strategy_id'', VStr (py_strip (se_strategy_id x))),
      (''strategy_version'', VStr (py_strip (se_strategy_version x))),
      (''engine_sha256'', VStr (py_lower (py_strip (se_engine_sha256 x)))),
      (''config_id'', VStr (py_strip (se_config_id x))),
      (''config_sha256'', VStr (py_lower (py_strip (se_config_sha256 x)))),
      (''runtime_release_certificate_sha256'', VStr (py_lower (py_strip (se_runtime_release_certificate_sha256 x)))),
      (''runtime_release_signing_key_id'', VStr (py_lower (py_strip (se_runtime_release_signing_key_id x)))),
      (''research_evidence_sha256'', VStr (py_lower (py_strip (se_research_evidence_sha256 x)))),
      (''research_evidence_signing_key_id'', VStr (py_lower (py_strip (se_research_evidence_signing_key_id x)))),
      (''registry_generation_id'', VStr (py_strip (se_registry_generation_id x))),
      (''registry_revision'', VInt (se_registry_revision x)),
      (''registry_sha256'', VStr (py_lower (py_strip (se_registry_sha256 x)))),
      (''qualification_surface_sha256'', VStr (py_lower (py_strip (se_qualification_surface_sha256 x)))),
      (''cost_mapping_sha256'', VStr (py_lower (py_strip (se_cost_mapping_sha256 x)))),
      (''execution_contract_sha256'', VStr (py_lower (py_strip (se_execution_contract_sha256 x)))),
      (''validation_expires_at_epoch'', VFloat (se_validation_expires_at_epoch x)),
      (''venue_id'', VStr IG_MT4_VENUE_ID),
      (''scope_version'', VStr IG_MT4_SCALP_SCOPE_VERSION),
      (''symbol_scope'', VList (map VStr IG_MT4_SCALP_SYMBOLS)),
      (''bracket_policy'', VStr BROKER_NATIVE_BRACKET_POLICY),
      (''max_entries_per_symbol_utc_day'', VInt MAX_ENTRIES_PER_SYMBOL_UTC_DAY),
      (''runtime_boot_id'', VStr (py_strip (se_runtime_boot_id x))),
      (''authority_revision'', VInt (se_authority_revision x)),
      (''activated_at'', VFloat activated),
      (''updated_at'', VFloat activated)]"

definition build_active_authority ::
  "(string \<Rightarrow> string) \<Rightarrow> ScalpAuthorityExpectation \<Rightarrow> pyfloat \<Rightarrow> store_error + pydict" where
  "build_active_authority sha x activated =
     (let why = expectation_validation_error x in
      if why \<noteq> [] then Inl (ValueErr why)
      else if \<not> is_finite activated \<or> fle activated (Fin 0) then Inl (ValueErr ''scalp_authority_activation_time_invalid'')
      else let authority = active_authority_fields x activated in
        ebind (sconv (authority_binding_sha256 sha authority)) (\<lambda>binding.
          if fle (se_validation_expires_at_epoch x) activated then Inl (ValueErr ''scalp_authority_validation_expired'')
          else Inr (dput ''binding_sha256'' (VStr binding) authority)))"

section \<open>Projections of the expectation\<close>

definition expectation_from_authority :: "pydict \<Rightarrow> pyerr + ScalpAuthorityExpectation" where
  "expectation_from_authority current =
     (let txt = (\<lambda>k. str_or_empty (dget current k)) in
      ebind (as_list (dget current ''symbol_scope'')) (\<lambda>scope.
      Inr
      \<lparr>se_generation_id = txt ''generation_id'',
       se_strategy_id = txt ''strategy_id'',
       se_engine_sha256 = txt ''engine_sha256'',
       se_config_sha256 = txt ''config_sha256'',
       se_validation_expires_at_epoch = safe_float (dget current ''validation_expires_at_epoch''),
       se_runtime_boot_id = txt ''runtime_boot_id'',
       se_authority_revision = safe_int (dget current ''authority_revision'') 0,
       se_strategy_version = txt ''strategy_version'',
       se_config_id = txt ''config_id'',
       se_runtime_release_certificate_sha256 = txt ''runtime_release_certificate_sha256'',
       se_runtime_release_signing_key_id = txt ''runtime_release_signing_key_id'',
       se_research_evidence_sha256 = txt ''research_evidence_sha256'',
       se_research_evidence_signing_key_id = txt ''research_evidence_signing_key_id'',
       se_registry_generation_id = txt ''registry_generation_id'',
       se_registry_revision = safe_int (dget current ''registry_revision'') 0,
       se_registry_sha256 = txt ''registry_sha256'',
       se_qualification_surface_sha256 = txt ''qualification_surface_sha256'',
       se_cost_mapping_sha256 = txt ''cost_mapping_sha256'',
       se_execution_contract_sha256 = txt ''execution_contract_sha256'',
       se_validation_evidence_sha256 = [],
       se_admission_mode = txt ''admission_mode'',
       se_account_mode = txt ''account_mode'',
       se_venue_id = txt ''venue_id'',
       se_scope_version = txt ''scope_version'',
       se_bracket_policy = txt ''bracket_policy'',
       se_max_entries_per_symbol_utc_day = safe_int (dget current ''max_entries_per_symbol_utc_day'') 0,
       se_symbol_scope = normalized_symbols scope\<rparr>))"

definition expectation_from_command :: "pydict \<Rightarrow> ScalpAuthorityExpectation" where
  "expectation_from_command raw =
     (let txt = (\<lambda>k. str_or_empty (dget raw k)) in
      \<lparr>se_generation_id = txt ''expected_strategy_generation_id'',
       se_strategy_id = txt ''expected_strategy_id'',
       se_engine_sha256 = txt ''expected_strategy_engine_sha256'',
       se_config_sha256 = txt ''expected_strategy_config_sha256'',
       se_validation_expires_at_epoch = safe_float (dget raw ''expected_strategy_validation_expires_at_epoch''),
       se_runtime_boot_id = txt ''expected_strategy_runtime_boot_id'',
       se_authority_revision = safe_int (dget raw ''expected_strategy_authority_revision'') 0,
       se_strategy_version = txt ''expected_strategy_version'',
       se_config_id = txt ''expected_strategy_config_id'',
       se_runtime_release_certificate_sha256 = txt ''expected_strategy_runtime_release_certificate_sha256'',
       se_runtime_release_signing_key_id = txt ''expected_strategy_runtime_release_signing_key_id'',
       se_research_evidence_sha256 = txt ''expected_strategy_research_evidence_sha256'',
       se_research_evidence_signing_key_id = txt ''expected_strategy_research_evidence_signing_key_id'',
       se_registry_generation_id = txt ''expected_strategy_registry_generation_id'',
       se_registry_revision = safe_int (dget raw ''expected_strategy_registry_revision'') 0,
       se_registry_sha256 = txt ''expected_strategy_registry_sha256'',
       se_qualification_surface_sha256 = txt ''expected_strategy_qualification_surface_sha256'',
       se_cost_mapping_sha256 = txt ''expected_strategy_cost_mapping_sha256'',
       se_execution_contract_sha256 = txt ''expected_strategy_execution_contract_sha256'',
       se_validation_evidence_sha256 = [],
       se_admission_mode = txt ''expected_strategy_admission_mode'',
       se_account_mode = txt ''expected_strategy_account_mode'',
       se_venue_id = txt ''expected_strategy_venue_id'',
       se_scope_version = txt ''expected_strategy_scope_version'',
       se_bracket_policy = BROKER_NATIVE_BRACKET_POLICY,
       se_max_entries_per_symbol_utc_day = MAX_ENTRIES_PER_SYMBOL_UTC_DAY,
       se_symbol_scope = IG_MT4_SCALP_SYMBOLS\<rparr>)"

section \<open>A stored authority against an expectation\<close>

text \<open>\<open>str(str(x or "").lower() or "").strip()\<close>.\<close>

definition lower_text :: "string \<Rightarrow> string" where
  "lower_text s = py_strip (py_lower s)"

definition authority_comparisons :: "pydict \<Rightarrow> ScalpAuthorityExpectation \<Rightarrow> (bool \<times> string) list" where
  "authority_comparisons current x =
     (let txt = (\<lambda>k. norm_text (dget current k)); low = (\<lambda>k. lower_text (str_or_empty (dget current k))) in
      [(txt ''admission_mode'' \<noteq> py_strip (se_admission_mode x), ''scalp_authority_admission_mode_changed''),
       (txt ''account_mode'' \<noteq> py_strip (se_account_mode x), ''scalp_authority_account_mode_changed''),
       (txt ''generation_id'' \<noteq> py_strip (se_generation_id x), ''scalp_authority_generation_changed''),
       (txt ''strategy_id'' \<noteq> py_strip (se_strategy_id x), ''scalp_authority_strategy_changed''),
       (txt ''strategy_version'' \<noteq> py_strip (se_strategy_version x), ''scalp_authority_strategy_version_changed''),
       (low ''engine_sha256'' \<noteq> lower_text (se_engine_sha256 x), ''scalp_authority_engine_changed''),
       (txt ''config_id'' \<noteq> py_strip (se_config_id x), ''scalp_authority_config_id_changed''),
       (low ''config_sha256'' \<noteq> lower_text (se_config_sha256 x), ''scalp_authority_config_changed''),
       (low ''runtime_release_certificate_sha256'' \<noteq> lower_text (se_runtime_release_certificate_sha256 x),
        ''scalp_authority_runtime_release_certificate_changed''),
       (low ''runtime_release_signing_key_id'' \<noteq> lower_text (se_runtime_release_signing_key_id x),
        ''scalp_authority_runtime_release_key_changed''),
       (low ''research_evidence_sha256'' \<noteq> lower_text (se_research_evidence_sha256 x),
        ''scalp_authority_research_evidence_changed''),
       (low ''research_evidence_signing_key_id'' \<noteq> lower_text (se_research_evidence_signing_key_id x),
        ''scalp_authority_research_evidence_key_changed''),
       (txt ''registry_generation_id'' \<noteq> py_strip (se_registry_generation_id x),
        ''scalp_authority_registry_generation_changed''),
       (low ''registry_sha256'' \<noteq> lower_text (se_registry_sha256 x), ''scalp_authority_registry_changed''),
       (low ''qualification_surface_sha256'' \<noteq> lower_text (se_qualification_surface_sha256 x),
        ''scalp_authority_qualification_surface_changed''),
       (low ''cost_mapping_sha256'' \<noteq> lower_text (se_cost_mapping_sha256 x), ''scalp_authority_cost_mapping_changed''),
       (low ''execution_contract_sha256'' \<noteq> lower_text (se_execution_contract_sha256 x),
        ''scalp_authority_execution_contract_changed''),
       (txt ''scope_version'' \<noteq> py_strip (se_scope_version x), ''scalp_authority_scope_version_changed''),
       (txt ''runtime_boot_id'' \<noteq> py_strip (se_runtime_boot_id x), ''scalp_authority_runtime_boot_changed''),
       (safe_int (dget current ''authority_revision'') 0 \<noteq> se_authority_revision x,
        ''scalp_authority_revision_changed''),
       (safe_int (dget current ''registry_revision'') 0 \<noteq> se_registry_revision x,
        ''scalp_authority_registry_revision_changed'')])"

definition authority_expiry_error :: "pydict \<Rightarrow> ScalpAuthorityExpectation \<Rightarrow> pyfloat \<Rightarrow> string" where
  "authority_expiry_error current x now =
     (case py_float (dget current ''validation_expires_at_epoch'') of
        Inl e \<Rightarrow> ''scalp_authority_validation_expiry_invalid''
      | Inr current_expiry \<Rightarrow>
          first_reason
            [(\<not> is_finite current_expiry \<or> \<not> is_finite (se_validation_expires_at_epoch x)
                \<or> \<not> feq current_expiry (se_validation_expires_at_epoch x),
              ''scalp_authority_validation_expiry_changed''),
             (\<not> is_finite now \<or> fle now (Fin 0) \<or> fle current_expiry now, ''scalp_authority_validation_expired''),
             (norm_lower (dget current ''venue_id'') \<noteq> IG_MT4_VENUE_ID, ''scalp_authority_venue_changed''),
             (norm_lower (dget current ''bracket_policy'') \<noteq> BROKER_NATIVE_BRACKET_POLICY,
              ''scalp_authority_bracket_policy_changed''),
             (safe_int (dget current ''max_entries_per_symbol_utc_day'') 0 \<noteq> MAX_ENTRIES_PER_SYMBOL_UTC_DAY,
              ''scalp_authority_daily_frequency_changed'')])"

text \<open>\<open>not _is_sha256(binding) or binding != authority_binding_sha256(authority)\<close>, shared by four checks.\<close>

definition binding_mismatch :: "(string \<Rightarrow> string) \<Rightarrow> pydict \<Rightarrow> pyerr + bool" where
  "binding_mismatch sha authority =
     (let binding = norm_lower (dget authority ''binding_sha256'') in
      if \<not> is_sha256 (VStr binding) then Inr True
      else ebind (authority_binding_sha256 sha authority) (\<lambda>h. Inr (binding \<noteq> h)))"

definition authority_error ::
  "(string \<Rightarrow> string) \<Rightarrow> pydict \<Rightarrow> ScalpAuthorityExpectation \<Rightarrow> pyfloat \<Rightarrow> pyerr + string" where
  "authority_error sha current x now =
     (let why = first_reason
            [(current = [], ''scalp_authority_missing''),
             (str_or_empty (dget current ''schema_version'') \<noteq> SCALP_EXECUTION_AUTHORITY_SCHEMA,
              ''scalp_authority_schema_invalid''),
             (expectation_validation_error x \<noteq> [], expectation_validation_error x),
             (norm_lower (dget current ''status'') \<noteq> ''active'', ''scalp_authority_inactive''),
             (norm_lower (dget current ''source'') \<noteq> ''production_runtime'', ''scalp_authority_source_invalid'')];
          why2 = first_reason (authority_comparisons current x);
          why3 = authority_expiry_error current x now in
      if why \<noteq> [] then Inr why
      else if why2 \<noteq> [] then Inr why2
      else if why3 \<noteq> [] then Inr why3
      else ebind (as_list (dget current ''symbol_scope'')) (\<lambda>scope.
        if symbol_scope_error scope \<noteq> [] then Inr (symbol_scope_error scope)
        else ebind (binding_mismatch sha current) (\<lambda>bad.
          Inr (if bad then ''scalp_authority_binding_invalid'' else []))))"

section \<open>The witness of an activation\<close>

definition witness_comparisons :: "pydict \<Rightarrow> pydict \<Rightarrow> string \<Rightarrow> (bool \<times> string) list" where
  "witness_comparisons w a admission_mode =
     (let wt = (\<lambda>k. norm_text (dget w k)); wl = (\<lambda>k. lower_text (str_or_empty (dget w k)));
          ax = (\<lambda>k. norm_text (dget a k)); al = (\<lambda>k. lower_text (str_or_empty (dget a k))) in
      [(py_strip admission_mode \<noteq> ax ''admission_mode'', ''scalp_validation_witness_admission_mode_changed''),
       (wl ''account_mode'' \<noteq> ax ''account_mode'', ''scalp_validation_witness_account_mode_changed''),
       (wt ''generation_id'' \<noteq> ax ''generation_id'', ''scalp_validation_witness_generation_changed''),
       (wt ''strategy_id'' \<noteq> ax ''strategy_id'', ''scalp_validation_witness_strategy_changed''),
       (wt ''strategy_version'' \<noteq> ax ''strategy_version'', ''scalp_validation_witness_strategy_version_changed''),
       (wl ''engine_sha256'' \<noteq> al ''engine_sha256'', ''scalp_validation_witness_engine_changed''),
       (wt ''config_id'' \<noteq> ax ''config_id'', ''scalp_validation_witness_config_id_changed''),
       (wl ''config_sha256'' \<noteq> al ''config_sha256'', ''scalp_validation_witness_config_changed''),
       (wl ''runtime_release_certificate_sha256'' \<noteq> ax ''runtime_release_certificate_sha256'',
        ''scalp_validation_witness_runtime_release_certificate_changed''),
       (wl ''runtime_release_signing_key_id'' \<noteq> ax ''runtime_release_signing_key_id'',
        ''scalp_validation_witness_runtime_release_key_changed''),
       (wl ''evidence_sha256'' \<noteq> ax ''research_evidence_sha256'', ''scalp_validation_witness_research_evidence_changed''),
       (wl ''evidence_signing_key_id'' \<noteq> ax ''research_evidence_signing_key_id'',
        ''scalp_validation_witness_research_evidence_key_changed''),
       (wt ''registry_generation_id'' \<noteq> ax ''registry_generation_id'',
        ''scalp_validation_witness_registry_generation_changed''),
       (wl ''registry_sha256'' \<noteq> ax ''registry_sha256'', ''scalp_validation_witness_registry_changed''),
       (wl ''qualification_surface_sha256'' \<noteq> ax ''qualification_surface_sha256'',
        ''scalp_validation_witness_qualification_surface_changed''),
       (wl ''cost_mapping_sha256'' \<noteq> ax ''cost_mapping_sha256'', ''scalp_validation_witness_cost_mapping_changed''),
       (wl ''execution_contract_sha256'' \<noteq> ax ''execution_contract_sha256'',
        ''scalp_validation_witness_execution_contract_changed''),
       (wl ''venue_id'' \<noteq> al ''venue_id'', ''scalp_validation_witness_venue_changed''),
       (wt ''scope_version'' \<noteq> ax ''scope_version'', ''scalp_validation_witness_scope_version_changed''),
       (py_lower (str_or_empty (dget w ''certificate_sha256''))
          \<noteq> py_lower (str_or_empty (dget w ''runtime_release_certificate_sha256'')),
        ''scalp_validation_witness_runtime_release_certificate_alias_changed''),
       (py_lower (str_or_empty (dget w ''signing_key_id''))
          \<noteq> py_lower (str_or_empty (dget w ''runtime_release_signing_key_id'')),
        ''scalp_validation_witness_runtime_release_key_alias_changed'')]
      @ map (\<lambda>f. (\<not> is_sha256 (dget w f), ''scalp_validation_witness_'' @ f @ ''_invalid''))
          [''runtime_release_certificate_sha256'', ''runtime_release_signing_key_id'', ''evidence_sha256'',
           ''evidence_signing_key_id'', ''registry_sha256'', ''qualification_surface_sha256'', ''cost_mapping_sha256'',
           ''execution_contract_sha256'']
      @ [(safe_int (dget w ''registry_revision'') 0 \<noteq> safe_int (dget a ''registry_revision'') 0,
          ''scalp_validation_witness_registry_revision_changed''),
         (safe_int (dget w ''registry_revision'') 0 \<le> 0, ''scalp_validation_witness_registry_revision_invalid'')])"

definition symbol_bound_checks :: "pydict \<Rightarrow> string \<Rightarrow> (bool \<times> string) list" where
  "symbol_bound_checks bounds symbol =
     (case dget bounds symbol of
        VDict sides \<Rightarrow>
          (fst ` set sides \<noteq> {''BUY'', ''SELL''}, ''scalp_validation_witness_probability_scope_invalid'')
          # map (\<lambda>side. (let lower = safe_float (dget sides side) in \<not> (flt (Fin 0) lower \<and> fle lower (Fin 1)),
                          ''scalp_validation_witness_probability_invalid'')) [''BUY'', ''SELL'']
      | _ \<Rightarrow> [(True, ''scalp_validation_witness_probability_scope_invalid'')])"

definition witness_bounds_error :: "pydict \<Rightarrow> string" where
  "witness_bounds_error w =
     (case dget w ''win_probability_lower_bounds'' of
        VDict bounds \<Rightarrow>
          if fst ` set bounds \<noteq> set IG_MT4_SCALP_SYMBOLS then ''scalp_validation_witness_probability_scope_invalid''
          else first_reason (concat (map (symbol_bound_checks bounds) IG_MT4_SCALP_SYMBOLS))
      | _ \<Rightarrow> ''scalp_validation_witness_probability_scope_invalid'')"

definition witness_expiry_error :: "pydict \<Rightarrow> pydict \<Rightarrow> pyfloat \<Rightarrow> string" where
  "witness_expiry_error w a now =
     (let witness_expiry = safe_float (dget w ''expires_at_epoch'');
          authority_expiry = safe_float (dget a ''validation_expires_at_epoch'');
          n = safe_float (VFloat now) in
      first_reason
        [(fle witness_expiry (Fin 0) \<or> \<not> feq witness_expiry authority_expiry,
          ''scalp_validation_witness_expiry_changed''),
         (fle n (Fin 0) \<or> fle witness_expiry n, ''scalp_validation_witness_expired'')])"

definition validation_witness_error :: "pydict \<Rightarrow> pydict \<Rightarrow> pyfloat \<Rightarrow> pyerr + string" where
  "validation_witness_error w a now =
     (let admission_mode = norm_lower (py_or (dget w ''admission_mode'') (VStr SCALP_ADMISSION_MODE_SIGNED));
          comparisons = first_reason (witness_comparisons w a admission_mode) in
      if w = [] then Inr ''scalp_validation_witness_missing''
      else if str_or_empty (dget a ''schema_version'') \<noteq> SCALP_EXECUTION_AUTHORITY_SCHEMA
      then Inr ''scalp_validation_witness_authority_schema_invalid''
      else if admission_mode \<noteq> SCALP_ADMISSION_MODE_SIGNED then Inr ''scalp_validation_witness_mode_invalid''
      else if dget w ''valid'' \<noteq> VBool True \<or> norm_text (dget w ''reason'') \<noteq> []
      then Inr ''scalp_validation_witness_invalid''
      else ebind (as_list (dget w ''errors'')) (\<lambda>errs.
        if errs \<noteq> [] \<or> dget w ''authenticated'' \<noteq> VBool True \<or> dget w ''revocation_verified'' \<noteq> VBool True
        then Inr ''scalp_validation_witness_invalid''
        else if comparisons \<noteq> [] then Inr comparisons
        else ebind (as_list (dget w ''symbol_scope'')) (\<lambda>scope.
          if normalized_symbols scope \<noteq> IG_MT4_SCALP_SYMBOLS then Inr ''scalp_validation_witness_symbol_scope_changed''
          else ebind (py_int (py_or (dget a ''max_entries_per_symbol_utc_day'') (VInt 0))) (\<lambda>frequency.
            if safe_int (dget w ''max_entries_per_symbol_utc_day'') 0 \<noteq> frequency
            then Inr ''scalp_validation_witness_daily_frequency_changed''
            else if witness_expiry_error w a now \<noteq> [] then Inr (witness_expiry_error w a now)
            else Inr (witness_bounds_error w)))))"

section \<open>The identity stamped into a command\<close>

definition command_binding_fields :: "(string \<Rightarrow> string) \<Rightarrow> pydict \<Rightarrow> store_error + pydict" where
  "command_binding_fields sha authority =
     (if str_or_empty (dget authority ''schema_version'') \<noteq> SCALP_EXECUTION_AUTHORITY_SCHEMA
      then Inl (ValueErr ''scalp_command_authority_schema_invalid'')
      else ebind (sconv (binding_mismatch sha authority)) (\<lambda>bad.
        if bad then Inl (ValueErr ''scalp_command_authority_binding_invalid'')
        else Inr (dmerge (map (\<lambda>(c, a). (c, dget authority a)) COMMAND_BINDING_FIELDS_V3)
                   [(''strategy_lane'', VStr SCALP_EXECUTION_LANE), (''intent'', VStr SCALP_ENTRY_INTENT)])))"

definition field_comparisons :: "pydict \<Rightarrow> (string \<times> string) list \<Rightarrow> (bool \<times> string) list" where
  "field_comparisons raw expected =
     concat (map (\<lambda>(k, v). let observed = norm_lower (dget raw k) in
                  [(observed = [], k @ ''_missing''), (observed \<noteq> v, k @ ''_changed'')]) expected)"

definition command_binding_error :: "(string \<Rightarrow> string) \<Rightarrow> pydict \<Rightarrow> pydict \<Rightarrow> string \<Rightarrow> pyerr + string" where
  "command_binding_error sha raw authority pair =
     (let normalized = py_upper (py_strip (if pair \<noteq> [] then pair else str_or_empty (dget raw ''symbol'')));
          authority_mode = norm_lower (dget authority ''account_mode'') in
      if str_or_empty (dget authority ''schema_version'') \<noteq> SCALP_EXECUTION_AUTHORITY_SCHEMA
      then Inr ''scalp_command_authority_schema_invalid''
      else if str_or_empty (dget raw ''expected_strategy_authority_schema'') \<noteq> SCALP_EXECUTION_AUTHORITY_SCHEMA
      then Inr ''expected_strategy_authority_schema_changed''
      else ebind (binding_mismatch sha authority) (\<lambda>bad.
        if bad then Inr ''scalp_command_authority_binding_invalid''
        else Inr (first_reason
          ([(norm_lower (dget raw ''strategy_lane'') \<noteq> SCALP_EXECUTION_LANE, ''scalp_command_lane_invalid''),
            (norm_lower (dget raw ''intent'') \<noteq> SCALP_ENTRY_INTENT, ''scalp_command_intent_invalid''),
            (IG_MT4_SCALP_CATALOG normalized = None, ''scalp_command_symbol_invalid''),
            (norm_lower (dget authority ''admission_mode'') \<noteq> SCALP_ADMISSION_MODE_SIGNED
               \<or> norm_lower (dget raw ''expected_strategy_admission_mode'') \<noteq> SCALP_ADMISSION_MODE_SIGNED,
             ''scalp_command_admission_mode_invalid''),
            (authority_mode \<notin> {''demo'', ''real''}
               \<or> norm_lower (dget raw ''expected_strategy_account_mode'') \<noteq> authority_mode,
             ''scalp_command_account_mode_invalid'')]
           @ field_comparisons raw (map (\<lambda>(c, a). (c, norm_lower (dget authority a))) COMMAND_BINDING_FIELDS_V3)))))"

definition is_production_scalper_entry :: "pyval \<Rightarrow> pyval \<Rightarrow> bool" where
  "is_production_scalper_entry intent payload =
     (let raw = (case payload of VDict d \<Rightarrow> d | _ \<Rightarrow> []) in
      norm_lower (py_or intent (dget raw ''intent'')) = SCALP_ENTRY_INTENT
      \<and> norm_lower (dget raw ''strategy_lane'') = SCALP_EXECUTION_LANE)"

section \<open>Protective use of a past entry\<close>

definition historical_common :: "pydict \<Rightarrow> string \<Rightarrow> pydict" where
  "historical_common entry schema =
     [(''schema_version'', VStr schema), (''status'', VStr ''revoked''), (''source'', VStr ''production_runtime''),
      (''admission_mode'', dget entry ''expected_strategy_admission_mode''),
      (''account_mode'', dget entry ''expected_strategy_account_mode''),
      (''generation_id'', dget entry ''expected_strategy_generation_id''),
      (''strategy_id'', dget entry ''expected_strategy_id''),
      (''engine_sha256'', dget entry ''expected_strategy_engine_sha256''),
      (''config_sha256'', dget entry ''expected_strategy_config_sha256''),
      (''validation_expires_at_epoch'', dget entry ''expected_strategy_validation_expires_at_epoch''),
      (''venue_id'', dget entry ''expected_strategy_venue_id''),
      (''symbol_scope'', VList (map VStr IG_MT4_SCALP_SYMBOLS)),
      (''bracket_policy'', VStr BROKER_NATIVE_BRACKET_POLICY),
      (''max_entries_per_symbol_utc_day'', VInt MAX_ENTRIES_PER_SYMBOL_UTC_DAY),
      (''runtime_boot_id'', dget entry ''expected_strategy_runtime_boot_id''),
      (''authority_revision'', dget entry ''expected_strategy_authority_revision'')]"

definition historical_v3 :: "pydict \<Rightarrow> pydict" where
  "historical_v3 entry =
     [(''strategy_version'', dget entry ''expected_strategy_version''),
      (''config_id'', dget entry ''expected_strategy_config_id''),
      (''runtime_release_certificate_sha256'', dget entry ''expected_strategy_runtime_release_certificate_sha256''),
      (''runtime_release_signing_key_id'', dget entry ''expected_strategy_runtime_release_signing_key_id''),
      (''research_evidence_sha256'', dget entry ''expected_strategy_research_evidence_sha256''),
      (''research_evidence_signing_key_id'', dget entry ''expected_strategy_research_evidence_signing_key_id''),
      (''registry_generation_id'', dget entry ''expected_strategy_registry_generation_id''),
      (''registry_revision'', dget entry ''expected_strategy_registry_revision''),
      (''registry_sha256'', dget entry ''expected_strategy_registry_sha256''),
      (''qualification_surface_sha256'', dget entry ''expected_strategy_qualification_surface_sha256''),
      (''cost_mapping_sha256'', dget entry ''expected_strategy_cost_mapping_sha256''),
      (''execution_contract_sha256'', dget entry ''expected_strategy_execution_contract_sha256''),
      (''scope_version'', dget entry ''expected_strategy_scope_version'')]"

definition historical_v2 :: "pydict \<Rightarrow> pydict" where
  "historical_v2 entry = [(''validation_evidence_sha256'', dget entry ''expected_strategy_validation_evidence_sha256'')]"

definition close_history ::
  "(string \<Rightarrow> string) \<Rightarrow> pydict \<Rightarrow> pydict \<Rightarrow> (string \<times> string) list \<Rightarrow> string
     \<Rightarrow> pyerr + pydict \<times> (string \<times> string) list \<times> string" where
  "close_history sha entry historical fs identity_error =
     (if identity_error \<noteq> [] then Inr ([], [], identity_error)
      else
        let binding = norm_lower (dget entry ''expected_strategy_binding_sha256'');
            bound = dput ''binding_sha256'' (VStr binding) historical in
        ebind (binding_mismatch sha bound) (\<lambda>bad.
          Inr (if bad then ([], [], ''scalp_protective_history_binding_invalid'') else (bound, fs, []))))"

definition historical_authority_from_entry_payload ::
  "(string \<Rightarrow> string) \<Rightarrow> pydict \<Rightarrow> pyerr + pydict \<times> (string \<times> string) list \<times> string" where
  "historical_authority_from_entry_payload sha entry =
     (let schema = str_or_empty (dget entry ''expected_strategy_authority_schema'') in
      if schema = SCALP_EXECUTION_AUTHORITY_SCHEMA
      then let historical = historical_common entry schema @ historical_v3 entry in
        ebind (expectation_from_authority historical) (\<lambda>x.
          close_history sha entry historical COMMAND_BINDING_FIELDS_V3 (expectation_validation_error x))
      else if schema = SCALP_LEGACY_EXECUTION_AUTHORITY_SCHEMA
      then let historical = historical_common entry schema @ historical_v2 entry in
        ebind (legacy_v2_authority_identity_error historical) (\<lambda>err.
          close_history sha entry historical COMMAND_BINDING_FIELDS_V2 err)
      else Inr ([], [], ''scalp_protective_history_schema_invalid''))"

definition protective_history_binding_error ::
  "(string \<Rightarrow> string) \<Rightarrow> pydict \<Rightarrow> pydict \<Rightarrow> string \<Rightarrow> pyerr + string" where
  "protective_history_binding_error sha entry close pair =
     (let normalized = py_upper (py_strip (if pair \<noteq> [] then pair else str_or_empty (dget entry ''symbol'')));
          why = first_reason
            [(IG_MT4_SCALP_CATALOG normalized = None, ''scalp_protective_history_symbol_invalid''),
             (norm_lower (dget entry ''strategy_lane'') \<noteq> SCALP_EXECUTION_LANE, ''scalp_protective_history_lane_invalid''),
             (norm_lower (dget entry ''intent'') \<noteq> SCALP_ENTRY_INTENT, ''scalp_protective_history_intent_invalid'')] in
      if why \<noteq> [] then Inr why
      else ebind (historical_authority_from_entry_payload sha entry) (\<lambda>(historical, fs, history_error).
        Inr (first_reason
          ([(history_error \<noteq> [], history_error),
            (norm_text (dget close ''management_strategy'') \<noteq> norm_text (dget historical ''strategy_id''),
             ''scalp_protective_command_strategy_changed'')]
           @ field_comparisons close (map (\<lambda>(c, a). (c, norm_lower (dget entry c))) fs)))))"

definition protective_authority_structure_error :: "(string \<Rightarrow> string) \<Rightarrow> pydict \<Rightarrow> pyerr + string" where
  "protective_authority_structure_error sha current =
     (let schema = str_or_empty (dget current ''schema_version'');
          why = first_reason
            [(current = [], ''scalp_protective_authority_missing''),
             (schema \<notin> {SCALP_EXECUTION_AUTHORITY_SCHEMA, SCALP_LEGACY_EXECUTION_AUTHORITY_SCHEMA},
              ''scalp_protective_authority_schema_invalid''),
             (norm_lower (dget current ''status'') \<noteq> ''revoked'', ''scalp_protective_authority_not_revoked''),
             (norm_lower (dget current ''source'') \<noteq> ''production_runtime'', ''scalp_protective_authority_source_invalid'')] in
      if why \<noteq> [] then Inr why
      else ebind (if schema = SCALP_EXECUTION_AUTHORITY_SCHEMA
                  then ebind (expectation_from_authority current) (\<lambda>x. Inr (expectation_validation_error x))
                  else legacy_v2_authority_identity_error current) (\<lambda>err.
        if err \<noteq> [] then Inr err
        else ebind (binding_mismatch sha current) (\<lambda>bad.
          Inr (if bad then ''scalp_protective_authority_binding_invalid'' else []))))"

definition protective_lane_checks :: "pydict \<Rightarrow> (bool \<times> store_error) list" where
  "protective_lane_checks entry =
     [(norm_lower (dget entry ''strategy_lane'') \<noteq> SCALP_EXECUTION_LANE, ValueErr ''scalp_protective_history_lane_invalid''),
      (norm_lower (dget entry ''intent'') \<noteq> SCALP_ENTRY_INTENT, ValueErr ''scalp_protective_history_intent_invalid'')]"

definition protective_command_binding_fields :: "(string \<Rightarrow> string) \<Rightarrow> pydict \<Rightarrow> store_error + pydict" where
  "protective_command_binding_fields sha entry =
     ebind (sconv (historical_authority_from_entry_payload sha entry)) (\<lambda>(historical, fs, err).
       if err \<noteq> [] then Inl (ValueErr err)
       else ebind (first_error (protective_lane_checks entry)) (\<lambda>_.
         Inr (map (\<lambda>(c, a). (c, dget entry c)) fs)))"

definition protective_authority_from_entry_payload :: "(string \<Rightarrow> string) \<Rightarrow> pydict \<Rightarrow> store_error + pydict" where
  "protective_authority_from_entry_payload sha entry =
     ebind (first_error (protective_lane_checks entry)) (\<lambda>_.
       ebind (sconv (historical_authority_from_entry_payload sha entry)) (\<lambda>(historical, fs, err).
         if err \<noteq> [] then Inl (ValueErr err) else Inr historical))"

end
