(* ===== verification/Authority_Roundtrip.thy ===== *)
theory Authority_Roundtrip
  imports Scalp_Authority
begin

text \<open>
  The life of a production-scalper authority: what the activation builds is what the store accepts, what every
  command is stamped with and what delivery rechecks; and a position opened under it stays recognisable
  for protective closes after the authority was revoked or has expired. The digest is only assumed to be a
  lower-case hexadecimal text of 64 characters.
\<close>

section \<open>Texts\<close>

definition hex_digest :: "string \<Rightarrow> bool" where
  "hex_digest t = (length t = 64 \<and> list_all (\<lambda>c. c \<in> set ''0123456789abcdef'') t)"

lemma char_lower_space: "is_space (char_lower c) = is_space c"
  by (cases "65 \<le> ordc c \<and> ordc c \<le> 90") (auto simp: char_lower_def is_space_def)

lemma char_lower_idem: "char_lower (char_lower c) = char_lower c"
  by (cases "65 \<le> ordc c \<and> ordc c \<le> 90") (auto simp: char_lower_def)

lemma py_lower_idem [simp]: "py_lower (py_lower s) = py_lower s"
  by (simp add: py_lower_def char_lower_idem)

lemma py_lstrip_lower: "py_lstrip (py_lower s) = py_lower (py_lstrip s)"
  by (simp add: py_lstrip_def py_lower_def dropWhile_map comp_def char_lower_space)

lemma py_strip_lower [simp]: "py_strip (py_lower s) = py_lower (py_strip s)"
  unfolding py_strip_def py_lstrip_lower
  by (simp add: py_lower_def rev_map [symmetric]) (simp add: py_lstrip_lower [unfolded py_lower_def] rev_map)

lemma py_lower_eq_Nil [simp]: "py_lower s = [] \<longleftrightarrow> s = []"
  by (simp add: py_lower_def)

lemma py_strip_visible:
  assumes "c \<in> set s" and "\<not> is_space c"
  shows "py_strip s \<noteq> []"
proof -
  have "c \<in> set (py_lstrip s)" using assms by (induction s) (auto simp: py_lstrip_def)
  then have "\<not> list_all is_space (rev (py_lstrip s))" using assms(2) by (auto simp: list_all_iff)
  then show ?thesis by (auto simp: py_strip_def py_lstrip_def list_all_iff dropWhile_eq_Nil_conv)
qed

lemma hex_char: "c \<in> set ''0123456789abcdef'' \<Longrightarrow> char_lower c = c \<and> \<not> is_space c"
  by (auto simp: char_lower_def is_space_def)

lemma py_strip_id: "list_all (\<lambda>c. \<not> is_space c) s \<Longrightarrow> py_strip s = s"
proof -
  assume a: "list_all (\<lambda>c. \<not> is_space c) s"
  then have "py_lstrip s = s" by (cases s) (auto simp: py_lstrip_def)
  moreover have "list_all (\<lambda>c. \<not> is_space c) (rev s)" using a by simp
  then have "py_lstrip (rev s) = rev s" by (cases "rev s") (auto simp: py_lstrip_def)
  ultimately show ?thesis by (simp add: py_strip_def)
qed

lemma hex_digest_norm:
  assumes "hex_digest t"
  shows "py_strip t = t" and "py_lower t = t"
proof -
  have "list_all (\<lambda>c. c \<in> set ''0123456789abcdef'') t" using assms unfolding hex_digest_def by (rule conjunct2)
  then have h: "list_all (\<lambda>c. char_lower c = c \<and> \<not> is_space c) t"
    by (rule list.pred_mono_strong) (rule hex_char)
  then show "py_strip t = t" by (intro py_strip_id) (auto simp: list_all_iff)
  show "py_lower t = t" using h by (simp add: py_lower_def list_all_iff map_idI)
qed

lemma is_sha256_text: "is_sha256 (VStr s) \<longleftrightarrow> hex_digest (py_lower (py_strip s))"
  unfolding is_sha256_def hex_digest_def norm_lower_def norm_text_def str_or_empty_VStr Let_def by (rule refl)

lemma is_sha256_digest: "hex_digest t \<Longrightarrow> is_sha256 (VStr t)"
  by (simp add: is_sha256_text hex_digest_norm)

lemma nat_str_digit: "\<exists>c \<in> set (nat_str n). \<not> is_space c"
proof -
  have d: "\<not> is_space (char_of (48 + k))" if "k < 10" for k :: nat
    using that by (auto simp: is_space_def)
  show ?thesis using d [of n] d [of "n mod 10"] by (subst nat_str.simps) auto
qed

lemma int_str_visible: "0 < n \<Longrightarrow> py_strip (int_str n) \<noteq> []"
  using nat_str_digit [of "nat n"] py_strip_visible by (auto simp: int_str_def)

lemma repr_digits_visible: "\<exists>c \<in> set (repr_digits ds k). \<not> is_space c"
  by (auto simp: repr_digits_def Let_def is_space_def)

lemma float_repr_visible: "0 < r \<Longrightarrow> py_strip (float_repr (Fin r)) \<noteq> []"
  using repr_digits_visible py_strip_visible by (auto simp: repr_pos_def Let_def split: prod.split)

section \<open>A valid expectation\<close>

lemma expectation_reasons: "list_all (\<lambda>c. snd c \<noteq> []) (expectation_checks x)"
  by (simp add: expectation_checks_def expectation_identity_checks_def expectation_digests_def expectation_lease_checks_def)

lemma expectation_valid_iff:
  "expectation_validation_error x = [] \<longleftrightarrow>
     list_all (\<lambda>c. \<not> fst c) (expectation_checks x) \<and> symbol_scope_error (map VStr (se_symbol_scope x)) = []"
  unfolding expectation_validation_error_def Let_def using first_reason_Nil [OF expectation_reasons, of x] by simp

lemmas expectation_conditions =
  expectation_valid_iff expectation_checks_def expectation_identity_checks_def expectation_digests_def
  expectation_lease_checks_def list_all_append list.pred_inject list.map prod.case fst_conv

lemma scope_ok: "symbol_scope_error (map VStr IG_MT4_SCALP_SYMBOLS) = []"
  by code_simp

lemma scope_ok_iff: "symbol_scope_error vs = [] \<longleftrightarrow> normalized_symbols vs = IG_MT4_SCALP_SYMBOLS"
  by (auto simp: symbol_scope_error_def Let_def distinct_scalp_symbols) (simp add: scalp_symbols_eval)+

lemma normalized_scope: "normalized_symbols (map VStr IG_MT4_SCALP_SYMBOLS) = IG_MT4_SCALP_SYMBOLS"
  by code_simp

text \<open>What the projection of a built authority gives back.\<close>

definition canonical_expectation :: "ScalpAuthorityExpectation \<Rightarrow> ScalpAuthorityExpectation" where
  "canonical_expectation x = x\<lparr>
     se_admission_mode := py_lower (py_strip (se_admission_mode x)),
     se_account_mode := py_lower (py_strip (se_account_mode x)),
     se_generation_id := py_strip (se_generation_id x),
     se_engine_sha256 := py_lower (py_strip (se_engine_sha256 x)),
     se_runtime_release_certificate_sha256 := py_lower (py_strip (se_runtime_release_certificate_sha256 x)),
     se_runtime_release_signing_key_id := py_lower (py_strip (se_runtime_release_signing_key_id x)),
     se_research_evidence_sha256 := py_lower (py_strip (se_research_evidence_sha256 x)),
     se_research_evidence_signing_key_id := py_lower (py_strip (se_research_evidence_signing_key_id x)),
     se_registry_generation_id := py_strip (se_registry_generation_id x),
     se_registry_sha256 := py_lower (py_strip (se_registry_sha256 x)),
     se_qualification_surface_sha256 := py_lower (py_strip (se_qualification_surface_sha256 x)),
     se_cost_mapping_sha256 := py_lower (py_strip (se_cost_mapping_sha256 x)),
     se_execution_contract_sha256 := py_lower (py_strip (se_execution_contract_sha256 x)),
     se_runtime_boot_id := py_strip (se_runtime_boot_id x),
     se_venue_id := IG_MT4_VENUE_ID,
     se_bracket_policy := BROKER_NATIVE_BRACKET_POLICY,
     se_symbol_scope := IG_MT4_SCALP_SYMBOLS\<rparr>"

lemma constants_normal:
  "py_strip MTVCLC_STRATEGY_ID = MTVCLC_STRATEGY_ID" "py_strip MTVCLC_STRATEGY_VERSION = MTVCLC_STRATEGY_VERSION"
  "py_strip MTVCLC_CONFIG_ID = MTVCLC_CONFIG_ID" "py_strip MTVCLC_CONFIG_SHA256 = MTVCLC_CONFIG_SHA256"
  "py_lower MTVCLC_CONFIG_SHA256 = MTVCLC_CONFIG_SHA256" "py_strip IG_MT4_SCALP_SCOPE_VERSION = IG_MT4_SCALP_SCOPE_VERSION"
  "py_strip IG_MT4_VENUE_ID = IG_MT4_VENUE_ID" "py_lower IG_MT4_VENUE_ID = IG_MT4_VENUE_ID"
  "py_strip BROKER_NATIVE_BRACKET_POLICY = BROKER_NATIVE_BRACKET_POLICY"
  "py_lower BROKER_NATIVE_BRACKET_POLICY = BROKER_NATIVE_BRACKET_POLICY"
  "py_strip SCALP_ADMISSION_MODE_SIGNED = SCALP_ADMISSION_MODE_SIGNED"
  "py_lower SCALP_ADMISSION_MODE_SIGNED = SCALP_ADMISSION_MODE_SIGNED"
  by code_simp+

lemma constants_visible:
  "SCALP_ADMISSION_MODE_SIGNED \<noteq> []" "IG_MT4_VENUE_ID \<noteq> []" "MTVCLC_STRATEGY_ID \<noteq> []" "MTVCLC_STRATEGY_VERSION \<noteq> []"
  "MTVCLC_CONFIG_ID \<noteq> []" "MTVCLC_CONFIG_SHA256 \<noteq> []" "IG_MT4_SCALP_SCOPE_VERSION \<noteq> []"
  "SCALP_EXECUTION_AUTHORITY_SCHEMA \<noteq> []" "BROKER_NATIVE_BRACKET_POLICY \<noteq> []"
  by (simp_all add: SCALP_ADMISSION_MODE_SIGNED_def IG_MT4_VENUE_ID_def MTVCLC_STRATEGY_ID_def MTVCLC_STRATEGY_VERSION_def
      MTVCLC_CONFIG_ID_def MTVCLC_CONFIG_SHA256_def IG_MT4_SCALP_SCOPE_VERSION_def SCALP_EXECUTION_AUTHORITY_SCHEMA_def
      BROKER_NATIVE_BRACKET_POLICY_def)

lemma is_sha256_canonical: "is_sha256 (VStr (py_lower (py_strip s))) = is_sha256 (VStr s)"
  by (simp add: is_sha256_text)

lemma config_digest: "is_sha256 (VStr MTVCLC_CONFIG_SHA256)"
  by code_simp

lemma canonical_expectation_valid:
  assumes "expectation_validation_error x = []"
  shows "expectation_validation_error (canonical_expectation x) = []"
  using assms unfolding expectation_conditions canonical_expectation_def
  by (simp add: constants_normal scope_ok is_sha256_canonical config_digest)

section \<open>The authority that activation builds\<close>

lemma build_active_authorityE:
  assumes "build_active_authority sha x t = Inr a"
  obtains h where "expectation_validation_error x = []" and "is_finite t" and "flt (Fin 0) t"
    and "flt t (se_validation_expires_at_epoch x)"
    and "authority_binding_sha256 sha (active_authority_fields x t) = Inr h"
    and "a = dput ''binding_sha256'' (VStr h) (active_authority_fields x t)"
proof -
  have v: "expectation_validation_error x = []"
    using assms by (auto simp: build_active_authority_def Let_def split: if_splits)
  have fin: "is_finite (se_validation_expires_at_epoch x)" using v unfolding expectation_conditions by blast
  have t: "is_finite t" "\<not> fle t (Fin 0)"
    using assms by (auto simp: build_active_authority_def Let_def split: if_splits)
  have "sconv (authority_binding_sha256 sha (active_authority_fields x t)) \<noteq> Inl e" for e
    using assms by (auto simp: build_active_authority_def Let_def split: if_splits)
  then obtain h where h: "authority_binding_sha256 sha (active_authority_fields x t) = Inr h"
    by (cases "authority_binding_sha256 sha (active_authority_fields x t)") (auto simp: sconv_def)
  have e: "\<not> fle (se_validation_expires_at_epoch x) t" "a = dput ''binding_sha256'' (VStr h) (active_authority_fields x t)"
    using assms v t h by (auto simp: build_active_authority_def Let_def sconv_def split: if_splits)
  have "flt (Fin 0) t" using t by (cases t) (auto simp: fle_def feq_def)
  moreover have "flt t (se_validation_expires_at_epoch x)"
    using t fin e(1) by (cases t; cases "se_validation_expires_at_epoch x") (auto simp: fle_def feq_def)
  ultimately show ?thesis using that v t(1) h e(2) by blast
qed

abbreviation built :: "ScalpAuthorityExpectation \<Rightarrow> pyfloat \<Rightarrow> string \<Rightarrow> pydict" where
  "built x t h \<equiv> dput ''binding_sha256'' (VStr h) (active_authority_fields x t)"

lemma built_lookup:
  "dget (built x t h) ''schema_version'' = VStr SCALP_EXECUTION_AUTHORITY_SCHEMA"
  "dget (built x t h) ''status'' = VStr ''active''"
  "dget (built x t h) ''source'' = VStr ''production_runtime''"
  "dget (built x t h) ''admission_mode'' = VStr (py_lower (py_strip (se_admission_mode x)))"
  "dget (built x t h) ''account_mode'' = VStr (py_lower (py_strip (se_account_mode x)))"
  "dget (built x t h) ''generation_id'' = VStr (py_strip (se_generation_id x))"
  "dget (built x t h) ''strategy_id'' = VStr (py_strip (se_strategy_id x))"
  "dget (built x t h) ''strategy_version'' = VStr (py_strip (se_strategy_version x))"
  "dget (built x t h) ''engine_sha256'' = VStr (py_lower (py_strip (se_engine_sha256 x)))"
  "dget (built x t h) ''config_id'' = VStr (py_strip (se_config_id x))"
  "dget (built x t h) ''config_sha256'' = VStr (py_lower (py_strip (se_config_sha256 x)))"
  "dget (built x t h) ''runtime_release_certificate_sha256'' = VStr (py_lower (py_strip (se_runtime_release_certificate_sha256 x)))"
  "dget (built x t h) ''runtime_release_signing_key_id'' = VStr (py_lower (py_strip (se_runtime_release_signing_key_id x)))"
  "dget (built x t h) ''research_evidence_sha256'' = VStr (py_lower (py_strip (se_research_evidence_sha256 x)))"
  "dget (built x t h) ''research_evidence_signing_key_id'' = VStr (py_lower (py_strip (se_research_evidence_signing_key_id x)))"
  "dget (built x t h) ''registry_generation_id'' = VStr (py_strip (se_registry_generation_id x))"
  "dget (built x t h) ''registry_revision'' = VInt (se_registry_revision x)"
  "dget (built x t h) ''registry_sha256'' = VStr (py_lower (py_strip (se_registry_sha256 x)))"
  "dget (built x t h) ''qualification_surface_sha256'' = VStr (py_lower (py_strip (se_qualification_surface_sha256 x)))"
  "dget (built x t h) ''cost_mapping_sha256'' = VStr (py_lower (py_strip (se_cost_mapping_sha256 x)))"
  "dget (built x t h) ''execution_contract_sha256'' = VStr (py_lower (py_strip (se_execution_contract_sha256 x)))"
  "dget (built x t h) ''validation_expires_at_epoch'' = VFloat (se_validation_expires_at_epoch x)"
  "dget (built x t h) ''venue_id'' = VStr IG_MT4_VENUE_ID"
  "dget (built x t h) ''scope_version'' = VStr IG_MT4_SCALP_SCOPE_VERSION"
  "dget (built x t h) ''symbol_scope'' = VList (map VStr IG_MT4_SCALP_SYMBOLS)"
  "dget (built x t h) ''bracket_policy'' = VStr BROKER_NATIVE_BRACKET_POLICY"
  "dget (built x t h) ''max_entries_per_symbol_utc_day'' = VInt MAX_ENTRIES_PER_SYMBOL_UTC_DAY"
  "dget (built x t h) ''runtime_boot_id'' = VStr (py_strip (se_runtime_boot_id x))"
  "dget (built x t h) ''authority_revision'' = VInt (se_authority_revision x)"
  "dget (built x t h) ''activated_at'' = VFloat t"
  "dget (built x t h) ''updated_at'' = VFloat t"
  "dget (built x t h) ''binding_sha256'' = VStr h"
  by (simp_all add: active_authority_fields_def)

lemma safe_float_finite: "is_finite f \<Longrightarrow> safe_float (VFloat f) = f"
  by (simp add: safe_float_def)

lemma safe_int_VInt [simp]: "safe_int (VInt n) d = n"
  by (simp add: safe_int_def)

lemma expectation_from_built:
  assumes "expectation_validation_error x = []"
  shows "expectation_from_authority (built x t h) = Inr (canonical_expectation x)"
proof -
  have "se_strategy_id x = MTVCLC_STRATEGY_ID" "se_strategy_version x = MTVCLC_STRATEGY_VERSION"
    "se_config_id x = MTVCLC_CONFIG_ID" "se_config_sha256 x = MTVCLC_CONFIG_SHA256"
    "se_validation_evidence_sha256 x = []" "is_finite (se_validation_expires_at_epoch x)"
    "se_scope_version x = IG_MT4_SCALP_SCOPE_VERSION"
    "se_max_entries_per_symbol_utc_day x = MAX_ENTRIES_PER_SYMBOL_UTC_DAY"
    using assms unfolding expectation_conditions by simp_all
  then show ?thesis
    unfolding expectation_from_authority_def Let_def built_lookup
    by (simp add: canonical_expectation_def constants_normal normalized_scope safe_float_finite)
qed

lemma binding_cong:
  assumes "\<And>f. f \<in> set AUTHORITY_BINDING_FIELDS_V3 \<Longrightarrow> dget a f = dget b f"
    and "str_or_empty (dget a ''schema_version'') = SCALP_EXECUTION_AUTHORITY_SCHEMA"
  shows "authority_binding_sha256 sha a = authority_binding_sha256 sha b"
proof -
  have s: "dget b ''schema_version'' = dget a ''schema_version''"
    using assms(1) [of "''schema_version''"] by (simp add: AUTHORITY_BINDING_FIELDS_V3_def)
  have n: "SCALP_EXECUTION_AUTHORITY_SCHEMA \<noteq> SCALP_LEGACY_EXECUTION_AUTHORITY_SCHEMA" by code_simp
  have f: "authority_binding_fields a = AUTHORITY_BINDING_FIELDS_V3" "authority_binding_fields b = AUTHORITY_BINDING_FIELDS_V3"
    using n by (simp_all add: authority_binding_fields_def s assms(2))
  have "map (\<lambda>f. (f, dget a f)) AUTHORITY_BINDING_FIELDS_V3 = map (\<lambda>f. (f, dget b f)) AUTHORITY_BINDING_FIELDS_V3"
    using assms(1) by simp
  then show ?thesis unfolding authority_binding_sha256_def f by (simp only:)
qed

lemma binding_unhashed: "''binding_sha256'' \<notin> set AUTHORITY_BINDING_FIELDS_V3"
  by (simp add: AUTHORITY_BINDING_FIELDS_V3_def)

lemma binding_of_built: "authority_binding_sha256 sha (built x t h) = authority_binding_sha256 sha (active_authority_fields x t)"
  using binding_unhashed by (intro binding_cong, force) (simp only: built_lookup str_or_empty_VStr)

lemma binding_digest:
  assumes "\<And>s. hex_digest (sha s)" and "authority_binding_sha256 sha a = Inr h"
  shows "hex_digest h"
  using assms by (auto simp: authority_binding_sha256_def sha256_json_def Let_def elim!: ebindE)

lemma binding_matches:
  assumes "hex_digest h" and "norm_lower (dget a ''binding_sha256'') = h" and "authority_binding_sha256 sha a = Inr h"
  shows "binding_mismatch sha a = Inr False"
  using assms by (simp add: binding_mismatch_def is_sha256_digest)

lemma built_binding_matches:
  assumes "\<And>s. hex_digest (sha s)" and "authority_binding_sha256 sha (active_authority_fields x t) = Inr h"
  shows "binding_mismatch sha (built x t h) = Inr False"
  using binding_digest [OF assms] assms(2)
  by (intro binding_matches [of h]) (simp_all add: binding_of_built norm_lower_def norm_text_def hex_digest_norm)

lemma lower_strip_normal [simp]: "lower_text (py_lower s) = py_lower (py_strip s)"
  by (simp add: lower_text_def)

lemma built_comparisons:
  assumes "expectation_validation_error x = []"
  shows "first_reason (authority_comparisons (built x t h) (canonical_expectation x)) = []"
proof -
  have "se_strategy_id x = MTVCLC_STRATEGY_ID" "se_strategy_version x = MTVCLC_STRATEGY_VERSION"
    "se_config_id x = MTVCLC_CONFIG_ID" "se_config_sha256 x = MTVCLC_CONFIG_SHA256"
    "se_scope_version x = IG_MT4_SCALP_SCOPE_VERSION"
    using assms unfolding expectation_conditions by simp_all
  then show ?thesis
    unfolding authority_comparisons_def Let_def built_lookup norm_text_def str_or_empty_VStr safe_int_VInt
    by (simp add: canonical_expectation_def constants_normal lower_text_def)
qed

lemma built_accepted:
  assumes "\<And>s. hex_digest (sha s)" and "expectation_validation_error x = []"
    and "authority_binding_sha256 sha (active_authority_fields x t) = Inr h"
    and "is_finite now" and "flt (Fin 0) now" and "flt now (se_validation_expires_at_epoch x)"
  shows "authority_error sha (built x t h) (canonical_expectation x) now = Inr []"
proof -
  have nonempty: "built x t h \<noteq> []" by (simp add: active_authority_fields_def dput_def)
  have fin: "is_finite (se_validation_expires_at_epoch x)" using assms(2) unfolding expectation_conditions by blast
  have e: "se_validation_expires_at_epoch (canonical_expectation x) = se_validation_expires_at_epoch x"
    by (simp add: canonical_expectation_def)
  have expiry: "authority_expiry_error (built x t h) (canonical_expectation x) now = []"
    unfolding authority_expiry_error_def built_lookup e py_float.simps
    using fin assms(4-6)
    by (cases now; cases "se_validation_expires_at_epoch x")
      (auto simp: fle_def feq_def norm_lower_def norm_text_def constants_normal)
  have scope: "as_list (dget (built x t h) ''symbol_scope'') = Inr (map VStr IG_MT4_SCALP_SYMBOLS)"
    unfolding built_lookup by simp
  show ?thesis
    unfolding authority_error_def Let_def expiry built_comparisons [OF assms(2)] scope
      built_binding_matches [OF assms(1,3)] canonical_expectation_valid [OF assms(2)] built_lookup
    using nonempty by (simp add: scope_ok norm_lower_def norm_text_def) code_simp
qed

section \<open>Stamped commands\<close>

text \<open>A payload that carries everything \<open>command_binding_fields\<close> returns.\<close>

definition stamped :: "(string \<Rightarrow> string) \<Rightarrow> pydict \<Rightarrow> pydict \<Rightarrow> bool" where
  "stamped sha authority raw =
     (case command_binding_fields sha authority of
        Inl e \<Rightarrow> False
      | Inr fs \<Rightarrow> list_all (\<lambda>(k, v). dget raw k = v) fs)"

lemma dput_new: "k \<notin> fst ` set d \<Longrightarrow> dput k v d = d @ [(k, v)]"
  by (induction d) (auto simp: dput_def)

lemma lane_unbound: "''strategy_lane'' \<notin> fst ` set COMMAND_BINDING_FIELDS_V3" "''intent'' \<notin> fst ` set COMMAND_BINDING_FIELDS_V3"
  by (simp_all add: COMMAND_BINDING_FIELDS_V3_def)

lemma stamped_iff:
  "stamped sha a raw \<longleftrightarrow>
     str_or_empty (dget a ''schema_version'') = SCALP_EXECUTION_AUTHORITY_SCHEMA \<and> binding_mismatch sha a = Inr False
     \<and> list_all (\<lambda>(c, f). dget raw c = dget a f) COMMAND_BINDING_FIELDS_V3
     \<and> dget raw ''strategy_lane'' = VStr SCALP_EXECUTION_LANE \<and> dget raw ''intent'' = VStr SCALP_ENTRY_INTENT"
proof -
  let ?ps = "map (\<lambda>(c, f). (c, dget a f)) COMMAND_BINDING_FIELDS_V3"
  have k: "fst ` set ?ps = fst ` set COMMAND_BINDING_FIELDS_V3" by force
  have "dmerge ?ps [(''strategy_lane'', l), (''intent'', i)] = ?ps @ [(''strategy_lane'', l), (''intent'', i)]" for l i
    using lane_unbound unfolding k [symmetric] by (simp add: dmerge_def dput_new)
  then show ?thesis
    by (cases "binding_mismatch sha a")
      (auto simp: stamped_def command_binding_fields_def sconv_def list_all_iff split: if_splits)
qed

lemma field_comparisons_ok:
  "first_reason (field_comparisons raw (map (\<lambda>(c, f). (c, g c f)) fs)) = [] \<longleftrightarrow>
     list_all (\<lambda>(c, f). norm_lower (dget raw c) \<noteq> [] \<and> norm_lower (dget raw c) = g c f) fs"
  by (induction fs) (auto simp: field_comparisons_def Let_def split: if_splits)

lemma built_visible:
  assumes "expectation_validation_error x = []" and "hex_digest h"
  shows "list_all (\<lambda>(c, f). norm_lower (dget (built x t h) f) \<noteq> []) COMMAND_BINDING_FIELDS_V3"
proof -
  have hex: "py_strip s \<noteq> []" if "is_sha256 (VStr s)" for s
    using that by (auto simp: is_sha256_text hex_digest_def)
  have "0 < r" if "se_validation_expires_at_epoch x = Fin r" for r
    using assms(1) that unfolding expectation_conditions by (auto simp: fle_def feq_def)
  then have "py_strip (str_or_empty (VFloat (se_validation_expires_at_epoch x))) \<noteq> []"
    using assms(1) float_repr_visible unfolding expectation_conditions
    by (cases "se_validation_expires_at_epoch x") (auto simp: str_or_empty_def)
  moreover have "py_strip (str_or_empty (VInt (se_registry_revision x))) \<noteq> []" "py_strip (str_or_empty (VInt (se_authority_revision x))) \<noteq> []"
    using assms(1) int_str_visible unfolding expectation_conditions by (auto simp: str_or_empty_def)
  moreover have "py_strip (se_account_mode x) \<noteq> []"
    using assms(1) unfolding expectation_conditions by (metis insert_iff list.distinct(1) py_lower_Nil singletonD)
  moreover have "py_strip h \<noteq> []" "py_strip SCALP_EXECUTION_AUTHORITY_SCHEMA \<noteq> []"
    using assms(2) by (auto simp: hex_digest_norm hex_digest_def) code_simp
  ultimately show ?thesis
    using assms(1) hex unfolding expectation_conditions
    unfolding COMMAND_BINDING_FIELDS_V3_def list.pred_inject prod.case built_lookup norm_lower_def norm_text_def str_or_empty_VStr
    by (simp add: constants_normal constants_visible)
qed

lemma catalog_symbol_normal:
  assumes "IG_MT4_SCALP_CATALOG pair \<noteq> None"
  shows "pair \<noteq> []" and "py_upper (py_strip pair) = pair"
proof -
  have "pair \<in> set IG_MT4_SCALP_SYMBOLS"
    using assms unfolding IG_MT4_SCALP_CATALOG_def IG_MT4_SCALP_SYMBOLS_def map_of_eq_None_iff
    by (simp add: image_image)
  moreover have "list_all (\<lambda>s. s \<noteq> [] \<and> py_upper (py_strip s) = s) IG_MT4_SCALP_SYMBOLS" by code_simp
  ultimately show "pair \<noteq> []" "py_upper (py_strip pair) = pair" by (auto simp: list_all_iff)
qed

lemma lane_normal:
  "norm_lower (VStr SCALP_EXECUTION_LANE) = SCALP_EXECUTION_LANE" "norm_lower (VStr SCALP_ENTRY_INTENT) = SCALP_ENTRY_INTENT"
  by code_simp+

lemma norm_lower_canonical: "norm_lower (VStr (py_lower (py_strip s))) = py_lower (py_strip s)"
  by (simp add: norm_lower_def norm_text_def)

text \<open>The fields of a stamped payload that the checks name one by one.\<close>

lemma stamped_field:
  assumes "stamped sha a raw"
  shows "(c, f) \<in> set COMMAND_BINDING_FIELDS_V3 \<Longrightarrow> dget raw c = dget a f"
  using assms by (auto simp: stamped_iff list_all_iff)

lemma stamped_command_accepted:
  assumes "\<And>s. hex_digest (sha s)" and "expectation_validation_error x = []"
    and "authority_binding_sha256 sha (active_authority_fields x t) = Inr h"
    and "stamped sha (built x t h) raw" and "IG_MT4_SCALP_CATALOG pair \<noteq> None"
  shows "command_binding_error sha raw (built x t h) pair = Inr []"
proof -
  note hex = binding_digest [OF assms(1,3)]
  have f: "dget raw c = dget (built x t h) f" if "(c, f) \<in> set COMMAND_BINDING_FIELDS_V3" for c f
    using stamped_field [OF assms(4) that] .
  have lane: "dget raw ''strategy_lane'' = VStr SCALP_EXECUTION_LANE" "dget raw ''intent'' = VStr SCALP_ENTRY_INTENT"
    using assms(4) unfolding stamped_iff by blast+
  have fields: "first_reason (field_comparisons raw
      (map (\<lambda>(c, a). (c, norm_lower (dget (built x t h) a))) COMMAND_BINDING_FIELDS_V3)) = []"
    using built_visible [OF assms(2) hex, of t] f unfolding field_comparisons_ok by (auto simp: list_all_iff)
  have g: "dget raw ''expected_strategy_authority_schema'' = dget (built x t h) ''schema_version''"
    "dget raw ''expected_strategy_admission_mode'' = dget (built x t h) ''admission_mode''"
    "dget raw ''expected_strategy_account_mode'' = dget (built x t h) ''account_mode''"
    by (rule f, simp add: COMMAND_BINDING_FIELDS_V3_def)+
  have m: "py_lower (py_strip (se_admission_mode x)) = SCALP_ADMISSION_MODE_SIGNED"
    "py_lower (py_strip (se_account_mode x)) \<in> {''demo'', ''real''}"
    using assms(2) unfolding expectation_conditions by blast+
  have s: "py_upper (py_strip (if pair \<noteq> [] then pair else str_or_empty (dget raw ''symbol''))) = pair"
    using catalog_symbol_normal [OF assms(5)] by simp
  show ?thesis
    unfolding command_binding_error_def Let_def s g lane built_binding_matches [OF assms(1,3)] built_lookup
      norm_lower_canonical lane_normal str_or_empty_VStr ebind.simps
    using m assms(5) fields by (simp add: constants_normal norm_lower_def norm_text_def)
qed

lemma expectation_from_stamped:
  assumes "expectation_validation_error x = []" and "stamped sha (built x t h) raw"
  shows "expectation_from_command raw = canonical_expectation x"
proof -
  have f: "dget raw c = dget (built x t h) f" if "(c, f) \<in> set COMMAND_BINDING_FIELDS_V3" for c f
    using stamped_field [OF assms(2) that] .
  have e: "list_all (\<lambda>(c, f). dget raw c = dget (built x t h) f) COMMAND_BINDING_FIELDS_V3"
    using f by (auto simp: list_all_iff)
  have v: "se_strategy_id x = MTVCLC_STRATEGY_ID" "se_strategy_version x = MTVCLC_STRATEGY_VERSION"
    "se_config_id x = MTVCLC_CONFIG_ID" "se_config_sha256 x = MTVCLC_CONFIG_SHA256"
    "se_validation_evidence_sha256 x = []" "is_finite (se_validation_expires_at_epoch x)"
    "se_scope_version x = IG_MT4_SCALP_SCOPE_VERSION"
    "se_max_entries_per_symbol_utc_day x = MAX_ENTRIES_PER_SYMBOL_UTC_DAY"
    using assms(1) unfolding expectation_conditions by simp_all
  from e [unfolded COMMAND_BINDING_FIELDS_V3_def list.pred_inject prod.case built_lookup] show ?thesis
    unfolding expectation_from_command_def Let_def
    by (simp add: v canonical_expectation_def constants_normal safe_float_finite)
qed


section \<open>Protective recovery\<close>

text \<open>The authority parsed from a stamped entry carries the identity of the one it was stamped with.\<close>

abbreviation recovered :: "pydict \<Rightarrow> pydict" where
  "recovered raw \<equiv> historical_common raw SCALP_EXECUTION_AUTHORITY_SCHEMA @ historical_v3 raw"

lemma recovered_fields:
  assumes "stamped sha (built x t h) raw" and "f \<in> set AUTHORITY_BINDING_FIELDS_V3"
  shows "dget (recovered raw) f = dget (built x t h) f"
proof -
  have e: "list_all (\<lambda>(c, f). dget raw c = dget (built x t h) f) COMMAND_BINDING_FIELDS_V3"
    using stamped_field [OF assms(1)] by (auto simp: list_all_iff)
  have "list_all (\<lambda>f. dget (recovered raw) f = dget (built x t h) f) AUTHORITY_BINDING_FIELDS_V3"
    using e [unfolded COMMAND_BINDING_FIELDS_V3_def list.pred_inject prod.case built_lookup]
    unfolding AUTHORITY_BINDING_FIELDS_V3_def list.pred_inject built_lookup
    by (simp add: historical_common_def historical_v3_def)
  with assms(2) show ?thesis by (auto simp: list_all_iff)
qed

lemma expectation_of_fields:
  assumes "\<And>f. f \<in> set AUTHORITY_BINDING_FIELDS_V3 \<Longrightarrow> dget a f = dget b f"
  shows "expectation_from_authority a = expectation_from_authority b"
proof -
  have "list_all (\<lambda>f. dget a f = dget b f) AUTHORITY_BINDING_FIELDS_V3" using assms by (simp add: list_all_iff)
  then show ?thesis
    unfolding AUTHORITY_BINDING_FIELDS_V3_def list.pred_inject by (simp add: expectation_from_authority_def Let_def)
qed

lemma history_of_stamped:
  assumes "\<And>s. hex_digest (sha s)" and "expectation_validation_error x = []"
    and "authority_binding_sha256 sha (active_authority_fields x t) = Inr h"
    and "stamped sha (built x t h) raw"
  shows "historical_authority_from_entry_payload sha raw =
           Inr (dput ''binding_sha256'' (VStr h) (recovered raw), COMMAND_BINDING_FIELDS_V3, [])"
proof -
  note hex = binding_digest [OF assms(1,3)] and rec = recovered_fields [OF assms(4)]
  have f: "dget raw ''expected_strategy_authority_schema'' = VStr SCALP_EXECUTION_AUTHORITY_SCHEMA"
    "dget raw ''expected_strategy_binding_sha256'' = VStr h"
    using stamped_field [OF assms(4)] built_lookup by (simp_all add: COMMAND_BINDING_FIELDS_V3_def del: dget_dput)
  have x: "expectation_from_authority (recovered raw) = Inr (canonical_expectation x)"
    using expectation_of_fields [OF rec] expectation_from_built [OF assms(2)] by metis
  let ?bound = "dput ''binding_sha256'' (VStr h) (recovered raw)"
  have b: "authority_binding_sha256 sha ?bound = Inr h"
  proof -
    have "authority_binding_sha256 sha (built x t h) = authority_binding_sha256 sha ?bound"
    proof (rule binding_cong)
      show "dget (built x t h) f = dget ?bound f" if "f \<in> set AUTHORITY_BINDING_FIELDS_V3" for f
        using rec [OF that] binding_unhashed that by (metis dget_dput)
      show "str_or_empty (dget (built x t h) ''schema_version'') = SCALP_EXECUTION_AUTHORITY_SCHEMA"
        unfolding built_lookup by simp
    qed
    then show ?thesis using assms(3) by (simp add: binding_of_built)
  qed
  have m: "binding_mismatch sha ?bound = Inr False"
    using hex b by (intro binding_matches [of h]) (simp_all add: norm_lower_def norm_text_def hex_digest_norm)
  show ?thesis
    unfolding historical_authority_from_entry_payload_def Let_def f str_or_empty_VStr x
    using m hex canonical_expectation_valid [OF assms(2)] f(2)
    by (simp add: close_history_def Let_def norm_lower_def norm_text_def hex_digest_norm)
qed

lemma protective_history_accepts:
  assumes "\<And>s. hex_digest (sha s)" and "expectation_validation_error x = []"
    and "authority_binding_sha256 sha (active_authority_fields x t) = Inr h"
    and "stamped sha (built x t h) entry" and "IG_MT4_SCALP_CATALOG pair \<noteq> None"
    and "list_all (\<lambda>(c, f). dget close c = dget entry c) COMMAND_BINDING_FIELDS_V3"
    and "dget close ''management_strategy'' = dget entry ''expected_strategy_id''"
  shows "protective_history_binding_error sha entry close pair = Inr []"
proof -
  note hist = history_of_stamped [OF assms(1-4)]
  have lane: "dget entry ''strategy_lane'' = VStr SCALP_EXECUTION_LANE" "dget entry ''intent'' = VStr SCALP_ENTRY_INTENT"
    using assms(4) unfolding stamped_iff by blast+
  have vis: "list_all (\<lambda>(c, f). norm_lower (dget entry c) \<noteq> []) COMMAND_BINDING_FIELDS_V3"
    using built_visible [OF assms(2) binding_digest [OF assms(1,3)], of t] stamped_field [OF assms(4)]
    by (auto simp: list_all_iff)
  have sid: "dget (dput ''binding_sha256'' (VStr h) (recovered entry)) ''strategy_id'' = dget entry ''expected_strategy_id''"
    by (simp add: historical_common_def)
  have cmp: "first_reason (field_comparisons close (map (\<lambda>(c, a). (c, norm_lower (dget entry c))) COMMAND_BINDING_FIELDS_V3)) = []"
    using vis assms(6) unfolding field_comparisons_ok by (fastforce simp: list_all_iff)
  have s: "py_upper (py_strip (if pair \<noteq> [] then pair else str_or_empty (dget entry ''symbol''))) = pair"
    using catalog_symbol_normal [OF assms(5)] by simp
  show ?thesis
    unfolding protective_history_binding_error_def Let_def s lane lane_normal hist
    using assms(5) by (simp add: assms(7) sid cmp del: dget_dput)
qed

section \<open>Properties\<close>

text \<open>
  C16. Round trip of the scalper authority: the document that an activation builds is accepted by the store's own
  check until it expires, it stamps commands, and every command stamped with it passes the recheck at
  enqueue and delivery, where the expectation recovered from the command is the one recovered from the
  stored document. Assumed of the digest: it is a lower-case hexadecimal text of 64 characters.
\<close>

theorem authority_roundtrip:
  assumes "\<And>s. hex_digest (sha s)" and "build_active_authority sha x t = Inr a"
    and "is_finite now" and "flt (Fin 0) now" and "flt now (se_validation_expires_at_epoch x)"
    and "IG_MT4_SCALP_CATALOG pair \<noteq> None"
  shows "\<exists>y fs. expectation_from_authority a = Inr y \<and> authority_error sha a y now = Inr []
    \<and> command_binding_fields sha a = Inr fs
    \<and> (\<forall>raw. list_all (\<lambda>(k, v). dget raw k = v) fs \<longrightarrow>
          command_binding_error sha raw a pair = Inr [] \<and> expectation_from_command raw = y)"
proof -
  obtain h where v: "expectation_validation_error x = []"
    and h: "authority_binding_sha256 sha (active_authority_fields x t) = Inr h" and a: "a = built x t h"
    using assms(2) by (rule build_active_authorityE) blast
  have s: "str_or_empty (dget a ''schema_version'') = SCALP_EXECUTION_AUTHORITY_SCHEMA"
    unfolding a built_lookup by simp
  obtain fs where fs: "command_binding_fields sha a = Inr fs"
    unfolding command_binding_fields_def using s built_binding_matches [OF assms(1) h] by (simp add: a sconv_def)
  have st: "stamped sha a raw" if "list_all (\<lambda>(k, v). dget raw k = v) fs" for raw
    using that by (simp add: stamped_def fs)
  show ?thesis
    using expectation_from_built [OF v, where t = t and h = h] built_accepted [OF assms(1) v h assms(3-5)] fs
      stamped_command_accepted [OF assms(1) v h _ assms(6)] expectation_from_stamped [OF v] st
    unfolding a by blast
qed

text \<open>
  The identity fields of a stamped entry can be recovered from it without the stored authority, and a close that carries
  them and names the entry's strategy passes the history binding.
\<close>

lemma history_fields_recovered:
  assumes "\<And>s. hex_digest (sha s)" and "build_active_authority sha x t = Inr a" and "stamped sha a entry"
  shows "protective_command_binding_fields sha entry = Inr (map (\<lambda>(c, a). (c, dget entry c)) COMMAND_BINDING_FIELDS_V3)"
proof -
  obtain h where v: "expectation_validation_error x = []"
    and h: "authority_binding_sha256 sha (active_authority_fields x t) = Inr h" and a: "a = built x t h"
    using assms(2) by (rule build_active_authorityE) blast
  note st = assms(3) [unfolded a]
  have lane: "dget entry ''strategy_lane'' = VStr SCALP_EXECUTION_LANE" "dget entry ''intent'' = VStr SCALP_ENTRY_INTENT"
    using st unfolding stamped_iff by blast+
  show ?thesis
    unfolding protective_command_binding_fields_def history_of_stamped [OF assms(1) v h st] sconv_def
      protective_lane_checks_def lane by (simp add: lane_normal)
qed

lemma history_fields_bind:
  assumes "\<And>s. hex_digest (sha s)" and "build_active_authority sha x t = Inr a" and "stamped sha a entry"
    and "IG_MT4_SCALP_CATALOG pair \<noteq> None"
  shows "\<exists>fs. protective_command_binding_fields sha entry = Inr fs
    \<and> (\<forall>close. list_all (\<lambda>(k, v). dget close k = v) fs
          \<and> dget close ''management_strategy'' = dget entry ''expected_strategy_id'' \<longrightarrow>
          protective_history_binding_error sha entry close pair = Inr [])"
proof -
  obtain h where v: "expectation_validation_error x = []"
    and h: "authority_binding_sha256 sha (active_authority_fields x t) = Inr h" and a: "a = built x t h"
    using assms(2) by (rule build_active_authorityE) blast
  have "protective_history_binding_error sha entry close pair = Inr []"
    if "list_all (\<lambda>(k, v). dget close k = v) (map (\<lambda>(c, a). (c, dget entry c)) COMMAND_BINDING_FIELDS_V3)"
      and "dget close ''management_strategy'' = dget entry ''expected_strategy_id''" for close
    using that by (intro protective_history_accepts [OF assms(1) v h assms(3) [unfolded a] assms(4)]) (auto simp: list_all_iff)
  then show ?thesis using history_fields_recovered [OF assms(1-3)] by blast
qed

text \<open>
  Admission is exact: when the check of a stored authority passes, the document is a current-schema, active
  authority of the production runtime that names the expected generation, boot and revision. It has not
  expired, covers exactly the 22 catalog symbols in catalog order, allows one entry per symbol and day, and its
  binding digest is the digest of its identity fields. So neither a revoked nor a legacy document, nor one
  with an altered field under an old digest, admits an entry.
\<close>

theorem authority_admission_exact:
  assumes "authority_error sha current x now = Inr []"
  shows "str_or_empty (dget current ''schema_version'') = SCALP_EXECUTION_AUTHORITY_SCHEMA
    \<and> norm_lower (dget current ''status'') = ''active''
    \<and> norm_lower (dget current ''source'') = ''production_runtime''
    \<and> expectation_validation_error x = []
    \<and> norm_text (dget current ''generation_id'') = py_strip (se_generation_id x)
    \<and> norm_text (dget current ''runtime_boot_id'') = py_strip (se_runtime_boot_id x)
    \<and> safe_int (dget current ''authority_revision'') 0 = se_authority_revision x
    \<and> (\<exists>e. py_float (dget current ''validation_expires_at_epoch'') = Inr e \<and> flt (Fin 0) now \<and> flt now e)
    \<and> (\<exists>scope. as_list (dget current ''symbol_scope'') = Inr scope \<and> normalized_symbols scope = IG_MT4_SCALP_SYMBOLS)
    \<and> safe_int (dget current ''max_entries_per_symbol_utc_day'') 0 = 1
    \<and> authority_binding_sha256 sha current = Inr (norm_lower (dget current ''binding_sha256''))"
proof -
  note parts = assms [unfolded authority_error_def Let_def]
  have "first_reason (authority_comparisons current x) = []" using parts by (auto split: if_splits)
  then have cmp: "list_all (\<lambda>c. \<not> fst c) (authority_comparisons current x)"
    by (subst (asm) first_reason_Nil) (simp_all add: authority_comparisons_def Let_def)
  have ex: "authority_expiry_error current x now = []" using parts by (auto split: if_splits)
  then obtain e where e: "py_float (dget current ''validation_expires_at_epoch'') = Inr e"
    by (cases "py_float (dget current ''validation_expires_at_epoch'')") (simp_all add: authority_expiry_error_def)
  have ex': "is_finite e" "is_finite now" "\<not> fle now (Fin 0)" "\<not> fle e now"
      "safe_int (dget current ''max_entries_per_symbol_utc_day'') 0 = 1"
    using ex e by (simp_all add: authority_expiry_error_def MAX_ENTRIES_PER_SYMBOL_UTC_DAY_def split: if_splits)
  have clock: "flt (Fin 0) now \<and> flt now e"
    using ex'(1-4) by (cases now; cases e) (auto simp: fle_def feq_def)
  obtain scope where s: "as_list (dget current ''symbol_scope'') = Inr scope" "symbol_scope_error scope = []"
      "binding_mismatch sha current = Inr False"
    using parts by (auto elim!: ebindE split: if_splits)
  have b: "authority_binding_sha256 sha current = Inr (norm_lower (dget current ''binding_sha256''))"
    using s(3) by (auto simp: binding_mismatch_def Let_def elim!: ebindE split: if_splits)
  have head: "str_or_empty (dget current ''schema_version'') = SCALP_EXECUTION_AUTHORITY_SCHEMA"
    "norm_lower (dget current ''status'') = ''active''" "norm_lower (dget current ''source'') = ''production_runtime''"
    "expectation_validation_error x = []"
    using parts by (simp_all split: if_splits)
  have id: "norm_text (dget current ''generation_id'') = py_strip (se_generation_id x)"
    "norm_text (dget current ''runtime_boot_id'') = py_strip (se_runtime_boot_id x)"
    "safe_int (dget current ''authority_revision'') 0 = se_authority_revision x"
    using cmp by (simp_all add: authority_comparisons_def Let_def)
  show ?thesis using head id clock e s(1,2) ex'(5) b by (simp add: scope_ok_iff)
qed

text \<open>
  A command is pinned to one authority: two stored authorities that both accept the same command agree, up to case and
  surrounding blanks, on every identity field the command is stamped with, among them the generation, the
  boot, the revision and the binding digest.
\<close>

theorem command_pinned_to_authority:
  assumes "command_binding_error sha raw a pair = Inr []" and "command_binding_error sha raw b pair' = Inr []"
    and "(c, f) \<in> set COMMAND_BINDING_FIELDS_V3"
  shows "norm_lower (dget a f) = norm_lower (dget b f) \<and> norm_lower (dget a f) \<noteq> []"
proof -
  have "norm_lower (dget raw c) = norm_lower (dget z f) \<and> norm_lower (dget raw c) \<noteq> []"
    if z: "command_binding_error sha raw z p = Inr []" for z p
  proof -
    have "first_reason (field_comparisons raw (map (\<lambda>(c, a). (c, norm_lower (dget z a))) COMMAND_BINDING_FIELDS_V3)) = []"
      using z by (auto simp: command_binding_error_def Let_def elim!: ebindE split: if_splits)
    then show ?thesis using assms(3) unfolding field_comparisons_ok by (auto simp: list_all_iff)
  qed
  from this [OF assms(1)] this [OF assms(2)] show ?thesis by metis
qed

section \<open>Witnesses\<close>

definition demo_expectation :: ScalpAuthorityExpectation where
  "demo_expectation =
     \<lparr>se_generation_id = ''gen-1'', se_strategy_id = MTVCLC_STRATEGY_ID, se_engine_sha256 = demo_digest [],
      se_config_sha256 = MTVCLC_CONFIG_SHA256, se_validation_expires_at_epoch = Fin 5000, se_runtime_boot_id = '' boot-1'',
      se_authority_revision = 3, se_strategy_version = MTVCLC_STRATEGY_VERSION, se_config_id = MTVCLC_CONFIG_ID,
      se_runtime_release_certificate_sha256 = demo_digest [], se_runtime_release_signing_key_id = demo_digest [],
      se_research_evidence_sha256 = demo_digest [], se_research_evidence_signing_key_id = demo_digest [],
      se_registry_generation_id = ''gen-1'', se_registry_revision = 2, se_registry_sha256 = demo_digest [],
      se_qualification_surface_sha256 = demo_digest [], se_cost_mapping_sha256 = demo_digest [],
      se_execution_contract_sha256 = demo_digest [], se_validation_evidence_sha256 = [],
      se_admission_mode = SCALP_ADMISSION_MODE_SIGNED, se_account_mode = ''DEMO'', se_venue_id = IG_MT4_VENUE_ID,
      se_scope_version = IG_MT4_SCALP_SCOPE_VERSION, se_bracket_policy = BROKER_NATIVE_BRACKET_POLICY,
      se_max_entries_per_symbol_utc_day = 1, se_symbol_scope = IG_MT4_SCALP_SYMBOLS\<rparr>"

definition demo_authority :: pydict where
  "demo_authority = built demo_expectation (Fin 1000) (demo_digest [])"

lemma demo_digest_hex: "hex_digest (demo_digest s)"
  unfolding demo_digest_def by code_simp

lemma demo_valid: "expectation_validation_error demo_expectation = []"
  by code_simp

lemma demo_binding: "authority_binding_sha256 demo_digest (active_authority_fields x t) = Inr (demo_digest [])"
proof -
  have "dget (map (\<lambda>f. (f, dget a f)) (authority_binding_fields a)) ''symbol_scope'' = dget a ''symbol_scope''" for a
    by (simp add: authority_binding_fields_def AUTHORITY_BINDING_FIELDS_V2_def AUTHORITY_BINDING_FIELDS_V3_def)
  moreover have "dget (active_authority_fields x t) ''symbol_scope'' = VList (map VStr IG_MT4_SCALP_SYMBOLS)"
    by (simp add: active_authority_fields_def)
  ultimately show ?thesis
    by (simp add: authority_binding_sha256_def Let_def sha256_json_def demo_digest_def [abs_def])
qed

lemma demo_built: "build_active_authority demo_digest demo_expectation (Fin 1000) = Inr demo_authority"
proof -
  have "se_validation_expires_at_epoch demo_expectation = Fin 5000" by (simp add: demo_expectation_def)
  then show ?thesis
    unfolding build_active_authority_def Let_def demo_valid demo_binding demo_authority_def sconv_def
    by (simp add: fle_def feq_def)
qed

lemma demo_pair: "IG_MT4_SCALP_CATALOG ''EURUSD'' \<noteq> None"
  by code_simp

definition stamped_entry :: pydict where
  "stamped_entry =
     [(''strategy_lane'', VStr SCALP_EXECUTION_LANE), (''intent'', VStr SCALP_ENTRY_INTENT),
      (''expected_strategy_authority_schema'', VStr SCALP_EXECUTION_AUTHORITY_SCHEMA),
      (''expected_strategy_admission_mode'', VStr SCALP_ADMISSION_MODE_SIGNED),
      (''expected_strategy_account_mode'', VStr ''demo''),
      (''expected_strategy_generation_id'', VStr ''gen-1''),
      (''expected_strategy_id'', VStr MTVCLC_STRATEGY_ID),
      (''expected_strategy_version'', VStr MTVCLC_STRATEGY_VERSION),
      (''expected_strategy_engine_sha256'', VStr (demo_digest [])),
      (''expected_strategy_config_id'', VStr MTVCLC_CONFIG_ID),
      (''expected_strategy_config_sha256'', VStr MTVCLC_CONFIG_SHA256),
      (''expected_strategy_runtime_release_certificate_sha256'', VStr (demo_digest [])),
      (''expected_strategy_runtime_release_signing_key_id'', VStr (demo_digest [])),
      (''expected_strategy_research_evidence_sha256'', VStr (demo_digest [])),
      (''expected_strategy_research_evidence_signing_key_id'', VStr (demo_digest [])),
      (''expected_strategy_registry_generation_id'', VStr ''gen-1''),
      (''expected_strategy_registry_revision'', VInt 2),
      (''expected_strategy_registry_sha256'', VStr (demo_digest [])),
      (''expected_strategy_qualification_surface_sha256'', VStr (demo_digest [])),
      (''expected_strategy_cost_mapping_sha256'', VStr (demo_digest [])),
      (''expected_strategy_execution_contract_sha256'', VStr (demo_digest [])),
      (''expected_strategy_validation_expires_at_epoch'', VFloat (Fin 5000)),
      (''expected_strategy_venue_id'', VStr IG_MT4_VENUE_ID),
      (''expected_strategy_scope_version'', VStr IG_MT4_SCALP_SCOPE_VERSION),
      (''expected_strategy_binding_sha256'', VStr (demo_digest [])),
      (''expected_strategy_runtime_boot_id'', VStr ''boot-1''),
      (''expected_strategy_authority_revision'', VInt 3)]"

lemma stamped_entry_fields: "list_all (\<lambda>(c, f). dget stamped_entry c = dget demo_authority f) COMMAND_BINDING_FIELDS_V3"
proof -
  have n: "py_strip (demo_digest []) = demo_digest []" "py_lower (demo_digest []) = demo_digest []"
    using hex_digest_norm [OF demo_digest_hex] by blast+
  have s: "py_lower (py_strip ''DEMO'') = ''demo''" "py_strip ''gen-1'' = ''gen-1''" "py_strip '' boot-1'' = ''boot-1''" by code_simp+
  show ?thesis
    unfolding COMMAND_BINDING_FIELDS_V3_def list.pred_inject prod.case demo_authority_def built_lookup
    by (simp add: stamped_entry_def demo_expectation_def n s constants_normal)
qed

lemma demo_stamped: "stamped demo_digest demo_authority stamped_entry"
proof -
  have "dget stamped_entry ''strategy_lane'' = VStr SCALP_EXECUTION_LANE"
    "dget stamped_entry ''intent'' = VStr SCALP_ENTRY_INTENT"
    by (simp_all add: stamped_entry_def)
  moreover have "str_or_empty (dget demo_authority ''schema_version'') = SCALP_EXECUTION_AUTHORITY_SCHEMA"
    unfolding demo_authority_def built_lookup by simp
  moreover have "binding_mismatch demo_digest demo_authority = Inr False"
    unfolding demo_authority_def using demo_digest_hex demo_binding by (rule built_binding_matches)
  ultimately show ?thesis unfolding stamped_iff using stamped_entry_fields by blast
qed

theorem authority_roundtrip_witness:
  "\<exists>y fs. expectation_from_authority demo_authority = Inr y \<and> authority_error demo_digest demo_authority y (Fin 2000) = Inr []
    \<and> command_binding_fields demo_digest demo_authority = Inr fs
    \<and> (\<forall>raw. list_all (\<lambda>(k, v). dget raw k = v) fs \<longrightarrow>
          command_binding_error demo_digest raw demo_authority ''EURUSD'' = Inr [] \<and> expectation_from_command raw = y)"
  by (rule authority_roundtrip [OF demo_digest_hex demo_built _ _ _ demo_pair]) (simp_all add: demo_expectation_def)

lemma demo_accepted: "authority_error demo_digest demo_authority (canonical_expectation demo_expectation) (Fin 2000) = Inr []"
  unfolding demo_authority_def
  by (rule built_accepted [OF demo_digest_hex demo_valid demo_binding]) (simp_all add: demo_expectation_def)

theorem authority_admission_exact_witness: "norm_lower (dget demo_authority ''status'') = ''active''"
  using authority_admission_exact [OF demo_accepted] by blast

theorem command_pinned_to_authority_witness:
  "norm_lower (dget demo_authority ''generation_id'') = norm_lower (dget demo_authority ''generation_id'')
   \<and> norm_lower (dget demo_authority ''generation_id'') \<noteq> []"
proof -
  have acc: "command_binding_error demo_digest stamped_entry demo_authority ''EURUSD'' = Inr []"
    using stamped_command_accepted [OF demo_digest_hex demo_valid demo_binding _ demo_pair] demo_stamped
    unfolding demo_authority_def by blast
  have "(''expected_strategy_generation_id'', ''generation_id'') \<in> set COMMAND_BINDING_FIELDS_V3"
    by (simp add: COMMAND_BINDING_FIELDS_V3_def)
  from command_pinned_to_authority [OF acc acc this] show ?thesis .
qed

end
