(* ===== verification/Egress.thy ===== *)
theory Egress
  imports Authority_Roundtrip
begin

text \<open>
  Who may send commands to the broker: the transaction-local checks of \<open>runtime/postgres_store.py\<close>
  that poll and enqueue make on the locked snapshot. Egress is armed either by the booted production
  runtime (\<open>source = production_runtime\<close>) or by an externally witnessed release; a command must also
  fall inside the armed scope, and under protective management only an owned position may be closed.
  A check returns the reason of the refusal, the empty text when it passes, or raises.
\<close>

section \<open>Constants\<close>

definition RELEASE_AUTHORITY_STATE_SCHEMA :: string where
  "RELEASE_AUTHORITY_STATE_SCHEMA = ''fxstack_live_release_authority_state_v1''"

definition RELEASE_AUTHORITY_REQUEST_SCHEMA :: string where
  "RELEASE_AUTHORITY_REQUEST_SCHEMA = ''fxstack_live_release_authority_request_v1''"

definition RELEASE_AUTHORITY_ACK_SCHEMA :: string where
  "RELEASE_AUTHORITY_ACK_SCHEMA = ''fxstack_live_release_authority_ack_v1''"

definition EXTERNAL_RELEASE_WITNESS_SCHEMA :: string where
  "EXTERNAL_RELEASE_WITNESS_SCHEMA = ''fxstack_external_release_witness_v1''"

definition EXECUTION_EGRESS_RUNNER_LEASE_SECS :: pyfloat where
  "EXECUTION_EGRESS_RUNNER_LEASE_SECS = Fin 30"

definition RELEASE_EGRESS_IDENTITY_FIELDS :: "string list" where
  "RELEASE_EGRESS_IDENTITY_FIELDS =
     [''source_sha256'', ''package_merkle_sha256'', ''config_sha256'', ''manifest_file_sha256'',
      ''model_identity_sha256'', ''artifact_set_sha256'', ''model_set_id'']"

definition MT4_POSITIONS_SNAPSHOT_SCHEMA :: string where
  "MT4_POSITIONS_SNAPSHOT_SCHEMA = ''fxstack_mt4_positions_snapshot_v2''"

section \<open>Structure of an active release: \<open>_release_egress_binding_error\<close>\<close>

definition release_binding_checks :: "pydict \<Rightarrow> pydict \<Rightarrow> pydict \<Rightarrow> (bool \<times> string) list" where
  "release_binding_checks request ack witness =
     (let generation_id = norm_text (dget request ''generation_id'');
          request_sha256 = norm_lower (dget request ''request_sha256'') in
      [(str_or_empty (dget request ''schema_version'') \<noteq> RELEASE_AUTHORITY_REQUEST_SCHEMA,
        ''release_authority_request_schema_invalid''),
       (str_or_empty (dget ack ''schema_version'') \<noteq> RELEASE_AUTHORITY_ACK_SCHEMA,
        ''release_authority_ack_schema_invalid''),
       (str_or_empty (dget witness ''schema_version'') \<noteq> EXTERNAL_RELEASE_WITNESS_SCHEMA,
        ''release_witness_schema_invalid''),
       (norm_text (dget witness ''signature'') = [], ''release_witness_signature_missing''),
       (generation_id = [] \<or> request_sha256 = [], ''release_authority_identity_missing''),
       (norm_text (dget ack ''generation_id'') \<noteq> generation_id, ''release_authority_ack_generation_mismatch''),
       (norm_lower (dget ack ''request_sha256'') \<noteq> request_sha256, ''release_authority_ack_request_mismatch''),
       (norm_text (dget ack ''runtime_boot_id'') = [], ''release_authority_ack_boot_missing'')]
      @ map (\<lambda>f. (norm_text (dget request f) = [] \<or> norm_text (dget ack f) \<noteq> norm_text (dget request f),
                   ''release_authority_ack_'' @ f @ ''_mismatch'')) RELEASE_EGRESS_IDENTITY_FIELDS)"

definition release_egress_binding_error :: "pydict \<Rightarrow> pyerr + string" where
  "release_egress_binding_error st =
     (if str_or_empty (dget st ''schema_version'') \<noteq> RELEASE_AUTHORITY_STATE_SCHEMA
      then Inr ''release_authority_state_schema_invalid''
      else if norm_lower (dget st ''status'') \<noteq> ''active'' then Inr ''release_authority_not_active''
      else
        ebind (as_dict (dget st ''request'')) (\<lambda>request.
        ebind (as_dict (dget st ''ack'')) (\<lambda>ack.
        ebind (as_dict (dget request ''external_witness'')) (\<lambda>witness.
          Inr (first_reason (release_binding_checks request ack witness))))))"

section \<open>Checks shared by both sources\<close>

definition runner_lease_failure :: "Env \<Rightarrow> pydict \<Rightarrow> pyfloat \<Rightarrow> pyerr + string" where
  "runner_lease_failure e snapshot now =
     (if norm_lower (dget snapshot ''runtime_status'') \<noteq> ''running'' then Inr ''execution_egress_runner_not_running''
      else ebind (timestamp_age_secs e (dget snapshot ''runtime_last_cycle_ts'') now) (\<lambda>age.
        case age of None \<Rightarrow> Inr ''execution_egress_runner_lease_stale''
        | Some a \<Rightarrow> Inr (if flt EXECUTION_EGRESS_RUNNER_LEASE_SECS a then ''execution_egress_runner_lease_stale'' else [])))"

definition command_sleeve :: "ExecutionCommand \<Rightarrow> string" where
  "command_sleeve c =
     (let payload = ec_payload c; meta = ec_orchestration_meta_json c in
      norm_lower (py_or (dget payload ''sleeve'') (py_or (dget payload ''adaptive_sleeve'')
        (py_or (dget meta ''sleeve'') (dget meta ''adaptive_sleeve'')))))"

definition command_verb :: "ExecutionCommand \<Rightarrow> string" where
  "command_verb c = py_upper (py_strip (ec_cmd c))"

definition command_symbol :: "ExecutionCommand \<Rightarrow> string" where
  "command_symbol c = py_upper (py_strip (ec_symbol c))"

definition command_owner_token :: "ExecutionCommand \<Rightarrow> string" where
  "command_owner_token c =
     py_strip (if ec_owner_token c \<noteq> [] then ec_owner_token c
               else str_or_empty (dget (ec_payload c) ''owner_token''))"

definition command_target_ticket :: "ExecutionCommand \<Rightarrow> int" where
  "command_target_ticket c =
     (if 0 < ec_target_ticket c then ec_target_ticket c else safe_int (dget (ec_payload c) ''target_ticket'') 0)"

definition required_intent :: "string \<Rightarrow> string" where
  "required_intent cmd =
     (if cmd \<in> {''BUY'', ''SELL''} then ''enter''
      else if cmd \<in> {''CLOSE'', ''CLOSE_ALL''} then ''exit''
      else if cmd = ''CLOSE_PARTIAL'' then ''reduce''
      else if cmd = ''MODIFY_SL'' then ''tighten_stop''
      else [])"

section \<open>Egress armed by the production runtime\<close>

definition protective_only_checks ::
  "string set \<Rightarrow> string set \<Rightarrow> string set \<Rightarrow> ExecutionCommand \<Rightarrow> (bool \<times> string) list" where
  "protective_only_checks pairs sleeves intents c =
     (let payload = ec_payload c;
          contract = py_strip (if ec_ownership_contract c \<noteq> [] then ec_ownership_contract c
                               else str_or_empty (dget payload ''ownership_contract'')) in
      [(pairs \<noteq> set IG_MT4_SCALP_SYMBOLS \<or> sleeves \<noteq> {''scalp''} \<or> intents \<noteq> {''exit''},
        ''execution_egress_protective_scope_invalid''),
       (command_verb c \<noteq> ''CLOSE'', ''execution_egress_protective_command_blocked''),
       (command_target_ticket c \<le> 0, ''execution_egress_protective_target_ticket_missing''),
       (ec_magic c \<le> 0 \<or> command_owner_token c = [], ''execution_egress_protective_owner_identity_missing''),
       (contract \<noteq> DTO_TICKET_OWNER_CONTRACT, ''execution_egress_protective_ownership_contract_invalid''),
       (norm_text (dget payload ''managed_entry_command_id'') = [],
        ''execution_egress_protective_entry_command_missing'')])"

definition production_command_checks ::
  "bool \<Rightarrow> string set \<Rightarrow> string set \<Rightarrow> string set \<Rightarrow> ExecutionCommand \<Rightarrow> (bool \<times> string) list" where
  "production_command_checks protective pairs sleeves intents c =
     (let cmd = command_verb c; symbol = command_symbol c in
      (if protective then protective_only_checks pairs sleeves intents c else []) @
      [(required_intent cmd \<noteq> [] \<and> required_intent cmd \<notin> intents, ''execution_egress_command_intent_blocked''),
       (cmd \<notin> {''INFO'', ''CLOSE_ALL''} \<and> (symbol = [] \<or> symbol \<notin> pairs), ''execution_egress_command_pair_blocked''),
       (cmd \<in> {''BUY'', ''SELL''} \<and> (command_sleeve c = [] \<or> command_sleeve c \<notin> sleeves),
        ''execution_egress_command_sleeve_blocked'')])"

definition production_live_failure :: "pydict \<Rightarrow> pydict \<Rightarrow> ExecutionCommand option \<Rightarrow> pyerr + string" where
  "production_live_failure egress live command =
     (if \<not> live_armed live then Inr ''execution_egress_runtime_disabled''
      else if safe_int (dget live ''authority_revision'') 0 \<noteq> safe_int (dget egress ''authority_revision'') 0
      then Inr ''execution_egress_authority_revision_changed''
      else
        ebind (scope_items py_upper (dget egress ''pair_scope'')) (\<lambda>pairs.
        ebind (scope_items py_lower (dget egress ''sleeve_scope'')) (\<lambda>sleeves.
        ebind (scope_items py_lower (dget egress ''intent_scope'')) (\<lambda>intents.
        ebind (scope_items py_upper (dget live ''active_pair_scope'')) (\<lambda>live_pairs.
          if set pairs \<noteq> set live_pairs then Inr ''execution_egress_pair_scope_changed''
          else
        ebind (scope_items py_lower (dget live ''active_sleeve_scope'')) (\<lambda>live_sleeves.
          if set sleeves \<noteq> set live_sleeves then Inr ''execution_egress_sleeve_scope_changed''
          else
        ebind (scope_items py_lower (dget live ''active_intent_scope'')) (\<lambda>live_intents.
          if set intents \<noteq> set live_intents then Inr ''execution_egress_intent_scope_changed''
          else case command of None \<Rightarrow> Inr []
            | Some c \<Rightarrow> Inr (first_reason (production_command_checks
                (dget egress ''protective_management_only'' = VBool True)
                (set pairs) (set sleeves) (set intents) c)))))))))"

definition production_runtime_failure ::
  "Env \<Rightarrow> pydict \<Rightarrow> pydict \<Rightarrow> pyfloat \<Rightarrow> ExecutionCommand option \<Rightarrow> pyerr + string" where
  "production_runtime_failure e snapshot egress now command =
     ebind (as_dict (dget snapshot ''runtime_startup'')) (\<lambda>startup.
     ebind (as_dict (dget snapshot ''runtime_attestation'')) (\<lambda>attestation.
       let boot = norm_text (dget egress ''runtime_boot_id'') in
       if boot = [] \<or> norm_text (dget startup ''boot_id'') \<noteq> boot
          \<or> norm_text (dget attestation ''runtime_boot_id'') \<noteq> boot
       then Inr ''execution_egress_current_boot_mismatch''
       else ebind (runner_lease_failure e snapshot now) (\<lambda>lease.
         if lease \<noteq> [] then Inr lease
         else
           ebind (as_dict (dget snapshot ''runtime_diag'')) (\<lambda>rd.
           ebind (as_dict (dget rd ''orchestration_live'')) (\<lambda>live.
             production_live_failure egress live command)))))"

section \<open>Egress armed by a witnessed release\<close>

definition release_expectations :: "pydict \<Rightarrow> pydict \<Rightarrow> (string \<times> string) list" where
  "release_expectations request ack =
     [(''release_generation_id'', str_or_empty (dget request ''generation_id'')),
      (''release_request_sha256'', str_or_empty (dget request ''request_sha256'')),
      (''release_model_identity_sha256'', str_or_empty (dget request ''model_identity_sha256'')),
      (''release_manifest_file_sha256'', str_or_empty (dget request ''manifest_file_sha256'')),
      (''release_runtime_boot_id'', str_or_empty (dget ack ''runtime_boot_id''))]"

definition release_command_failure ::
  "pydict \<Rightarrow> pydict \<Rightarrow> pydict \<Rightarrow> string list \<Rightarrow> string list \<Rightarrow> string list \<Rightarrow> ExecutionCommand \<Rightarrow> pyerr + string" where
  "release_command_failure request ack execution pairs sleeves intents c =
     (let cmd = command_verb c; symbol = command_symbol c; meta = ec_orchestration_meta_json c;
          bound = first_reason (map (\<lambda>(f, v). (v = [] \<or> str_or_empty (dget meta f) \<noteq> v,
                    ''execution_egress_command_'' @ f @ ''_mismatch'')) (release_expectations request ack)) in
      if bound \<noteq> [] then Inr bound
      else if cmd = ''CLOSE_ALL''
      then Inr (if dget execution ''emergency_flatten_all'' \<noteq> VBool True
                then ''execution_egress_emergency_flatten_unauthorized'' else [])
      else if symbol \<noteq> [] \<and> symbol \<notin> set pairs then Inr ''execution_egress_command_pair_blocked''
      else if cmd \<noteq> ''INFO'' \<and> symbol = [] then Inr ''execution_egress_command_pair_missing''
      else if cmd = ''INFO'' then Inr []
      else ebind (scope_items py_lower (dget execution ''protective_intent_scope'')) (\<lambda>protective.
        if cmd \<in> {''CLOSE'', ''CLOSE_PARTIAL''}
        then Inr (if ''exit'' \<notin> set protective then ''execution_egress_protective_exit_unauthorized'' else [])
        else if cmd = ''MODIFY_SL''
        then Inr (if ''adjust'' \<notin> set protective then ''execution_egress_protective_adjust_unauthorized'' else [])
        else if cmd \<notin> {''BUY'', ''SELL''} \<or> ''enter'' \<notin> set intents
        then Inr ''execution_egress_command_intent_blocked''
        else if command_sleeve c = [] \<or> command_sleeve c \<notin> set sleeves
        then Inr ''execution_egress_command_sleeve_blocked''
        else Inr []))"

definition release_boot_changed :: "pydict \<Rightarrow> pydict \<Rightarrow> pydict \<Rightarrow> bool" where
  "release_boot_changed ack startup attestation =
     (let acknowledged = norm_text (dget ack ''runtime_boot_id'');
          current = norm_text (dget startup ''boot_id'') in
      current = [] \<or> current \<noteq> acknowledged \<or> norm_text (dget attestation ''runtime_boot_id'') \<noteq> acknowledged)"

definition release_binding_mismatch :: "pydict \<Rightarrow> pydict \<Rightarrow> pydict \<Rightarrow> string" where
  "release_binding_mismatch egress request ack =
     first_reason
       [(str_or_empty (dget egress ''generation_id'') \<noteq> str_or_empty (dget request ''generation_id''),
         ''execution_egress_generation_mismatch''),
        (str_or_empty (dget egress ''request_sha256'') \<noteq> str_or_empty (dget request ''request_sha256''),
         ''execution_egress_request_mismatch''),
        (str_or_empty (dget egress ''runtime_boot_id'') \<noteq> str_or_empty (dget ack ''runtime_boot_id''),
         ''execution_egress_boot_mismatch'')]"

definition release_scope_failure ::
  "pydict \<Rightarrow> pydict \<Rightarrow> pydict \<Rightarrow> pydict \<Rightarrow> ExecutionCommand option \<Rightarrow> pyerr + string" where
  "release_scope_failure request ack execution live command =
     ebind (scope_items py_upper (dget execution ''pair_scope'')) (\<lambda>pairs.
     ebind (scope_items py_lower (dget execution ''sleeve_scope'')) (\<lambda>sleeves.
     ebind (scope_items py_lower (dget execution ''intent_scope'')) (\<lambda>intents.
     ebind (scope_items py_upper (dget live ''active_pair_scope'')) (\<lambda>cur_pairs.
     ebind (scope_items py_lower (dget live ''active_sleeve_scope'')) (\<lambda>cur_sleeves.
     ebind (scope_items py_lower (dget live ''active_intent_scope'')) (\<lambda>cur_intents.
       if cur_pairs = [] \<or> \<not> set cur_pairs \<subseteq> set pairs \<or> cur_sleeves = [] \<or> \<not> set cur_sleeves \<subseteq> set sleeves
          \<or> cur_intents = [] \<or> \<not> set cur_intents \<subseteq> set intents
       then Inr ''execution_egress_runtime_scope_widened''
       else case command of None \<Rightarrow> Inr []
         | Some c \<Rightarrow> release_command_failure request ack execution pairs sleeves intents c))))))"

definition witnessed_release_failure ::
  "Env \<Rightarrow> pydict \<Rightarrow> pydict \<Rightarrow> pyfloat \<Rightarrow> ExecutionCommand option \<Rightarrow> pyerr + string" where
  "witnessed_release_failure e snapshot egress now command =
     ebind (as_dict (dget snapshot ''release_authority'')) (\<lambda>release.
     ebind (release_egress_binding_error release) (\<lambda>binding_error.
     if binding_error \<noteq> [] then Inr binding_error
     else
     ebind (as_dict (dget release ''request'')) (\<lambda>request.
     ebind (as_dict (dget release ''ack'')) (\<lambda>ack.
     ebind (as_dict (dget request ''external_witness'')) (\<lambda>witness.
     ebind (parse_iso_ts e (dget witness ''expires_at'')) (\<lambda>witness_expires_at.
     if fle witness_expires_at now then Inr ''execution_egress_witness_expired''
     else if release_binding_mismatch egress request ack \<noteq> [] then Inr (release_binding_mismatch egress request ack)
     else
     ebind (as_dict (dget snapshot ''runtime_startup'')) (\<lambda>startup.
     ebind (as_dict (dget snapshot ''runtime_attestation'')) (\<lambda>attestation.
     if release_boot_changed ack startup attestation then Inr ''execution_egress_current_boot_mismatch''
     else
     ebind (runner_lease_failure e snapshot now) (\<lambda>lease.
     if lease \<noteq> [] then Inr lease
     else
     ebind (as_dict (dget request ''authorized_execution'')) (\<lambda>execution.
     if norm_lower (dget snapshot ''broker_account_mode'') \<noteq> norm_lower (dget execution ''account_mode'')
     then Inr ''execution_egress_account_mode_changed''
     else if norm_text (dget snapshot ''broker_account_scope'') \<noteq> norm_text (dget execution ''account_scope'')
     then Inr ''execution_egress_account_scope_changed''
     else
     ebind (as_dict (dget snapshot ''runtime_diag'')) (\<lambda>rd.
     ebind (as_dict (dget rd ''orchestration_live'')) (\<lambda>live.
       release_scope_failure request ack execution live command))))))))))))"

section \<open>The whole check\<close>

definition egress_failure_from_state ::
  "Env \<Rightarrow> pydict \<Rightarrow> pyfloat \<Rightarrow> ExecutionCommand option \<Rightarrow> pyerr + string" where
  "egress_failure_from_state e snapshot now command =
     (if dget snapshot ''execution_egress_enabled'' \<noteq> VBool True then Inr ''execution_egress_disabled''
      else
        ebind (as_dict (dget snapshot ''execution_egress_authority'')) (\<lambda>egress.
          if str_or_empty (dget egress ''schema_version'') \<noteq> EXECUTION_EGRESS_SCHEMA
             \<or> dget egress ''enabled'' \<noteq> VBool True
          then Inr ''execution_egress_authority_invalid''
          else if norm_lower (dget egress ''source'') = ''production_runtime''
          then production_runtime_failure e snapshot egress now command
          else witnessed_release_failure e snapshot egress now command))"

text \<open>Under protective management the closed position must belong to a recorded entry.\<close>

definition history_ack_joined :: "CommandRow \<Rightarrow> string \<Rightarrow> string \<Rightarrow> int \<Rightarrow> int \<Rightarrow> string \<Rightarrow> bool" where
  "history_ack_joined row entry_id symbol ticket magic owner =
     (let ack = r_ack_json row; ack_id = norm_text (dget ack ''command_id'') in
      py_lower (py_strip (r_status row)) = ''acked''
      \<and> norm_lower (dget ack ''status'') \<in> {''acked'', ''ok'', ''success'', ''done'', ''executed'', ''filled''}
      \<and> (ack_id = [] \<or> ack_id = entry_id)
      \<and> norm_upper (dget ack ''symbol'') = symbol
      \<and> safe_int (dget ack ''ticket'') 0 = ticket
      \<and> safe_int (dget ack ''magic'') 0 = magic
      \<and> norm_text (dget ack ''owner_token'') = owner)"

definition position_matches :: "string \<Rightarrow> int \<Rightarrow> int \<Rightarrow> string \<Rightarrow> pyval \<Rightarrow> bool" where
  "position_matches symbol ticket magic owner v =
     (case v of
        VDict p \<Rightarrow>
          norm_upper (py_or (dget p ''symbol'') (dget p ''pair'')) = symbol
          \<and> safe_int (dget p ''ticket'') 0 = ticket \<and> safe_int (dget p ''magic'') 0 = magic
          \<and> norm_text (py_or (dget p ''order_comment'') (py_or (dget p ''comment'') (dget p ''owner_token''))) = owner
      | _ \<Rightarrow> False)"

definition snapshot_fresh :: "Env \<Rightarrow> pydict \<Rightarrow> string \<Rightarrow> pyfloat option \<Rightarrow> bool" where
  "snapshot_fresh e st account_scope age =
     (dget st ''positions_snapshot_authoritative'' = VBool True
      \<and> dget st ''positions_snapshot_source'' = VStr ''positions_snapshot''
      \<and> dget st ''positions_snapshot_schema'' = VStr MT4_POSITIONS_SNAPSHOT_SCHEMA
      \<and> dget st ''positions_snapshot_contract_current'' = VBool True
      \<and> norm_text (dget st ''positions_snapshot_token'') \<noteq> []
      \<and> norm_text (dget st ''positions_snapshot_account_scope'') = account_scope
      \<and> (case age of None \<Rightarrow> False | Some a \<Rightarrow> fle a (fmax (Fin 1) (en_stale_heartbeat_secs e))))"

definition history_identity_checks :: "CommandRow \<Rightarrow> pydict \<Rightarrow> ExecutionCommand \<Rightarrow> string \<Rightarrow> string \<Rightarrow> (bool \<times> string) list" where
  "history_identity_checks row st c entry_id symbol =
     (let entry = r_payload_json row; close = ec_payload c; row_cmd = py_upper (py_strip (r_cmd row));
          account = norm_text (dget st ''broker_account_scope''); magic = ec_magic c in
      [(py_strip (r_command_id row) \<noteq> entry_id \<or> norm_text (dget entry ''command_id'') \<noteq> entry_id,
        ''execution_egress_protective_entry_command_id_changed''),
       (row_cmd \<notin> {''BUY'', ''SELL''} \<or> norm_upper (dget entry ''cmd'') \<noteq> row_cmd,
        ''execution_egress_protective_entry_command_invalid''),
       (py_lower (py_strip (r_intent row)) \<noteq> SCALP_ENTRY_INTENT,
        ''execution_egress_protective_entry_intent_invalid''),
       (account = [] \<or> norm_text (dget entry ''expected_account_scope'') \<noteq> account,
        ''execution_egress_protective_account_scope_changed''),
       (py_upper (py_strip (r_symbol row)) \<noteq> symbol \<or> norm_upper (dget entry ''symbol'') \<noteq> symbol
          \<or> norm_upper (dget close ''symbol'') \<noteq> symbol,
        ''execution_egress_protective_symbol_changed''),
       (r_magic row \<noteq> magic \<or> safe_int (dget entry ''magic'') 0 \<noteq> magic,
        ''execution_egress_protective_magic_changed''),
       (norm_text (dget entry ''owner_token'') \<noteq> command_owner_token c,
        ''execution_egress_protective_ticket_owner_changed''),
       (norm_text (dget entry ''ownership_contract'') \<noteq> DTO_TICKET_OWNER_CONTRACT,
        ''execution_egress_protective_entry_ownership_contract_invalid'')])"

definition protective_management_history_failure ::
  "Env \<Rightarrow> Store \<Rightarrow> pydict \<Rightarrow> ExecutionCommand \<Rightarrow> pyfloat \<Rightarrow> pyerr + string" where
  "protective_management_history_failure e s st c now =
     (let close = ec_payload c; entry_id = norm_text (dget close ''managed_entry_command_id'') in
      case find_row entry_id s of
        None \<Rightarrow> Inr ''execution_egress_protective_entry_command_missing''
      | Some row \<Rightarrow>
          let symbol = py_upper (py_strip (if ec_symbol c \<noteq> [] then ec_symbol c else str_or_empty (dget close ''symbol'')));
              identity = first_reason (history_identity_checks row st c entry_id symbol) in
          if identity \<noteq> [] then Inr identity
          else ebind (protective_history_binding_error (en_sha256 e) (r_payload_json row) close symbol) (\<lambda>binding.
            if binding \<noteq> [] then Inr (''execution_egress_protective_'' @ binding)
            else ebind (timestamp_age_secs e (dget st ''positions_snapshot_received_at'') now) (\<lambda>age.
              let ticket = command_target_ticket c; owner = command_owner_token c;
                  fresh = snapshot_fresh e st (norm_text (dget st ''broker_account_scope'')) age in
              ebind (if fresh then as_list (dget st ''positions'') else Inr []) (\<lambda>positions.
                Inr (if \<not> history_ack_joined row entry_id symbol ticket (ec_magic c) owner
                        \<and> length (filter (position_matches symbol ticket (ec_magic c) owner) positions) \<noteq> 1
                     then ''execution_egress_protective_entry_ownership_unconfirmed'' else [])))))"

definition egress_failure :: "Env \<Rightarrow> Store \<Rightarrow> pyfloat \<Rightarrow> ExecutionCommand option \<Rightarrow> pyerr + string" where
  "egress_failure e s now command =
     (let st = state_dict s in
      ebind (egress_failure_from_state e st now command) (\<lambda>failure.
        case command of
          None \<Rightarrow> Inr failure
        | Some c \<Rightarrow>
            if failure \<noteq> [] then Inr failure
            else ebind (as_dict (dget st ''execution_egress_authority'')) (\<lambda>egress.
              if dget egress ''protective_management_only'' = VBool True
              then protective_management_history_failure e s st c now
              else Inr [])))"

section \<open>What a passing check guarantees\<close>

text \<open>The runner that armed egress is the one that is booted, attested, running and cycling.\<close>

definition runner_current :: "Env \<Rightarrow> pydict \<Rightarrow> pyfloat \<Rightarrow> string \<Rightarrow> bool" where
  "runner_current e st now boot =
     (boot \<noteq> []
      \<and> (\<exists>startup. as_dict (dget st ''runtime_startup'') = Inr startup \<and> norm_text (dget startup ''boot_id'') = boot)
      \<and> (\<exists>att. as_dict (dget st ''runtime_attestation'') = Inr att \<and> norm_text (dget att ''runtime_boot_id'') = boot)
      \<and> norm_lower (dget st ''runtime_status'') = ''running''
      \<and> (\<exists>a. timestamp_age_secs e (dget st ''runtime_last_cycle_ts'') now = Inr (Some a) \<and> \<not> flt (Fin 30) a))"

definition granted_scope :: "pydict \<Rightarrow> pyerr + pydict" where
  "granted_scope st =
     ebind (as_dict (dget st ''execution_egress_authority'')) (\<lambda>egress.
       if norm_lower (dget egress ''source'') = ''production_runtime'' then Inr egress
       else ebind (as_dict (dget st ''release_authority'')) (\<lambda>release.
         ebind (as_dict (dget release ''request'')) (\<lambda>request. as_dict (dget request ''authorized_execution''))))"

definition in_scope :: "(string \<Rightarrow> string) \<Rightarrow> pyval \<Rightarrow> string \<Rightarrow> bool" where
  "in_scope f v x = (x \<noteq> [] \<and> (\<exists>xs. scope_items f v = Inr xs \<and> x \<in> set xs))"

lemma runner_lease_ok:
  "runner_lease_failure e st now = Inr [] \<longleftrightarrow>
     norm_lower (dget st ''runtime_status'') = ''running''
     \<and> (\<exists>a. timestamp_age_secs e (dget st ''runtime_last_cycle_ts'') now = Inr (Some a) \<and> \<not> flt (Fin 30) a)"
  by (auto simp: runner_lease_failure_def ebind_Inr_iff EXECUTION_EGRESS_RUNNER_LEASE_SECS_def
      split: option.splits if_splits)

lemma egress_passes:
  assumes "egress_failure e s now command = Inr []"
  shows "egress_failure_from_state e (state_dict s) now command = Inr []"
  using assms
  by (auto simp: egress_failure_def Let_def ebind_Inr_iff split: option.splits if_splits)

lemma from_state_passes:
  assumes "egress_failure_from_state e st now command = Inr []"
  obtains egress where "dget st ''execution_egress_enabled'' = VBool True"
    and "as_dict (dget st ''execution_egress_authority'') = Inr egress"
    and "dget egress ''enabled'' = VBool True"
    and "if norm_lower (dget egress ''source'') = ''production_runtime''
         then production_runtime_failure e st egress now command = Inr []
         else witnessed_release_failure e st egress now command = Inr []"
  using assms by (auto simp: egress_failure_from_state_def elim!: ebindE split: if_splits)

lemma production_runtime_passes:
  assumes "production_runtime_failure e st egress now command = Inr []"
  obtains live where "runner_current e st now (norm_text (dget egress ''runtime_boot_id''))"
    and "production_live_failure egress live command = Inr []"
proof -
  obtain startup att live where
    d: "as_dict (dget st ''runtime_startup'') = Inr startup" "as_dict (dget st ''runtime_attestation'') = Inr att"
    and b: "norm_text (dget egress ''runtime_boot_id'') \<noteq> []"
      "norm_text (dget startup ''boot_id'') = norm_text (dget egress ''runtime_boot_id'')"
      "norm_text (dget att ''runtime_boot_id'') = norm_text (dget egress ''runtime_boot_id'')"
    and l: "runner_lease_failure e st now = Inr []"
    and f: "production_live_failure egress live command = Inr []"
    using assms unfolding production_runtime_failure_def Let_def
    by (elim ebindE) (simp split: if_splits; elim ebindE; simp split: if_splits; elim ebindE; blast)
  show thesis
    by (rule that [OF _ f]) (use b d l in \<open>auto simp: runner_current_def runner_lease_ok\<close>)
qed

lemma binding_mismatch_Nil:
  "release_binding_mismatch egress request ack = [] \<Longrightarrow>
     str_or_empty (dget egress ''runtime_boot_id'') = str_or_empty (dget ack ''runtime_boot_id'')"
  by (simp add: release_binding_mismatch_def split: if_splits)

lemma witnessed_release_passes:
  assumes "witnessed_release_failure e st egress now command = Inr []"
  shows "runner_current e st now (norm_text (dget egress ''runtime_boot_id''))"
    and "\<exists>release request ack execution live. as_dict (dget st ''release_authority'') = Inr release
      \<and> as_dict (dget release ''request'') = Inr request \<and> as_dict (dget request ''authorized_execution'') = Inr execution
      \<and> release_scope_failure request ack execution live command = Inr []"
proof -
  obtain release request ack startup att execution live where
    r: "as_dict (dget st ''release_authority'') = Inr release" "as_dict (dget release ''request'') = Inr request"
      "as_dict (dget request ''authorized_execution'') = Inr execution"
      "release_scope_failure request ack execution live command = Inr []"
    and b: "release_binding_mismatch egress request ack = []" "\<not> release_boot_changed ack startup att"
    and d: "as_dict (dget st ''runtime_startup'') = Inr startup" "as_dict (dget st ''runtime_attestation'') = Inr att"
    and l: "runner_lease_failure e st now = Inr []"
    using assms unfolding witnessed_release_failure_def
    by (elim ebindE) (simp split: if_splits; elim ebindE; simp split: if_splits; elim ebindE; simp split: if_splits;
      elim ebindE; simp split: if_splits; elim ebindE; simp split: if_splits; elim ebindE; blast)
  show "runner_current e st now (norm_text (dget egress ''runtime_boot_id''))"
    using b d l binding_mismatch_Nil [OF b(1)]
    by (auto simp: runner_current_def runner_lease_ok release_boot_changed_def Let_def norm_text_def)
  show "\<exists>release request ack execution live. as_dict (dget st ''release_authority'') = Inr release
      \<and> as_dict (dget release ''request'') = Inr request \<and> as_dict (dget request ''authorized_execution'') = Inr execution
      \<and> release_scope_failure request ack execution live command = Inr []"
    using r by blast
qed

lemma production_live_passes:
  assumes "production_live_failure egress live (Some c) = Inr []"
  obtains pairs sleeves intents where "scope_items py_upper (dget egress ''pair_scope'') = Inr pairs"
    and "scope_items py_lower (dget egress ''sleeve_scope'') = Inr sleeves"
    and "scope_items py_lower (dget egress ''intent_scope'') = Inr intents"
    and "list_all (\<lambda>x. \<not> fst x) (production_command_checks (dget egress ''protective_management_only'' = VBool True)
           (set pairs) (set sleeves) (set intents) c)"
proof -
  have ok: "list_all (\<lambda>x. snd x \<noteq> []) (production_command_checks p ps ss is c)" for p ps ss "is"
    by (simp add: production_command_checks_def protective_only_checks_def Let_def)
  obtain pairs sleeves intents where "scope_items py_upper (dget egress ''pair_scope'') = Inr pairs"
    "scope_items py_lower (dget egress ''sleeve_scope'') = Inr sleeves"
    "scope_items py_lower (dget egress ''intent_scope'') = Inr intents"
    "first_reason (production_command_checks (dget egress ''protective_management_only'' = VBool True)
       (set pairs) (set sleeves) (set intents) c) = []"
    using assms unfolding production_live_failure_def
    by (simp split: if_splits) (elim ebindE; simp split: if_splits; elim ebindE; simp split: if_splits; elim ebindE;
      simp split: if_splits)
  then show thesis using that first_reason_Nil [OF ok] by blast
qed

lemma release_entry_scope:
  assumes "release_scope_failure request ack execution live (Some c) = Inr []"
    and "command_verb c \<in> {''BUY'', ''SELL''}"
  shows "in_scope py_upper (dget execution ''pair_scope'') (command_symbol c)"
    and "in_scope py_lower (dget execution ''sleeve_scope'') (command_sleeve c)"
    and "in_scope py_lower (dget execution ''intent_scope'') ''enter''"
proof -
  obtain pairs sleeves intents where sc: "scope_items py_upper (dget execution ''pair_scope'') = Inr pairs"
    "scope_items py_lower (dget execution ''sleeve_scope'') = Inr sleeves"
    "scope_items py_lower (dget execution ''intent_scope'') = Inr intents"
    and cf: "release_command_failure request ack execution pairs sleeves intents c = Inr []"
    using assms(1) unfolding release_scope_failure_def
    by (elim ebindE) (simp split: if_splits)
  have "command_symbol c \<noteq> []" "command_symbol c \<in> set pairs" "command_sleeve c \<noteq> []"
    "command_sleeve c \<in> set sleeves" "''enter'' \<in> set intents"
    using cf assms(2) unfolding release_command_failure_def Let_def
    by (auto elim!: ebindE split: if_splits)
  with sc show "in_scope py_upper (dget execution ''pair_scope'') (command_symbol c)"
    and "in_scope py_lower (dget execution ''sleeve_scope'') (command_sleeve c)"
    and "in_scope py_lower (dget execution ''intent_scope'') ''enter''"
    by (auto simp: in_scope_def)
qed

lemma production_entry_scope:
  assumes "production_live_failure egress live (Some c) = Inr []"
    and "command_verb c \<in> {''BUY'', ''SELL''}"
  shows "in_scope py_upper (dget egress ''pair_scope'') (command_symbol c)"
    and "in_scope py_lower (dget egress ''sleeve_scope'') (command_sleeve c)"
    and "in_scope py_lower (dget egress ''intent_scope'') ''enter''"
  using assms
  by (auto elim!: production_live_passes simp: in_scope_def production_command_checks_def Let_def
      required_intent_def list_all_append)

text \<open>
  What it means that a broker snapshot shows the position: the snapshot is the authoritative positions feed of this
  account under its current contract, received at most the heartbeat limit (at least one second) ago, and exactly one of
  its positions has the symbol, ticket, magic number and owner token.
\<close>

definition shown_by_fresh_snapshot :: "Env \<Rightarrow> pydict \<Rightarrow> pyfloat \<Rightarrow> string \<Rightarrow> int \<Rightarrow> int \<Rightarrow> string \<Rightarrow> bool" where
  "shown_by_fresh_snapshot e st now symbol ticket magic owner \<longleftrightarrow>
     dget st ''positions_snapshot_authoritative'' = VBool True
     \<and> dget st ''positions_snapshot_source'' = VStr ''positions_snapshot''
     \<and> dget st ''positions_snapshot_schema'' = VStr MT4_POSITIONS_SNAPSHOT_SCHEMA
     \<and> dget st ''positions_snapshot_contract_current'' = VBool True
     \<and> norm_text (dget st ''positions_snapshot_token'') \<noteq> []
     \<and> norm_text (dget st ''positions_snapshot_account_scope'') = norm_text (dget st ''broker_account_scope'')
     \<and> (\<exists>age. timestamp_age_secs e (dget st ''positions_snapshot_received_at'') now = Inr (Some age)
          \<and> fle age (fmax (Fin 1) (en_stale_heartbeat_secs e)))
     \<and> (\<exists>positions. as_list (dget st ''positions'') = Inr positions
          \<and> length (filter (position_matches symbol ticket magic owner) positions) = 1)"

text \<open>The recorded entry that a close under protective management has to name.\<close>

definition owned_entry :: "pydict \<Rightarrow> ExecutionCommand \<Rightarrow> string \<Rightarrow> CommandRow \<Rightarrow> bool" where
  "owned_entry st c symbol row \<longleftrightarrow>
     r_command_id row = norm_text (dget (ec_payload c) ''managed_entry_command_id'')
     \<and> py_upper (py_strip (r_cmd row)) \<in> {''BUY'', ''SELL''}
     \<and> py_lower (py_strip (r_intent row)) = SCALP_ENTRY_INTENT
     \<and> py_upper (py_strip (r_symbol row)) = symbol \<and> norm_upper (dget (ec_payload c) ''symbol'') = symbol
     \<and> r_magic row = ec_magic c
     \<and> norm_text (dget (r_payload_json row) ''owner_token'') = command_owner_token c
     \<and> norm_text (dget (r_payload_json row) ''expected_account_scope'') = norm_text (dget st ''broker_account_scope'')"

text \<open>What it means that the entry's own acknowledgement names the position.\<close>

definition acked_as_position :: "CommandRow \<Rightarrow> string \<Rightarrow> int \<Rightarrow> int \<Rightarrow> string \<Rightarrow> bool" where
  "acked_as_position row symbol ticket magic owner \<longleftrightarrow>
     py_lower (py_strip (r_status row)) = ''acked''
     \<and> norm_lower (dget (r_ack_json row) ''status'') \<in> {''acked'', ''ok'', ''success'', ''done'', ''executed'', ''filled''}
     \<and> norm_text (dget (r_ack_json row) ''command_id'') \<in> {[], r_command_id row}
     \<and> norm_upper (dget (r_ack_json row) ''symbol'') = symbol
     \<and> safe_int (dget (r_ack_json row) ''ticket'') 0 = ticket \<and> safe_int (dget (r_ack_json row) ''magic'') 0 = magic
     \<and> norm_text (dget (r_ack_json row) ''owner_token'') = owner"

lemma history_owned:
  assumes "protective_management_history_failure e s st c now = Inr []"
  shows "\<exists>row \<in> set (s_commands s). \<exists>symbol. owned_entry st c symbol row
    \<and> (acked_as_position row symbol (command_target_ticket c) (ec_magic c) (command_owner_token c)
       \<or> shown_by_fresh_snapshot e st now symbol (command_target_ticket c) (ec_magic c) (command_owner_token c))"
proof -
  define entry_id where "entry_id = norm_text (dget (ec_payload c) ''managed_entry_command_id'')"
  define symbol where "symbol = py_upper (py_strip (if ec_symbol c \<noteq> [] then ec_symbol c
    else str_or_empty (dget (ec_payload c) ''symbol'')))"
  note eq = protective_management_history_failure_def Let_def entry_id_def [symmetric] symbol_def [symmetric]
  obtain row where row: "find_row entry_id s = Some row"
    using assms unfolding eq by (auto split: option.splits)
  have nn: "list_all (\<lambda>x. snd x \<noteq> []) (history_identity_checks row st c entry_id symbol)"
    by (simp add: history_identity_checks_def Let_def)
  have "first_reason (history_identity_checks row st c entry_id symbol) = []"
    using assms unfolding eq row option.case by (auto split: if_splits)
  then have id: "list_all (\<lambda>x. \<not> fst x) (history_identity_checks row st c entry_id symbol)"
    using first_reason_Nil [OF nn] by simp
  have r: "row \<in> set (s_commands s)" "r_command_id row = entry_id" using find_row_Some [OF row] by auto
  obtain age positions where age: "timestamp_age_secs e (dget st ''positions_snapshot_received_at'') now = Inr age"
    and p: "(if snapshot_fresh e st (norm_text (dget st ''broker_account_scope'')) age
        then as_list (dget st ''positions'') else Inr []) = Inr positions"
    and j: "history_ack_joined row entry_id symbol (command_target_ticket c) (ec_magic c) (command_owner_token c)
        \<or> length (filter (position_matches symbol (command_target_ticket c) (ec_magic c) (command_owner_token c)) positions) = 1"
    using assms unfolding eq row option.case by (auto elim!: ebindE simp: split: if_splits)
  have "acked_as_position row symbol (command_target_ticket c) (ec_magic c) (command_owner_token c)
       \<or> shown_by_fresh_snapshot e st now symbol (command_target_ticket c) (ec_magic c) (command_owner_token c)"
    using j
  proof
    assume "history_ack_joined row entry_id symbol (command_target_ticket c) (ec_magic c) (command_owner_token c)"
    then show ?thesis unfolding history_ack_joined_def acked_as_position_def Let_def r(2) by blast
  next
    assume one: "length (filter (position_matches symbol (command_target_ticket c) (ec_magic c) (command_owner_token c)) positions) = 1"
    have fresh: "snapshot_fresh e st (norm_text (dget st ''broker_account_scope'')) age"
      by (rule ccontr) (use p one in simp)
    then show ?thesis using p one age by (auto simp: shown_by_fresh_snapshot_def snapshot_fresh_def split: option.splits)
  qed
  moreover have "owned_entry st c symbol row"
    unfolding owned_entry_def entry_id_def [symmetric] using r id by (simp add: history_identity_checks_def Let_def)
  ultimately show ?thesis using r(1) by blast
qed

text \<open>The converse for a close of a recorded entry: what the history check needs.\<close>

definition columns_agree :: "CommandRow \<Rightarrow> bool" where
  "columns_agree row \<longleftrightarrow>
     (let entry = r_payload_json row in
      py_strip (r_command_id row) = r_command_id row \<and> norm_text (dget entry ''command_id'') = r_command_id row
      \<and> norm_upper (dget entry ''cmd'') = py_upper (py_strip (r_cmd row))
      \<and> norm_upper (dget entry ''symbol'') = py_upper (py_strip (r_symbol row))
      \<and> safe_int (dget entry ''magic'') 0 = r_magic row
      \<and> norm_text (dget entry ''ownership_contract'') = DTO_TICKET_OWNER_CONTRACT)"

definition snapshot_readable :: "Env \<Rightarrow> pydict \<Rightarrow> pyfloat \<Rightarrow> bool" where
  "snapshot_readable e st now \<longleftrightarrow>
     \<not> isl (timestamp_age_secs e (dget st ''positions_snapshot_received_at'') now) \<and> \<not> isl (as_list (dget st ''positions''))"

lemma history_accepts:
  assumes "IG_MT4_SCALP_CATALOG symbol \<noteq> None" and "find_row (r_command_id row) s = Some row"
    and "snapshot_readable e st now" and "norm_text (dget st ''broker_account_scope'') \<noteq> []"
    and "columns_agree row" and "owned_entry st c symbol row" and "ec_symbol c = symbol"
    and "protective_history_binding_error (en_sha256 e) (r_payload_json row) (ec_payload c) symbol = Inr []"
    and "acked_as_position row symbol (command_target_ticket c) (ec_magic c) (command_owner_token c)
       \<or> shown_by_fresh_snapshot e st now symbol (command_target_ticket c) (ec_magic c) (command_owner_token c)"
  shows "protective_management_history_failure e s st c now = Inr []"
proof -
  let ?id = "r_command_id row"
  have id: "norm_text (dget (ec_payload c) ''managed_entry_command_id'') = ?id"
    and owned: "owned_entry st c symbol row" using assms(6) by (simp_all add: owned_entry_def)
  have sym: "symbol \<noteq> []" "py_upper (py_strip symbol) = symbol"
    using catalog_symbol_normal [OF assms(1)] by auto
  have nn: "list_all (\<lambda>x. snd x \<noteq> []) (history_identity_checks row st c ?id symbol)"
    by (simp add: history_identity_checks_def Let_def)
  have chk: "first_reason (history_identity_checks row st c ?id symbol) = []"
    unfolding first_reason_Nil [OF nn] using assms(4,5) owned
    by (simp add: history_identity_checks_def owned_entry_def columns_agree_def Let_def)
  obtain age positions where r: "timestamp_age_secs e (dget st ''positions_snapshot_received_at'') now = Inr age"
    "as_list (dget st ''positions'') = Inr positions"
    using assms(3) unfolding snapshot_readable_def by (metis isl_def sum.exhaust)
  have "history_ack_joined row ?id symbol (command_target_ticket c) (ec_magic c) (command_owner_token c)
      \<or> snapshot_fresh e st (norm_text (dget st ''broker_account_scope'')) age
        \<and> length (filter (position_matches symbol (command_target_ticket c) (ec_magic c) (command_owner_token c)) positions) = 1"
    using assms(9)
  proof
    assume "acked_as_position row symbol (command_target_ticket c) (ec_magic c) (command_owner_token c)"
    then show ?thesis unfolding history_ack_joined_def acked_as_position_def Let_def by blast
  next
    assume "shown_by_fresh_snapshot e st now symbol (command_target_ticket c) (ec_magic c) (command_owner_token c)"
    then show ?thesis using r by (auto simp: shown_by_fresh_snapshot_def snapshot_fresh_def)
  qed
  then show ?thesis
    unfolding protective_management_history_failure_def Let_def id assms(2,7) option.case
    using chk assms(8) r sym by auto
qed

lemma history_passes:
  assumes "protective_management_history_failure e s (state_dict s) c now = Inr []"
  shows "egress_failure e s now (Some c) = egress_failure_from_state e (state_dict s) now (Some c)"
proof (cases "egress_failure_from_state e (state_dict s) now (Some c)")
  case (Inr failure)
  show ?thesis
  proof (cases "failure = []")
    case True
    then obtain egress where "as_dict (dget (state_dict s) ''execution_egress_authority'') = Inr egress"
      using Inr from_state_passes by metis
    then show ?thesis using assms Inr True by (simp add: egress_failure_def Let_def)
  qed (simp add: egress_failure_def Let_def Inr)
qed (simp add: egress_failure_def Let_def)

section \<open>Properties\<close>

text \<open>
  C39. Broker egress dies with the runner that armed it: whenever the check passes, for the queue as a
  whole or for a command, egress is explicitly enabled under an enabled authority, and the runner named
  there is the booted and attested one, is running, and finished a cycle at most 30 seconds ago.
\<close>

theorem egress_bound_to_live_runner:
  assumes "egress_failure e s now command = Inr []"
  shows "dget (state_dict s) ''execution_egress_enabled'' = VBool True
    \<and> (\<exists>egress. as_dict (dget (state_dict s) ''execution_egress_authority'') = Inr egress
         \<and> dget egress ''enabled'' = VBool True
         \<and> runner_current e (state_dict s) now (norm_text (dget egress ''runtime_boot_id'')))"
proof -
  obtain egress where en: "dget (state_dict s) ''execution_egress_enabled'' = VBool True"
      "as_dict (dget (state_dict s) ''execution_egress_authority'') = Inr egress" "dget egress ''enabled'' = VBool True"
    and f: "if norm_lower (dget egress ''source'') = ''production_runtime''
         then production_runtime_failure e (state_dict s) egress now command = Inr []
         else witnessed_release_failure e (state_dict s) egress now command = Inr []"
    using egress_passes [OF assms] by (rule from_state_passes)
  have "runner_current e (state_dict s) now (norm_text (dget egress ''runtime_boot_id''))"
    using f by (auto split: if_splits elim: production_runtime_passes intro: witnessed_release_passes(1))
  with en show ?thesis by blast
qed

text \<open>
  An entry that passes the egress check is inside the granted scope: its symbol, its sleeve and the
  intent to enter are all listed in the authority that armed egress, the production runtime's own
  record or the execution contract of the signed release.
\<close>

theorem entry_inside_granted_scope:
  assumes "egress_failure e s now (Some c) = Inr []" and "command_verb c \<in> {''BUY'', ''SELL''}"
  shows "\<exists>g. granted_scope (state_dict s) = Inr g
    \<and> in_scope py_upper (dget g ''pair_scope'') (command_symbol c)
    \<and> in_scope py_lower (dget g ''sleeve_scope'') (command_sleeve c)
    \<and> in_scope py_lower (dget g ''intent_scope'') ''enter''"
proof -
  obtain egress where en: "as_dict (dget (state_dict s) ''execution_egress_authority'') = Inr egress"
    and f: "if norm_lower (dget egress ''source'') = ''production_runtime''
         then production_runtime_failure e (state_dict s) egress now (Some c) = Inr []
         else witnessed_release_failure e (state_dict s) egress now (Some c) = Inr []"
    using egress_passes [OF assms(1)] by (rule from_state_passes)
  show ?thesis
  proof (cases "norm_lower (dget egress ''source'') = ''production_runtime''")
    case True
    with f obtain live where "production_live_failure egress live (Some c) = Inr []"
      by (auto elim: production_runtime_passes)
    from production_entry_scope [OF this assms(2)] True show ?thesis
      by (intro exI [of _ egress]) (simp add: granted_scope_def en)
  next
    case False
    with f have "witnessed_release_failure e (state_dict s) egress now (Some c) = Inr []" by simp
    from witnessed_release_passes(2) [OF this] obtain release request ack execution live where
      r: "as_dict (dget (state_dict s) ''release_authority'') = Inr release"
        "as_dict (dget release ''request'') = Inr request" "as_dict (dget request ''authorized_execution'') = Inr execution"
      and sc: "release_scope_failure request ack execution live (Some c) = Inr []" by blast
    from release_entry_scope [OF sc assms(2)] False r show ?thesis
      by (intro exI [of _ execution]) (simp add: granted_scope_def en)
  qed
qed

text \<open>
  C40. Under protective management nothing but the handling of an owned position reaches the broker: a command that
  passes, whichever source armed egress, names a recorded BUY or SELL of the scalp strategy with the same symbol, magic
  number and owner token on the same account, and that entry is confirmed by its own successful acknowledgement for the
  same ticket or by exactly one position of a fresh authoritative broker snapshot of the account (received no longer ago
  than the heartbeat limit). Where the production runtime armed egress the command is moreover a CLOSE of a positive
  ticket.
\<close>

theorem protective_management_closes_own_position:
  assumes "egress_failure e s now (Some c) = Inr []"
    and "as_dict (dget (state_dict s) ''execution_egress_authority'') = Inr egress"
    and "dget egress ''protective_management_only'' = VBool True"
  shows "(norm_lower (dget egress ''source'') = ''production_runtime'' \<longrightarrow>
        command_verb c = ''CLOSE'' \<and> 0 < command_target_ticket c)
    \<and> (\<exists>row \<in> set (s_commands s). \<exists>symbol. owned_entry (state_dict s) c symbol row
         \<and> (acked_as_position row symbol (command_target_ticket c) (ec_magic c) (command_owner_token c)
            \<or> shown_by_fresh_snapshot e (state_dict s) now symbol (command_target_ticket c) (ec_magic c)
                (command_owner_token c)))"
proof -
  have "command_verb c = ''CLOSE'' \<and> 0 < command_target_ticket c"
    if src: "norm_lower (dget egress ''source'') = ''production_runtime''"
  proof -
    have prod: "production_runtime_failure e (state_dict s) egress now (Some c) = Inr []"
      using egress_passes [OF assms(1)] assms(2) src by (auto elim!: from_state_passes)
    then obtain live where live: "production_live_failure egress live (Some c) = Inr []"
      by (rule production_runtime_passes)
    then show ?thesis
      using assms(3)
      by (auto elim!: production_live_passes simp: production_command_checks_def protective_only_checks_def Let_def
          list_all_append)
  qed
  moreover have "protective_management_history_failure e s (state_dict s) c now = Inr []"
    using assms by (auto simp: egress_failure_def Let_def ebind_Inr_iff split: if_splits)
  ultimately show ?thesis using history_owned by blast
qed

text \<open>
  C17. Protective recovery: closing an owned position does not depend on the authority that opened it. Take the row of
  an entry that was stamped with a built scalp authority. The identity fields of the stamp can be recovered from the row
  alone. Take, in any state and at any time, a close of its position that carries these fields, names the entry and its
  strategy, and agrees with it on symbol, magic number, owner token and account, where the entry is acknowledged for
  the ticket of the close or a fresh snapshot shows the position. Whatever is stored as scalp authority by then (revoked,
  expired, replaced or gone), the check of the protective history does not refuse the close: the egress check answers
  exactly as the general check of the runner, the scope and the target does. Assumed of the state: its account scope is
  set, and the reception time and the list of positions of its snapshot can be read; of the row: its columns agree with
  its payload; of the digest: it is a lower-case hexadecimal text of 64 characters.
\<close>

theorem protective_close_outlives_authority:
  assumes "\<And>x. hex_digest (en_sha256 e x)" and "build_active_authority (en_sha256 e) x t = Inr a"
    and "stamped (en_sha256 e) a (r_payload_json row)" and "IG_MT4_SCALP_CATALOG symbol \<noteq> None"
  shows "\<exists>fs. protective_command_binding_fields (en_sha256 e) (r_payload_json row) = Inr fs
    \<and> (\<forall>s now c. find_row (r_command_id row) s = Some row \<and> snapshot_readable e (state_dict s) now
         \<and> norm_text (dget (state_dict s) ''broker_account_scope'') \<noteq> []
         \<and> columns_agree row \<and> owned_entry (state_dict s) c symbol row \<and> ec_symbol c = symbol
         \<and> list_all (\<lambda>(k, v). dget (ec_payload c) k = v) fs
         \<and> dget (ec_payload c) ''management_strategy'' = dget (r_payload_json row) ''expected_strategy_id''
         \<and> (acked_as_position row symbol (command_target_ticket c) (ec_magic c) (command_owner_token c)
            \<or> shown_by_fresh_snapshot e (state_dict s) now symbol (command_target_ticket c) (ec_magic c)
                (command_owner_token c))
         \<longrightarrow> egress_failure e s now (Some c) = egress_failure_from_state e (state_dict s) now (Some c))"
proof -
  obtain fs where fs: "protective_command_binding_fields (en_sha256 e) (r_payload_json row) = Inr fs"
    and bind: "\<And>close. list_all (\<lambda>(k, v). dget close k = v) fs
          \<and> dget close ''management_strategy'' = dget (r_payload_json row) ''expected_strategy_id'' \<Longrightarrow>
          protective_history_binding_error (en_sha256 e) (r_payload_json row) close symbol = Inr []"
    using history_fields_bind [OF assms] by blast
  show ?thesis
    by (intro exI conjI allI impI, rule fs, rule history_passes, rule history_accepts [OF assms(4)]) (use bind in blast)+
qed

section \<open>Witnesses\<close>

definition demo_scope :: "string list \<Rightarrow> string \<Rightarrow> string \<Rightarrow> pydict" where
  "demo_scope pairs sleeve intent =
     [(''execution_egress_enabled'', VBool True),
      (''execution_egress_authority'', VDict (production_egress ''boot-1'' 3 pairs [sleeve] [intent] (Fin 900))),
      (''runtime_startup'', VDict [(''boot_id'', VStr ''boot-1'')]),
      (''runtime_attestation'', VDict [(''runtime_boot_id'', VStr ''boot-1'')]),
      (''runtime_status'', VStr ''running''), (''runtime_last_cycle_ts'', VFloat (Fin 990)),
      (''broker_account_scope'', VStr ''acct''),
      (''runtime_diag'', VDict [(''orchestration_live'', VDict
         [(''enabled'', VBool True), (''mode'', VStr ''live''), (''runtime_enabled'', VBool True),
          (''authority_revision'', VInt 3), (''active_pair_scope'', VList (map VStr pairs)),
          (''active_sleeve_scope'', VList [VStr sleeve]), (''active_intent_scope'', VList [VStr intent])])])]"

definition plain_command :: "string \<Rightarrow> string \<Rightarrow> string \<Rightarrow> pydict \<Rightarrow> ExecutionCommand" where
  "plain_command cid cmd symbol payload =
     \<lparr>ec_command_id = cid, ec_session_id = ''s1'', ec_proto = ''v2'', ec_cmd = cmd, ec_symbol = symbol,
      ec_lots = Fin 1, ec_tp_cash = None, ec_tp_price = None, ec_sl_price = None, ec_close_lots = Fin 0,
      ec_magic = 77, ec_target_ticket = - 1, ec_owner_token = [], ec_ownership_contract = [],
      ec_intent = ''X'', ec_trace_id = [], ec_correlation_id = [], ec_thread_id = [],
      ec_idempotency_key = [], ec_schema_version = [], ec_orchestration_meta_json = [], ec_action = [],
      ec_action_score = Fin 0, ec_reversal_token = [], ec_status = ''queued'', ec_created_at = Fin 900,
      ec_updated_at = Fin 900, ec_expires_at = Fin 2000, ec_delivered_count = 0, ec_payload = payload\<rparr>"

definition demo_buy :: ExecutionCommand where
  "demo_buy = plain_command ''c1'' ''BUY'' ''EURUSD'' [(''sleeve'', VStr ''scalp'')]"

definition entry_store :: Store where
  "entry_store = empty_store\<lparr>s_state := Some (demo_scope [''EURUSD''] ''scalp'' ''enter'')\<rparr>"

lemma demo_buy_passes: "egress_failure demo_env entry_store (Fin 1000) (Some demo_buy) = Inr []"
  by code_simp

theorem egress_bound_to_live_runner_witness:
  "dget (state_dict entry_store) ''execution_egress_enabled'' = VBool True"
  using egress_bound_to_live_runner [OF demo_buy_passes] by blast

theorem entry_inside_granted_scope_witness:
  "\<exists>g. granted_scope (state_dict entry_store) = Inr g \<and> in_scope py_upper (dget g ''pair_scope'') ''EURUSD''"
proof -
  have "command_verb demo_buy \<in> {''BUY'', ''SELL''}" "command_symbol demo_buy = ''EURUSD''" by code_simp+
  with entry_inside_granted_scope [OF demo_buy_passes] show ?thesis by auto
qed

definition demo_close_command :: ExecutionCommand where
  "demo_close_command = plain_command ''c2'' ''CLOSE'' ''EURUSD''
     (stamped_entry
      @ [(''symbol'', VStr ''EURUSD''), (''target_ticket'', VInt 41), (''owner_token'', VStr ''tok''),
         (''ownership_contract'', VStr DTO_TICKET_OWNER_CONTRACT), (''managed_entry_command_id'', VStr ''c1''),
         (''management_strategy'', VStr MTVCLC_STRATEGY_ID)])"

definition acked_entry_row :: CommandRow where
  "acked_entry_row =
     \<lparr>r_command_id = ''c1'', r_session_id = ''s1'', r_proto = ''v2'', r_cmd = ''BUY'', r_symbol = ''EURUSD'',
      r_lots = Fin 1, r_tp_cash = None, r_tp_price = None, r_sl_price = None, r_magic = 77,
      r_intent = ''production_scalper_entry'', r_trace_id = [], r_correlation_id = [], r_thread_id = [],
      r_idempotency_key = [], r_schema_version = [], r_orchestration_meta_json = [], r_status = ''acked'',
      r_created_at = Fin 900, r_updated_at = Fin 910, r_expires_at = Fin 2000, r_delivered_count = 1,
      r_reason = [],
      r_payload_json = stamped_entry @ [(''command_id'', VStr ''c1''), (''cmd'', VStr ''BUY''), (''symbol'', VStr ''EURUSD''),
        (''magic'', VInt 77), (''owner_token'', VStr ''tok''), (''expected_account_scope'', VStr ''acct''),
        (''ownership_contract'', VStr DTO_TICKET_OWNER_CONTRACT)],
      r_ack_json = [(''status'', VStr ''acked''), (''command_id'', VStr ''c1''), (''symbol'', VStr ''EURUSD''),
        (''ticket'', VInt 41), (''magic'', VInt 77), (''owner_token'', VStr ''tok'')],
      r_ack_policy_scope = None, r_ack_attestation_schema = None, r_ack_terminal_safe = True,
      r_ack_ticket = Some 41, r_ack_mutation_state = None\<rparr>"

definition protective_store :: Store where
  "protective_store = empty_store\<lparr>s_commands := [acked_entry_row],
     s_state := Some (demo_scope IG_MT4_SCALP_SYMBOLS ''scalp'' ''exit'')\<rparr>"

lemma dget_append: "dget (a @ b) k = (if dhas a k then dget a k else dget b k)"
  by (auto simp: dget_def dhas_def split: option.splits)

lemma stamped_entry_keys:
  "(c, f) \<in> set COMMAND_BINDING_FIELDS_V3 \<Longrightarrow> dhas stamped_entry c"
  "dhas stamped_entry ''strategy_lane''" "dhas stamped_entry ''intent''" "dhas stamped_entry ''expected_strategy_id''"
  by (auto simp: COMMAND_BINDING_FIELDS_V3_def stamped_entry_def)

lemma stamped_extension: "stamped demo_digest demo_authority (stamped_entry @ rest)"
proof -
  have "dget (stamped_entry @ rest) c = dget stamped_entry c" if "dhas stamped_entry c" for c
    using that by (simp add: dget_append)
  then show ?thesis using demo_stamped stamped_entry_keys unfolding stamped_iff by (auto simp: list_all_iff)
qed

lemma demo_close_history:
  "protective_history_binding_error demo_digest (r_payload_json acked_entry_row) (ec_payload demo_close_command) ''EURUSD'' = Inr []"
proof -
  have e: "\<exists>rest. r_payload_json acked_entry_row = stamped_entry @ rest" by (simp add: acked_entry_row_def)
  have c: "ec_payload demo_close_command = stamped_entry @ [(''symbol'', VStr ''EURUSD''), (''target_ticket'', VInt 41),
      (''owner_token'', VStr ''tok''), (''ownership_contract'', VStr DTO_TICKET_OWNER_CONTRACT),
      (''managed_entry_command_id'', VStr ''c1''), (''management_strategy'', VStr MTVCLC_STRATEGY_ID)]"
    by (simp add: demo_close_command_def plain_command_def)
  have m: "dget stamped_entry ''expected_strategy_id'' = VStr MTVCLC_STRATEGY_ID" "\<not> dhas stamped_entry ''management_strategy''"
    by code_simp+
  from e obtain rest where rest: "r_payload_json acked_entry_row = stamped_entry @ rest" by blast
  show ?thesis
    unfolding rest c
  proof (rule protective_history_accepts [OF demo_digest_hex demo_valid demo_binding stamped_extension [unfolded demo_authority_def] demo_pair])
    show "list_all (\<lambda>(k, f). dget (stamped_entry @ xs) k = dget (stamped_entry @ rest) k) COMMAND_BINDING_FIELDS_V3" for xs
      using stamped_entry_keys(1) by (auto simp: list_all_iff dget_append)
    show "dget (stamped_entry @ [(''symbol'', VStr ''EURUSD''), (''target_ticket'', VInt 41),
      (''owner_token'', VStr ''tok''), (''ownership_contract'', VStr DTO_TICKET_OWNER_CONTRACT),
      (''managed_entry_command_id'', VStr ''c1''), (''management_strategy'', VStr MTVCLC_STRATEGY_ID)]) ''management_strategy''
      = dget (stamped_entry @ rest) ''expected_strategy_id''"
      using m stamped_entry_keys(4) by (simp add: dget_append)
  qed
qed

lemma demo_close_passes: "egress_failure demo_env protective_store (Fin 1000) (Some demo_close_command) = Inr []"
proof -
  have whole: "egress_failure_from_state demo_env (state_dict protective_store) (Fin 1000) (Some demo_close_command) = Inr []"
    by code_simp
  have "protective_management_history_failure demo_env protective_store (state_dict protective_store) demo_close_command (Fin 1000) = Inr []"
  proof -
    have id: "norm_text (dget (ec_payload demo_close_command) ''managed_entry_command_id'') = ''c1''"
      "ec_symbol demo_close_command = ''EURUSD''" by code_simp+
    have row: "find_row ''c1'' protective_store = Some acked_entry_row" by (simp add: find_row_def protective_store_def acked_entry_row_def)
    have chk: "first_reason (history_identity_checks acked_entry_row (state_dict protective_store) demo_close_command ''c1'' ''EURUSD'') = []"
      by code_simp
    have age: "timestamp_age_secs demo_env (dget (state_dict protective_store) ''positions_snapshot_received_at'') (Fin 1000) = Inr None"
      by code_simp
    have joined: "history_ack_joined acked_entry_row ''c1'' ''EURUSD'' (command_target_ticket demo_close_command)
        (ec_magic demo_close_command) (command_owner_token demo_close_command)"
    proof -
      have ack: "r_ack_json acked_entry_row = [(''status'', VStr ''acked''), (''command_id'', VStr ''c1''), (''symbol'', VStr ''EURUSD''),
          (''ticket'', VInt 41), (''magic'', VInt 77), (''owner_token'', VStr ''tok'')]" "r_status acked_entry_row = ''acked''"
        by (simp_all add: acked_entry_row_def)
      have cmd: "command_target_ticket demo_close_command = 41" "ec_magic demo_close_command = 77" "command_owner_token demo_close_command = ''tok''"
        by code_simp+
      show ?thesis unfolding history_ack_joined_def Let_def ack cmd by code_simp
    qed
    have up: "py_upper (py_strip ''EURUSD'') = ''EURUSD''" by code_simp
    have sha: "en_sha256 demo_env = demo_digest" by (simp add: demo_env_def)
    show ?thesis
      unfolding protective_management_history_failure_def Let_def id row option.case
      using chk age joined demo_close_history up by (simp add: sha snapshot_fresh_def)
  qed
  moreover have "dget (state_dict protective_store) ''execution_egress_authority''
      = VDict (production_egress ''boot-1'' 3 IG_MT4_SCALP_SYMBOLS [''scalp''] [''exit''] (Fin 900))"
    by (simp add: protective_store_def state_dict_def demo_scope_def)
  ultimately show ?thesis
    unfolding egress_failure_def Let_def whole by simp
qed

theorem protective_management_closes_own_position_witness:
  "command_verb demo_close_command = ''CLOSE'' \<and> 0 < command_target_ticket demo_close_command"
proof -
  let ?eg = "production_egress ''boot-1'' 3 IG_MT4_SCALP_SYMBOLS [''scalp''] [''exit''] (Fin 900)"
  have "as_dict (dget (state_dict protective_store) ''execution_egress_authority'') = Inr ?eg"
    "dget ?eg ''protective_management_only'' = VBool True" "norm_lower (dget ?eg ''source'') = ''production_runtime''"
    by code_simp+
  with protective_management_closes_own_position [OF demo_close_passes this(1,2)] show ?thesis by blast
qed

theorem protective_close_outlives_authority_witness:
  "egress_failure demo_env protective_store (Fin 1000) (Some demo_close_command)
     = egress_failure_from_state demo_env (state_dict protective_store) (Fin 1000) (Some demo_close_command)"
proof -
  have sha: "en_sha256 demo_env = demo_digest" by (simp add: demo_env_def)
  have p: "r_payload_json acked_entry_row = stamped_entry @ [(''command_id'', VStr ''c1''), (''cmd'', VStr ''BUY''),
      (''symbol'', VStr ''EURUSD''), (''magic'', VInt 77), (''owner_token'', VStr ''tok''),
      (''expected_account_scope'', VStr ''acct''), (''ownership_contract'', VStr DTO_TICKET_OWNER_CONTRACT)]"
    by (simp add: acked_entry_row_def)
  have st: "stamped (en_sha256 demo_env) demo_authority (r_payload_json acked_entry_row)"
    unfolding sha p by (rule stamped_extension)
  have row: "find_row (r_command_id acked_entry_row) protective_store = Some acked_entry_row"
    by (simp add: find_row_def protective_store_def acked_entry_row_def)
  have facts: "snapshot_readable demo_env (state_dict protective_store) (Fin 1000)"
    "norm_text (dget (state_dict protective_store) ''broker_account_scope'') \<noteq> []"
    "columns_agree acked_entry_row" "owned_entry (state_dict protective_store) demo_close_command ''EURUSD'' acked_entry_row"
    "ec_symbol demo_close_command = ''EURUSD''"
    "dget (ec_payload demo_close_command) ''management_strategy'' = dget (r_payload_json acked_entry_row) ''expected_strategy_id''"
    "acked_as_position acked_entry_row ''EURUSD'' (command_target_ticket demo_close_command) (ec_magic demo_close_command)
       (command_owner_token demo_close_command)"
    by code_simp+
  have fields: "protective_command_binding_fields demo_digest (r_payload_json acked_entry_row)
     = Inr (map (\<lambda>(k, f). (k, dget (r_payload_json acked_entry_row) k)) COMMAND_BINDING_FIELDS_V3)"
    unfolding p by (rule history_fields_recovered [OF demo_digest_hex demo_built stamped_extension])
  have carried: "dget (ec_payload demo_close_command) k = dget (r_payload_json acked_entry_row) k"
    if "(k, f) \<in> set COMMAND_BINDING_FIELDS_V3" for k f
    unfolding p using stamped_entry_keys(1) [OF that] by (simp add: demo_close_command_def plain_command_def dget_append)
  have "list_all (\<lambda>(k, v). dget (ec_payload demo_close_command) k = v)
     (map (\<lambda>(k, f). (k, dget (r_payload_json acked_entry_row) k)) COMMAND_BINDING_FIELDS_V3)"
    using carried by (auto simp: list_all_iff)
  with protective_close_outlives_authority [of demo_env, unfolded sha, OF demo_digest_hex demo_built st [unfolded sha] demo_pair]
    row facts fields show ?thesis by (simp only: sum.inject) blast
qed

end
