(* ===== verification/Queue_Rules.thy ===== *)
theory Queue_Rules
  imports Egress
begin

text \<open>
  The pure decisions of the command queue in \<open>runtime/postgres_store.py\<close>: which rows are retired
  scalp entries, which retry may revive an expired exit, what an acknowledgement means for a row in
  its current status, and how far an unresolved broker outcome blocks new entries. The immediate-entry
  contract of \<open>runtime/scalp_execution_boundary.py\<close> that enqueue repeats under the queue lock is here too.
\<close>

section \<open>Constants\<close>

definition DISABLED_SCALP_ENTRY_REASON :: string where
  "DISABLED_SCALP_ENTRY_REASON = ''execution_egress_scalp_live_ingress_disabled_unvalidated_authority''"

definition EXPOSURE_REDUCING_MANAGEMENT_COMMANDS :: "string list" where
  "EXPOSURE_REDUCING_MANAGEMENT_COMMANDS = [''CLOSE'', ''CLOSE_ALL'', ''CLOSE_PARTIAL'']"

definition entry_verbs :: "string list" where
  "entry_verbs = [''BUY'', ''SELL'']"

definition terminal_statuses :: "string list" where
  "terminal_statuses = [''acked'', ''failed'', ''duplicate'']"

definition trusted_scopes :: "string list" where
  "trusted_scopes = [''production_mt4_exact'', ''paper_simulation'']"

abbreviation norm_verb :: "string \<Rightarrow> string" where
  "norm_verb s \<equiv> py_upper (py_strip s)"

abbreviation norm_status :: "string \<Rightarrow> string" where
  "norm_status s \<equiv> py_lower (py_strip s)"

fun items_of :: "pyval \<Rightarrow> pyval list" where
  "items_of (VList xs) = xs"
| "items_of _ = []"

section \<open>Rows and commands\<close>

definition preserve_queued_exposure_reducing_command :: "CommandRow \<Rightarrow> bool \<Rightarrow> bool" where
  "preserve_queued_exposure_reducing_command r enabled =
     (enabled \<and> norm_status (r_status r) = ''queued''
      \<and> norm_verb (r_cmd r) \<in> set EXPOSURE_REDUCING_MANAGEMENT_COMMANDS)"

definition opt_feq :: "pyfloat option \<Rightarrow> pyfloat option \<Rightarrow> bool" where
  "opt_feq x y = (case (x, y) of (None, None) \<Rightarrow> True | (Some a, Some b) \<Rightarrow> feq a b | _ \<Rightarrow> False)"

definition is_exact_expired_exposure_reducing_retry :: "CommandRow \<Rightarrow> ExecutionCommand \<Rightarrow> bool" where
  "is_exact_expired_exposure_reducing_retry r c =
     (norm_verb (ec_cmd c) \<in> set EXPOSURE_REDUCING_MANAGEMENT_COMMANDS
      \<and> norm_status (r_status r) = ''expired'' \<and> r_delivered_count r = 0
      \<and> r_session_id r = ec_session_id c \<and> r_proto r = ec_proto c \<and> r_cmd r = ec_cmd c
      \<and> r_symbol r = ec_symbol c \<and> feq (r_lots r) (ec_lots c)
      \<and> opt_feq (r_tp_cash r) (ec_tp_cash c) \<and> opt_feq (r_tp_price r) (ec_tp_price c)
      \<and> opt_feq (r_sl_price r) (ec_sl_price c) \<and> r_magic r = ec_magic c
      \<and> r_intent r = ec_intent c \<and> r_trace_id r = ec_trace_id c
      \<and> r_correlation_id r = ec_correlation_id c \<and> r_thread_id r = ec_thread_id c
      \<and> r_idempotency_key r = ec_idempotency_key c \<and> r_schema_version r = ec_schema_version c
      \<and> py_eq (VDict (r_orchestration_meta_json r)) (VDict (ec_orchestration_meta_json c))
      \<and> py_eq (VDict (r_payload_json r)) (VDict (ec_payload c)))"

definition is_identifiable_scalp_entry :: "string \<Rightarrow> string \<Rightarrow> string \<Rightarrow> pydict \<Rightarrow> bool" where
  "is_identifiable_scalp_entry cmd command_id intent payload =
     (norm_verb cmd \<in> set entry_verbs
      \<and> (let normalized_intent = py_lower (py_strip intent);
             payload_intent = norm_lower (dget payload ''intent'');
             canonical_signed_entry =
               (normalized_intent = SCALP_ENTRY_INTENT \<and> payload_intent = SCALP_ENTRY_INTENT
                \<and> norm_lower (dget payload ''strategy_lane'') = SCALP_EXECUTION_LANE
                \<and> norm_lower (dget payload ''expected_strategy_admission_mode'') = SCALP_ADMISSION_MODE_SIGNED) in
         \<not> canonical_signed_entry
         \<and> (normalized_intent = ''scalp_live_entry'' \<or> payload_intent = ''scalp_live_entry''
            \<or> startswith (py_lower (py_strip command_id)) ''scalp:''
            \<or> list_ex (\<lambda>(k, v). startswith (py_lower (py_strip k)) ''scalp_'') payload)))"

definition is_legacy_direct_demo_entry :: "string \<Rightarrow> pydict \<Rightarrow> bool" where
  "is_legacy_direct_demo_entry cmd payload =
     (norm_verb cmd \<in> set entry_verbs
      \<and> norm_lower (dget payload ''expected_strategy_admission_mode'') = SCALP_ADMISSION_MODE_DIRECT_DEMO)"

section \<open>Acknowledgement evidence\<close>

definition paper_ack_attestation :: "CommandRow \<Rightarrow> string \<Rightarrow> pydict \<Rightarrow> pydict option" where
  "paper_ack_attestation r status ack_payload =
     (let meta = mapping (dget ack_payload ''orchestration_meta_json''); effective_status = norm_status status in
      if norm_lower (dget (r_payload_json r) ''_execution_provider'') = ''paper''
         \<and> norm_lower (dget meta ''execution_provider'') = ''paper''
         \<and> dget meta ''paper_simulated'' = VBool True
      then Some
        [(''schema_version'', VStr EXECUTION_ACK_ATTESTATION_SCHEMA), (''policy_scope'', VStr ''paper_simulation''),
         (''effective_status'', VStr effective_status), (''reported_status'', VStr effective_status),
         (''mutation_state'', VStr ''simulated''), (''broker_mutating'', VBool False),
         (''attested'', VBool (effective_status = ''acked'')),
         (''terminal'', VBool (effective_status \<in> set terminal_statuses)),
         (''reasons'', VList [VStr ''paper_simulation_non_broker'']),
         (''actuals'', VDict
            [(''command_id'', VStr (str_or_empty (dget ack_payload ''command_id''))),
             (''cmd'', VStr (norm_upper (dget ack_payload ''cmd''))),
             (''symbol'', VStr (norm_upper (dget ack_payload ''symbol''))), (''broker_symbol'', VStr []),
             (''side'', VStr (norm_upper (dget ack_payload ''side''))), (''execution_type'', VStr ''simulation''),
             (''ticket'', VInt (safe_int (dget ack_payload ''ticket'') (- 1))),
             (''target_ticket'', VInt (safe_int (dget ack_payload ''target_ticket'') (- 1))),
             (''magic'', VInt (safe_int (dget ack_payload ''magic'') (- 1))),
             (''owner_token'', VStr (str_or_empty (dget ack_payload ''owner_token''))),
             (''order_comment'', VStr (str_or_empty (dget ack_payload ''order_comment''))),
             (''lots'', dget ack_payload ''actual_lots''), (''sl_price'', dget ack_payload ''actual_sl_price''),
             (''tp_price'', dget ack_payload ''actual_tp_price''),
             (''open_price'', dget meta ''paper_fill_price'')])]
      else None)"

definition execution_ack_semantic_identity :: "pydict \<Rightarrow> pydict \<Rightarrow> pydict" where
  "execution_ack_semantic_identity attestation ack_payload =
     [(''schema_version'', VStr (str_or_empty (dget attestation ''schema_version''))),
      (''policy_scope'', VStr (str_or_empty (dget attestation ''policy_scope''))),
      (''effective_status'', VStr (str_or_empty (dget attestation ''effective_status''))),
      (''mutation_state'', VStr (str_or_empty (dget attestation ''mutation_state''))),
      (''broker_mutating'', VBool (truthy (dget attestation ''broker_mutating''))),
      (''attested'', VBool (truthy (dget attestation ''attested''))),
      (''terminal'', VBool (truthy (dget attestation ''terminal''))),
      (''reasons'', VList (items_of (dget attestation ''reasons''))),
      (''actuals'', VDict (mapping (dget attestation ''actuals''))),
      (''error_code'', VInt (safe_int (dget ack_payload ''error_code'') 0))]"

definition execution_ack_terminal_safe :: "pydict \<Rightarrow> string \<Rightarrow> int \<Rightarrow> bool" where
  "execution_ack_terminal_safe attestation status ticket =
     (let durable_status = norm_status status in
      durable_status \<in> set terminal_statuses
      \<and> dget attestation ''terminal'' = VBool True
      \<and> (if dget attestation ''broker_mutating'' \<noteq> VBool True then True
         else if durable_status \<in> {''failed'', ''duplicate''}
         then ticket \<le> 0 \<and> norm_lower (dget attestation ''mutation_state'') = ''not_attempted''
         else 0 < ticket \<and> dget attestation ''attested'' = VBool True
              \<and> norm_text (dget attestation ''policy_scope'') \<in> set trusted_scopes))"

definition enriched_execution_ack :: "pydict \<Rightarrow> pydict \<Rightarrow> string \<Rightarrow> bool \<Rightarrow> string list \<Rightarrow> pydict" where
  "enriched_execution_ack ack_payload attestation status count_as_trade store_reasons =
     dmerge ack_payload
       ([(''reported_status'', VStr (str_or_empty (dget attestation ''reported_status''))),
         (''status'', VStr status),
         (''mutation_state'', VStr (str_or_empty (dget attestation ''mutation_state''))),
         (''count_as_trade'', VBool count_as_trade),
         (''execution_ack_attestation'', VDict attestation),
         (''execution_ack_semantic_identity'', VDict (execution_ack_semantic_identity attestation ack_payload))]
        @ (if store_reasons = [] then [] else [(''store_reconciliation_reasons'', VList (map VStr store_reasons))]))"

definition ack_attestation :: "CommandRow \<Rightarrow> ExecutionAck \<Rightarrow> string \<Rightarrow> pydict" where
  "ack_attestation r ack reported_status =
     (case paper_ack_attestation r reported_status (ack_to_dict ack) of
        Some p \<Rightarrow> p
      | None \<Rightarrow> dput ''policy_scope'' (VStr ''production_mt4_exact'')
          (attestation_to_dict (classify_execution_ack (row_dict r) (ack_to_dict ack))))"

definition reported_ack_status :: "ExecutionAck \<Rightarrow> string" where
  "reported_ack_status ack =
     (let st = py_strip (py_lower (ak_status ack)) in
      if st \<in> {''delivered'', ''acked'', ''failed'', ''duplicate'', ''reconcile_required''} then st
      else ''reconcile_required'')"

section \<open>What an acknowledgement does to a row\<close>

datatype ack_decision =
    AckIdempotent string
  | AckInvalid string string
  | AckApply string "string list"

definition attested_ticket :: "pydict \<Rightarrow> int" where
  "attested_ticket attestation = safe_int (dget (mapping (dget attestation ''actuals'')) ''ticket'') (- 1)"

definition exact_success :: "string \<Rightarrow> pydict \<Rightarrow> bool" where
  "exact_success requested attestation =
     (requested = ''acked'' \<and> dget attestation ''attested'' = VBool True \<and> 0 < attested_ticket attestation
      \<and> str_or_empty (dget attestation ''policy_scope'') \<in> set trusted_scopes)"

definition conclusive_no_mutation :: "string \<Rightarrow> pydict \<Rightarrow> bool" where
  "conclusive_no_mutation requested attestation =
     (requested \<in> {''failed'', ''duplicate'', ''delivered''} \<and> attested_ticket attestation \<le> 0
      \<and> str_or_empty (dget attestation ''mutation_state'') = ''not_attempted'')"

definition same_semantics :: "pydict \<Rightarrow> pydict \<Rightarrow> bool" where
  "same_semantics incoming existing = (existing \<noteq> [] \<and> py_eq (VDict incoming) (VDict existing))"

definition decide_sticky ::
  "string \<Rightarrow> bool \<Rightarrow> bool \<Rightarrow> pydict \<Rightarrow> pydict \<Rightarrow> pydict \<Rightarrow> string \<times> string list \<Rightarrow> ack_decision" where
  "decide_sticky cur delivered_before expired_exact attestation incoming existing rq =
     (case rq of (requested, reasons) \<Rightarrow>
        let can_finalize = (cur \<in> {''delivered'', ''reconcile_required''}
              \<or> (cur \<in> {''queued'', ''expired''} \<and> delivered_before) \<or> expired_exact) in
        if requested \<in> set terminal_statuses \<and> \<not> can_finalize then AckInvalid cur requested
        else if cur = ''reconcile_required'' \<and> \<not> exact_success requested attestation
        then (if same_semantics incoming existing then AckIdempotent ''reconcile_required''
              else AckApply ''reconcile_required'' (py_unique (reasons @ [''reconciliation_sticky''])))
        else AckApply requested reasons)"

definition decide_terminal ::
  "string \<Rightarrow> bool \<Rightarrow> bool \<Rightarrow> pydict \<Rightarrow> pydict \<Rightarrow> pydict \<Rightarrow> string \<times> string list \<Rightarrow> ack_decision" where
  "decide_terminal cur delivered_before expired_exact attestation incoming existing rq =
     (case rq of (requested, reasons) \<Rightarrow>
        if cur \<in> set terminal_statuses
        then (if requested = cur \<and> same_semantics incoming existing then AckIdempotent cur
              else decide_sticky cur delivered_before expired_exact attestation incoming existing
                     (''reconcile_required'', py_unique (reasons @ [''terminal_ack_contradiction''])))
        else decide_sticky cur delivered_before expired_exact attestation incoming existing (requested, reasons))"

definition decide_ack :: "CommandRow \<Rightarrow> pydict \<Rightarrow> pydict \<Rightarrow> ack_decision" where
  "decide_ack r attestation ack_payload =
     (let cur = r_status r; delivered_before = (0 < r_delivered_count r);
          effective = str_or_empty (dget attestation ''effective_status'');
          requested = (if effective = [] then ''reconcile_required'' else effective);
          incoming = execution_ack_semantic_identity attestation ack_payload;
          existing = mapping (dget (r_ack_json r) ''execution_ack_semantic_identity'') in
      if cur = ''expired'' \<and> \<not> delivered_before
      then (if exact_success requested attestation
            then decide_terminal cur delivered_before True attestation incoming existing (requested, [])
            else if conclusive_no_mutation requested attestation then AckIdempotent cur
            else decide_terminal cur delivered_before False attestation incoming existing
                   (''reconcile_required'', [''expired_never_delivered_ack_contradiction'']))
      else decide_terminal cur delivered_before False attestation incoming existing (requested, []))"

section \<open>Immediate-entry contract\<close>

definition production_scalp_entry_deadline_epoch :: "pydict \<Rightarrow> int option" where
  "production_scalp_entry_deadline_epoch raw =
     (case dget raw ''entry_deadline_epoch'' of
        VBool b \<Rightarrow> None
      | v \<Rightarrow> (case py_float v of
                Inr (Fin q) \<Rightarrow>
                  if q \<le> 0 \<or> q \<noteq> of_int \<lfloor>q\<rfloor> \<or> 2147483647 < q then None else Some \<lfloor>q\<rfloor>
              | _ \<Rightarrow> None))"

definition immediate_plan_error :: "int \<Rightarrow> pyval \<Rightarrow> string" where
  "immediate_plan_error deadline plan =
     (case plan of
        VDict p \<Rightarrow> first_reason
          [(norm_lower (dget p ''execution_type'') \<noteq> ''market'', ''scalp_market_entry_plan_execution_type_mismatch''),
           (dget p ''pending_orders_forbidden'' \<noteq> VBool True,
            ''scalp_market_entry_plan_pending_orders_forbidden_mismatch''),
           (production_scalp_entry_deadline_epoch p \<noteq> Some deadline,
            ''scalp_market_entry_plan_entry_deadline_epoch_mismatch'')]
      | _ \<Rightarrow> [])"

definition production_scalp_immediate_entry_contract_error :: "pydict \<Rightarrow> pyfloat option \<Rightarrow> string" where
  "production_scalp_immediate_entry_contract_error raw now_epoch =
     (if norm_lower (dget raw ''execution_type'') \<noteq> ''market'' then ''scalp_market_entry_execution_type_invalid''
      else if dget raw ''pending_orders_forbidden'' \<noteq> VBool True
      then ''scalp_market_entry_pending_orders_not_forbidden''
      else case production_scalp_entry_deadline_epoch raw of
        None \<Rightarrow> ''scalp_market_entry_deadline_invalid''
      | Some deadline \<Rightarrow>
          let clock = (case now_epoch of
                None \<Rightarrow> []
              | Some now \<Rightarrow>
                  if \<not> is_finite now \<or> fle now (Fin 0) then ''scalp_market_entry_server_clock_invalid''
                  else if fle (Fin (of_int deadline)) now then ''scalp_market_entry_deadline_expired''
                  else []) in
          if clock \<noteq> [] then clock else immediate_plan_error deadline (dget raw ''broker_entry_plan''))"

section \<open>Unresolved broker outcomes\<close>

definition execution_uncertainty_predicate :: "CommandRow \<Rightarrow> bool" where
  "execution_uncertainty_predicate r =
     (py_upper (r_cmd r) \<noteq> ''INFO''
      \<and> (r_status r \<in> {''delivered'', ''reconcile_required''}
         \<or> r_status r \<in> set terminal_statuses \<and> \<not> r_ack_terminal_safe r
         \<or> 0 < r_delivered_count r \<and> r_status r \<notin> set terminal_statuses
         \<or> r_status r \<notin> {''queued'', ''delivered'', ''reconcile_required'', ''acked'', ''failed'', ''duplicate'', ''expired''}))"

record UncertaintyScope =
  us_present :: bool
  us_global_blocked :: bool
  us_scope_contained :: bool
  us_scope_reason :: string
  us_blocked_symbols :: "string list"
  us_rows :: "CommandRow list"

definition no_uncertainty :: UncertaintyScope where
  "no_uncertainty = \<lparr>us_present = False, us_global_blocked = False, us_scope_contained = False,
     us_scope_reason = [], us_blocked_symbols = [], us_rows = []\<rparr>"

text \<open>The nine checks that make a positions snapshot a current authoritative broker book.\<close>

definition snapshot_book_checks :: "Env \<Rightarrow> pydict \<Rightarrow> pyfloat option \<Rightarrow> pyfloat option \<Rightarrow> (bool \<times> string) list" where
  "snapshot_book_checks e st received_age source_age =
     (let scope = norm_text (dget st ''broker_account_scope'');
          fresh = (\<lambda>age. case age of None \<Rightarrow> False | Some a \<Rightarrow> fle a (fmax (Fin 1) (en_stale_heartbeat_secs e))) in
      [(dget st ''positions_snapshot_authoritative'' = VBool True, ''positions_snapshot_not_authoritative''),
       (dget st ''positions_snapshot_source'' = VStr ''positions_snapshot'', ''positions_snapshot_source_invalid''),
       (dget st ''positions_snapshot_schema'' = VStr MT4_POSITIONS_SNAPSHOT_SCHEMA,
        ''positions_snapshot_schema_invalid''),
       (dget st ''positions_snapshot_contract_current'' = VBool True, ''positions_snapshot_contract_stale''),
       (norm_text (dget st ''positions_snapshot_token'') \<noteq> [], ''positions_snapshot_token_missing''),
       (scope \<noteq> [] \<and> norm_text (dget st ''positions_snapshot_account_scope'') = scope,
        ''positions_snapshot_account_scope_mismatch''),
       (is_list (dget st ''positions''), ''positions_snapshot_book_invalid''),
       (fresh received_age, ''positions_snapshot_receipt_stale''),
       (fresh source_age, ''positions_snapshot_source_stale'')])"

definition reconciled_by_book :: "Env \<Rightarrow> pyfloat \<Rightarrow> pyfloat \<Rightarrow> CommandRow \<Rightarrow> bool" where
  "reconciled_by_book e received source r =
     (let status = norm_status (r_status r);
          newer = (\<lambda>cutoff. flt cutoff received \<and> flt cutoff source) in
      if status \<in> {''delivered'', ''reconcile_required'', ''expired''}
      then \<not> fle (r_expires_at r) (Fin 0)
           \<and> newer (fmax (r_updated_at r) (fadd (r_expires_at r) (fmax (Fin 1) (en_stale_heartbeat_secs e))))
      else status \<in> set terminal_statuses \<and> newer (r_updated_at r))"

fun collect_symbols :: "CommandRow list \<Rightarrow> string list \<Rightarrow> string list + string list" where
  "collect_symbols [] acc = Inr acc"
| "collect_symbols (r # rs) acc =
     (if norm_verb (r_cmd r) = ''CLOSE_ALL'' \<or> norm_verb (r_symbol r) = [] then Inl acc
      else collect_symbols rs (norm_verb (r_symbol r) # acc))"

definition list_fmax :: "pyfloat list \<Rightarrow> pyfloat" where
  "list_fmax xs = foldl fmax (hd xs) (tl xs)"

definition containment_scope ::
  "(bool \<times> string) list \<Rightarrow> CommandRow list \<Rightarrow> UncertaintyScope" where
  "containment_scope checks rows =
     (case collect_symbols rows [] of
        Inl acc \<Rightarrow> \<lparr>us_present = True, us_global_blocked = True, us_scope_contained = False,
          us_scope_reason = ''uncertain_command_scope_not_exact'',
          us_blocked_symbols = sorted_scope acc, us_rows = rows\<rparr>
      | Inr acc \<Rightarrow>
          let failure = first_reason (map (\<lambda>(passed, why). (\<not> passed, why)) checks) in
          if failure \<noteq> []
          then \<lparr>us_present = True, us_global_blocked = True, us_scope_contained = False,
            us_scope_reason = failure, us_blocked_symbols = sorted_scope acc, us_rows = rows\<rparr>
          else \<lparr>us_present = True, us_global_blocked = False, us_scope_contained = True,
            us_scope_reason = ''newer_authoritative_positions_snapshot'',
            us_blocked_symbols = sorted_scope acc, us_rows = rows\<rparr>)"

definition uncertainty_after_book ::
  "Env \<Rightarrow> pydict \<Rightarrow> pyfloat \<Rightarrow> pyfloat \<Rightarrow> pyfloat option \<Rightarrow> pyfloat option \<Rightarrow> CommandRow list \<Rightarrow> UncertaintyScope" where
  "uncertainty_after_book e st received source received_age source_age rows =
     (let book = snapshot_book_checks e st received_age source_age;
          latest = list_fmax (map r_updated_at rows);
          reconciled = (if list_all fst book
            then map r_command_id (filter (reconciled_by_book e received source) rows) else []);
          rest = filter (\<lambda>r. r_command_id r \<notin> set reconciled) rows in
      if rest = [] then no_uncertainty
      else containment_scope
        (book @ [(flt latest received, ''positions_snapshot_receipt_not_after_uncertainty''),
                 (flt latest source, ''positions_snapshot_source_not_after_uncertainty'')]) rest)"

definition execution_uncertainty_scope :: "Env \<Rightarrow> Store \<Rightarrow> pyfloat \<Rightarrow> pyerr + UncertaintyScope" where
  "execution_uncertainty_scope e s evaluated_at =
     (let rows = sort_key r_updated_at (filter execution_uncertainty_predicate (s_commands s)); st = state_dict s in
      if rows = [] then Inr no_uncertainty
      else
        ebind (parse_iso_ts e (dget st ''positions_snapshot_received_at'')) (\<lambda>received.
        ebind (parse_iso_ts e (dget st ''positions_snapshot_source_ts'')) (\<lambda>source.
        ebind (timestamp_age_secs e (VFloat received) evaluated_at) (\<lambda>received_age.
        ebind (timestamp_age_secs e (VFloat source) evaluated_at) (\<lambda>source_age.
          Inr (uncertainty_after_book e st received source received_age source_age rows))))))"

definition execution_uncertainty_blocks_symbol :: "UncertaintyScope \<Rightarrow> string \<Rightarrow> bool" where
  "execution_uncertainty_blocks_symbol u symbol =
     (us_global_blocked u
      \<or> (norm_verb symbol \<noteq> [] \<and> norm_verb symbol \<in> norm_verb ` set (us_blocked_symbols u)))"

definition has_execution_uncertainty :: "Env \<Rightarrow> Store \<Rightarrow> string \<Rightarrow> Store \<times> (pyerr + bool)" where
  "has_execution_uncertainty e s symbol =
     (if filter execution_uncertainty_predicate (s_commands s) = [] then (s, Inr False)
      else case now_read e s of (now, s1) \<Rightarrow>
        (s1, ebind (execution_uncertainty_scope e s now) (\<lambda>u. Inr (execution_uncertainty_blocks_symbol u symbol))))"

end
