(* ===== verification/Daily_Budget.thy ===== *)
theory Daily_Budget
  imports Py_Value
begin

text \<open>
  The daily-budget classifier \<open>runtime/scalp_daily_budget.py\<close>: whether one durable entry row
  reserves or consumes its daily cell. A missing row is the empty dictionary, as in the source.
\<close>

section \<open>Model\<close>

definition SCALP_DAILY_BUDGET_CLASSIFICATION_SCHEMA :: string where
  "SCALP_DAILY_BUDGET_CLASSIFICATION_SCHEMA =
     ''fxstack.production_scalp_daily_budget_classification.v1''"

definition RESERVING_STATUSES :: "string list" where
  "RESERVING_STATUSES = [''queued'', ''delivered'', ''reconcile_required'']"

definition SUCCESS_ACK_STATUSES :: "string list" where
  "SUCCESS_ACK_STATUSES = [''acked'', ''ok'', ''success'', ''done'', ''executed'', ''filled'']"

definition CONCLUSIVE_NON_ENTRY_STATUSES :: "string list" where
  "CONCLUSIVE_NON_ENTRY_STATUSES = [''failed'', ''duplicate'']"

definition budget_positive_int :: "pyval \<Rightarrow> int" where
  "budget_positive_int value =
     (case value of
        VBool b \<Rightarrow> 0
      | _ \<Rightarrow> (case py_int value of Inl e \<Rightarrow> 0 | Inr n \<Rightarrow> if 0 < n then n else 0))"

record ScalpDailyBudgetClassification =
  bc_consumed :: bool
  bc_reason :: string
  bc_schema_version :: string

definition classification :: "bool \<Rightarrow> string \<Rightarrow> ScalpDailyBudgetClassification" where
  "classification c r =
     \<lparr>bc_consumed = c, bc_reason = r, bc_schema_version = SCALP_DAILY_BUDGET_CLASSIFICATION_SCHEMA\<rparr>"

definition mapping_or_empty :: "pyval \<Rightarrow> pydict" where
  "mapping_or_empty v = (case v of VDict d \<Rightarrow> d | _ \<Rightarrow> [])"

definition has_attestation_mismatch :: "pydict \<Rightarrow> bool" where
  "has_attestation_mismatch ack =
     (norm_text (dget ack ''attestation_reason'') \<noteq> []
      \<or> (case dget ack ''attestation_reasons'' of
           VList xs \<Rightarrow> list_ex (\<lambda>x. norm_text x \<noteq> []) xs
         | VTuple xs \<Rightarrow> list_ex (\<lambda>x. norm_text x \<noteq> []) xs
         | _ \<Rightarrow> False))"

definition command_joined :: "pydict \<Rightarrow> pydict \<Rightarrow> bool" where
  "command_joined item ack =
     (let row_command_id = norm_text (dget item ''command_id'');
          ack_command_id = norm_text (dget ack ''command_id'') in
      row_command_id \<noteq> [] \<and> (ack_command_id = [] \<or> ack_command_id = row_command_id))"

definition classify_scalp_daily_budget_row :: "pydict \<Rightarrow> ScalpDailyBudgetClassification" where
  "classify_scalp_daily_budget_row item =
     (let status = norm_lower (dget item ''status'');
          delivered_count = budget_positive_int (dget item ''delivered_count'');
          ack = mapping_or_empty (dget item ''ack_json'');
          ack_ticket = budget_positive_int (dget ack ''ticket'');
          mutation_state = norm_lower (dget ack ''mutation_state'') in
      if (0 < ack_ticket \<and> status \<noteq> ''acked'') \<or> has_attestation_mismatch ack
      then classification True ''broker_mutation_uncertain''
      else if status \<in> set RESERVING_STATUSES
      then classification True (''entry_'' @ status)
      else if status = ''acked''
      then (if norm_lower (dget ack ''status'') \<in> set SUCCESS_ACK_STATUSES
               \<and> 0 < ack_ticket \<and> dget ack ''count_as_trade'' = VBool True \<and> command_joined item ack
            then classification True ''broker_confirmed_entry''
            else classification True ''acked_entry_proof_incomplete'')
      else if status = ''expired''
      then (if 0 < delivered_count
            then classification True ''expired_after_delivery_uncertain''
            else classification False ''expired_before_delivery'')
      else if status \<in> set CONCLUSIVE_NON_ENTRY_STATUSES
      then (if mutation_state \<noteq> ''not_attempted''
            then classification True (''entry_'' @ status @ ''_mutation_unattested'')
            else classification False (''entry_'' @ status @ ''_before_mutation''))
      else classification True ''entry_status_unknown'')"

section \<open>Facts\<close>

lemmas budget_defs =
  classify_scalp_daily_budget_row_def classification_def Let_def RESERVING_STATUSES_def
  CONCLUSIVE_NON_ENTRY_STATUSES_def

lemma budget_positive_int_nonneg: "0 \<le> budget_positive_int v"
  by (auto simp: budget_positive_int_def split: pyval.splits sum.splits)

section \<open>Properties\<close>

text \<open>
  A daily cell is released only by conclusive evidence: exactly when no broker ticket and no
  attestation mismatch is recorded and the command either expired before any delivery or failed (or
  was a duplicate) with the explicit statement that no mutation was attempted. Everything else,
  unknown states included, keeps the cell.
\<close>

theorem budget_released_iff:
  "\<not> bc_consumed (classify_scalp_daily_budget_row item) \<longleftrightarrow>
     (let status = norm_lower (dget item ''status'');
          ack = mapping_or_empty (dget item ''ack_json'') in
      budget_positive_int (dget ack ''ticket'') = 0 \<and> \<not> has_attestation_mismatch ack
      \<and> (status = ''expired'' \<and> budget_positive_int (dget item ''delivered_count'') = 0
         \<or> (status = ''failed'' \<or> status = ''duplicate'')
           \<and> norm_lower (dget ack ''mutation_state'') = ''not_attempted''))"
  using budget_positive_int_nonneg [of "dget (mapping_or_empty (dget item ''ack_json'')) ''ticket''"]
    budget_positive_int_nonneg [of "dget item ''delivered_count''"]
  by (auto simp: budget_defs)

text \<open>
  A row counts as a broker-confirmed entry exactly when it is acknowledged with a success status, a
  positive ticket, the explicit trade flag and a joining command id, and carries no attestation
  mismatch.
\<close>

theorem budget_confirmed_iff:
  "bc_reason (classify_scalp_daily_budget_row item) = ''broker_confirmed_entry'' \<longleftrightarrow>
     (let ack = mapping_or_empty (dget item ''ack_json'') in
      norm_lower (dget item ''status'') = ''acked'' \<and> \<not> has_attestation_mismatch ack
      \<and> norm_lower (dget ack ''status'') \<in> set SUCCESS_ACK_STATUSES
      \<and> 0 < budget_positive_int (dget ack ''ticket'')
      \<and> dget ack ''count_as_trade'' = VBool True \<and> command_joined item ack)"
  by (auto simp: budget_defs)

end
