(* ===== verification/Market_Source.thy ===== *)
theory Market_Source
  imports Runtime_Store
begin

text \<open>
  \<open>runtime/market_source_identity.py\<close>: which terminal produced a quote. The identity of a source is projected from the
  heartbeat and the singleton consumer lease, written into every market row, and compared with the rows a
  consumer reads. The comparison has a fast path and two bounded caches, which are modelled with their keys; the SHA-256
  digest is an argument.
\<close>

section \<open>Identity\<close>

definition MARKET_SOURCE_SCHEMA :: string where
  "MARKET_SOURCE_SCHEMA = ''fxstack_authenticated_broker_market_source_v2''"

definition MARKET_SOURCE_FIELDS :: "string list" where
  "MARKET_SOURCE_FIELDS =
     [''market_source_schema'', ''market_source_id'', ''market_source_authenticated'', ''broker_account_scope'',
      ''broker_venue_id'', ''producer_identity'', ''producer_instance_id'', ''terminal_lease_scope'',
      ''credential_generation_id'', ''bridge_protocol_version'']"

text \<open>\<open>_token(value, limit=\<dots>)\<close> and \<open>_token(value, limit=\<dots>, lower=True)\<close>.\<close>

definition token :: "nat \<Rightarrow> pyval \<Rightarrow> string" where
  "token limit v = take limit (norm_text v)"

definition lower_token :: "nat \<Rightarrow> pyval \<Rightarrow> string" where
  "lower_token limit v = py_lower (token limit v)"

record AuthenticatedMarketSource =
  ms_broker_account_scope :: string
  ms_broker_venue_id :: string
  ms_producer_identity :: string
  ms_producer_instance_id :: string
  ms_terminal_lease_scope :: string
  ms_credential_generation_id :: string
  ms_bridge_protocol_version :: string

definition source_id :: "(string \<Rightarrow> string) \<Rightarrow> AuthenticatedMarketSource \<Rightarrow> string" where
  "source_id sha m =
     sha (json_dumps (VList (map VStr
       [MARKET_SOURCE_SCHEMA, ms_broker_account_scope m, ms_broker_venue_id m, ms_producer_identity m,
        ms_producer_instance_id m, ms_terminal_lease_scope m, ms_credential_generation_id m, ms_bridge_protocol_version m])))"

definition to_fields :: "(string \<Rightarrow> string) \<Rightarrow> AuthenticatedMarketSource \<Rightarrow> pydict" where
  "to_fields sha m =
     [(''market_source_schema'', VStr MARKET_SOURCE_SCHEMA), (''market_source_id'', VStr (source_id sha m)),
      (''market_source_authenticated'', VBool True), (''broker_account_scope'', VStr (ms_broker_account_scope m)),
      (''broker_venue_id'', VStr (ms_broker_venue_id m)), (''producer_identity'', VStr (ms_producer_identity m)),
      (''producer_instance_id'', VStr (ms_producer_instance_id m)), (''terminal_lease_scope'', VStr (ms_terminal_lease_scope m)),
      (''credential_generation_id'', VStr (ms_credential_generation_id m)),
      (''bridge_protocol_version'', VStr (ms_bridge_protocol_version m))]"

definition build_authenticated_market_source ::
  "pyval \<Rightarrow> pyval \<Rightarrow> pyval \<Rightarrow> pyval \<Rightarrow> pyval \<Rightarrow> pyval \<Rightarrow> pyval \<Rightarrow> AuthenticatedMarketSource option" where
  "build_authenticated_market_source account venue producer instance_id lease_scope credential protocol =
     (let m = \<lparr>ms_broker_account_scope = token 128 account, ms_broker_venue_id = lower_token 64 venue,
               ms_producer_identity = token 128 producer, ms_producer_instance_id = token 128 instance_id,
               ms_terminal_lease_scope = token 128 lease_scope, ms_credential_generation_id = token 128 credential,
               ms_bridge_protocol_version = token 32 protocol\<rparr> in
      if [] \<in> {ms_broker_account_scope m, ms_broker_venue_id m, ms_producer_identity m, ms_producer_instance_id m,
                ms_terminal_lease_scope m, ms_credential_generation_id m, ms_bridge_protocol_version m}
      then None else Some m)"

section \<open>The source of the heartbeat and the lease\<close>

definition lease_expired :: "pydict \<Rightarrow> pyfloat \<Rightarrow> string" where
  "lease_expired lease now =
     (case py_float (py_or (dget lease ''expires_at'') (VFloat (Fin 0))) of
        Inl _ \<Rightarrow> ''market_source_consumer_lease_invalid''
      | Inr expires_at \<Rightarrow>
          if \<not> is_finite expires_at \<or> \<not> is_finite now \<or> fle expires_at now then ''market_source_consumer_lease_expired'' else [])"

definition current_authenticated_market_source ::
  "pydict \<Rightarrow> pyfloat \<Rightarrow> bool \<Rightarrow> string \<Rightarrow> pyerr + (string + AuthenticatedMarketSource)" where
  "current_authenticated_market_source snapshot now require_active_lease expected_protocol_version =
     (case build_authenticated_market_source (dget snapshot ''broker_account_scope'') (dget snapshot ''broker_venue_id'')
             (dget snapshot ''bridge_producer_identity'') (dget snapshot ''bridge_producer_instance_id'')
             (dget snapshot ''bridge_terminal_lease_scope'') (dget snapshot ''bridge_credential_generation_id'')
             (dget snapshot ''bridge_protocol_version'') of
        None \<Rightarrow> Inr (Inl ''market_source_heartbeat_identity_missing'')
      | Some source \<Rightarrow>
          let expected_protocol = token 32 (VStr expected_protocol_version) in
          if expected_protocol \<noteq> [] \<and> ms_bridge_protocol_version source \<noteq> expected_protocol
          then Inr (Inl ''market_source_protocol_version_mismatch'')
          else ebind (as_dict (dget snapshot ''bridge_consumer_lease'')) (\<lambda>lease.
            if lease = [] then Inr (Inl ''market_source_consumer_lease_missing'')
            else if build_authenticated_market_source (VStr (ms_broker_account_scope source)) (VStr (ms_broker_venue_id source))
                 (dget lease ''consumer_identity'') (dget lease ''producer_instance_id'') (dget lease ''terminal_lease_scope'')
                 (dget lease ''credential_generation_id'') (dget lease ''bridge_protocol_version'') \<noteq> Some source
            then Inr (Inl ''market_source_consumer_lease_identity_mismatch'')
            else if require_active_lease \<and> lease_expired lease now \<noteq> [] then Inr (Inl (lease_expired lease now))
            else Inr (Inr source)))"

section \<open>The source of a row\<close>

definition authenticated_market_source_from_item ::
  "(string \<Rightarrow> string) \<Rightarrow> pydict \<Rightarrow> string + AuthenticatedMarketSource" where
  "authenticated_market_source_from_item sha item =
     (let authenticated = dget item ''market_source_authenticated'' in
      if \<not> (py_eq authenticated (VBool True) \<or> py_eq authenticated (VInt 1)) then Inl ''market_source_unauthenticated''
      else if token 96 (dget item ''market_source_schema'') \<noteq> MARKET_SOURCE_SCHEMA then Inl ''market_source_schema_invalid''
      else case build_authenticated_market_source (dget item ''broker_account_scope'') (dget item ''broker_venue_id'')
             (dget item ''producer_identity'') (dget item ''producer_instance_id'') (dget item ''terminal_lease_scope'')
             (dget item ''credential_generation_id'') (dget item ''bridge_protocol_version'') of
        None \<Rightarrow> Inl ''market_source_identity_incomplete''
      | Some source \<Rightarrow>
          if lower_token 64 (dget item ''market_source_id'') \<noteq> source_id sha source then Inl ''market_source_id_invalid''
          else Inr source)"

text \<open>\<open>functools.lru_cache(maxsize)\<close>: a hit moves its entry to the front, a miss computes and drops the last entry.\<close>

definition lru_cache ::
  "nat \<Rightarrow> ('k \<Rightarrow> 'k \<Rightarrow> bool) \<Rightarrow> ('k \<Rightarrow> 'v) \<Rightarrow> 'k \<Rightarrow> ('k \<times> 'v) list \<Rightarrow> 'v \<times> ('k \<times> 'v) list" where
  "lru_cache maxsize same f k entries =
     (case List.extract (\<lambda>(k', v). same k' k) entries of
        Some (newer, (k', v), older) \<Rightarrow> (v, (k', v) # newer @ older)
      | None \<Rightarrow> let v = f k in (v, take maxsize ((k, v) # entries)))"

definition cacheable :: "pyval \<Rightarrow> bool" where
  "cacheable v = (case v of VStr _ \<Rightarrow> True | VInt _ \<Rightarrow> True | VFloat _ \<Rightarrow> True | VBool _ \<Rightarrow> True | VNone \<Rightarrow> True | _ \<Rightarrow> False)"

definition row_projection :: "pydict \<Rightarrow> pyval list" where
  "row_projection item = map (dget item) MARKET_SOURCE_FIELDS"

type_synonym projection_entry = "pyval list \<times> (string + AuthenticatedMarketSource)"

type_synonym row_error_entry = "(pyval list \<times> AuthenticatedMarketSource) \<times> string"

record SourceCaches =
  mc_projection :: "projection_entry list"
  mc_row_error :: "row_error_entry list"

definition same_projection :: "pyval list \<Rightarrow> pyval list \<Rightarrow> bool" where
  "same_projection xs ys = list_all2 py_eq xs ys"

definition authenticated_market_source_from_projection ::
  "(string \<Rightarrow> string) \<Rightarrow> pyval list \<Rightarrow> SourceCaches \<Rightarrow> (string + AuthenticatedMarketSource) \<times> SourceCaches" where
  "authenticated_market_source_from_projection sha projection caches =
     (case lru_cache 256 same_projection
             (\<lambda>p. authenticated_market_source_from_item sha (zip MARKET_SOURCE_FIELDS p)) projection (mc_projection caches) of
        (r, entries) \<Rightarrow> (r, caches\<lparr>mc_projection := entries\<rparr>))"

definition authenticated_market_source_from_row ::
  "(string \<Rightarrow> string) \<Rightarrow> pydict \<Rightarrow> SourceCaches \<Rightarrow> (string + AuthenticatedMarketSource) \<times> SourceCaches" where
  "authenticated_market_source_from_row sha row caches =
     (if list_all cacheable (row_projection row)
      then authenticated_market_source_from_projection sha (row_projection row) caches
      else (authenticated_market_source_from_item sha row, caches))"

definition source_error :: "(string + AuthenticatedMarketSource) \<Rightarrow> AuthenticatedMarketSource \<Rightarrow> string" where
  "source_error observed expected =
     (case observed of Inl error \<Rightarrow> error | Inr m \<Rightarrow> if m \<noteq> expected then ''market_source_identity_mismatch'' else [])"

definition market_source_row_error_from_projection ::
  "(string \<Rightarrow> string) \<Rightarrow> pyval list \<Rightarrow> AuthenticatedMarketSource \<Rightarrow> SourceCaches \<Rightarrow> string \<times> SourceCaches" where
  "market_source_row_error_from_projection sha projection expected caches =
     (case List.extract (\<lambda>((p, m), err). same_projection p projection \<and> m = expected) (mc_row_error caches) of
        Some (newer, entry, older) \<Rightarrow> (snd entry, caches\<lparr>mc_row_error := entry # newer @ older\<rparr>)
      | None \<Rightarrow>
          case authenticated_market_source_from_projection sha projection caches of
            (observed, caches1) \<Rightarrow>
              let err = source_error observed expected in
              (err, caches1\<lparr>mc_row_error := take 256 (((projection, expected), err) # mc_row_error caches1)\<rparr>))"

definition market_source_row_error ::
  "(string \<Rightarrow> string) \<Rightarrow> pydict \<Rightarrow> AuthenticatedMarketSource \<Rightarrow> SourceCaches \<Rightarrow> string \<times> SourceCaches" where
  "market_source_row_error sha row expected caches =
     (if same_projection (row_projection row) (row_projection (to_fields sha expected)) then ([], caches)
      else if list_all cacheable (row_projection row)
      then market_source_row_error_from_projection sha (row_projection row) expected caches
      else (source_error (authenticated_market_source_from_item sha row) expected, caches))"

definition market_source_row_matches ::
  "(string \<Rightarrow> string) \<Rightarrow> pydict \<Rightarrow> AuthenticatedMarketSource \<Rightarrow> SourceCaches \<Rightarrow> bool \<times> SourceCaches" where
  "market_source_row_matches sha row expected caches =
     (case market_source_row_error sha row expected caches of (err, caches1) \<Rightarrow> (err = [], caches1))"

end
