(* ===== verification/Live_Entry.thy ===== *)
theory Live_Entry
  imports Egress Daily_Budget Rollover_Guard Market_Source
begin

text \<open>
  The authorization of a live entry in \<open>runtime/postgres_store.py\<close>: \<open>_live_entry_authorization_failure\<close> and
  \<open>_production_scalp_authorization_failure\<close>, which enqueue and poll call on the locked state. The answer is
  the reason of the refusal, the empty text when the entry may cross the broker edge, or an exception.
\<close>

section \<open>The production scalper\<close>

definition claims_scalper_payload :: "pydict \<Rightarrow> bool" where
  "claims_scalper_payload raw =
     (norm_lower (dget raw ''intent'') = SCALP_ENTRY_INTENT \<or> norm_lower (dget raw ''strategy_lane'') = SCALP_EXECUTION_LANE)"

definition utc_day_start :: "pyfloat \<Rightarrow> pyerr + pyfloat" where
  "utc_day_start now = ebind (utc_from_timestamp now) (\<lambda>us. Inr (Fin (of_int (us div 86400000000 * 86400))))"

definition budget_item :: "CommandRow \<Rightarrow> pydict" where
  "budget_item r =
     [(''command_id'', VStr (r_command_id r)), (''status'', VStr (r_status r)),
      (''delivered_count'', VInt (r_delivered_count r)), (''ack_json'', VDict (r_ack_json r))]"

definition daily_cell :: "string \<Rightarrow> pyfloat \<Rightarrow> CommandRow \<Rightarrow> bool" where
  "daily_cell pair day_start r =
     (py_lower (r_intent r) = SCALP_ENTRY_INTENT \<and> r_symbol r = py_upper (py_strip pair) \<and> fle day_start (r_created_at r))"

definition prior_entries :: "Store \<Rightarrow> string \<Rightarrow> pyfloat \<Rightarrow> string \<Rightarrow> nat" where
  "prior_entries s pair day_start command_id =
     length (filter (\<lambda>r. daily_cell pair day_start r
               \<and> (py_strip command_id = [] \<or> r_command_id r \<noteq> py_strip command_id)
               \<and> bc_consumed (classify_scalp_daily_budget_row (budget_item r))) (s_commands s))"

definition scalp_identity_checks :: "pydict \<Rightarrow> pydict \<Rightarrow> pydict \<Rightarrow> pydict option \<Rightarrow> (bool \<times> string) list" where
  "scalp_identity_checks state raw durable strategy =
     (let account_modes = {norm_lower (dget durable ''account_mode''), norm_lower (dget raw ''expected_strategy_account_mode''),
            norm_lower (dget raw ''expected_account_mode''), norm_lower (dget state ''broker_account_mode'')};
          admission_modes = {norm_lower (dget durable ''admission_mode''), norm_lower (dget raw ''expected_strategy_admission_mode'')}
            \<union> (case strategy of None \<Rightarrow> {} | Some d \<Rightarrow> {norm_lower (dget d ''admission_mode'')}) in
      [(admission_modes \<noteq> {SCALP_ADMISSION_MODE_SIGNED}, ''scalp_strategy_admission_mode_signed_validation_required''),
       (account_modes \<noteq> {''demo''} \<and> account_modes \<noteq> {''real''}, ''scalp_strategy_account_mode_changed''),
       (case strategy of None \<Rightarrow> False
        | Some d \<Rightarrow> norm_lower (dget d ''binding_sha256'') \<noteq> norm_lower (dget raw ''expected_strategy_binding_sha256''),
        ''scalp_authority_approval_binding_mismatch'')])"

definition daily_budget_failure :: "Store \<Rightarrow> string \<Rightarrow> string \<Rightarrow> pydict \<Rightarrow> pyfloat \<Rightarrow> pyerr + string" where
  "daily_budget_failure s pair command_id durable now =
     ebind (utc_day_start now) (\<lambda>day_start.
       let daily_limit = safe_int (dget durable ''max_entries_per_symbol_utc_day'') MAX_ENTRIES_PER_SYMBOL_UTC_DAY in
       Inr (first_reason
         [(daily_limit \<noteq> MAX_ENTRIES_PER_SYMBOL_UTC_DAY, ''scalp_authority_daily_frequency_changed''),
          (daily_limit \<le> int (prior_entries s pair day_start command_id), ''scalp_daily_entry_frequency_exhausted'')]))"

definition production_scalp_authorization_failure ::
  "Env \<Rightarrow> Store \<Rightarrow> string \<Rightarrow> LiveEntryRequest \<Rightarrow> pyerr + string" where
  "production_scalp_authorization_failure e s pair q =
     (let raw = le_command_payload q; state = state_dict s;
          lane = first_reason
            [(norm_lower (dget raw ''intent'') \<noteq> SCALP_ENTRY_INTENT, ''scalp_command_intent_invalid''),
             (norm_lower (dget raw ''strategy_lane'') \<noteq> SCALP_EXECUTION_LANE, ''scalp_command_lane_invalid''),
             (str_or_empty (dget raw ''expected_strategy_authority_schema'') \<noteq> SCALP_EXECUTION_AUTHORITY_SCHEMA,
              ''expected_strategy_authority_schema_changed'')] in
      if \<not> claims_scalper_payload raw then Inr []
      else if lane \<noteq> [] then Inr lane
      else
      ebind (as_dict (dget state ''production_scalp_authority'')) (\<lambda>durable.
      let identity = scalp_identity_checks state raw durable (le_strategy_authority q) in
      if first_reason (take 2 identity) \<noteq> [] then Inr (first_reason (take 2 identity))
      else
      ebind (case le_strategy_authority q of None \<Rightarrow> Inr (expectation_from_command raw)
             | Some d \<Rightarrow> expectation_from_authority d) (\<lambda>expected.
      if first_reason identity \<noteq> [] then Inr (first_reason identity)
      else
      ebind (authority_error (en_sha256 e) durable expected (en_wall e (s_reads s) (le_command_id q))) (\<lambda>authority_failure.
      if authority_failure \<noteq> [] then Inr authority_failure
      else
      ebind (command_binding_error (en_sha256 e) raw durable pair) (\<lambda>binding_failure.
      if binding_failure \<noteq> [] then Inr binding_failure
      else
      ebind (en_contract_failure e state raw pair (le_now_ts q)) (\<lambda>contract_failure.
      if contract_failure \<noteq> [] then Inr contract_failure
      else daily_budget_failure s pair (le_command_id q) durable (le_now_ts q)))))))"

section \<open>Every live entry\<close>

definition request_checks :: "LiveEntryRequest \<Rightarrow> (bool \<times> string) list" where
  "request_checks q =
     [(py_lower (py_strip (le_account_mode q)) \<notin> {''demo'', ''real''}, ''broker_account_mode_unattested''),
      (py_strip (le_account_scope q) = [], ''broker_account_scope_unattested''),
      (le_authority_revision q \<le> 0, ''live_authority_revision_unattested''),
      (py_upper (py_strip (le_pair q)) = [], ''live_pair_not_allowlisted'')]"

definition expected_release :: "LiveEntryRequest \<Rightarrow> pydict \<Rightarrow> pydict \<Rightarrow> (string \<times> string \<times> string) list" where
  "expected_release q request ack =
     [(''generation_id'', le_release_generation_id q, str_or_empty (dget request ''generation_id'')),
      (''request_sha256'', le_release_request_sha256 q, str_or_empty (dget request ''request_sha256'')),
      (''model_identity_sha256'', le_model_identity_sha256 q, str_or_empty (dget request ''model_identity_sha256'')),
      (''manifest_file_sha256'', le_manifest_file_sha256 q, str_or_empty (dget request ''manifest_file_sha256'')),
      (''runtime_boot_id'', le_runtime_boot_id q, str_or_empty (dget ack ''runtime_boot_id''))]"

definition live_release_failure :: "pydict \<Rightarrow> LiveEntryRequest \<Rightarrow> pyerr + string" where
  "live_release_failure state q =
     ebind (as_dict (dget state ''execution_egress_authority'')) (\<lambda>egress.
     if norm_lower (dget egress ''source'') = ''production_runtime'' then Inr []
     else
       ebind (as_dict (dget state ''release_authority'')) (\<lambda>release.
       ebind (as_dict (dget release ''request'')) (\<lambda>request.
       ebind (as_dict (dget release ''ack'')) (\<lambda>ack.
         Inr (first_reason (concat (map (\<lambda>(f, expected, current).
           [(expected = [], ''release_authority_'' @ f @ ''_unattested''),
            (expected \<noteq> current, ''release_authority_'' @ f @ ''_changed'')]) (expected_release q request ack))))))))"

definition live_plane_checks :: "pydict \<Rightarrow> pydict \<Rightarrow> LiveEntryRequest \<Rightarrow> (bool \<times> string) list" where
  "live_plane_checks live admission q =
     [(\<not> truthy (dget live ''enabled''), ''live_mode_disabled''),
      (norm_lower (dget live ''mode'') \<noteq> ''live'', ''live_mode_disabled''),
      (\<not> truthy (dget live ''runtime_enabled''), ''live_runtime_killed''),
      (truthy (dget live ''queue_kill_active''), ''live_queue_killed''),
      (safe_int (dget live ''authority_revision'') 0 \<noteq> le_authority_revision q, ''live_authority_revision_changed''),
      (\<not> truthy (dget admission ''allowed''), ''live_command_admission_blocked'')]"

definition account_checks :: "pydict \<Rightarrow> LiveEntryRequest \<Rightarrow> (bool \<times> string) list" where
  "account_checks state q =
     [(norm_lower (dget state ''broker_account_mode'') \<noteq> py_lower (py_strip (le_account_mode q)),
       ''broker_account_mode_changed''),
      (norm_text (dget state ''broker_account_scope'') \<noteq> py_strip (le_account_scope q), ''broker_account_scope_changed'')]"

definition live_plane_failure :: "pydict \<Rightarrow> string \<Rightarrow> LiveEntryRequest \<Rightarrow> pyerr + string" where
  "live_plane_failure state pair q =
     ebind (as_dict (dget state ''runtime_diag'')) (\<lambda>diag.
     ebind (live_release_failure state q) (\<lambda>release.
     if release \<noteq> [] then Inr release
     else
     ebind (as_dict (dget diag ''orchestration_live'')) (\<lambda>live.
     ebind (as_dict (dget diag ''live_command_admission'')) (\<lambda>admission.
     let plane = first_reason (live_plane_checks live admission q) in
     if plane \<noteq> [] then Inr plane
     else
     ebind (as_dict (dget admission ''pairs'')) (\<lambda>pairs.
     ebind (as_dict (dget pairs pair)) (\<lambda>pair_admission.
     if \<not> truthy (dget pair_admission ''allowed'') then Inr ''live_rollout_pair_blocked''
     else
     ebind (scope_items py_upper (dget live ''active_pair_scope'')) (\<lambda>active_pairs.
     ebind (scope_items py_lower (dget live ''active_intent_scope'')) (\<lambda>active_intents.
       Inr (first_reason
         ([(pair \<notin> set active_pairs, ''live_pair_not_allowlisted''),
           (''enter'' \<notin> set active_intents, ''live_intent_not_allowlisted'')] @ account_checks state q))))))))))"

definition heartbeat_failure :: "Env \<Rightarrow> pydict \<Rightarrow> pyfloat \<Rightarrow> pyerr + string" where
  "heartbeat_failure e state now =
     (if norm_lower (dget state ''system_status'') \<noteq> ''connected'' then Inr ''broker_heartbeat_disconnected''
      else ebind (timestamp_age_secs e (dget state ''last_heartbeat'') now) (\<lambda>age.
        case age of
          None \<Rightarrow> Inr ''broker_heartbeat_invalid''
        | Some a \<Rightarrow> Inr (if flt (fmax (Fin 1) (en_stale_heartbeat_secs e)) a then ''broker_heartbeat_stale'' else [])))"

definition rollover_failure :: "Env \<Rightarrow> pydict \<Rightarrow> pyfloat \<Rightarrow> pyerr + string" where
  "rollover_failure e raw now =
     (if \<not> claims_scalper_payload raw then Inr []
      else if str_or_empty (dget raw ''rollover_guard_schema_version'') \<noteq> PRODUCTION_SCALP_ROLLOVER_GUARD_SCHEMA_VERSION
      then Inr ''production_scalp_rollover_guard_schema_mismatch''
      else if str_or_empty (dget raw ''rollover_guard_config_sha256'')
                \<noteq> config_sha256 (en_sha256 e) DEFAULT_PRODUCTION_SCALP_ROLLOVER_POLICY
      then Inr ''production_scalp_rollover_guard_config_mismatch''
      else ebind (evaluate_production_scalp_rollover_guard (en_sha256 e) (VFloat now)
                    DEFAULT_PRODUCTION_SCALP_ROLLOVER_POLICY) (\<lambda>guard.
        Inr (if \<not> entry_allowed guard
             then (if rg_reason guard \<noteq> [] then rg_reason guard else ''production_scalp_rollover_guard_invalid'') else [])))"

section \<open>The quote of the entry\<close>

definition BRIDGE_PROTOCOL_VERSION :: string where
  "BRIDGE_PROTOCOL_VERSION = ''v3.0.0''"

text \<open>The order of \<open>ORDER BY ts DESC, id DESC\<close>; the database sorts NaN above every number.\<close>

definition ts_before :: "pyfloat \<Rightarrow> pyfloat \<Rightarrow> bool" where
  "ts_before a b = (a \<noteq> NaN \<and> (b = NaN \<or> flt a b))"

definition newer_tick :: "MarketTick \<Rightarrow> MarketTick \<Rightarrow> MarketTick" where
  "newer_tick t u =
     (if ts_before (tk_ts u) (tk_ts t) \<or> \<not> ts_before (tk_ts t) (tk_ts u) \<and> tk_id u < tk_id t then t else u)"

definition tick_of_source :: "(string \<Rightarrow> string) \<Rightarrow> AuthenticatedMarketSource \<Rightarrow> MarketTick \<Rightarrow> bool" where
  "tick_of_source sha m t =
     (dget (tk_identity t) ''market_source_authenticated'' = VInt 1
      \<and> list_all (\<lambda>(f, v). f = ''market_source_authenticated'' \<or> dget (tk_identity t) f = v) (to_fields sha m))"

definition latest_tick ::
  "(string \<Rightarrow> string) \<Rightarrow> AuthenticatedMarketSource option \<Rightarrow> MarketTick list \<Rightarrow> string \<Rightarrow> MarketTick option" where
  "latest_tick sha source table symbol =
     (case filter (\<lambda>t. tk_symbol t = symbol \<and> (case source of None \<Rightarrow> True | Some m \<Rightarrow> tick_of_source sha m t)) table of
        [] \<Rightarrow> None
      | t # ts \<Rightarrow> Some (fold newer_tick ts t))"

definition latest_market_ticks_for_symbols ::
  "(string \<Rightarrow> string) \<Rightarrow> AuthenticatedMarketSource option \<Rightarrow> MarketTick list \<Rightarrow> string list \<Rightarrow> (string \<times> MarketTick) list" where
  "latest_market_ticks_for_symbols sha source table symbols =
     (let normalized = sorted_scope (map (\<lambda>s. py_upper (py_strip s)) (filter (\<lambda>s. py_strip s \<noteq> []) symbols)) in
      List.map_filter (\<lambda>s. map_option (\<lambda>t. (py_upper (py_strip (tk_symbol t)), t)) (latest_tick sha source table s)) normalized)"

definition currency_code :: "string \<Rightarrow> bool" where
  "currency_code c = (length c = 3 \<and> list_all is_alpha c)"

definition account_conversion_tick_symbols :: "string \<Rightarrow> string list \<Rightarrow> string list" where
  "account_conversion_tick_symbols account_currency required_symbols =
     (let account = py_upper (py_strip account_currency);
          strategy_symbols = map (\<lambda>s. py_upper (py_strip s)) (filter (\<lambda>s. py_strip s \<noteq> []) required_symbols);
          quotes = sorted_scope (map (\<lambda>s. take 3 (drop 3 s)) (filter (\<lambda>s. 6 \<le> length s) strategy_symbols)) in
      if \<not> currency_code account then []
      else sorted_scope (concat (map (\<lambda>quote.
        if quote = account \<or> account @ quote \<in> set strategy_symbols \<or> quote @ account \<in> set strategy_symbols then []
        else [account @ quote, quote @ account]) quotes)))"

definition account_conversion_source_symbols :: "string \<Rightarrow> string \<Rightarrow> string list" where
  "account_conversion_source_symbols account_currency quote_currency =
     (let account = py_upper (py_strip account_currency); quote = py_upper (py_strip quote_currency) in
      if \<not> currency_code account \<or> \<not> currency_code quote \<or> quote = account then []
      else py_unique ([account @ quote, quote @ account]
        @ (if account \<noteq> ''USD'' \<and> quote \<noteq> ''USD''
           then [''USD'' @ quote, quote @ ''USD'', account @ ''USD'', ''USD'' @ account] else [])))"

definition requested_tick_symbols :: "pydict \<Rightarrow> string \<Rightarrow> bool \<Rightarrow> string list" where
  "requested_tick_symbols state symbol production_scalper =
     (let account_currency = norm_upper (dget state ''broker_account_currency'');
          quote_currency = (if 6 \<le> length symbol then take 3 (drop 3 symbol) else []) in
      symbol # (if production_scalper \<and> length account_currency = 3 \<and> length quote_currency = 3 \<and> quote_currency \<noteq> account_currency
                then filter (\<lambda>s. s \<in> set IG_MT4_SCALP_SYMBOLS
                        \<or> s \<in> set (account_conversion_tick_symbols account_currency IG_MT4_SCALP_SYMBOLS))
                      (account_conversion_source_symbols account_currency quote_currency)
                else []))"

definition tick_failure :: "Env \<Rightarrow> MarketTick option \<Rightarrow> pyfloat \<Rightarrow> pyerr + string" where
  "tick_failure e tick now =
     (case tick of
        None \<Rightarrow> Inr ''market_tick_missing''
      | Some t \<Rightarrow>
          ebind (timestamp_age_secs e (VFloat (tk_ts t)) now) (\<lambda>age.
          case age of
            None \<Rightarrow> Inr ''market_tick_invalid''
          | Some a \<Rightarrow>
              if flt (fmax (Fin 1) (en_stale_tick_secs e)) a then Inr ''market_tick_stale''
              else case (tk_bid t, tk_ask t) of
                (Some bid, Some ask) \<Rightarrow>
                  Inr (if \<not> is_finite bid \<or> \<not> is_finite ask \<or> fle bid (Fin 0) \<or> fle ask (Fin 0) \<or> flt ask bid
                       then ''market_tick_invalid'' else [])
              | _ \<Rightarrow> Inr ''market_tick_invalid''))"

definition pinned_source :: "pydict \<Rightarrow> pydict \<Rightarrow> pyfloat \<Rightarrow> pyerr + (string + AuthenticatedMarketSource option)" where
  "pinned_source state raw now =
     (if claims_scalper_payload raw
      then ebind (current_authenticated_market_source state now True BRIDGE_PROTOCOL_VERSION) (\<lambda>r.
        case r of Inl why \<Rightarrow> Inr (Inl why) | Inr m \<Rightarrow> Inr (Inr (Some m)))
      else Inr (Inr None))"

definition market_failure :: "Env \<Rightarrow> Store \<Rightarrow> string \<Rightarrow> LiveEntryRequest \<Rightarrow> pyerr + string" where
  "market_failure e s symbol q =
     (let state = state_dict s; raw = le_command_payload q; now = le_now_ts q in
      ebind (pinned_source state raw now) (\<lambda>pinned.
      case pinned of
        Inl why \<Rightarrow> Inr why
      | Inr source \<Rightarrow>
          let ticks = latest_market_ticks_for_symbols (en_sha256 e) source (en_market_ticks e (s_reads s))
                (requested_tick_symbols state symbol (claims_scalper_payload raw)) in
          ebind (tick_failure e (map_of ticks symbol) now) (\<lambda>failure.
          if failure \<noteq> [] then Inr failure
          else if claims_scalper_payload raw then en_order_failure e state q ticks
          else Inr [])))"

definition live_entry_failure :: "Env \<Rightarrow> Store \<Rightarrow> LiveEntryRequest \<Rightarrow> pyerr + string" where
  "live_entry_failure e s q =
     (let pair = py_upper (py_strip (le_pair q)); state = state_dict s; now = le_now_ts q in
      if first_reason (request_checks q) \<noteq> [] then Inr (first_reason (request_checks q))
      else
      ebind (live_plane_failure state pair q) (\<lambda>plane.
      if plane \<noteq> [] then Inr plane
      else
      ebind (production_scalp_authorization_failure e s pair q) (\<lambda>strategy.
      if strategy \<noteq> [] then Inr strategy
      else
      ebind (heartbeat_failure e state now) (\<lambda>heartbeat.
      if heartbeat \<noteq> [] then Inr heartbeat
      else
      ebind (rollover_failure e (le_command_payload q) now) (\<lambda>rollover.
      if rollover \<noteq> [] then Inr rollover
      else market_failure e s pair q)))))"

end
