(* ===== verification/Command_Queue.thy ===== *)
theory Command_Queue
  imports Queue_Rules Live_Entry Machine
begin

text \<open>
  The durable command queue of \<open>runtime/postgres_store.py\<close>: admission (\<open>enqueue_command\<close>), delivery to the
  broker terminal (\<open>poll_next_command\<close>), acknowledgement (\<open>ack_command\<close>), expiry, the quarantine of
  deliveries whose outcome is unknown, the purge at restart and the kill switch. Every operation is a
  function from the store to the store it commits and its answer or exception.
\<close>

section \<open>Expiry and quarantine\<close>

definition cleanup_expired_commands :: "Env \<Rightarrow> Store \<Rightarrow> Store \<times> nat" where
  "cleanup_expired_commands e s0 =
     (case now_read e s0 of (now, s) \<Rightarrow>
        let due = (\<lambda>r. r_status r \<in> {''queued'', ''delivered''} \<and> flt (r_expires_at r) now);
            expired_rows = filter (\<lambda>r. due r \<and> r_command_id r \<noteq> []) (s_commands s) in
        if expired_rows = [] then (s, 0)
        else (append_command_events e
                (map (\<lambda>r. (r_command_id r, ''expired'', ''ttl_expired'', [(''expired_at'', VFloat now)])) expired_rows)
                (update_where due (set_status ''expired'' now ''ttl_expired'') s),
              length expired_rows))"

definition quarantine_stale_delivered :: "Env \<Rightarrow> pyfloat \<Rightarrow> Store \<Rightarrow> Store \<times> nat" where
  "quarantine_stale_delivered e age_secs s0 =
     (case now_read e s0 of (now, s) \<Rightarrow>
        let cutoff = fsub now (fmax (Fin 1) age_secs);
            stale = (\<lambda>r. r_status r = ''delivered'' \<and> fle (r_updated_at r) cutoff \<and> fle now (r_expires_at r));
            rows = filter stale (s_commands s) in
        if rows = [] then (s, 0)
        else (append_command_events e
                (map (\<lambda>r. (r_command_id r, ''reconcile_required'', ''stale_delivery_outcome_unknown'',
                   [(''quarantined_at'', VFloat now), (''previous_status'', VStr ''delivered''),
                    (''delivered_count'', VInt (r_delivered_count r)), (''reconciliation_required'', VBool True)])) rows)
                (update_where stale (set_status ''reconcile_required'' now ''stale_delivery_outcome_unknown'') s),
              length rows))"

definition purge_pending_commands :: "Env \<Rightarrow> string \<Rightarrow> string list \<Rightarrow> bool \<Rightarrow> bool \<Rightarrow> Store \<Rightarrow> Store \<times> nat" where
  "purge_pending_commands e why intents include_delivered preserve s0 =
     (case now_read e s0 of (now, s) \<Rightarrow>
        let stripped = py_strip (if why = [] then ''runtime_restart_purged'' else why);
            reason = (if stripped = [] then ''runtime_restart_purged'' else stripped);
            wanted = map norm_verb (filter (\<lambda>i. py_strip i \<noteq> []) intents);
            statuses = (if include_delivered then [''queued'', ''delivered''] else [''queued'']);
            rows = filter (\<lambda>r. r_status r \<in> set statuses \<and> (wanted = [] \<or> py_upper (r_intent r) \<in> set wanted)
                      \<and> r_command_id r \<noteq> [] \<and> \<not> preserve_queued_exposure_reducing_command r preserve) (s_commands s);
            ids = map r_command_id rows in
        if rows = [] then (s, 0)
        else (append_command_events e
                (map (\<lambda>r. (r_command_id r, ''expired'', reason,
                   [(''purged_at'', VFloat now), (''purge_reason'', VStr reason),
                    (''previous_status'', VStr (r_status r)), (''intent'', VStr (r_intent r))])) rows)
                (update_where (\<lambda>r. r_command_id r \<in> set ids) (set_status ''expired'' now reason) s),
              length rows))"

text \<open>One status class of \<open>_quarantine_execution_queue\<close>: the rows moved and their events.\<close>

definition quarantine_class ::
  "pyfloat \<Rightarrow> string \<Rightarrow> bool \<Rightarrow> string \<Rightarrow> string \<Rightarrow> Store \<Rightarrow> Store \<times> (string \<times> string \<times> string \<times> pydict) list" where
  "quarantine_class now reason preserve previous nxt s =
     (let moved = (\<lambda>r. r_status r = previous \<and> r_command_id r \<noteq> []
                       \<and> \<not> preserve_queued_exposure_reducing_command r preserve) in
      (update_where moved (set_status nxt now reason) s,
       map (\<lambda>r. (r_command_id r, nxt, reason,
          [(''execution_egress_enabled'', VBool False), (''previous_status'', VStr previous),
           (''delivery_attempted'', VBool (previous = ''delivered''))])) (filter moved (s_commands s))))"

definition quarantine_execution_queue :: "Env \<Rightarrow> string \<Rightarrow> pyfloat \<Rightarrow> bool \<Rightarrow> Store \<Rightarrow> Store \<times> nat" where
  "quarantine_execution_queue e why now preserve s =
     (let reason = (if why = [] then ''execution_egress_disabled'' else why) in
      case quarantine_class now reason preserve ''queued'' ''expired'' s of (s1, ev1) \<Rightarrow>
      case quarantine_class now (reason @ '':broker_outcome_unknown'') preserve ''delivered'' ''reconcile_required'' s1
      of (s2, ev2) \<Rightarrow>
        (append_command_events e (ev1 @ ev2) s2, length (ev1 @ ev2)))"

section \<open>Retired entries\<close>

fun contains :: "string \<Rightarrow> string \<Rightarrow> bool" where
  "contains [] p = (p = [])"
| "contains (c # cs) p = (startswith (c # cs) p \<or> contains cs p)"

definition retired_failure :: "CommandRow \<Rightarrow> string option" where
  "retired_failure r =
     (if is_legacy_direct_demo_entry (r_cmd r) (r_payload_json r)
      then Some ''scalp_strategy_admission_mode_signed_validation_required''
      else if is_identifiable_scalp_entry (r_cmd r) (r_command_id r) (r_intent r) (r_payload_json r)
      then Some DISABLED_SCALP_ENTRY_REASON
      else None)"

definition retired_transition :: "CommandRow \<Rightarrow> (string \<times> string) option" where
  "retired_transition r =
     (if r_status r \<in> {''queued'', ''delivered''}
         \<and> (contains (py_upper (r_cmd r)) ''BUY'' \<or> contains (py_upper (r_cmd r)) ''SELL'')
         \<and> r_command_id r \<noteq> []
      then map_option (\<lambda>f. (r_status r, f)) (retired_failure r) else None)"

definition retire_group ::
  "pyfloat \<Rightarrow> CommandRow list \<Rightarrow> string \<times> string \<Rightarrow> Store \<times> (string \<times> string \<times> string \<times> pydict) list
     \<Rightarrow> Store \<times> (string \<times> string \<times> string \<times> pydict) list" where
  "retire_group now rows key acc =
     (case key of (previous, failure) \<Rightarrow> case acc of (s, evs) \<Rightarrow>
        let delivered = (previous = ''delivered'');
            nxt = (if delivered then ''reconcile_required'' else ''expired'');
            reason = ''poll_authority_revoked:'' @ failure @ (if delivered then '':broker_outcome_unknown'' else []);
            ids = map r_command_id (filter (\<lambda>r. retired_transition r = Some key) rows);
            moved = (\<lambda>r. r_command_id r \<in> set ids \<and> r_status r = previous) in
        (update_where moved (set_status nxt now reason) s,
         evs @ map (\<lambda>r. (r_command_id r, nxt, reason,
           [(''authorization_failure'', VStr failure), (''previous_status'', VStr previous),
            (''delivery_attempted'', VBool delivered), (''reconciliation_required'', VBool delivered)]))
           (filter moved (s_commands s))))"

definition quarantine_disabled_scalp_entries :: "Env \<Rightarrow> pyfloat \<Rightarrow> Store \<Rightarrow> Store \<times> nat" where
  "quarantine_disabled_scalp_entries e now s =
     (let rows = s_commands s; keys = py_unique (List.map_filter retired_transition rows) in
      case fold (retire_group now rows) keys (s, []) of (s1, evs) \<Rightarrow>
        (append_command_events e evs s1, length evs))"

section \<open>Refusals at poll\<close>

type_synonym rejection = "string \<times> string \<times> string \<times> pyfloat"

definition normalized_rejections :: "rejection list \<Rightarrow> rejection list" where
  "normalized_rejections rs =
     filter (\<lambda>(cid, rest). cid \<noteq> [])
       (map (\<lambda>(cid, why, failure, ts).
          let f = (if failure = [] then ''poll_authority_check_failed'' else failure); w = py_strip why in
          (py_strip cid, (if w = [] then ''poll_authority_revoked:'' @ f else w), f, ts)) rs)"

definition expire_group ::
  "rejection list \<Rightarrow> string \<times> pyfloat \<Rightarrow> Store \<times> string list \<Rightarrow> Store \<times> string list" where
  "expire_group rs key acc =
     (case key of (why, ts) \<Rightarrow> case acc of (s, done_ids) \<Rightarrow>
        let ids = map fst (filter (\<lambda>(cid, w, f, a). (w, a) = key) rs);
            moved = (\<lambda>r. r_command_id r \<in> set ids \<and> r_status r = ''queued'') in
        (update_where moved (set_status ''expired'' ts why) s,
         done_ids @ map r_command_id (filter moved (s_commands s))))"

definition expire_poll_rejections :: "Env \<Rightarrow> rejection list \<Rightarrow> Store \<Rightarrow> Store" where
  "expire_poll_rejections e rejections s =
     (let rs = normalized_rejections rejections;
          keys = py_unique (map (\<lambda>(cid, why, failure, ts). (why, ts)) rs) in
      case fold (expire_group rs) keys (s, []) of (s1, done_ids) \<Rightarrow>
        append_command_events e
          (map (\<lambda>(cid, why, failure, ts). (cid, ''expired'', why,
              [(''authorization_failure'', VStr failure), (''delivery_attempted'', VBool False)]))
            (filter (\<lambda>(cid, rest). cid \<in> set done_ids) rs)) s1)"

section \<open>Delivery\<close>

text \<open>\<open>ExecutionCommand(\<dots>)\<close> as poll builds it from a row to ask for egress, the other fields at their defaults.\<close>

definition candidate_command :: "CommandRow \<Rightarrow> ExecutionCommand" where
  "candidate_command r =
     (let p = r_payload_json r in
      \<lparr>ec_command_id = r_command_id r, ec_session_id = r_session_id r,
       ec_proto = (if r_proto r = [] then ''v2'' else r_proto r), ec_cmd = r_cmd r, ec_symbol = r_symbol r,
       ec_lots = r_lots r, ec_tp_cash = None, ec_tp_price = None, ec_sl_price = None, ec_close_lots = Fin 0,
       ec_magic = r_magic r, ec_target_ticket = safe_int (dget p ''target_ticket'') (- 1),
       ec_owner_token = str_or_empty (dget p ''owner_token''),
       ec_ownership_contract = str_or_empty (dget p ''ownership_contract''),
       ec_intent = (if r_intent r = [] then ''UNKNOWN'' else r_intent r), ec_trace_id = [], ec_correlation_id = [],
       ec_thread_id = [], ec_idempotency_key = [], ec_schema_version = [],
       ec_orchestration_meta_json = r_orchestration_meta_json r, ec_action = [], ec_action_score = Fin 0,
       ec_reversal_token = [], ec_status = ''queued'', ec_created_at = Fin 0, ec_updated_at = Fin 0,
       ec_expires_at = Fin 0, ec_delivered_count = 0, ec_payload = p\<rparr>)"

definition poll_entry_request :: "CommandRow \<Rightarrow> pyfloat \<Rightarrow> LiveEntryRequest" where
  "poll_entry_request r now =
     (let p = r_payload_json r; text = (\<lambda>k. str_or_empty (dget p k)) in
      \<lparr>le_pair = (if r_symbol r \<noteq> [] then r_symbol r else text ''symbol''),
       le_account_mode = text ''expected_account_mode'', le_account_scope = text ''expected_account_scope'',
       le_authority_revision = safe_int (dget p ''expected_authority_revision'') 0, le_now_ts = now,
       le_release_generation_id = text ''expected_release_generation_id'',
       le_release_request_sha256 = text ''expected_release_request_sha256'',
       le_model_identity_sha256 = text ''expected_model_identity_sha256'',
       le_manifest_file_sha256 = text ''expected_manifest_file_sha256'',
       le_runtime_boot_id = text ''expected_runtime_boot_id'', le_command_payload = p,
       le_command_id = r_command_id r, le_strategy_authority = None\<rparr>)"

definition poll_entry_failure :: "Env \<Rightarrow> Store \<Rightarrow> CommandRow \<Rightarrow> pyfloat \<Rightarrow> string" where
  "poll_entry_failure e s r now =
     (case live_entry_failure e s (poll_entry_request r now) of
        Inl err \<Rightarrow> ''poll_authority_check_failed'' | Inr f \<Rightarrow> f)"

text \<open>
  The loop over the queued rows. The answer is the row to deliver with the clock of its delivery, if
  any, and the refusals not yet written.
\<close>

fun poll_scan ::
  "Env \<Rightarrow> UncertaintyScope \<Rightarrow> pyfloat \<Rightarrow> CommandRow list \<Rightarrow> rejection list \<Rightarrow> Store
     \<Rightarrow> Store \<times> (pyerr + (CommandRow \<times> pyfloat) option \<times> rejection list)" where
  "poll_scan e u now [] pend s = (s, Inr (None, pend))"
| "poll_scan e u now (r # rs) pend s =
     (case egress_failure e s now (Some (candidate_command r)) of
        Inl err \<Rightarrow> (s, Inl err)
      | Inr f \<Rightarrow>
        if f \<noteq> []
        then poll_scan e u now rs (pend @ [(r_command_id r, ''poll_egress_revoked:'' @ f, f, now)]) s
        else if norm_verb (r_cmd r) \<notin> set entry_verbs then (s, Inr (Some (r, now), pend))
        else
          let s1 = (if pend = [] then s else expire_poll_rejections e pend s);
              a1 = poll_entry_failure e s1 r now in
          if a1 \<noteq> []
          then poll_scan e u now rs [(r_command_id r, ''poll_authority_revoked:'' @ a1, a1, now)] s1
          else if execution_uncertainty_blocks_symbol u (r_symbol r)
          then poll_scan e u now rs [] s1
          else case now_read e s1 of (delivery_now, s2) \<Rightarrow>
            let a2 = poll_entry_failure e s2 r delivery_now in
            if a2 \<noteq> []
            then poll_scan e u now rs [(r_command_id r, ''poll_authority_revoked:'' @ a2, a2, delivery_now)] s2
            else (s2, Inr (Some (r, delivery_now), [])))"

definition delivered_command :: "CommandRow \<Rightarrow> pyfloat \<Rightarrow> pyerr + ExecutionCommand" where
  "delivered_command r now =
     (let p = r_payload_json r; count = r_delivered_count r + 1 in
      ebind (py_float (py_or (dget_default p ''close_lots'' (VFloat (Fin 0))) (VFloat (Fin 0)))) (\<lambda>close_lots.
      ebind (py_float (py_or (dget_default p ''action_score'' (VFloat (Fin 0))) (VFloat (Fin 0)))) (\<lambda>action_score.
        Inr \<lparr>ec_command_id = r_command_id r, ec_session_id = r_session_id r, ec_proto = r_proto r,
          ec_cmd = r_cmd r, ec_symbol = r_symbol r, ec_lots = r_lots r, ec_tp_cash = r_tp_cash r,
          ec_tp_price = r_tp_price r, ec_sl_price = r_sl_price r, ec_close_lots = close_lots,
          ec_magic = (if r_magic r = 0 then 246810 else r_magic r),
          ec_target_ticket = safe_int (dget p ''target_ticket'') (- 1),
          ec_owner_token = str_or_empty (dget p ''owner_token''),
          ec_ownership_contract = str_or_empty (dget p ''ownership_contract''),
          ec_intent = (if r_intent r = [] then ''UNKNOWN'' else r_intent r), ec_trace_id = r_trace_id r,
          ec_correlation_id = r_correlation_id r, ec_thread_id = r_thread_id r,
          ec_idempotency_key = r_idempotency_key r, ec_schema_version = r_schema_version r,
          ec_orchestration_meta_json = r_orchestration_meta_json r, ec_action = str_or_empty (dget p ''action''),
          ec_action_score = action_score, ec_reversal_token = str_or_empty (dget p ''reversal_token''),
          ec_status = ''delivered'',
          ec_created_at = (if r_created_at r = Fin 0 then now else r_created_at r), ec_updated_at = now,
          ec_expires_at = (if r_expires_at r = Fin 0 then now else r_expires_at r),
          ec_delivered_count = (if count = 0 then 1 else count), ec_payload = p\<rparr>)))"

definition mark_delivered :: "Env \<Rightarrow> CommandRow \<Rightarrow> pyfloat \<Rightarrow> Store \<Rightarrow> Store" where
  "mark_delivered e r now s =
     append_command_event e (r_command_id r) ''delivered'' ''polled'' []
       (update_where (\<lambda>q. r_command_id q = r_command_id r)
          (\<lambda>q. q\<lparr>r_status := ''delivered'', r_updated_at := now, r_delivered_count := r_delivered_count r + 1\<rparr>) s)"

text \<open>The transaction of poll after the clean-up, on a store with its retired entries already fenced.\<close>

definition poll_deliver :: "Env \<Rightarrow> pyfloat \<Rightarrow> Store \<Rightarrow> Store \<times> (pyerr + ExecutionCommand option)" where
  "poll_deliver e now s =
     (case execution_uncertainty_scope e s now of
        Inl err \<Rightarrow> (s, Inl err)
      | Inr u \<Rightarrow>
          let rows = sort_key r_created_at
                (filter (\<lambda>r. r_status r = ''queued'' \<and> fle (r_created_at r) now \<and> fle now (r_expires_at r)) (s_commands s)) in
          case poll_scan e u now rows [] s of
            (s1, Inl err) \<Rightarrow> (s1, Inl err)
          | (s1, Inr (chosen, pend)) \<Rightarrow>
              let s2 = (if pend = [] then s1 else expire_poll_rejections e pend s1) in
              (case chosen of
                 None \<Rightarrow> (s2, Inr None)
               | Some (r, ts) \<Rightarrow>
                   (case delivered_command r ts of
                      Inl err \<Rightarrow> (s2, Inl err)
                    | Inr c \<Rightarrow> (mark_delivered e r ts s2, Inr (Some c)))))"

definition poll_transaction :: "Env \<Rightarrow> pyfloat \<Rightarrow> Store \<Rightarrow> Store \<times> (pyerr + ExecutionCommand option)" where
  "poll_transaction e now s =
     (let s1 = fst (quarantine_disabled_scalp_entries e now s) in
      case egress_failure e s1 now None of
        Inl err \<Rightarrow> (s1, Inl err)
      | Inr f \<Rightarrow>
          if f \<noteq> []
          then (fst (quarantine_execution_queue e (''poll_egress_revoked:'' @ f) now True s1), Inr None)
          else poll_deliver e now s1)"

definition poll_next_command :: "Env \<Rightarrow> Store \<Rightarrow> Store \<times> (pyerr + ExecutionCommand option)" where
  "poll_next_command e s0 =
     (case now_read e s0 of (now, s1) \<Rightarrow>
        let s2 = fst (cleanup_expired_commands e s1) in
        case poll_transaction e now s2 of
          (s3, Inl err) \<Rightarrow> (rollback s2 s3, Inl err)
        | (s3, Inr c) \<Rightarrow> (s3, Inr c))"

section \<open>Admission\<close>

definition claims_scalper :: "ExecutionCommand \<Rightarrow> bool" where
  "claims_scalper c =
     (command_verb c \<in> set entry_verbs
      \<and> (norm_lower (dget (ec_payload c) ''strategy_lane'') = SCALP_EXECUTION_LANE
         \<or> norm_lower (py_or (dget (ec_payload c) ''intent'') (VStr (ec_intent c))) = SCALP_ENTRY_INTENT))"

text \<open>The strategy gate of enqueue: a refusal, or the command with its lifetime capped by the deadline.\<close>

definition scalper_gate :: "ExecutionCommand \<Rightarrow> pyfloat \<Rightarrow> string + ExecutionCommand" where
  "scalper_gate c now =
     (let p = ec_payload c; mode = norm_lower (dget p ''expected_strategy_admission_mode'') in
      if command_verb c \<in> set entry_verbs \<and> mode \<noteq> [] \<and> mode \<noteq> SCALP_ADMISSION_MODE_SIGNED
      then Inl ''scalp_strategy_admission_mode_signed_validation_required''
      else if \<not> claims_scalper c then Inr c
      else
        let failure = production_scalp_immediate_entry_contract_error p (Some now) in
        if failure \<noteq> [] then Inl failure
        else case production_scalp_entry_deadline_epoch p of
          None \<Rightarrow> Inl ''scalp_market_entry_deadline_expired''
        | Some deadline \<Rightarrow>
            if fle (Fin (of_int deadline)) now then Inl ''scalp_market_entry_deadline_expired''
            else
              let c' = c\<lparr>ec_expires_at := fmin (ec_expires_at c) (Fin (of_int deadline))\<rparr> in
              if fle (ec_expires_at c') now then Inl ''scalp_market_entry_deadline_expired'' else Inr c')"

definition newest :: "CommandRow list \<Rightarrow> CommandRow option" where
  "newest rs = foldl (\<lambda>b r. case b of None \<Rightarrow> Some r
     | Some q \<Rightarrow> if flt (r_created_at q) (r_created_at r) then Some r else b) None rs"

definition new_row :: "ExecutionCommand \<Rightarrow> CommandRow" where
  "new_row c =
     \<lparr>r_command_id = ec_command_id c, r_session_id = ec_session_id c, r_proto = ec_proto c, r_cmd = ec_cmd c,
      r_symbol = ec_symbol c, r_lots = ec_lots c, r_tp_cash = ec_tp_cash c, r_tp_price = ec_tp_price c,
      r_sl_price = ec_sl_price c, r_magic = ec_magic c, r_intent = ec_intent c, r_trace_id = ec_trace_id c,
      r_correlation_id = ec_correlation_id c, r_thread_id = ec_thread_id c,
      r_idempotency_key = ec_idempotency_key c, r_schema_version = ec_schema_version c,
      r_orchestration_meta_json = ec_orchestration_meta_json c, r_status = ''queued'',
      r_created_at = ec_created_at c, r_updated_at = ec_updated_at c, r_expires_at = ec_expires_at c,
      r_delivered_count = 0, r_reason = [], r_payload_json = ec_payload c, r_ack_json = [],
      r_ack_policy_scope = None, r_ack_attestation_schema = None, r_ack_terminal_safe = False,
      r_ack_ticket = None, r_ack_mutation_state = None\<rparr>"

definition admission_checks :: "pydict \<Rightarrow> ExecutionCommand \<Rightarrow> (bool \<times> string) list" where
  "admission_checks required c =
     (let p = ec_payload c; pair = norm_upper (py_or (dget required ''pair'') (VStr (ec_symbol c))) in
      [(command_verb c \<notin> set entry_verbs, ''final_entry_approval_missing''),
       (command_symbol c \<noteq> pair, ''live_pair_not_allowlisted''),
       (norm_lower (dget p ''expected_account_mode'') \<noteq> norm_lower (dget required ''broker_account_mode''),
        ''broker_account_mode_approval_mismatch''),
       (norm_text (dget p ''expected_account_scope'') \<noteq> norm_text (dget required ''broker_account_scope''),
        ''broker_account_scope_approval_mismatch''),
       (safe_int (dget p ''expected_authority_revision'') 0 \<noteq> safe_int (dget required ''authority_revision'') 0,
        ''live_authority_revision_approval_mismatch'')])"

definition admission_request :: "pydict \<Rightarrow> ExecutionCommand \<Rightarrow> pyfloat \<Rightarrow> pydict option \<Rightarrow> LiveEntryRequest" where
  "admission_request required c now strategy =
     (let text = (\<lambda>k. str_or_empty (dget required k)) in
      \<lparr>le_pair = norm_upper (py_or (dget required ''pair'') (VStr (ec_symbol c))),
       le_account_mode = norm_lower (dget required ''broker_account_mode''),
       le_account_scope = norm_text (dget required ''broker_account_scope''),
       le_authority_revision = safe_int (dget required ''authority_revision'') 0, le_now_ts = now,
       le_release_generation_id = text ''release_generation_id'',
       le_release_request_sha256 = text ''release_request_sha256'',
       le_model_identity_sha256 = text ''model_identity_sha256'',
       le_manifest_file_sha256 = text ''manifest_file_sha256'',
       le_runtime_boot_id = text ''runtime_boot_id'', le_command_payload = ec_payload c,
       le_command_id = ec_command_id c, le_strategy_authority = strategy\<rparr>)"

definition live_admission_failure ::
  "Env \<Rightarrow> Store \<Rightarrow> pydict \<Rightarrow> ExecutionCommand \<Rightarrow> pyfloat \<Rightarrow> pyerr + string" where
  "live_admission_failure e s required c now =
     (if required = [] then Inr []
      else
        let mismatch = first_reason (admission_checks required c) in
        if mismatch \<noteq> [] then Inr mismatch
        else
          ebind (if truthy (dget required ''strategy_authority'')
                 then ebind (as_dict (dget required ''strategy_authority'')) (\<lambda>d. Inr (Some d)) else Inr None) (\<lambda>strategy.
            live_entry_failure e s (admission_request required c now strategy)))"

text \<open>The last statements of enqueue: insert the row and its event, then patch the state.\<close>

definition insert_command :: "Env \<Rightarrow> ExecutionCommand \<Rightarrow> Store \<Rightarrow> Store" where
  "insert_command e c s =
     append_command_event e (ec_command_id c) ''queued'' ''queued'' (to_dict c)
       (s\<lparr>s_commands := s_commands s @ [new_row c]\<rparr>)"

definition record_signal :: "Env \<Rightarrow> ExecutionCommand \<Rightarrow> Store \<Rightarrow> Store \<times> (store_error + unit)" where
  "record_signal e c s =
     (case py_int (dget_default (state_dict s) ''signals_sent'' (VInt 0)) of
        Inl err \<Rightarrow> (s, Inl (Builtin err))
      | Inr n \<Rightarrow>
          (case now_read e s of (ts, s1) \<Rightarrow>
             update_state_patch e
               [(''signals_sent'', VInt (n + 1)),
                (''last_signal'', VDict [(''command_id'', VStr (ec_command_id c)), (''cmd'', VStr (ec_cmd c)),
                   (''symbol'', VStr (ec_symbol c)), (''ts'', VFloat ts)])] None [] s1))"

definition requeue_expired :: "Env \<Rightarrow> CommandRow \<Rightarrow> ExecutionCommand \<Rightarrow> Store \<Rightarrow> Store \<times> (bool \<times> string)" where
  "requeue_expired e r c s =
     (let hit = (\<lambda>q. r_command_id q = ec_command_id c \<and> r_status q = ''expired'' \<and> r_delivered_count q = 0);
          s1 = update_where hit
            (\<lambda>q. q\<lparr>r_status := ''queued'', r_created_at := ec_created_at c, r_updated_at := ec_updated_at c,
                    r_expires_at := ec_expires_at c, r_reason := ''expired_never_delivered_requeued''\<rparr>) s in
      if length (filter hit (s_commands s)) = 1
      then (append_command_event e (ec_command_id c) ''requeued'' ''expired_never_delivered_requeued''
              [(''previous_status'', VStr ''expired''), (''previous_reason'', VStr (r_reason r)),
               (''previous_created_at'', VFloat (r_created_at r)), (''previous_updated_at'', VFloat (r_updated_at r)),
               (''previous_expires_at'', VFloat (r_expires_at r)), (''requeued_at'', VFloat (ec_updated_at c)),
               (''new_expires_at'', VFloat (ec_expires_at c)), (''delivered_count'', VInt 0)] s1,
            (True, ''queued''))
      else (s1, (False, r_status r)))"

definition active_duplicate :: "ExecutionCommand \<Rightarrow> pyfloat \<Rightarrow> Store \<Rightarrow> CommandRow option" where
  "active_duplicate c now s =
     (if py_strip (ec_idempotency_key c) = [] then None
      else newest (filter (\<lambda>r. r_idempotency_key r = ec_idempotency_key c
             \<and> fle (r_created_at r) now \<and> fle now (r_expires_at r)) (s_commands s)))"

definition enqueue_new ::
  "Env \<Rightarrow> ExecutionCommand \<Rightarrow> bool \<Rightarrow> pydict \<Rightarrow> pyfloat \<Rightarrow> Store \<Rightarrow> Store \<times> (store_error + bool \<times> string)" where
  "enqueue_new e c require_resolved required now s =
     (case (if require_resolved then has_execution_uncertainty e s (ec_symbol c) else (s, Inr False)) of
        (s1, Inl err) \<Rightarrow> (s1, Inl (Builtin err))
      | (s1, Inr True) \<Rightarrow> (s1, Inr (False, ''reconciliation_required''))
      | (s1, Inr False) \<Rightarrow>
          (case live_admission_failure e s1 required c now of
             Inl err \<Rightarrow> (s1, Inl (Builtin err))
           | Inr f \<Rightarrow>
               if f \<noteq> [] then (s1, Inr (False, f))
               else case record_signal e c (insert_command e c s1) of
                 (s2, Inl err) \<Rightarrow> (s2, Inl err)
               | (s2, Inr u) \<Rightarrow> (s2, Inr (True, ''queued''))))"

definition enqueue_command ::
  "Env \<Rightarrow> ExecutionCommand \<Rightarrow> bool \<Rightarrow> pydict \<Rightarrow> Store \<Rightarrow> Store \<times> (store_error + bool \<times> string)" where
  "enqueue_command e cmd0 require_resolved required s0 =
     (case now_read e s0 of (now, s) \<Rightarrow>
        case scalper_gate cmd0 now of
          Inl why \<Rightarrow> (s, Inr (False, why))
        | Inr c \<Rightarrow>
            if is_identifiable_scalp_entry (ec_cmd c) (ec_command_id c) (ec_intent c) (ec_payload c)
            then (s, Inr (False, DISABLED_SCALP_ENTRY_REASON))
            else case egress_failure e s now (Some c) of
              Inl err \<Rightarrow> (s, Inl (Builtin err))
            | Inr f \<Rightarrow>
                if f \<noteq> [] then (s, Inr (False, f))
                else case find_row (ec_command_id c) s of
                  Some r \<Rightarrow>
                    if is_exact_expired_exposure_reducing_retry r c
                    then (case requeue_expired e r c s of (s1, ans) \<Rightarrow> (s1, Inr ans))
                    else (s, Inr (False, r_status r))
                | None \<Rightarrow>
                    (case active_duplicate c now s of
                       Some r \<Rightarrow> (s, Inr (False, r_status r))
                     | None \<Rightarrow> enqueue_new e c require_resolved required now s))"

section \<open>Acknowledgement\<close>

definition ack_row :: "Env \<Rightarrow> string \<Rightarrow> string \<Rightarrow> Store \<Rightarrow> Store \<times> CommandRow option" where
  "ack_row e command_id key s =
     (case (if command_id = [] then None else find_row command_id s) of
        Some r \<Rightarrow> (s, Some r)
      | None \<Rightarrow>
          if key = [] then (s, None)
          else case now_read e s of (now, s1) \<Rightarrow>
            (s1, newest (filter (\<lambda>r. r_idempotency_key r = key \<and> fle now (r_expires_at r)) (s_commands s))))"

definition nonempty_text :: "string \<Rightarrow> string option" where
  "nonempty_text s = (if s = [] then None else Some s)"

definition ack_values :: "string \<Rightarrow> ExecutionAck \<Rightarrow> pydict \<Rightarrow> pydict \<Rightarrow> string \<Rightarrow> CommandRow \<Rightarrow> CommandRow" where
  "ack_values requested ack attestation enriched reason r =
     (let ticket = attested_ticket attestation in
      r\<lparr>r_status := requested, r_updated_at := ak_updated_at ack, r_ack_json := enriched,
        r_ack_policy_scope := nonempty_text (str_or_empty (dget attestation ''policy_scope'')),
        r_ack_attestation_schema := nonempty_text (norm_text (dget attestation ''schema_version'')),
        r_ack_terminal_safe := execution_ack_terminal_safe attestation requested ticket,
        r_ack_ticket := (if 0 < ticket then Some ticket else None),
        r_ack_mutation_state := nonempty_text (norm_text (dget attestation ''mutation_state'')),
        r_reason := reason,
        r_delivered_count := r_delivered_count r + (if requested = ''delivered'' then 1 else 0)\<rparr>)"

definition ack_reason :: "string \<Rightarrow> ExecutionAck \<Rightarrow> pydict \<Rightarrow> string list \<Rightarrow> string" where
  "ack_reason requested ack attestation store_reasons =
     (let durable = py_unique (store_reasons @ map py_str (items_of (dget attestation ''reasons''))) in
      if requested = ''reconcile_required'' \<and> durable \<noteq> []
      then ''execution_ack_reconciliation_required:'' @ join_str '','' durable
      else py_strip (ak_message ack))"

definition entry_trade :: "CommandRow \<Rightarrow> string \<Rightarrow> pydict \<Rightarrow> bool" where
  "entry_trade r requested attestation =
     (norm_verb (r_cmd r) \<in> set entry_verbs \<and> requested = ''acked''
      \<and> dget attestation ''attested'' = VBool True \<and> 0 < attested_ticket attestation)"

definition has_acked_event :: "string \<Rightarrow> Store \<Rightarrow> bool" where
  "has_acked_event command_id s =
     list_ex (\<lambda>v. ev_command_id v = command_id \<and> ev_status v = ''acked'') (s_events s)"

definition record_ack_state :: "Env \<Rightarrow> pydict \<Rightarrow> bool \<Rightarrow> Store \<Rightarrow> pyerr + Store" where
  "record_ack_state e enriched count_as_trade s =
     (let st = dput ''last_ack'' (VDict enriched) (state_dict s) in
      ebind (if count_as_trade
             then ebind (py_int (py_or (dget_default st ''trades_executed'' (VInt 0)) (VInt 0)))
                    (\<lambda>n. Inr (dput ''trades_executed'' (VInt (n + 1)) st))
             else Inr st) (\<lambda>st'.
        case now_read e s of (now, s1) \<Rightarrow> Inr (write_state (dput ''last_update'' (VFloat now) st') s1)))"

definition apply_ack ::
  "Env \<Rightarrow> CommandRow \<Rightarrow> ExecutionAck \<Rightarrow> pydict \<Rightarrow> string \<Rightarrow> string list \<Rightarrow> Store \<Rightarrow> pyerr + Store" where
  "apply_ack e r ack attestation requested store_reasons s =
     (let cid = r_command_id r;
          trade = entry_trade r requested attestation;
          enriched = enriched_execution_ack (ack_to_dict ack) attestation requested trade store_reasons;
          reason = ack_reason requested ack attestation store_reasons;
          count_as_trade = (requested = ''acked'' \<and> trade \<and> \<not> has_acked_event cid s);
          s1 = update_where (\<lambda>q. r_command_id q = cid) (\<lambda>q. ack_values requested ack attestation enriched reason r) s in
      record_ack_state e enriched count_as_trade (append_command_event e cid requested reason enriched s1))"

definition applied_reply :: "string \<Rightarrow> string \<Rightarrow> pydict \<Rightarrow> string list \<Rightarrow> string \<Rightarrow> ExecutionAck \<Rightarrow> string \<Rightarrow> pydict" where
  "applied_reply requested reported attestation store_reasons cid ack key =
     [(''status'', VStr requested), (''command_id'', VStr cid)]
     @ (if requested = ''reconcile_required''
        then [(''reported_status'', VStr reported),
              (''reasons'', VList (map VStr (py_unique (store_reasons @ map py_str (items_of (dget attestation ''reasons''))))))]
        else [])
     @ (if key \<noteq> [] \<and> cid \<noteq> py_strip (ak_command_id ack) then [(''idempotency_key'', VStr key)] else [])"

definition ack_command :: "Env \<Rightarrow> ExecutionAck \<Rightarrow> Store \<Rightarrow> Store \<times> (pyerr + pydict \<times> int)" where
  "ack_command e ack s0 =
     (let command_id = py_strip (ak_command_id ack); key = py_strip (ak_idempotency_key ack) in
      if command_id = [] \<and> key = []
      then (s0, Inr ([(''status'', VStr ''error''), (''reason'', VStr ''missing_command_id'')], 400))
      else case ack_row e command_id key s0 of
        (s, None) \<Rightarrow>
          (s, Inr ([(''status'', VStr ''not_found'')]
            @ (if command_id = [] then [] else [(''command_id'', VStr command_id)])
            @ (if key = [] then [] else [(''idempotency_key'', VStr key)]), 404))
      | (s, Some r) \<Rightarrow>
          let reported = reported_ack_status ack; attestation = ack_attestation r ack reported; cid = r_command_id r in
          (case decide_ack r attestation (ack_to_dict ack) of
             AckIdempotent st \<Rightarrow>
               (s, Inr ([(''status'', VStr st), (''command_id'', VStr cid), (''idempotent'', VBool True)], 200))
           | AckInvalid cur requested \<Rightarrow>
               (s, Inr ([(''status'', VStr ''invalid_transition''), (''command_id'', VStr cid),
                  (''current'', VStr cur), (''requested'', VStr requested),
                  (''allowed'', VList (map VStr (if cur = ''queued'' then [''delivered'']
                     else [''delivered'', ''acked'', ''failed'', ''duplicate'', ''reconcile_required''])))], 409))
           | AckApply requested store_reasons \<Rightarrow>
               (case apply_ack e r ack attestation requested store_reasons s of
                  Inl err \<Rightarrow> (s, Inl err)
                | Inr s1 \<Rightarrow> (s1, Inr (applied_reply requested reported attestation store_reasons cid ack key, 200)))))"

section \<open>The kill switch\<close>

definition kill_live :: "string \<Rightarrow> pyfloat \<Rightarrow> pydict \<Rightarrow> pydict" where
  "kill_live reason now live =
     dmerge live
       [(''runtime_enabled'', VBool False), (''queue_kill_active'', VBool True), (''queue_kill_reason'', VStr reason),
        (''queue_killed_at'', VFloat now), (''last_kill_reason'', VStr reason), (''last_kill_at'', VFloat now),
        (''authority_revision'', VInt (live_revision live + 1))]"

definition revoke_release_in_state :: "string \<Rightarrow> pyfloat \<Rightarrow> pydict \<Rightarrow> pyerr + pydict" where
  "revoke_release_in_state reason now st =
     ebind (as_dict (dget st ''release_authority'')) (\<lambda>current.
       if norm_lower (dget current ''status'') \<in> {''pending'', ''acknowledged'', ''active''}
       then ebind (as_list (dget current ''errors'')) (\<lambda>errors.
         if \<not> list_all hashable errors then Inl TypeError
         else Inr (dput ''release_authority''
           (VDict (dmerge current [(''status'', VStr ''revoked''),
              (''errors'', VList (py_unique (errors @ [VStr reason]))), (''updated_at'', VFloat now)])) st))
       else Inr st)"

definition killed_state :: "string \<Rightarrow> bool \<Rightarrow> pyfloat \<Rightarrow> pydict \<Rightarrow> pyerr + pydict" where
  "killed_state reason revoke_release now st =
     ebind (revoke_production_scalp_authority_in_state reason now (disable_execution_egress_in_state reason now st)) (\<lambda>st1.
     ebind (as_dict (dget st1 ''runtime_diag'')) (\<lambda>rd.
     ebind (as_dict (dget rd ''orchestration_live'')) (\<lambda>live.
       let st2 = dput ''runtime_diag'' (VDict (dput ''orchestration_live'' (VDict (kill_live reason now live)) rd)) st1 in
       if revoke_release then revoke_release_in_state reason now st2 else Inr st2)))"

definition disable_execution_egress ::
  "Env \<Rightarrow> string \<Rightarrow> bool \<Rightarrow> bool \<Rightarrow> Store \<Rightarrow> Store \<times> (pyerr + string \<times> nat)" where
  "disable_execution_egress e why revoke_release preserve s0 =
     (case now_read e s0 of (now, s) \<Rightarrow>
        let reason = py_strip (if why = [] then ''execution_egress_disabled'' else why) in
        case killed_state reason revoke_release now (state_dict s) of
          Inl err \<Rightarrow> (s, Inl err)
        | Inr st \<Rightarrow>
            (case quarantine_execution_queue e reason now preserve s of (s1, n) \<Rightarrow>
               (write_state (dput ''last_update'' (VFloat now) st) s1, Inr (reason, n))))"

end
