(* ===== verification/Queue_Life.thy ===== *)
theory Queue_Life
  imports Command_Queue
begin

text \<open>
  The life of a command as the queue promises it, a step relation on the status and the delivery count of a
  row, and the proof that every operation of the queue refines it: rows are never deleted, their
  business columns never change, a new row starts queued and undelivered, and what happens to a row is a
  sequence of these steps.
\<close>

section \<open>The abstract life cycle\<close>

inductive life :: "string \<times> int \<Rightarrow> string \<times> int \<Rightarrow> bool" where
  deliver: "life (''queued'', n) (''delivered'', n + 1)"
| expire: "st \<in> {''queued'', ''delivered''} \<Longrightarrow> life (st, n) (''expired'', n)"
| quarantine: "life (''delivered'', n) (''reconcile_required'', n)"
| requeue: "life (''expired'', 0) (''queued'', 0)"
| receipt: "st \<in> {''queued'', ''delivered''} \<or> st = ''expired'' \<and> 0 < n \<Longrightarrow> life (st, n) (''delivered'', n + 1)"
| confirm: "st' \<in> {''acked'', ''failed'', ''duplicate''} \<Longrightarrow>
    st = ''delivered'' \<or> st \<in> {''queued'', ''expired''} \<and> 0 < n \<Longrightarrow> life (st, n) (st', n)"
| resolve: "st \<in> {''expired'', ''reconcile_required''} \<Longrightarrow> life (st, n) (''acked'', n)"
| contradict: "life (st, n) (''reconcile_required'', n)"

inductive_cases life_reconcileE: "life (''reconcile_required'', n) y"
inductive_simps life_queued: "life x (''queued'', m)"

definition row_life :: "CommandRow \<Rightarrow> string \<times> int" where
  "row_life r = (r_status r, r_delivered_count r)"

definition business :: "CommandRow \<Rightarrow> CommandRow" where
  "business r = r\<lparr>r_status := [], r_created_at := Fin 0, r_updated_at := Fin 0, r_expires_at := Fin 0,
     r_delivered_count := 0, r_reason := [], r_ack_json := [], r_ack_policy_scope := None,
     r_ack_attestation_schema := None, r_ack_terminal_safe := False, r_ack_ticket := None,
     r_ack_mutation_state := None\<rparr>"

definition evolves :: "CommandRow \<Rightarrow> CommandRow \<Rightarrow> bool" where
  "evolves r r' = (business r = business r' \<and> life\<^sup>*\<^sup>* (row_life r) (row_life r'))"

text \<open>The same, where only rows with the given identifiers may change at all.\<close>

definition touches :: "string set \<Rightarrow> CommandRow \<Rightarrow> CommandRow \<Rightarrow> bool" where
  "touches I r r' = (evolves r r' \<and> (r_command_id r \<in> I \<or> r' = r))"

definition fresh :: "CommandRow \<Rightarrow> bool" where
  "fresh r = (row_life r = (''queued'', 0))"

text \<open>The queue after an operation refines the queue before it.\<close>

definition refines_rows :: "CommandRow list \<Rightarrow> CommandRow list \<Rightarrow> bool" where
  "refines_rows rs rs' = (\<exists>new. list_all fresh new \<and> list_all2 evolves (rs @ new) rs')"

section \<open>Laws of the relations\<close>

lemma evolves_refl [simp]: "evolves r r"
  by (simp add: evolves_def)

lemma evolves_trans: "evolves a b \<Longrightarrow> evolves b c \<Longrightarrow> evolves a c"
  by (auto simp: evolves_def)

lemma business_id: "business r = business r' \<Longrightarrow> r_command_id r = r_command_id r'"
  by (drule arg_cong [where f = r_command_id]) (simp add: business_def)

lemma evolves_id: "evolves r r' \<Longrightarrow> r_command_id r' = r_command_id r"
  by (auto simp: evolves_def dest: business_id)

lemma evolves_step: "business r = business r' \<Longrightarrow> life (row_life r) (row_life r') \<Longrightarrow> evolves r r'"
  by (simp add: evolves_def)

lemma business_set_status [simp]: "business (set_status st ts why r) = business r"
  by (simp add: business_def set_status_def)

lemma row_life_set_status [simp]: "row_life (set_status st ts why r) = (st, r_delivered_count r)"
  by (simp add: row_life_def)

lemma evolves_expire: "r_status r \<in> {''queued'', ''delivered''} \<Longrightarrow> evolves r (set_status ''expired'' ts why r)"
  by (rule evolves_step) (auto simp: row_life_def intro: life.expire)

lemma evolves_quarantine: "r_status r = ''delivered'' \<Longrightarrow> evolves r (set_status ''reconcile_required'' ts why r)"
  by (rule evolves_step) (auto simp: row_life_def intro: life.quarantine)

lemma touches_refl [simp]: "touches I r r"
  by (simp add: touches_def)

lemma touches_mono: "touches I r r' \<Longrightarrow> I \<subseteq> J \<Longrightarrow> touches J r r'"
  by (auto simp: touches_def)

lemma touches_trans: "touches I a b \<Longrightarrow> touches I b c \<Longrightarrow> touches I a c"
  by (auto simp: touches_def dest: evolves_id intro: evolves_trans)

lemma list_all2_touches_trans:
  "list_all2 (touches I) xs ys \<Longrightarrow> list_all2 (touches I) ys zs \<Longrightarrow> list_all2 (touches I) xs zs"
  by (rule list_all2_trans [OF touches_trans])

lemma list_all2_touches_mono:
  "list_all2 (touches I) xs ys \<Longrightarrow> I \<subseteq> J \<Longrightarrow> list_all2 (touches J) xs ys"
  by (erule list_all2_mono) (rule touches_mono)

lemma list_all2_touches_evolves: "list_all2 (touches I) xs ys \<Longrightarrow> list_all2 evolves xs ys"
  by (erule list_all2_mono) (simp add: touches_def)

lemma list_all2_evolves_refl [simp]: "list_all2 evolves xs xs"
  by (simp add: list_all2_refl)

lemma list_all2_touches_refl [simp]: "list_all2 (touches I) xs xs"
  by (simp add: list_all2_refl)

lemma list_all2_evolves_trans:
  "list_all2 evolves xs ys \<Longrightarrow> list_all2 evolves ys zs \<Longrightarrow> list_all2 evolves xs zs"
  by (rule list_all2_trans [OF evolves_trans])

lemma refines_refl [simp]: "refines_rows rs rs"
  unfolding refines_rows_def by (rule exI [of _ "[]"]) simp

lemma refines_evolve: "list_all2 evolves rs rs' \<Longrightarrow> refines_rows rs rs'"
  unfolding refines_rows_def by (rule exI [of _ "[]"]) simp

lemma refines_new: "fresh r \<Longrightarrow> refines_rows rs (rs @ [r])"
  unfolding refines_rows_def by (rule exI [of _ "[r]"]) simp

lemma refines_trans: "refines_rows a b \<Longrightarrow> refines_rows b c \<Longrightarrow> refines_rows a c"
proof -
  assume "refines_rows a b" "refines_rows b c"
  then obtain m n where f: "list_all fresh m" "list_all fresh n"
    and ab: "list_all2 evolves (a @ m) b" and bc: "list_all2 evolves (b @ n) c"
    by (auto simp: refines_rows_def)
  have "list_all2 evolves ((a @ m) @ n) (b @ n)" by (rule list_all2_appendI [OF ab]) simp
  from list_all2_evolves_trans [OF this bc] f show ?thesis
    unfolding refines_rows_def by (intro exI [of _ "m @ n"]) simp
qed

lemma update_where_evolves:
  assumes "\<And>r. r \<in> set (s_commands s) \<Longrightarrow> P r \<Longrightarrow> evolves r (f r)"
  shows "list_all2 evolves (s_commands s) (s_commands (update_where P f s))"
  using assms by (auto simp: update_where_commands list_all2_conv_all_nth)

lemma update_where_touches:
  assumes "\<And>r. r \<in> set (s_commands s) \<Longrightarrow> P r \<Longrightarrow> evolves r (f r) \<and> r_command_id r \<in> I"
  shows "list_all2 (touches I) (s_commands s) (s_commands (update_where P f s))"
  using assms by (auto simp: update_where_commands list_all2_conv_all_nth touches_def)

lemma evolves_ids: "list_all2 evolves rs rs' \<Longrightarrow> map r_command_id rs' = map r_command_id rs"
  by (induction rule: list_all2_induct) (auto dest: evolves_id)

lemma touches_unchanged:
  "list_all2 (touches I) rs rs' \<Longrightarrow> r \<in> set rs \<Longrightarrow> r_command_id r \<notin> I \<Longrightarrow> r \<in> set rs'"
  by (induction rule: list_all2_induct) (auto simp: touches_def)

section \<open>Facts about single steps\<close>

lemma life_count_mono: "life\<^sup>*\<^sup>* x y \<Longrightarrow> snd x \<le> snd y"
  by (induction rule: rtranclp_induct) (auto elim!: life.cases)

text \<open>What every reachable row satisfies.\<close>

definition known_statuses :: "string list" where
  "known_statuses = [''queued'', ''delivered'', ''expired'', ''acked'', ''failed'', ''duplicate'', ''reconcile_required'']"

definition life_ok :: "string \<times> int \<Rightarrow> bool" where
  "life_ok x = (fst x \<in> set known_statuses \<and> 0 \<le> snd x \<and> (fst x = ''queued'' \<longrightarrow> snd x = 0) \<and> (fst x = ''delivered'' \<longrightarrow> 1 \<le> snd x))"

lemma life_ok_step: "life x y \<Longrightarrow> life_ok x \<Longrightarrow> life_ok y"
  by (induction rule: life.induct) (auto simp: life_ok_def known_statuses_def)

lemma life_ok_steps: "life\<^sup>*\<^sup>* x y \<Longrightarrow> life_ok x \<Longrightarrow> life_ok y"
  by (induction rule: rtranclp_induct) (auto intro: life_ok_step)

lemma reconcile_sticky:
  "life\<^sup>*\<^sup>* x y \<Longrightarrow> fst x = ''reconcile_required'' \<Longrightarrow> fst y \<in> {''reconcile_required'', ''acked''}"
  by (induction rule: rtranclp_induct) (auto elim!: life.cases)

text \<open>A settled command stays settled or is put under reconciliation; it is never delivered again.\<close>

definition settled :: "string \<Rightarrow> bool" where
  "settled st = (st \<in> {''acked'', ''failed'', ''duplicate'', ''reconcile_required''})"

lemma settled_step: "life x y \<Longrightarrow> settled (fst x) \<Longrightarrow> settled (fst y) \<and> snd y = snd x"
  by (induction rule: life.induct) (auto simp: settled_def)

lemma settled_closed: "life\<^sup>*\<^sup>* x y \<Longrightarrow> settled (fst x) \<Longrightarrow> settled (fst y) \<and> snd y = snd x"
  by (induction rule: rtranclp_induct) (auto dest: settled_step)

section \<open>The operations\<close>

lemma append_events_rows [simp]: "s_commands (append_command_events e evs s) = s_commands s"
  by simp

lemma now_read_rows: "now_read e s = (now, s1) \<Longrightarrow> s_commands s1 = s_commands s \<and> s_state s1 = s_state s \<and> s_events s1 = s_events s"
  by (auto simp: now_read_def)

lemma guarded_update:
  assumes "s_commands t = s_commands s" and "list_all2 evolves (s_commands t) (s_commands (update_where P f t))"
  shows "list_all2 evolves (s_commands s)
    (s_commands (fst (if c then (t, n) else (append_command_events e evs (update_where P f t), m))))"
  using assms by (cases c) simp_all

lemma cleanup_evolves: "list_all2 evolves (s_commands s) (s_commands (fst (cleanup_expired_commands e s)))"
proof -
  obtain now t where n: "now_read e s = (now, t)" by fastforce
  show ?thesis
    unfolding cleanup_expired_commands_def n prod.case Let_def
    by (rule guarded_update, use now_read_rows [OF n] in blast)
      (rule update_where_evolves, blast intro: evolves_expire)
qed

lemma stale_evolves: "list_all2 evolves (s_commands s) (s_commands (fst (quarantine_stale_delivered e age s)))"
proof -
  obtain now t where n: "now_read e s = (now, t)" by fastforce
  show ?thesis
    unfolding quarantine_stale_delivered_def n prod.case Let_def
    by (rule guarded_update, use now_read_rows [OF n] in blast)
      (rule update_where_evolves, blast intro: evolves_quarantine)
qed

lemma row_of_id: "distinct (map r_command_id rs) \<Longrightarrow> r \<in> set rs \<Longrightarrow> q \<in> set rs \<Longrightarrow>
    r_command_id r = r_command_id q \<Longrightarrow> r = q"
  by (auto simp: distinct_map inj_on_def)

lemma update_ids_evolves:
  assumes "distinct (map r_command_id (s_commands t))" and "\<And>r. P r \<Longrightarrow> evolves r (f r)"
  shows "list_all2 evolves (s_commands t) (s_commands (update_where
      (\<lambda>r. r_command_id r \<in> set (map r_command_id (filter P (s_commands t)))) f t))"
proof (rule update_where_evolves)
  fix r assume "r \<in> set (s_commands t)" "r_command_id r \<in> set (map r_command_id (filter P (s_commands t)))"
  with row_of_id [OF assms(1)] have "P r" by auto
  then show "evolves r (f r)" by (rule assms(2))
qed

lemma purge_evolves:
  assumes "distinct (map r_command_id (s_commands s))"
  shows "list_all2 evolves (s_commands s) (s_commands (fst (purge_pending_commands e why intents incl pres s)))"
proof -
  obtain now t where n: "now_read e s = (now, t)" by fastforce
  show ?thesis
    unfolding purge_pending_commands_def n prod.case Let_def
    by (rule guarded_update, use now_read_rows [OF n] in blast)
      (rule update_ids_evolves, use assms now_read_rows [OF n] in \<open>auto intro!: evolves_expire split: if_splits\<close>)
qed

lemma quarantine_class_evolves:
  assumes "previous = ''queued'' \<and> nxt = ''expired'' \<or> previous = ''delivered'' \<and> nxt = ''reconcile_required''"
  shows "list_all2 evolves (s_commands s) (s_commands (fst (quarantine_class now reason pres previous nxt s)))"
  unfolding quarantine_class_def Let_def fst_conv
  by (rule update_where_evolves) (use assms in \<open>auto intro: evolves_expire evolves_quarantine\<close>)

lemma quarantine_queue_evolves:
  "list_all2 evolves (s_commands s) (s_commands (fst (quarantine_execution_queue e why now pres s)))"
proof -
  let ?r = "if why = [] then ''execution_egress_disabled'' else why"
  let ?s1 = "fst (quarantine_class now ?r pres ''queued'' ''expired'' s)"
  have "list_all2 evolves (s_commands s) (s_commands ?s1)" by (rule quarantine_class_evolves) simp
  moreover have "list_all2 evolves (s_commands ?s1) (s_commands (fst (quarantine_class now
      (?r @ '':broker_outcome_unknown'') pres ''delivered'' ''reconcile_required'' ?s1)))"
    by (rule quarantine_class_evolves) simp
  ultimately show ?thesis
    by (auto simp: quarantine_execution_queue_def Let_def split_beta intro: list_all2_evolves_trans)
qed

text \<open>The snapshot row is untouched and the event log only grows.\<close>

definition keeps_log :: "Store \<Rightarrow> Store \<Rightarrow> bool" where
  "keeps_log s s' = prefix (s_events s) (s_events s')"

definition queue_only :: "Store \<Rightarrow> Store \<Rightarrow> bool" where
  "queue_only s s' = (s_state s' = s_state s \<and> keeps_log s s')"

lemma keeps_log_refl [simp]: "keeps_log s s"
  by (simp add: keeps_log_def)

lemma keeps_log_trans: "keeps_log a b \<Longrightarrow> keeps_log b c \<Longrightarrow> keeps_log a c"
  by (auto simp: keeps_log_def intro: prefix_order.trans)

lemma queue_only_refl [simp]: "queue_only s s"
  by (simp add: queue_only_def)

lemma queue_only_trans: "queue_only a b \<Longrightarrow> queue_only b c \<Longrightarrow> queue_only a c"
  by (auto simp: queue_only_def intro: keeps_log_trans)

lemma queue_only_update [simp]: "queue_only s (update_where P f s)"
  by (simp add: queue_only_def keeps_log_def)

lemma queue_only_append [simp]: "queue_only s (append_command_events e evs s)"
  by (simp add: queue_only_def keeps_log_def append_command_events_log)

lemma queue_only_then_append: "queue_only s t \<Longrightarrow> queue_only s (append_command_events e evs t)"
  by (rule queue_only_trans [OF _ queue_only_append])

lemma queue_only_append1 [simp]: "queue_only s (append_command_event e c st w p s)"
  by (simp add: append_command_event_def)

lemma queue_only_append_update [simp]: "queue_only s (append_command_events e evs (update_where P f s))"
  by (rule queue_only_trans [OF queue_only_update queue_only_append])

lemma queue_only_now: "now_read e s = (now, t) \<Longrightarrow> queue_only s t"
  by (auto simp: now_read_def queue_only_def keeps_log_def)

lemma queue_only_rollback: "queue_only s (rollback s t)"
  by (simp add: queue_only_def keeps_log_def)

lemma cleanup_queue_only: "queue_only s (fst (cleanup_expired_commands e s))"
proof -
  obtain now t where n: "now_read e s = (now, t)" by fastforce
  show ?thesis
    unfolding cleanup_expired_commands_def n prod.case Let_def
    using queue_only_trans [OF queue_only_now [OF n]] queue_only_now [OF n] by simp
qed

lemma stale_queue_only: "queue_only s (fst (quarantine_stale_delivered e age s))"
proof -
  obtain now t where n: "now_read e s = (now, t)" by fastforce
  show ?thesis
    unfolding quarantine_stale_delivered_def n prod.case Let_def
    using queue_only_trans [OF queue_only_now [OF n]] queue_only_now [OF n] by simp
qed

lemma purge_queue_only: "queue_only s (fst (purge_pending_commands e why intents incl pres s))"
proof -
  obtain now t where n: "now_read e s = (now, t)" by fastforce
  show ?thesis
    unfolding purge_pending_commands_def n prod.case Let_def
    using queue_only_trans [OF queue_only_now [OF n]] queue_only_now [OF n] by simp
qed

lemma quarantine_queue_only: "queue_only s (fst (quarantine_execution_queue e why now pres s))"
  unfolding quarantine_execution_queue_def quarantine_class_def Let_def prod.case fst_conv
  by (rule queue_only_trans [OF queue_only_trans [OF queue_only_update queue_only_update] queue_only_append])

lemma retired_status: "retired_transition r = Some (previous, failure) \<Longrightarrow> previous \<in> {''queued'', ''delivered''}"
  by (auto simp: retired_transition_def split: if_splits option.splits)

lemma retire_group_evolves:
  assumes "fst key \<in> {''queued'', ''delivered''}"
  shows "list_all2 evolves (s_commands (fst acc)) (s_commands (fst (retire_group now rows key acc)))"
    and "queue_only (fst acc) (fst (retire_group now rows key acc))"
  unfolding retire_group_def Let_def split_beta fst_conv
  by (rule update_where_evolves, use assms in \<open>auto intro: evolves_expire evolves_quarantine\<close>)

lemma retire_fold_evolves:
  assumes "\<And>key. key \<in> set keys \<Longrightarrow> fst key \<in> {''queued'', ''delivered''}"
  shows "list_all2 evolves (s_commands (fst acc)) (s_commands (fst (fold (retire_group now rows) keys acc)))
    \<and> queue_only (fst acc) (fst (fold (retire_group now rows) keys acc))"
  using assms
proof (induction keys arbitrary: acc)
  case (Cons key keys)
  have "fst key \<in> {''queued'', ''delivered''}" using Cons.prems by simp
  note g = retire_group_evolves [OF this, of acc now rows]
  have "list_all2 evolves (s_commands (fst (retire_group now rows key acc)))
      (s_commands (fst (fold (retire_group now rows) keys (retire_group now rows key acc))))
    \<and> queue_only (fst (retire_group now rows key acc)) (fst (fold (retire_group now rows) keys (retire_group now rows key acc)))"
    using Cons.prems by (intro Cons.IH) simp
  with g show ?case by (auto intro: list_all2_evolves_trans queue_only_trans)
qed simp

lemma retire_evolves:
  "list_all2 evolves (s_commands s) (s_commands (fst (quarantine_disabled_scalp_entries e now s)))"
  "queue_only s (fst (quarantine_disabled_scalp_entries e now s))"
proof -
  let ?keys = "py_unique (List.map_filter retired_transition (s_commands s))"
  have "fst key \<in> {''queued'', ''delivered''}" if "key \<in> set ?keys" for key
  proof -
    from that obtain r where "retired_transition r = Some key" by (auto simp: set_map_filter)
    then show ?thesis using retired_status [of r "fst key" "snd key"] by simp
  qed
  from retire_fold_evolves [of ?keys "(s, [])", OF this]
  show "list_all2 evolves (s_commands s) (s_commands (fst (quarantine_disabled_scalp_entries e now s)))"
    and "queue_only s (fst (quarantine_disabled_scalp_entries e now s))"
    by (auto simp: quarantine_disabled_scalp_entries_def Let_def split_beta intro: queue_only_then_append)
qed

lemma expire_group_touches:
  assumes "fst ` set rs \<subseteq> I"
  shows "list_all2 (touches I) (s_commands (fst acc)) (s_commands (fst (expire_group rs key acc)))"
    and "queue_only (fst acc) (fst (expire_group rs key acc))"
  unfolding expire_group_def Let_def split_beta fst_conv
  by (rule update_where_touches, use assms in \<open>auto intro!: evolves_expire simp: image_subset_iff\<close>)

lemma expire_fold_touches:
  assumes "fst ` set rs \<subseteq> I"
  shows "list_all2 (touches I) (s_commands (fst acc)) (s_commands (fst (fold (expire_group rs) keys acc)))
    \<and> queue_only (fst acc) (fst (fold (expire_group rs) keys acc))"
proof (induction keys arbitrary: acc)
  case (Cons key keys)
  note g = expire_group_touches [OF assms, of acc key]
  from Cons.IH [of "expire_group rs key acc"] g show ?case
    by (auto intro: list_all2_touches_trans queue_only_trans)
qed simp

definition rejected_ids :: "rejection list \<Rightarrow> string set" where
  "rejected_ids rs = py_strip ` fst ` set rs"

lemma normalized_ids: "fst ` set (normalized_rejections rs) \<subseteq> rejected_ids rs"
  by (force simp: normalized_rejections_def rejected_ids_def Let_def image_iff)

lemma expire_rejections_touches:
  "list_all2 (touches (rejected_ids rs)) (s_commands s) (s_commands (expire_poll_rejections e rs s))"
  "queue_only s (expire_poll_rejections e rs s)"
proof -
  note f = expire_fold_touches [OF normalized_ids, where acc = "(s, [])"]
  show "list_all2 (touches (rejected_ids rs)) (s_commands s) (s_commands (expire_poll_rejections e rs s))"
    and "queue_only s (expire_poll_rejections e rs s)"
    using f by (auto simp: expire_poll_rejections_def Let_def split_beta intro: queue_only_then_append)
qed

section \<open>Delivery\<close>

text \<open>What poll has established for the row it delivers, in stores that share the locked snapshot.\<close>

definition cleared :: "Env \<Rightarrow> UncertaintyScope \<Rightarrow> pyfloat \<Rightarrow> pydict option \<Rightarrow> CommandRow \<Rightarrow> pyfloat \<Rightarrow> bool" where
  "cleared e u now st r ts =
     ((\<exists>t. s_state t = st \<and> egress_failure e t now (Some (candidate_command r)) = Inr [])
      \<and> (if norm_verb (r_cmd r) \<in> set entry_verbs
         then \<not> execution_uncertainty_blocks_symbol u (r_symbol r)
              \<and> (\<exists>t. s_state t = st \<and> live_entry_failure e t (poll_entry_request r ts) = Inr [])
         else ts = now))"

fun left_over :: "pyerr + (CommandRow \<times> pyfloat) option \<times> rejection list \<Rightarrow> rejection list" where
  "left_over (Inl err) = []"
| "left_over (Inr (chosen, pend)) = pend"

definition scan_effect ::
  "Env \<Rightarrow> UncertaintyScope \<Rightarrow> pyfloat \<Rightarrow> CommandRow list \<Rightarrow> string set \<Rightarrow> Store
     \<Rightarrow> Store \<times> (pyerr + (CommandRow \<times> pyfloat) option \<times> rejection list) \<Rightarrow> bool" where
  "scan_effect e u now rows J s out =
     (\<exists>before rest. rows = before @ rest
        \<and> list_all2 (touches (J \<union> py_strip ` r_command_id ` set before)) (s_commands s) (s_commands (fst out))
        \<and> rejected_ids (left_over (snd out)) \<subseteq> J \<union> py_strip ` r_command_id ` set before
        \<and> queue_only s (fst out)
        \<and> (case snd out of
             Inr (Some (r, ts), pend) \<Rightarrow> (\<exists>after. rest = r # after) \<and> cleared e u now (s_state s) r ts
           | _ \<Rightarrow> True))"

lemma scan_effect_skip:
  assumes "scan_effect e u now rs (J \<union> {py_strip (r_command_id r)}) t out"
    and "list_all2 (touches J) (s_commands s) (s_commands t)" and "queue_only s t"
  shows "scan_effect e u now (r # rs) J s out"
proof -
  from assms(1) obtain before rest where rs: "rs = before @ rest"
    and st: "list_all2 (touches (J \<union> py_strip ` r_command_id ` set (r # before))) (s_commands t) (s_commands (fst out))"
    and lo: "rejected_ids (left_over (snd out)) \<subseteq> J \<union> py_strip ` r_command_id ` set (r # before)"
    and q: "queue_only t (fst out)"
    and c: "case snd out of Inr (Some (r, ts), pend) \<Rightarrow> (\<exists>after. rest = r # after) \<and> cleared e u now (s_state t) r ts | _ \<Rightarrow> True"
    by (auto simp: scan_effect_def Un_assoc)
  have same: "s_state t = s_state s" using assms(3) by (simp add: queue_only_def)
  have "list_all2 (touches (J \<union> py_strip ` r_command_id ` set (r # before))) (s_commands s) (s_commands t)"
    using assms(2) by (rule list_all2_touches_mono) blast
  from list_all2_touches_trans [OF this st] lo queue_only_trans [OF assms(3) q] c [unfolded same] rs
  show ?thesis
    unfolding scan_effect_def
    by (rule_tac x = "r # before" in exI, rule_tac x = rest in exI) simp
qed

lemma rejected_ids_simps [simp]:
  "rejected_ids [] = {}" "rejected_ids (pend @ [(i, w, f, ts)]) = insert (py_strip i) (rejected_ids pend)"
  "rejected_ids [(i, w, f, ts)] = {py_strip i}"
  by (auto simp: rejected_ids_def)

lemma poll_entry_passes: "poll_entry_failure e s r now = [] \<Longrightarrow> live_entry_failure e s (poll_entry_request r now) = Inr []"
  by (auto simp: poll_entry_failure_def split: sum.splits)

lemma poll_scan_effect: "rejected_ids pend \<subseteq> J \<Longrightarrow> scan_effect e u now rows J s (poll_scan e u now rows pend s)"
proof (induction rows arbitrary: pend J s)
  case Nil
  then show ?case by (auto simp: scan_effect_def)
next
  case (Cons r rs)
  note IH = Cons.IH and sub = Cons.prems
  show ?case
  proof (cases "egress_failure e s now (Some (candidate_command r))")
    case (Inl err)
    then show ?thesis by (simp add: scan_effect_def rejected_ids_def) (rule exI [of _ "[]"], simp)
  next
    case f: (Inr f)
    define s1 where "s1 = (if pend = [] then s else expire_poll_rejections e pend s)"
    have s1: "list_all2 (touches J) (s_commands s) (s_commands s1)" "queue_only s s1"
      using expire_rejections_touches [where rs = pend and s = s and e = e] list_all2_touches_mono [OF _ sub] by (auto simp: s1_def)
    obtain dn s2 where n: "now_read e s1 = (dn, s2)" by fastforce
    have s2: "list_all2 (touches J) (s_commands s) (s_commands s2)" "queue_only s s2"
      using s1 now_read_rows [OF n] queue_only_trans [OF s1(2) queue_only_now [OF n]] by auto
    have skip: "scan_effect e u now (r # rs) J s (poll_scan e u now rs pend' t)"
      if "rejected_ids pend' \<subseteq> J \<union> {py_strip (r_command_id r)}"
        "list_all2 (touches J) (s_commands s) (s_commands t)" "queue_only s t" for pend' t
      by (rule scan_effect_skip [OF IH [OF that(1)] that(2,3)])
    consider (refused) "f \<noteq> []" | (protective) "f = []" "norm_verb (r_cmd r) \<notin> set entry_verbs"
      | (unauthorised) "f = []" "norm_verb (r_cmd r) \<in> set entry_verbs" "poll_entry_failure e s1 r now \<noteq> []"
      | (blocked) "f = []" "norm_verb (r_cmd r) \<in> set entry_verbs" "poll_entry_failure e s1 r now = []"
          "execution_uncertainty_blocks_symbol u (r_symbol r)"
      | (late) "f = []" "norm_verb (r_cmd r) \<in> set entry_verbs" "poll_entry_failure e s1 r now = []"
          "\<not> execution_uncertainty_blocks_symbol u (r_symbol r)" "poll_entry_failure e s2 r dn \<noteq> []"
      | (entry) "f = []" "norm_verb (r_cmd r) \<in> set entry_verbs" "poll_entry_failure e s1 r now = []"
          "\<not> execution_uncertainty_blocks_symbol u (r_symbol r)" "poll_entry_failure e s2 r dn = []"
      by blast
    then show ?thesis
    proof cases
      case refused
      then show ?thesis using sub f by (simp add: skip subset_insertI2)
    next
      case protective
      have "cleared e u now (s_state s) r now" using f protective by (auto simp: cleared_def)
      then show ?thesis using sub f protective
        by (simp add: scan_effect_def) (rule exI [of _ "[]"], simp)
    next
      case unauthorised
      then show ?thesis using f s1 by (simp add: s1_def [symmetric] Let_def skip)
    next
      case blocked
      then show ?thesis using f s1 by (simp add: s1_def [symmetric] Let_def skip)
    next
      case late
      then show ?thesis using f s2 by (simp add: s1_def [symmetric] Let_def n skip)
    next
      case entry
      have "s_state s2 = s_state s" using s2(2) by (simp add: queue_only_def)
      then have "cleared e u now (s_state s) r dn"
        using f entry poll_entry_passes [OF entry(5)] by (auto simp: cleared_def)
      then show ?thesis using f s2 entry
        by (simp add: s1_def [symmetric] Let_def n scan_effect_def) (rule exI [of _ "[]"], simp)
    qed
  qed
qed

lemma mark_delivered_evolves:
  assumes "distinct (map r_command_id (s_commands s))" and "r \<in> set (s_commands s)" and "r_status r = ''queued''"
  shows "list_all2 evolves (s_commands s) (s_commands (mark_delivered e r ts s))"
    and "queue_only s (mark_delivered e r ts s)"
proof -
  have "evolves q (q\<lparr>r_status := ''delivered'', r_updated_at := ts, r_delivered_count := r_delivered_count r + 1\<rparr>)"
    if "q \<in> set (s_commands s)" "r_command_id q = r_command_id r" for q
  proof -
    have "q = r" using row_of_id [OF assms(1) that(1) assms(2) that(2)] .
    then show ?thesis using assms(3)
      by (intro evolves_step) (auto simp: business_def row_life_def intro: life.deliver)
  qed
  then show "list_all2 evolves (s_commands s) (s_commands (mark_delivered e r ts s))"
    unfolding mark_delivered_def append_command_event_tables by (intro update_where_evolves)
  show "queue_only s (mark_delivered e r ts s)"
    unfolding mark_delivered_def by (rule queue_only_trans [OF queue_only_update queue_only_append1])
qed

text \<open>Identifiers as admission leaves them: without surrounding blanks and pairwise different.\<close>

definition ids_ok :: "CommandRow list \<Rightarrow> bool" where
  "ids_ok rs = (distinct (map r_command_id rs) \<and> list_all (\<lambda>r. py_strip (r_command_id r) = r_command_id r) rs)"

lemma ids_ok_evolves: "list_all2 evolves rs rs' \<Longrightarrow> ids_ok rs \<Longrightarrow> ids_ok rs'"
proof -
  have e: "ids_ok rs = (distinct (map r_command_id rs) \<and> list_all (\<lambda>i. py_strip i = i) (map r_command_id rs))" for rs
    by (simp add: ids_ok_def list_all_iff)
  show "list_all2 evolves rs rs' \<Longrightarrow> ids_ok rs \<Longrightarrow> ids_ok rs'"
    unfolding e by (simp add: evolves_ids)
qed

definition pollable :: "pyfloat \<Rightarrow> CommandRow \<Rightarrow> bool" where
  "pollable now r = (r_status r = ''queued'' \<and> fle (r_created_at r) now \<and> fle now (r_expires_at r))"

definition delivery_rows :: "pyfloat \<Rightarrow> Store \<Rightarrow> CommandRow list" where
  "delivery_rows now s = sort_key r_created_at (filter (pollable now) (s_commands s))"

lemma delivery_rows_eq:
  "delivery_rows now s = sort_key r_created_at
     (filter (\<lambda>r. r_status r = ''queued'' \<and> fle (r_created_at r) now \<and> fle now (r_expires_at r)) (s_commands s))"
  by (simp add: delivery_rows_def pollable_def [abs_def])

lemma delivery_rows_set: "set (delivery_rows now s) = {r \<in> set (s_commands s). pollable now r}"
  by (simp add: delivery_rows_def)

text \<open>The row as poll leaves it.\<close>

definition delivered_row :: "CommandRow \<Rightarrow> pyfloat \<Rightarrow> CommandRow" where
  "delivered_row r ts = r\<lparr>r_status := ''delivered'', r_updated_at := ts, r_delivered_count := r_delivered_count r + 1\<rparr>"

lemma mark_delivered_row:
  assumes "distinct (map r_command_id (s_commands s))" and "r \<in> set (s_commands s)"
  shows "find_row (r_command_id r) (mark_delivered e r ts s) = Some (delivered_row r ts)"
proof -
  let ?t = "mark_delivered e r ts s"
  have rows: "s_commands ?t = map (\<lambda>q. if r_command_id q = r_command_id r then delivered_row q ts\<lparr>r_delivered_count := r_delivered_count r + 1\<rparr> else q) (s_commands s)"
    by (simp add: mark_delivered_def update_where_commands delivered_row_def)
  then have ids: "map r_command_id (s_commands ?t) = map r_command_id (s_commands s)"
    by (auto simp: delivered_row_def)
  have "delivered_row r ts \<in> set (s_commands ?t)"
    using assms(2) unfolding rows by (force simp: delivered_row_def)
  moreover have "distinct (map r_command_id (s_commands ?t))" using assms(1) ids by simp
  moreover have "r_command_id (delivered_row r ts) = r_command_id r" by (simp add: delivered_row_def)
  ultimately show ?thesis by (metis find_row_unique)
qed

text \<open>The outcome of a delivery transaction.\<close>

definition deliver_effect :: "Env \<Rightarrow> pyfloat \<Rightarrow> Store \<Rightarrow> Store \<times> (pyerr + ExecutionCommand option) \<Rightarrow> bool" where
  "deliver_effect e now s out =
     (list_all2 evolves (s_commands s) (s_commands (fst out)) \<and> queue_only s (fst out)
      \<and> (case snd out of
           Inr (Some c) \<Rightarrow>
             (\<exists>u r ts. execution_uncertainty_scope e s now = Inr u \<and> r \<in> set (s_commands s) \<and> pollable now r
                \<and> cleared e u now (s_state s) r ts \<and> delivered_command r ts = Inr c
                \<and> find_row (r_command_id r) (fst out) = Some (delivered_row r ts))
         | _ \<Rightarrow> True))"

lemma chosen_untouched:
  assumes "ids_ok (s_commands s)" and "delivery_rows now s = before @ r # after"
    and "list_all2 (touches (py_strip ` r_command_id ` set before)) (s_commands s) (s_commands t)"
  shows "r \<in> set (s_commands t)"
proof (rule touches_unchanged [OF assms(3)])
  have sub: "set (before @ r # after) \<subseteq> set (s_commands s)"
    unfolding assms(2) [symmetric] by (auto simp: delivery_rows_set)
  then show "r \<in> set (s_commands s)" by simp
  have "distinct (map r_command_id (delivery_rows now s))"
    using assms(1) by (auto simp: delivery_rows_def ids_ok_def distinct_map intro: inj_on_subset)
  then have "r_command_id r \<notin> r_command_id ` set before" by (simp add: assms(2))
  moreover have "py_strip (r_command_id q) = r_command_id q" if "q \<in> set before" for q
    using assms(1) sub that by (auto simp: ids_ok_def list_all_iff)
  ultimately show "r_command_id r \<notin> py_strip ` r_command_id ` set before" by auto
qed

lemma poll_deliver_effect:
  assumes ok: "ids_ok (s_commands s)"
  shows "deliver_effect e now s (poll_deliver e now s)"
proof (cases "execution_uncertainty_scope e s now")
  case (Inl err)
  then show ?thesis by (simp add: poll_deliver_def deliver_effect_def)
next
  case u: (Inr u)
  obtain s1 res where scan: "poll_scan e u now (delivery_rows now s) [] s = (s1, res)" by fastforce
  have pd: "poll_deliver e now s =
      (case res of Inl err \<Rightarrow> (s1, Inl err)
       | Inr (chosen, pend) \<Rightarrow>
           let s2 = (if pend = [] then s1 else expire_poll_rejections e pend s1) in
           (case chosen of None \<Rightarrow> (s2, Inr None)
            | Some (r, ts) \<Rightarrow> (case delivered_command r ts of Inl err \<Rightarrow> (s2, Inl err)
                 | Inr c \<Rightarrow> (mark_delivered e r ts s2, Inr (Some c)))))"
    unfolding poll_deliver_def u sum.case Let_def delivery_rows_eq [symmetric] scan prod.case by (cases res) auto
  have "scan_effect e u now (delivery_rows now s) {} s (s1, res)"
    using poll_scan_effect [of "[]" "{}" e u now "delivery_rows now s" s] by (simp add: scan)
  then obtain before rest where rows: "delivery_rows now s = before @ rest"
    and t: "list_all2 (touches (py_strip ` r_command_id ` set before)) (s_commands s) (s_commands s1)"
    and lo: "rejected_ids (left_over res) \<subseteq> py_strip ` r_command_id ` set before"
    and q: "queue_only s s1"
    and c: "case res of Inr (Some (r, ts), pend) \<Rightarrow> (\<exists>after. rest = r # after) \<and> cleared e u now (s_state s) r ts | _ \<Rightarrow> True"
    by (auto simp: scan_effect_def)
  show ?thesis
  proof (cases res)
    case (Inl err)
    then show ?thesis using t q by (simp add: pd deliver_effect_def list_all2_touches_evolves)
  next
    case (Inr out)
    obtain chosen pend where out: "out = (chosen, pend)" by fastforce
    define s2 where "s2 = (if pend = [] then s1 else expire_poll_rejections e pend s1)"
    have "list_all2 (touches (py_strip ` r_command_id ` set before)) (s_commands s1) (s_commands s2)"
      using expire_rejections_touches(1) [where rs = pend and s = s1 and e = e] lo list_all2_touches_mono
      by (auto simp: s2_def Inr out)
    with t have t2: "list_all2 (touches (py_strip ` r_command_id ` set before)) (s_commands s) (s_commands s2)"
      by (rule list_all2_touches_trans)
    have q2: "queue_only s s2"
      using q expire_rejections_touches(2) [where rs = pend and s = s1 and e = e] queue_only_trans by (auto simp: s2_def)
    note ev2 = list_all2_touches_evolves [OF t2]
    show ?thesis
    proof (cases chosen)
      case None
      then show ?thesis using ev2 q2 by (simp add: pd Inr out s2_def [symmetric] Let_def deliver_effect_def)
    next
      case (Some rt)
      obtain r ts where rt: "rt = (r, ts)" by fastforce
      obtain after where rest: "rest = r # after" and cl: "cleared e u now (s_state s) r ts"
        using c by (auto simp: Inr out Some rt)
      have mem: "r \<in> set (s_commands s)" "pollable now r"
        using delivery_rows_set [of now s] rows rest by auto
      have r2: "r \<in> set (s_commands s2)" using chosen_untouched [OF ok _ t2] rows rest by blast
      have d2: "distinct (map r_command_id (s_commands s2))" using ids_ok_evolves [OF ev2 ok] by (simp add: ids_ok_def)
      have st: "r_status r = ''queued''" using mem(2) by (simp add: pollable_def)
      show ?thesis
      proof (cases "delivered_command r ts")
        case (Inl err)
        then show ?thesis using ev2 q2
          by (simp add: pd Inr out Some rt s2_def [symmetric] Let_def deliver_effect_def \<open>res = Inr out\<close>)
      next
        case (Inr cmd)
        have "list_all2 evolves (s_commands s) (s_commands (mark_delivered e r ts s2))"
          using ev2 mark_delivered_evolves(1) [OF d2 r2 st] by (rule list_all2_evolves_trans)
        moreover have "queue_only s (mark_delivered e r ts s2)"
          using q2 mark_delivered_evolves(2) [OF d2 r2 st] by (rule queue_only_trans)
        ultimately show ?thesis
          using mem cl u Inr mark_delivered_row [OF d2 r2]
          by (auto simp: pd \<open>res = Inr out\<close> out Some rt s2_def [symmetric] Let_def deliver_effect_def)
      qed
    qed
  qed
qed

text \<open>Why poll handed out a command: the row it came from and the checks that row has passed.\<close>

definition delivery_evidence :: "Env \<Rightarrow> Store \<Rightarrow> Store \<Rightarrow> ExecutionCommand \<Rightarrow> bool" where
  "delivery_evidence e s s' c =
     (\<exists>t now u r ts. list_all2 evolves (s_commands s) (s_commands t) \<and> s_state t = s_state s
        \<and> egress_failure e t now None = Inr []
        \<and> execution_uncertainty_scope e t now = Inr u \<and> r \<in> set (s_commands t) \<and> pollable now r
        \<and> cleared e u now (s_state s) r ts \<and> delivered_command r ts = Inr c
        \<and> find_row (r_command_id r) s' = Some (delivered_row r ts))"

lemma delivery_evidence_earlier:
  assumes "delivery_evidence e t s' c" and "list_all2 evolves (s_commands s) (s_commands t)" and "s_state t = s_state s"
  shows "delivery_evidence e s s' c"
  using assms unfolding delivery_evidence_def by (metis list_all2_evolves_trans)

definition poll_effect :: "Env \<Rightarrow> Store \<Rightarrow> Store \<times> (pyerr + ExecutionCommand option) \<Rightarrow> bool" where
  "poll_effect e s out =
     (list_all2 evolves (s_commands s) (s_commands (fst out)) \<and> queue_only s (fst out)
      \<and> (case snd out of
           Inr (Some c) \<Rightarrow>
             delivery_evidence e s (fst out) c
         | _ \<Rightarrow> True))"

lemma poll_transaction_effect:
  assumes "ids_ok (s_commands s)"
  shows "poll_effect e s (poll_transaction e now s)"
proof -
  define s1 where "s1 = fst (quarantine_disabled_scalp_entries e now s)"
  have ev1: "list_all2 evolves (s_commands s) (s_commands s1)" and q1: "queue_only s s1"
    unfolding s1_def by (rule retire_evolves)+
  have st1: "s_state s1 = s_state s" using q1 by (simp add: queue_only_def)
  note eq = poll_transaction_def Let_def s1_def [symmetric]
  show ?thesis
  proof (cases "egress_failure e s1 now None")
    case (Inl err)
    then show ?thesis using ev1 q1 by (simp add: eq poll_effect_def)
  next
    case f: (Inr f)
    show ?thesis
    proof (cases "f = []")
      case False
      have "list_all2 evolves (s_commands s) (s_commands (fst (quarantine_execution_queue e (''poll_egress_revoked:'' @ f) now True s1)))"
        using ev1 quarantine_queue_evolves by (rule list_all2_evolves_trans)
      moreover have "queue_only s (fst (quarantine_execution_queue e (''poll_egress_revoked:'' @ f) now True s1))"
        using q1 quarantine_queue_only by (rule queue_only_trans)
      ultimately show ?thesis using False by (simp add: eq f poll_effect_def)
    next
      case True
      have d: "deliver_effect e now s1 (poll_deliver e now s1)"
        using ids_ok_evolves [OF ev1 assms] by (rule poll_deliver_effect)
      have "list_all2 evolves (s_commands s) (s_commands (fst (poll_deliver e now s1)))"
        using ev1 d unfolding deliver_effect_def by (blast intro: list_all2_evolves_trans)
      moreover have "queue_only s (fst (poll_deliver e now s1))"
        using q1 d unfolding deliver_effect_def by (blast intro: queue_only_trans)
      moreover have "case snd (poll_deliver e now s1) of
          Inr (Some c) \<Rightarrow> delivery_evidence e s (fst (poll_deliver e now s1)) c | _ \<Rightarrow> True"
        using d ev1 st1 f True unfolding deliver_effect_def delivery_evidence_def
        by (auto split: sum.splits option.splits) metis
      ultimately show ?thesis unfolding eq f sum.case True by (simp add: poll_effect_def)
    qed
  qed
qed

lemma poll_next_effect:
  assumes "ids_ok (s_commands s)"
  shows "poll_effect e s (poll_next_command e s)"
proof -
  obtain now s1 where n: "now_read e s = (now, s1)" by fastforce
  define s2 where "s2 = fst (cleanup_expired_commands e s1)"
  have ev: "list_all2 evolves (s_commands s) (s_commands s2)"
    using cleanup_evolves [of s1 e] now_read_rows [OF n] by (simp add: s2_def)
  have q: "queue_only s s2"
    using queue_only_trans [OF queue_only_now [OF n] cleanup_queue_only] by (simp add: s2_def)
  have st: "s_state s2 = s_state s" using q by (simp add: queue_only_def)
  obtain s3 res where tr: "poll_transaction e now s2 = (s3, res)" by fastforce
  have p: "poll_effect e s2 (s3, res)"
    using poll_transaction_effect [OF ids_ok_evolves [OF ev assms], of e now] by (simp add: tr)
  have out: "poll_next_command e s = (case res of Inl err \<Rightarrow> (rollback s2 s3, Inl err) | Inr c \<Rightarrow> (s3, Inr c))"
    unfolding poll_next_command_def n prod.case Let_def s2_def [symmetric] tr by (cases res) auto
  show ?thesis
  proof (cases res)
    case (Inl err)
    then show ?thesis using ev q queue_only_trans [OF q queue_only_rollback] by (simp add: out poll_effect_def)
  next
    case (Inr c)
    have "list_all2 evolves (s_commands s) (s_commands s3)" "queue_only s s3"
      using p ev q unfolding poll_effect_def by (auto intro: list_all2_evolves_trans queue_only_trans)
    then show ?thesis
      using p ev st unfolding out Inr sum.case poll_effect_def snd_conv fst_conv
      by (auto split: option.splits intro: delivery_evidence_earlier)
  qed
qed

section \<open>Acknowledgement\<close>

definition ack_statuses :: "string list" where
  "ack_statuses = [''delivered'', ''acked'', ''failed'', ''duplicate'', ''reconcile_required'']"

lemma reported_ack_range: "reported_ack_status ack \<in> set ack_statuses"
  by (simp add: reported_ack_status_def ack_statuses_def Let_def)

lemma norm_ack_status: "st \<in> set ack_statuses \<Longrightarrow> norm_status st = st"
  by (simp add: ack_statuses_def) (elim disjE; simp add: py_strip_def py_lstrip_def is_space_def py_lower_def char_lower_def)

lemma classify_range: "at_effective_status (classify_execution_ack c a) \<in> set ack_statuses"
  using classify_status [of c a] normalize_status_range by (auto simp: ack_statuses_def)

lemma attestation_status:
  "str_or_empty (dget (ack_attestation r ack (reported_ack_status ack)) ''effective_status'') \<in> set ack_statuses"
proof (cases "paper_ack_attestation r (reported_ack_status ack) (ack_to_dict ack)")
  case None
  then show ?thesis using classify_range by (simp add: ack_attestation_def attestation_to_dict_def)
next
  case (Some p)
  then have "dget p ''effective_status'' = VStr (norm_status (reported_ack_status ack))"
    by (auto simp: paper_ack_attestation_def Let_def split: if_splits)
  then show ?thesis using Some norm_ack_status [OF reported_ack_range] reported_ack_range [of ack]
    by (simp add: ack_attestation_def)
qed

lemma decide_sticky_apply:
  assumes "decide_sticky cur db ex att i x (rq, rs) = AckApply st' rs'"
  shows "st' = ''reconcile_required'' \<or>
    st' = rq \<and> (rq \<in> set terminal_statuses \<longrightarrow>
        cur \<in> {''delivered'', ''reconcile_required''} \<or> cur \<in> {''queued'', ''expired''} \<and> db \<or> ex)
      \<and> (cur = ''reconcile_required'' \<longrightarrow> exact_success rq att)"
  using assms by (auto simp: decide_sticky_def Let_def split: if_splits)

lemma decide_terminal_apply:
  assumes "decide_terminal cur db ex att i x (rq, rs) = AckApply st' rs'"
  shows "st' = ''reconcile_required'' \<or>
    st' = rq \<and> cur \<notin> set terminal_statuses
      \<and> (rq \<in> set terminal_statuses \<longrightarrow>
        cur \<in> {''delivered'', ''reconcile_required''} \<or> cur \<in> {''queued'', ''expired''} \<and> db \<or> ex)
      \<and> (cur = ''reconcile_required'' \<longrightarrow> exact_success rq att)"
  using assms unfolding decide_terminal_def prod.case
  by (auto split: if_splits dest!: decide_sticky_apply)

text \<open>How an acknowledgement that is applied moves the row.\<close>

lemma decide_ack_apply:
  assumes "decide_ack r att p = AckApply st' rs'"
    and "str_or_empty (dget att ''effective_status'') \<in> set ack_statuses"
  shows "st' = ''reconcile_required'' \<or>
    st' = str_or_empty (dget att ''effective_status'') \<and> r_status r \<notin> set terminal_statuses
      \<and> (r_status r = ''expired'' \<and> \<not> 0 < r_delivered_count r \<longrightarrow> exact_success st' att)
      \<and> (st' \<in> set terminal_statuses \<longrightarrow> r_status r \<in> {''delivered'', ''reconcile_required''}
          \<or> r_status r \<in> {''queued'', ''expired''} \<and> 0 < r_delivered_count r
          \<or> r_status r = ''expired'' \<and> exact_success st' att)
      \<and> (r_status r = ''reconcile_required'' \<longrightarrow> exact_success st' att)"
proof -
  have ne: "str_or_empty (dget att ''effective_status'') \<noteq> []"
    using assms(2) by (auto simp: ack_statuses_def)
  show ?thesis
    using assms(1) ne unfolding decide_ack_def Let_def
    by (auto split: if_splits dest!: decide_terminal_apply)
qed

lemma decide_ack_life:
  assumes "decide_ack r att p = AckApply st' rs'"
    and "str_or_empty (dget att ''effective_status'') \<in> set ack_statuses"
    and "r_status r \<in> set known_statuses"
  shows "life (row_life r) (st', r_delivered_count r + (if st' = ''delivered'' then 1 else 0))"
proof (cases "st' = ''reconcile_required''")
  case True
  then show ?thesis by (simp add: row_life_def life.contradict)
next
  case False
  note d = decide_ack_apply [OF assms(1,2)]
  have st: "st' \<in> {''delivered'', ''acked'', ''failed'', ''duplicate''}"
    using d False assms(2) by (auto simp: ack_statuses_def)
  have acked: "exact_success st' att \<Longrightarrow> st' = ''acked''" by (simp add: exact_success_def)
  have open_row: "r_status r \<in> {''queued'', ''delivered'', ''expired'', ''reconcile_required''}"
    using d False assms(3) by (simp add: known_statuses_def terminal_statuses_def)
  consider (exact) "exact_success st' att" "r_status r \<in> {''expired'', ''reconcile_required''}"
    | (plain) "r_status r \<in> {''queued'', ''delivered''} \<or> r_status r = ''expired'' \<and> 0 < r_delivered_count r"
        "st' \<in> set terminal_statuses \<longrightarrow> r_status r = ''delivered'' \<or> 0 < r_delivered_count r"
    using d False open_row unfolding insert_iff empty_iff by blast
  then show ?thesis
  proof cases
    case exact
    then show ?thesis using acked by (auto simp: row_life_def intro: life.resolve)
  next
    case plain
    show ?thesis
    proof (cases "st' = ''delivered''")
      case True
      then show ?thesis using plain(1) by (simp add: row_life_def life.receipt)
    next
      case False
      then have t: "st' \<in> {''acked'', ''failed'', ''duplicate''}" using st by simp
      then have "r_status r = ''delivered'' \<or> r_status r \<in> {''queued'', ''expired''} \<and> 0 < r_delivered_count r"
        using plain by (simp add: terminal_statuses_def) blast
      from life.confirm [OF t this] False show ?thesis by (simp add: row_life_def)
    qed
  qed
qed

end
