(* ===== verification/Queue_Safety.thy ===== *)
theory Queue_Safety
  imports Queue_Life
begin

text \<open>
  The queue as a machine: its operations as events of one step function, the invariant they keep, and
  what follows for every history of the queue.
\<close>

section \<open>Acknowledgement\<close>

lemma newest_mem: "newest rs = Some r \<Longrightarrow> r \<in> set rs"
proof -
  let ?f = "\<lambda>b r. case b of None \<Rightarrow> Some r | Some q \<Rightarrow> if flt (r_created_at q) (r_created_at r) then Some r else b"
  have "foldl ?f b rs = Some r \<Longrightarrow> b = Some r \<or> r \<in> set rs" for b
    by (induction rs arbitrary: b) (auto split: option.splits if_splits)
  then show "newest rs = Some r \<Longrightarrow> r \<in> set rs" by (auto simp: newest_def)
qed

lemma ack_row_facts:
  assumes "ack_row e cid key s = (t, out)"
  shows "queue_only s t \<and> s_commands t = s_commands s \<and> (\<forall>r. out = Some r \<longrightarrow> r \<in> set (s_commands s))"
proof (cases "if cid = [] then None else find_row cid s")
  case None
  then show ?thesis using assms
    by (auto simp: ack_row_def now_read_def queue_only_def keeps_log_def split: if_splits dest: newest_mem)
next
  case (Some r)
  then show ?thesis using assms find_row_Some by (auto simp: ack_row_def split: if_splits)
qed

lemma ack_values_facts [simp]:
  "business (ack_values st ack att enr why r) = business r"
  "row_life (ack_values st ack att enr why r) = (st, r_delivered_count r + (if st = ''delivered'' then 1 else 0))"
  by (auto simp: ack_values_def business_def row_life_def Let_def)

lemma record_ack_state_facts:
  assumes "record_ack_state e enr c s = Inr t"
  shows "s_commands t = s_commands s" and "s_events t = s_events s"
  using assms
  by (auto simp: record_ack_state_def Let_def now_read_def write_state_def elim!: ebindE split: if_splits)

definition ack_enriched :: "CommandRow \<Rightarrow> ExecutionAck \<Rightarrow> pydict \<Rightarrow> string \<Rightarrow> string list \<Rightarrow> pydict" where
  "ack_enriched r ack att st' rs = enriched_execution_ack (ack_to_dict ack) att st' (entry_trade r st' att) rs"

lemma apply_ack_facts:
  assumes "apply_ack e r ack att st' rs s = Inr t"
  shows "s_commands t = map (\<lambda>q. if r_command_id q = r_command_id r
      then ack_values st' ack att (ack_enriched r ack att st' rs) (ack_reason st' ack att rs) r else q) (s_commands s)"
    and "s_events t = s_events s @ [\<lparr>ev_command_id = r_command_id r, ev_status = st', ev_reason = ack_reason st' ack att rs,
        ev_ts = en_clock e (s_reads s), ev_json = ack_enriched r ack att st' rs\<rparr>]"
proof -
  have "record_ack_state e (ack_enriched r ack att st' rs)
      (st' = ''acked'' \<and> entry_trade r st' att \<and> \<not> has_acked_event (r_command_id r) s)
      (append_command_event e (r_command_id r) st' (ack_reason st' ack att rs) (ack_enriched r ack att st' rs)
        (update_where (\<lambda>q. r_command_id q = r_command_id r)
          (\<lambda>q. ack_values st' ack att (ack_enriched r ack att st' rs) (ack_reason st' ack att rs) r) s)) = Inr t"
    using assms by (simp add: apply_ack_def Let_def ack_enriched_def)
  note f = record_ack_state_facts [OF this]
  show "s_commands t = map (\<lambda>q. if r_command_id q = r_command_id r
      then ack_values st' ack att (ack_enriched r ack att st' rs) (ack_reason st' ack att rs) r else q) (s_commands s)"
    by (simp add: f update_where_commands)
  show "s_events t = s_events s @ [\<lparr>ev_command_id = r_command_id r, ev_status = st', ev_reason = ack_reason st' ack att rs,
        ev_ts = en_clock e (s_reads s), ev_json = ack_enriched r ack att st' rs\<rparr>]"
    by (simp add: f append_command_event_log)
qed

text \<open>The three ways an acknowledgement ends.\<close>

lemma ack_command_cases:
  obtains (same) t where "fst (ack_command e ack s) = t" and "queue_only s t" and "s_commands t = s_commands s"
  | (applied) t r rs' st' u where "ack_row e (py_strip (ak_command_id ack)) (py_strip (ak_idempotency_key ack)) s = (t, Some r)"
      and "decide_ack r (ack_attestation r ack (reported_ack_status ack)) (ack_to_dict ack) = AckApply st' rs'"
      and "apply_ack e r ack (ack_attestation r ack (reported_ack_status ack)) st' rs' t = Inr u"
      and "fst (ack_command e ack s) = u"
      and "snd (ack_command e ack s) = Inr (applied_reply st' (reported_ack_status ack)
        (ack_attestation r ack (reported_ack_status ack)) rs' (r_command_id r) ack (py_strip (ak_idempotency_key ack)), 200)"
proof (cases "py_strip (ak_command_id ack) = [] \<and> py_strip (ak_idempotency_key ack) = []")
  case True
  then show ?thesis by (intro same [of s]) (simp_all add: ack_command_def)
next
  case no: False
  obtain t out where a: "ack_row e (py_strip (ak_command_id ack)) (py_strip (ak_idempotency_key ack)) s = (t, out)"
    by fastforce
  note f = ack_row_facts [OF a]
  note eq = ack_command_def Let_def if_not_P [OF no] a prod.case
  show ?thesis
  proof (cases out)
    case None
    show ?thesis by (rule same [of t]) (use f in \<open>simp_all add: eq None\<close>)
  next
    case (Some r)
    let ?att = "ack_attestation r ack (reported_ack_status ack)"
    show ?thesis
    proof (cases "decide_ack r ?att (ack_to_dict ack)")
      case (AckIdempotent x)
      show ?thesis by (rule same [of t]) (use f in \<open>simp_all add: eq Some AckIdempotent\<close>)
    next
      case (AckInvalid x y)
      show ?thesis by (rule same [of t]) (use f in \<open>simp_all add: eq Some AckInvalid\<close>)
    next
      case d: (AckApply st' rs')
      show ?thesis
      proof (cases "apply_ack e r ack ?att st' rs' t")
        case (Inl err)
        show ?thesis by (rule same [of t]) (use f in \<open>simp_all add: eq Some d Inl\<close>)
      next
        case (Inr u)
        show ?thesis by (rule applied [OF a [unfolded Some] d Inr]) (simp_all add: eq Some d Inr)
      qed
    qed
  qed
qed

lemma ack_effect:
  assumes ok: "distinct (map r_command_id (s_commands s))" "list_all (\<lambda>r. r_status r \<in> set known_statuses) (s_commands s)"
  shows "list_all2 evolves (s_commands s) (s_commands (fst (ack_command e ack s)))"
    and "keeps_log s (fst (ack_command e ack s))"
proof -
  have "list_all2 evolves (s_commands s) (s_commands (fst (ack_command e ack s)))
    \<and> keeps_log s (fst (ack_command e ack s))"
  proof (cases rule: ack_command_cases [of e ack s])
    case (same t)
    then show ?thesis by (simp add: queue_only_def)
  next
    case (applied t r rs' st' u)
    note f = ack_row_facts [OF applied(1)]
    have mem: "r \<in> set (s_commands s)" using f by blast
    then have "r_status r \<in> set known_statuses" using ok(2) by (simp add: list_all_iff)
    note step = decide_ack_life [OF applied(2) attestation_status this]
    define new where "new = ack_values st' ack (ack_attestation r ack (reported_ack_status ack))
      (ack_enriched r ack (ack_attestation r ack (reported_ack_status ack)) st' rs')
      (ack_reason st' ack (ack_attestation r ack (reported_ack_status ack)) rs') r"
    have rows: "s_commands u = map (\<lambda>q. if r_command_id q = r_command_id r then new else q) (s_commands s)"
      using apply_ack_facts(1) [OF applied(3)] f by (simp add: new_def)
    have log: "prefix (s_events t) (s_events u)" using apply_ack_facts(2) [OF applied(3)] by simp
    have "evolves q new" if "q \<in> set (s_commands s)" "r_command_id q = r_command_id r" for q
      using row_of_id [OF ok(1) that(1) mem that(2)] step by (auto simp: new_def intro: evolves_step)
    then have "list_all2 evolves (s_commands s) (s_commands u)"
      unfolding rows by (auto simp: list_all2_conv_all_nth)
    moreover have "keeps_log s u"
      using f log by (auto simp: queue_only_def keeps_log_def intro: prefix_order.trans)
    ultimately show ?thesis by (simp add: applied(4))
  qed
  then show "list_all2 evolves (s_commands s) (s_commands (fst (ack_command e ack s)))"
    and "keeps_log s (fst (ack_command e ack s))" by blast+
qed

end
