(* ===== verification/Queue_Machine.thy ===== *)
theory Queue_Machine
  imports Queue_Safety
begin

text \<open>
  The store as one machine: every operation of the queue and of the runtime state is an event of one step
  function. Its interpretations of the machine contracts give the invariant, the append-only
  event log and the delivery counts that never fall; the properties of whole histories rest on them.
\<close>

section \<open>Admission\<close>

lemma record_signal_tables [simp]:
  "s_commands (fst (record_signal e c s)) = s_commands s"
  "s_events (fst (record_signal e c s)) = s_events s"
  by (simp_all add: record_signal_def update_state_patch_def now_read_def split: sum.split)

lemma uncertainty_reads_only:
  "s_commands (fst (has_execution_uncertainty e s symbol)) = s_commands s"
  "queue_only s (fst (has_execution_uncertainty e s symbol))"
  by (simp_all add: has_execution_uncertainty_def now_read_def queue_only_def keeps_log_def)

text \<open>How an admission ends: nothing happens to the rows, an expired exit is revived, or a new row is added.\<close>

definition admission_effect :: "Store \<Rightarrow> string \<Rightarrow> Store \<Rightarrow> bool" where
  "admission_effect s cid t =
     (keeps_log s t
      \<and> (list_all2 evolves (s_commands s) (s_commands t)
         \<or> find_row cid s = None \<and> (\<exists>r. fresh r \<and> r_command_id r = cid \<and> s_commands t = s_commands s @ [r])))"

lemma admission_effect_refl [simp]: "admission_effect s cid s"
  by (simp add: admission_effect_def)

lemma admission_effect_reads:
  "queue_only s t \<Longrightarrow> s_commands t = s_commands s \<Longrightarrow> admission_effect s cid t"
  by (simp add: admission_effect_def queue_only_def)

lemma requeue_effect: "admission_effect s cid (fst (requeue_expired e r c s))"
proof -
  define hit :: "CommandRow \<Rightarrow> bool" where "hit = (\<lambda>q. r_command_id q = ec_command_id c \<and> r_status q = ''expired'' \<and> r_delivered_count q = 0)"
  define revive :: "CommandRow \<Rightarrow> CommandRow" where "revive = (\<lambda>q. q\<lparr>r_status := ''queued'', r_created_at := ec_created_at c,
    r_updated_at := ec_updated_at c, r_expires_at := ec_expires_at c, r_reason := ''expired_never_delivered_requeued''\<rparr>)"
  have "list_all2 evolves (s_commands s) (s_commands (update_where hit revive s))"
    by (rule update_where_evolves, rule evolves_step)
      (auto simp: hit_def revive_def business_def row_life_def intro: life.requeue)
  moreover have "keeps_log s (fst (requeue_expired e r c s))"
    by (simp add: requeue_expired_def Let_def keeps_log_def append_command_event_log)
  moreover have "s_commands (fst (requeue_expired e r c s)) = s_commands (update_where hit revive s)"
    by (simp add: requeue_expired_def Let_def hit_def revive_def)
  ultimately show ?thesis by (simp add: admission_effect_def)
qed

lemma new_row_fresh [simp]: "fresh (new_row c)" "r_command_id (new_row c) = ec_command_id c"
  by (simp_all add: new_row_def fresh_def row_life_def)

lemma enqueue_new_effect:
  assumes "find_row (ec_command_id c) s = None"
  shows "admission_effect s (ec_command_id c) (fst (enqueue_new e c req required now s))"
proof -
  obtain t out where u: "(if req then has_execution_uncertainty e s (ec_symbol c) else (s, Inr False)) = (t, out)"
    by fastforce
  have t: "s_commands t = s_commands s" "queue_only s t"
    using u uncertainty_reads_only(1) [of e s "ec_symbol c"] uncertainty_reads_only(2) [of s e "ec_symbol c"]
    by (auto split: if_splits)
  note same = admission_effect_reads [OF t(2) t(1)]
  note eq = enqueue_new_def u prod.case
  show ?thesis
  proof (cases out)
    case (Inl err)
    then show ?thesis using same by (simp add: eq)
  next
    case (Inr b)
    show ?thesis
    proof (cases "b \<or> live_admission_failure e t required c now \<noteq> Inr []")
      case True
      then show ?thesis using same Inr by (auto simp: eq split: sum.split bool.split)
    next
      case False
      obtain v ans where rec: "record_signal e c (insert_command e c t) = (v, ans)" by fastforce
      have v: "fst (enqueue_new e c req required now s) = v"
        using False Inr rec by (cases ans) (auto simp: eq)
      have tables: "s_commands v = s_commands t @ [new_row c]" "keeps_log t v"
        using record_signal_tables [of e c "insert_command e c t", unfolded rec fst_conv]
        by (simp_all add: insert_command_def keeps_log_def append_command_event_log)
      then have "s_commands (fst (enqueue_new e c req required now s)) = s_commands s @ [new_row c]"
        and "keeps_log s (fst (enqueue_new e c req required now s))"
        using t keeps_log_trans by (auto simp: v queue_only_def)
      then show ?thesis using assms
        unfolding admission_effect_def by (metis new_row_fresh)
    qed
  qed
qed

lemma scalper_gate_id: "scalper_gate c now = Inr c' \<Longrightarrow> ec_command_id c' = ec_command_id c"
  by (auto simp: scalper_gate_def Let_def split: if_splits option.splits)

lemma admission_effect_now: "now_read e s = (now, t) \<Longrightarrow> admission_effect t cid u \<Longrightarrow> admission_effect s cid u"
  by (auto simp: now_read_def admission_effect_def keeps_log_def find_row_def)

lemma enqueue_effect: "admission_effect s (ec_command_id c) (fst (enqueue_command e c req required s))"
proof -
  obtain now t where n: "now_read e s = (now, t)" by fastforce
  note eq = enqueue_command_def n prod.case
  have "admission_effect t (ec_command_id c) (fst (enqueue_command e c req required s))"
  proof (cases "scalper_gate c now")
    case (Inl why)
    then show ?thesis by (simp add: eq)
  next
    case g: (Inr c')
    note id = scalper_gate_id [OF g]
    show ?thesis
    proof (cases "is_identifiable_scalp_entry (ec_cmd c') (ec_command_id c') (ec_intent c') (ec_payload c')
        \<or> egress_failure e t now (Some c') \<noteq> Inr []")
      case True
      then show ?thesis using g by (auto simp: eq split: sum.split)
    next
      case ok: False
      then have eg: "egress_failure e t now (Some c') = Inr []" by blast
      show ?thesis
      proof (cases "find_row (ec_command_id c') t")
        case (Some r)
        then show ?thesis using g ok requeue_effect [of t "ec_command_id c" e r c']
          by (simp add: eq eg split: prod.split) (metis admission_effect_refl fst_conv)
      next
        case None
        then show ?thesis using g ok enqueue_new_effect [OF None, of e req required now] id
          by (simp add: eq eg split: option.split)
      qed
    qed
  qed
  then show ?thesis by (rule admission_effect_now [OF n])
qed


section \<open>The machine\<close>

datatype queue_event =
    Enqueue ExecutionCommand bool pydict
  | Poll
  | Ack ExecutionAck
  | Cleanup
  | QuarantineStale pyfloat
  | Purge string "string list" bool bool
  | DisableEgress string bool bool
  | EnableEgress string
  | StatePatch pydict "pydict option" "string list"
  | ClaimLease LeaseClaim
  | PatchLive pydict "pydict option" bool bool

fun queue_step :: "Env \<Rightarrow> queue_event \<Rightarrow> Store \<Rightarrow> Store" where
  "queue_step e (Enqueue c req required) s = fst (enqueue_command e c req required s)"
| "queue_step e Poll s = fst (poll_next_command e s)"
| "queue_step e (Ack a) s = fst (ack_command e a s)"
| "queue_step e Cleanup s = fst (cleanup_expired_commands e s)"
| "queue_step e (QuarantineStale age) s = fst (quarantine_stale_delivered e age s)"
| "queue_step e (Purge why intents incl pres) s = fst (purge_pending_commands e why intents incl pres s)"
| "queue_step e (DisableEgress why rel pres) s = fst (disable_execution_egress e why rel pres s)"
| "queue_step e (EnableEgress boot) s = fst (enable_production_execution_egress e boot s)"
| "queue_step e (StatePatch p rd rm) s = fst (update_state_patch e p rd rm s)"
| "queue_step e (ClaimLease c) s = fst (claim_bridge_consumer_lease e c s)"
| "queue_step e (PatchLive u x dominant re) s = fst (patch_orchestration_live_state e u x dominant re s)"

text \<open>Admission never leaves blanks around an identifier, and state patches do not write the trade count.\<close>

fun admissible :: "queue_event \<Rightarrow> bool" where
  "admissible (Enqueue c req required) = (py_strip (ec_command_id c) = ec_command_id c)"
| "admissible (StatePatch p rd rm) = (\<not> dhas p ''trades_executed'')"
| "admissible ev = True"

definition rows_ok :: "Store \<Rightarrow> bool" where
  "rows_ok s = (ids_ok (s_commands s) \<and> list_all (\<lambda>r. life_ok (row_life r)) (s_commands s))"

text \<open>The operations on the runtime state leave rows and events alone.\<close>

lemma disable_tables:
  "list_all2 evolves (s_commands s) (s_commands (fst (disable_execution_egress e why rel pres s)))"
  "keeps_log s (fst (disable_execution_egress e why rel pres s))"
proof -
  obtain now t where n: "now_read e s = (now, t)" by fastforce
  note r = now_read_rows [OF n]
  let ?reason = "py_strip (if why = [] then ''execution_egress_disabled'' else why)"
  note q = quarantine_queue_evolves [of t e ?reason now pres] quarantine_queue_only [of t e ?reason now pres]
  show "list_all2 evolves (s_commands s) (s_commands (fst (disable_execution_egress e why rel pres s)))"
    and "keeps_log s (fst (disable_execution_egress e why rel pres s))"
    unfolding disable_execution_egress_def n prod.case Let_def using q r
    by (auto simp: keeps_log_def queue_only_def split: sum.split prod.split)
qed

lemma enable_tables:
  "s_commands (fst (enable_production_execution_egress e boot s)) = s_commands s"
  "s_events (fst (enable_production_execution_egress e boot s)) = s_events s"
  by (simp_all add: enable_production_execution_egress_def Let_def now_read_def split: sum.split prod.split)

lemma lease_tables:
  "s_commands (fst (claim_bridge_consumer_lease e c s)) = s_commands s"
  "s_events (fst (claim_bridge_consumer_lease e c s)) = s_events s"
  unfolding claim_bridge_consumer_lease_def now_read_def prod.case Let_def
  by (simp_all split: sum.split)

lemma patch_live_tables:
  "s_commands (fst (patch_orchestration_live_state e u x dominant re s)) = s_commands s"
  "s_events (fst (patch_orchestration_live_state e u x dominant re s)) = s_events s"
  unfolding patch_orchestration_live_state_def now_read_def prod.case Let_def
  by (simp_all split: sum.split prod.split)

lemmas state_operation_tables = enable_tables lease_tables patch_live_tables

text \<open>Every operation refines the abstract life and keeps the log.\<close>

definition step_effect :: "Store \<Rightarrow> Store \<Rightarrow> bool" where
  "step_effect s t = (refines_rows (s_commands s) (s_commands t) \<and> keeps_log s t \<and> rows_ok t)"

lemma evolve_rows_ok: "list_all2 evolves (s_commands s) (s_commands t) \<Longrightarrow> rows_ok s \<Longrightarrow> rows_ok t"
proof -
  assume ev: "list_all2 evolves (s_commands s) (s_commands t)" and ok: "rows_ok s"
  have "list_all (\<lambda>r. life_ok (row_life r)) (s_commands t)"
    using ev ok unfolding rows_ok_def list_all_length list_all2_conv_all_nth evolves_def by (metis life_ok_steps)
  then show ?thesis using ids_ok_evolves [OF ev] ok by (simp add: rows_ok_def)
qed

lemma evolve_effect:
  "list_all2 evolves (s_commands s) (s_commands t) \<Longrightarrow> keeps_log s t \<Longrightarrow> rows_ok s \<Longrightarrow> step_effect s t"
  by (simp add: step_effect_def refines_evolve evolve_rows_ok)

lemma same_rows_effect: "s_commands t = s_commands s \<Longrightarrow> s_events t = s_events s \<Longrightarrow> rows_ok s \<Longrightarrow> step_effect s t"
  by (rule evolve_effect) (simp_all add: keeps_log_def)

lemma life_ok_known: "life_ok (row_life r) \<Longrightarrow> r_status r \<in> set known_statuses"
  by (simp add: life_ok_def row_life_def)

lemma fresh_ok: "fresh r \<Longrightarrow> life_ok (row_life r)"
  by (simp add: fresh_def life_ok_def known_statuses_def)

lemma admission_step:
  assumes "admission_effect s cid t" and "rows_ok s" and "py_strip cid = cid"
  shows "step_effect s t"
proof (cases "list_all2 evolves (s_commands s) (s_commands t)")
  case True
  then show ?thesis using assms by (auto simp: admission_effect_def intro: evolve_effect)
next
  case False
  with assms(1) obtain r where new: "find_row cid s = None" "fresh r" "r_command_id r = cid"
    "s_commands t = s_commands s @ [r]" and log: "keeps_log s t" by (auto simp: admission_effect_def)
  have "rows_ok t"
    using assms(2,3) new fresh_ok [OF new(2)] by (auto simp: rows_ok_def ids_ok_def find_row_None)
  then show ?thesis using refines_new [OF new(2)] log by (simp add: step_effect_def new(4))
qed

lemma queue_step_effect:
  assumes "rows_ok s" and "admissible ev"
  shows "step_effect s (queue_step e ev s)"
proof -
  have ids: "ids_ok (s_commands s)" "distinct (map r_command_id (s_commands s))"
    "list_all (\<lambda>r. r_status r \<in> set known_statuses) (s_commands s)"
    using assms(1) by (auto simp: rows_ok_def ids_ok_def list_all_iff intro: life_ok_known)
  note queue_op = evolve_effect [OF _ _ assms(1)] and state_op = same_rows_effect [OF _ _ assms(1)]
  show ?thesis
  proof (cases ev)
    case (Enqueue c req required)
    then show ?thesis using admission_step [OF enqueue_effect assms(1)] assms(2) by simp
  next
    case Poll
    then show ?thesis using poll_next_effect [OF ids(1), of e]
      by (auto simp: poll_effect_def queue_only_def intro: queue_op)
  next
    case (Ack a)
    then show ?thesis using ack_effect [OF ids(2,3)] by (auto intro: queue_op)
  next
    case Cleanup
    then show ?thesis using cleanup_evolves cleanup_queue_only by (auto simp: queue_only_def intro: queue_op)
  next
    case (QuarantineStale age)
    then show ?thesis using stale_evolves stale_queue_only by (auto simp: queue_only_def intro: queue_op)
  next
    case (Purge why intents incl pres)
    then show ?thesis using purge_evolves [OF ids(2)] purge_queue_only by (auto simp: queue_only_def intro: queue_op)
  next
    case (DisableEgress why rel pres)
    then show ?thesis using disable_tables by (auto intro: queue_op)
  next
    case (StatePatch p rd rm)
    show ?thesis by (rule state_op) (simp_all add: StatePatch update_state_patch_def)
  qed (rule state_op; simp add: state_operation_tables)+
qed


section \<open>Counted trades\<close>

definition trades :: "Store \<Rightarrow> int" where
  "trades s = safe_int (py_or (dget_default (state_dict s) ''trades_executed'' (VInt 0)) (VInt 0)) 0"

definition acked_entry :: "Store \<Rightarrow> CommandRow \<Rightarrow> bool" where
  "acked_entry s r = (norm_verb (r_cmd r) \<in> set entry_verbs \<and> has_acked_event (r_command_id r) s)"

definition acked_entries :: "Store \<Rightarrow> nat" where
  "acked_entries s = length (filter (acked_entry s) (s_commands s))"

text \<open>The trade count is the stored one, or it was pruned.\<close>

definition keeps_trades :: "Store \<Rightarrow> Store \<Rightarrow> bool" where
  "keeps_trades s t = (map_of (state_dict t) ''trades_executed'' \<in> {None, map_of (state_dict s) ''trades_executed''})"

lemma keeps_trades_bound: "keeps_trades s t \<Longrightarrow> trades s \<le> int n \<Longrightarrow> trades t \<le> int n"
  by (auto simp: keeps_trades_def trades_def dget_default_def safe_int_def py_or_def)

lemma keeps_trades_refl [simp]: "keeps_trades s s"
  by (simp add: keeps_trades_def)

lemma keeps_trades_trans: "keeps_trades a b \<Longrightarrow> keeps_trades b c \<Longrightarrow> keeps_trades a c"
  by (auto simp: keeps_trades_def)

lemma queue_only_trades: "queue_only s t \<Longrightarrow> keeps_trades s t"
  by (simp add: queue_only_def keeps_trades_def state_dict_def)

lemma map_of_prune_cases: "map_of (prune_stale ks incoming m) k \<in> {None, map_of m k}"
proof (induction ks arbitrary: m)
  case (Cons x ks)
  have eq: "prune_stale (x # ks) incoming m = prune_stale ks incoming
    (if x \<noteq> [] \<and> x \<notin> set protected_state_keys \<and> \<not> dhas incoming x \<and> dhas m x then dpop x m else m)"
    by (simp add: prune_stale_def)
  show ?case unfolding eq
    using Cons.IH [of "dpop x m"] Cons.IH [of m] by (auto simp: map_of_dpop)
qed (simp add: prune_stale_def)

lemma merge_patch_cases:
  "\<not> dhas incoming k \<Longrightarrow> map_of (merge_patch e fp incoming merged) k \<in> {None, map_of merged k}"
  using map_of_prune_cases [of "en_stale_keys e" incoming "dmerge merged incoming" k]
  by (auto simp: merge_patch_def Let_def map_of_dmerge dhas_iff)

lemma commit_keeps_trades:
  assumes "\<not> dhas p ''trades_executed''"
  shows "keeps_trades s (fst (commit_state_patch e p rp rr ds s))"
proof (cases rule: commit_state_patch_cases [of e p rp rr ds s])
  case (refused err)
  then show ?thesis by simp
next
  case (committed incoming)
  have "map_of incoming ''trades_executed'' = None"
    using effective_patch_keys [OF committed(1), of "''trades_executed''"] assms
    by (simp add: stripped_patch_def map_of_dpops dhas_def)
  then have "\<not> dhas incoming ''trades_executed''" by (simp add: dhas_def)
  from merge_patch_cases [OF this] show ?thesis
    unfolding keeps_trades_def committed(2) by (simp add: map_of_dput)
qed

lemma record_signal_trades: "keeps_trades s (fst (record_signal e c s))"
proof (cases "py_int (dget_default (state_dict s) ''signals_sent'' (VInt 0))")
  case (Inl err)
  then show ?thesis by (simp add: record_signal_def)
next
  case (Inr n)
  obtain ts t where r: "now_read e s = (ts, t)" by fastforce
  have "keeps_trades s t" using r by (auto simp: now_read_def keeps_trades_def state_dict_def)
  moreover have "keeps_trades t (fst (record_signal e c s))"
    unfolding record_signal_def Inr r sum.case prod.case update_state_patch_def
    by (rule commit_keeps_trades) (simp add: dhas_def)
  ultimately show ?thesis by (rule keeps_trades_trans)
qed


lemma state_trades:
  "state_dict t = d \<Longrightarrow> map_of d ''trades_executed'' = map_of (state_dict s) ''trades_executed'' \<Longrightarrow> keeps_trades s t"
  by (simp add: keeps_trades_def)

lemma state_dict_reads [simp]:
  "state_dict (append_command_event e c st w p s) = state_dict s"
  "state_dict (append_command_events e evs s) = state_dict s"
  "state_dict (update_where P f s) = state_dict s"
  by (simp_all add: state_dict_def)

lemma enqueue_new_trades: "keeps_trades s (fst (enqueue_new e c req required now s))"
proof -
  obtain t out where u: "(if req then has_execution_uncertainty e s (ec_symbol c) else (s, Inr False)) = (t, out)"
    by fastforce
  have t: "keeps_trades s t"
    using u uncertainty_reads_only(2) [of s e "ec_symbol c"] by (auto split: if_splits intro: queue_only_trades)
  have ins: "keeps_trades t (insert_command e c t)"
    by (rule state_trades [OF refl]) (simp add: insert_command_def, simp add: state_dict_def)
  have recorded: "keeps_trades s (fst (record_signal e c (insert_command e c t)))"
    by (rule keeps_trades_trans [OF t keeps_trades_trans [OF ins record_signal_trades]])
  show ?thesis unfolding enqueue_new_def u prod.case
    using t recorded by (auto split: sum.split bool.split prod.split)
qed

lemma requeue_state: "state_dict (fst (requeue_expired e r c s)) = state_dict s"
  by (simp add: requeue_expired_def Let_def)

lemma enqueue_trades: "keeps_trades s (fst (enqueue_command e c req required s))"
proof -
  obtain now t where n: "now_read e s = (now, t)" by fastforce
  have t: "keeps_trades s t" using queue_only_trades [OF queue_only_now [OF n]] .
  have "keeps_trades t (fst (requeue_expired e r c' t))" for r c'
    by (rule state_trades [OF requeue_state refl])
  then have rq: "keeps_trades s (fst (requeue_expired e r c' t))" for r c'
    using keeps_trades_trans [OF t] by blast
  have nw: "keeps_trades s (fst (enqueue_new e c' req required now t))" for c'
    by (rule keeps_trades_trans [OF t enqueue_new_trades])
  show ?thesis unfolding enqueue_command_def n prod.case
    using t nw rq by (auto split: sum.split option.split prod.split) (metis fst_conv)+
qed

lemma live_section_trades:
  "map_of (dput ''runtime_diag'' v d) ''trades_executed'' = map_of d ''trades_executed''"
  "map_of (dput ''last_update'' v d) ''trades_executed'' = map_of d ''trades_executed''"
  "map_of (dput ''bridge_consumer_lease'' v d) ''trades_executed'' = map_of d ''trades_executed''"
  "map_of (dput ''release_authority'' v d) ''trades_executed'' = map_of d ''trades_executed''"
  "map_of (dput ''production_scalp_authority'' v d) ''trades_executed'' = map_of d ''trades_executed''"
  "map_of (dput ''execution_egress_authority'' v d) ''trades_executed'' = map_of d ''trades_executed''"
  "map_of (dput ''execution_egress_enabled'' v d) ''trades_executed'' = map_of d ''trades_executed''"
  by (simp_all add: map_of_dput)

lemma revoke_state_trades:
  assumes "revoke_production_scalp_authority_in_state why now st = Inr st'"
  shows "map_of st' ''trades_executed'' = map_of st ''trades_executed''"
  using assms by (auto simp: revoke_production_scalp_authority_in_state_def live_section_trades elim!: ebindE split: if_splits)

lemma revoke_release_trades:
  assumes "revoke_release_in_state why now st = Inr st'"
  shows "map_of st' ''trades_executed'' = map_of st ''trades_executed''"
  using assms unfolding revoke_release_in_state_def
  by (elim ebindE) (auto simp: live_section_trades elim!: ebindE split: if_splits)

lemma killed_state_trades:
  assumes "killed_state why rel now st = Inr st'"
  shows "map_of st' ''trades_executed'' = map_of st ''trades_executed''"
proof -
  from assms obtain st1 rd live where
    one: "revoke_production_scalp_authority_in_state why now (disable_execution_egress_in_state why now st) = Inr st1"
    and res: "(let st2 = dput ''runtime_diag'' (VDict (dput ''orchestration_live'' (VDict (kill_live why now live)) rd)) st1 in
       if rel then revoke_release_in_state why now st2 else Inr st2) = Inr st'"
    unfolding killed_state_def by (elim ebindE) blast
  have "map_of st1 ''trades_executed'' = map_of st ''trades_executed''"
    using revoke_state_trades [OF one] by (simp add: disable_execution_egress_in_state_def live_section_trades)
  then show ?thesis using res revoke_release_trades
    by (auto simp: Let_def live_section_trades split: if_splits)
qed

lemma disable_trades: "keeps_trades s (fst (disable_execution_egress e why rel pres s))"
proof -
  obtain now t where n: "now_read e s = (now, t)" by fastforce
  have st: "state_dict t = state_dict s" using n by (auto simp: now_read_def state_dict_def)
  have t: "keeps_trades s t" using queue_only_trades [OF queue_only_now [OF n]] .
  let ?reason = "py_strip (if why = [] then ''execution_egress_disabled'' else why)"
  show ?thesis
  proof (cases "killed_state ?reason rel now (state_dict t)")
    case (Inl err)
    then show ?thesis using t by (simp add: disable_execution_egress_def n Let_def)
  next
    case (Inr st')
    have "state_dict (fst (disable_execution_egress e why rel pres s)) = dput ''last_update'' (VFloat now) st'"
      using Inr by (simp add: disable_execution_egress_def n Let_def split: prod.split)
    then show ?thesis
      by (rule state_trades) (simp add: live_section_trades killed_state_trades [OF Inr] st)
  qed
qed


lemma arm_state_trades:
  assumes "arm_production_egress boot now d = Inr (m, revision)"
  shows "map_of m ''trades_executed'' = map_of d ''trades_executed''"
  using assms unfolding arm_production_egress_def Let_def
  by (elim ebindE) (auto simp: live_section_trades elim!: ebindE split: if_splits)

lemma enable_trades: "keeps_trades s (fst (enable_production_execution_egress e boot s))"
proof -
  obtain now t where n: "now_read e s = (now, t)" by fastforce
  have t: "keeps_trades s t" using queue_only_trades [OF queue_only_now [OF n]] .
  show ?thesis
  proof (cases "arm_production_egress (py_strip boot) now (state_dict s)")
    case (Inl err)
    then show ?thesis using t by (simp add: enable_production_execution_egress_def n Let_def)
  next
    case (Inr mr)
    obtain m revision where mr: "mr = (m, revision)" by fastforce
    show ?thesis
    proof (cases "py_strip boot = []")
      case False
      then have "state_dict (fst (enable_production_execution_egress e boot s)) = dput ''last_update'' (VFloat now) m"
        using Inr mr by (simp add: enable_production_execution_egress_def n Let_def)
      then show ?thesis
        by (rule state_trades) (simp add: live_section_trades arm_state_trades [OF Inr [unfolded mr]])
    qed (simp add: enable_production_execution_egress_def)
  qed
qed

lemma lease_trades: "keeps_trades s (fst (claim_bridge_consumer_lease e c s))"
  unfolding claim_bridge_consumer_lease_def now_read_def prod.case Let_def keeps_trades_def
  by (auto simp: live_section_trades state_dict_def write_state_def split: sum.split)

lemma patch_live_trades: "keeps_trades s (fst (patch_orchestration_live_state e u x dominant re s))"
  unfolding patch_orchestration_live_state_def now_read_def prod.case Let_def keeps_trades_def
  by (auto simp: live_section_trades split: sum.split prod.split)

text \<open>What an acknowledgement does to the trade count.\<close>

lemma record_ack_state_trades:
  assumes "record_ack_state e enr c s = Inr t"
  shows "trades t \<le> trades s + (if c then 1 else 0)"
proof -
  define st where "st = dput ''last_ack'' (VDict enr) (state_dict s)"
  have same: "map_of st ''trades_executed'' = map_of (state_dict s) ''trades_executed''"
    by (simp add: st_def map_of_dput)
  from assms obtain st' now where
    st': "(if c then ebind (py_int (py_or (dget_default st ''trades_executed'' (VInt 0)) (VInt 0)))
        (\<lambda>n. Inr (dput ''trades_executed'' (VInt (n + 1)) st)) else Inr st) = Inr st'"
    and t: "state_dict t = dput ''last_update'' (VFloat now) st'"
    unfolding record_ack_state_def Let_def st_def [symmetric] now_read_def by (elim ebindE) force
  show ?thesis
  proof (cases c)
    case True
    with st' obtain n where n: "py_int (py_or (dget_default st ''trades_executed'' (VInt 0)) (VInt 0)) = Inr n"
      and put: "st' = dput ''trades_executed'' (VInt (n + 1)) st" by (auto elim!: ebindE)
    have "trades s = n" using n by (simp add: trades_def dget_default_def same safe_int_def)
    moreover have "trades t = n + 1"
      by (simp add: trades_def t dget_default_def live_section_trades put map_of_dput py_or_def safe_int_def)
    ultimately show ?thesis using True by simp
  next
    case False
    then have "st' = st" using st' by simp
    then have "trades t = trades s" by (simp add: trades_def t dget_default_def live_section_trades same)
    then show ?thesis using False by simp
  qed
qed


lemma business_cmd: "business r = business r' \<Longrightarrow> r_cmd r = r_cmd r'"
  by (drule arg_cong [where f = r_cmd]) (simp add: business_def)

lemma evolves_entry:
  assumes "evolves r r'" and "keeps_log s t" and "acked_entry s r"
  shows "acked_entry t r'"
proof -
  have "r_command_id r' = r_command_id r" "r_cmd r' = r_cmd r"
    using assms(1) business_id [of r r'] business_cmd [of r r'] by (simp_all add: evolves_def)
  moreover have "has_acked_event (r_command_id r) t"
    using assms(2,3) by (auto simp: acked_entry_def has_acked_event_def keeps_log_def list_ex_iff prefix_def)
  ultimately show ?thesis using assms(3) by (simp add: acked_entry_def)
qed

lemma count_filter_le:
  "list_all2 (\<lambda>x y. P x \<longrightarrow> Q y) xs ys \<Longrightarrow> length (filter P xs) \<le> length (filter Q ys)"
  by (induction rule: list_all2_induct) auto

lemma count_filter_less:
  assumes "list_all2 (\<lambda>x y. P x \<longrightarrow> Q y) xs ys" and "i < length xs" and "\<not> P (xs ! i)" and "Q (ys ! i)"
  shows "length (filter P xs) < length (filter Q ys)"
  using assms
proof (induction arbitrary: i rule: list_all2_induct)
  case (Cons x xs y ys)
  show ?case
  proof (cases i)
    case 0
    then show ?thesis using Cons.prems count_filter_le [OF Cons.hyps(2)] by simp
  next
    case (Suc j)
    then show ?thesis using Cons.prems Cons.hyps(1) Cons.IH [of j] by auto
  qed
qed simp

lemma evolve_entries_le:
  assumes "list_all2 evolves (s_commands s) (s_commands t)" and "keeps_log s t"
  shows "acked_entries s \<le> acked_entries t"
  unfolding acked_entries_def
  by (rule count_filter_le, rule list_all2_mono [OF assms(1)]) (use evolves_entry [OF _ assms(2)] in blast)

lemma refines_entries_le:
  assumes "refines_rows (s_commands s) (s_commands t)" and "keeps_log s t"
  shows "acked_entries s \<le> acked_entries t"
proof -
  from assms(1) obtain new where "list_all2 evolves (s_commands s @ new) (s_commands t)"
    by (auto simp: refines_rows_def)
  then have "list_all2 (\<lambda>r r'. acked_entry s r \<longrightarrow> acked_entry t r') (s_commands s @ new) (s_commands t)"
    by (rule list_all2_mono) (use evolves_entry [OF _ assms(2)] in blast)
  from count_filter_le [OF this] show ?thesis by (simp add: acked_entries_def)
qed

text \<open>A trade is counted only when its command enters the acknowledged entries.\<close>

lemma ack_trades:
  assumes ok: "rows_ok s" and bound: "trades s \<le> int (acked_entries s)"
  shows "trades (fst (ack_command e ack s)) \<le> int (acked_entries (fst (ack_command e ack s)))"
proof -
  have ids: "distinct (map r_command_id (s_commands s))" "list_all (\<lambda>r. r_status r \<in> set known_statuses) (s_commands s)"
    using ok by (auto simp: rows_ok_def ids_ok_def list_all_iff intro: life_ok_known)
  note eff = ack_effect [OF ids, of e ack]
  note le = evolve_entries_le [OF eff]
  show ?thesis
  proof (cases rule: ack_command_cases [of e ack s])
    case (same t)
    then have "trades t = trades s" by (simp add: queue_only_def trades_def state_dict_def)
    then show ?thesis using same le bound by simp
  next
    case (applied t r rs' st' u)
    note f = ack_row_facts [OF applied(1)]
    let ?att = "ack_attestation r ack (reported_ack_status ack)"
    define trade where "trade = entry_trade r st' ?att"
    define counted where "counted = (st' = ''acked'' \<and> trade \<and> \<not> has_acked_event (r_command_id r) t)"
    have "trades u \<le> trades t + (if counted then 1 else 0)"
      using record_ack_state_trades applied(3) unfolding apply_ack_def Let_def counted_def trade_def
      by (fastforce simp: trades_def)
    moreover have "trades t = trades s" using f by (simp add: queue_only_def trades_def state_dict_def)
    moreover have "acked_entries s < acked_entries u" if c: counted
    proof -
      have mem: "r \<in> set (s_commands s)" using f by blast
      then obtain i where i: "i < length (s_commands s)" "s_commands s ! i = r" by (auto simp: in_set_conv_nth)
      have ev: "list_all2 evolves (s_commands s) (s_commands u)" and log: "keeps_log s u"
        using eff applied(4) by auto
      have row: "evolves r (s_commands u ! i)" using ev i by (auto simp: list_all2_conv_all_nth)
      have "has_acked_event (r_command_id r) u"
        using apply_ack_facts(2) [OF applied(3)] c by (simp add: has_acked_event_def counted_def)
      moreover have "norm_verb (r_cmd r) \<in> set entry_verbs"
        using c by (simp add: counted_def trade_def entry_trade_def)
      ultimately have new: "acked_entry u (s_commands u ! i)"
        using evolves_entry [OF row keeps_log_refl, of u] by (simp add: acked_entry_def)
      have "\<not> has_acked_event (r_command_id r) s"
        using c f by (auto simp: counted_def has_acked_event_def list_ex_iff queue_only_def keeps_log_def prefix_def)
      then have old: "\<not> acked_entry s (s_commands s ! i)" by (simp add: i acked_entry_def)
      have "list_all2 (\<lambda>q q'. acked_entry s q \<longrightarrow> acked_entry u q') (s_commands s) (s_commands u)"
        by (rule list_all2_mono [OF ev]) (use evolves_entry [OF _ log] in blast)
      from count_filter_less [OF this, OF i(1) old new] show ?thesis by (simp add: acked_entries_def)
    qed
    ultimately show ?thesis using bound le applied(4) by (auto split: if_splits)
  qed
qed


section \<open>The invariant and the contracts\<close>

definition queue_inv :: "Store \<Rightarrow> bool" where
  "queue_inv s = (rows_ok s \<and> trades s \<le> int (acked_entries s))"

definition count_of :: "string \<Rightarrow> Store \<Rightarrow> int" where
  "count_of cid s = (case find_row cid s of None \<Rightarrow> 0 | Some r \<Rightarrow> r_delivered_count r)"

lemma step_trades:
  assumes "rows_ok s" and "admissible ev" and "\<And>a. ev \<noteq> Ack a"
  shows "keeps_trades s (queue_step e ev s)"
proof (cases ev)
  case (StatePatch p rd rm)
  then show ?thesis using assms(2) by (simp add: update_state_patch_def commit_keeps_trades)
next
  case Poll
  have "ids_ok (s_commands s)" using assms(1) by (simp add: rows_ok_def)
  from poll_next_effect [OF this, of e] show ?thesis
    using Poll by (auto simp: poll_effect_def intro: queue_only_trades)
qed (use assms(3) in \<open>auto intro: queue_only_trades cleanup_queue_only stale_queue_only purge_queue_only
    enqueue_trades disable_trades enable_trades lease_trades patch_live_trades\<close>)

lemma queue_step_inv:
  assumes "queue_inv s" and "admissible ev"
  shows "queue_inv (queue_step e ev s)"
proof -
  from assms have ok: "rows_ok s" and bound: "trades s \<le> int (acked_entries s)" by (simp_all add: queue_inv_def)
  note eff = queue_step_effect [OF ok assms(2), of e]
  have "trades (queue_step e ev s) \<le> int (acked_entries (queue_step e ev s))"
  proof (cases "\<exists>a. ev = Ack a")
    case True
    then show ?thesis using ack_trades [OF ok bound] by auto
  next
    case False
    then have "keeps_trades s (queue_step e ev s)" by (intro step_trades [OF ok assms(2)]) blast
    from keeps_trades_bound [OF this bound] show ?thesis
      using refines_entries_le eff by (fastforce simp: step_effect_def)
  qed
  then show ?thesis using eff by (simp add: queue_inv_def step_effect_def)
qed

lemma evolves_count:
  assumes "list_all2 evolves rs rs'" and "distinct (map r_command_id rs)" and "r \<in> set rs"
  shows "\<exists>r'. r' \<in> set rs' \<and> r_command_id r' = r_command_id r \<and> r_delivered_count r \<le> r_delivered_count r'"
proof -
  from assms(3) obtain i where i: "i < length rs" "rs ! i = r" by (auto simp: in_set_conv_nth)
  with assms(1) have ev: "evolves r (rs' ! i)" and mem: "rs' ! i \<in> set rs'"
    by (auto simp: list_all2_conv_all_nth)
  from ev have "r_delivered_count r \<le> r_delivered_count (rs' ! i)"
    using life_count_mono [of "row_life r" "row_life (rs' ! i)"] by (simp add: evolves_def row_life_def)
  with mem evolves_id [OF ev] show ?thesis by blast
qed

lemma count_of_row:
  "distinct (map r_command_id (s_commands s)) \<Longrightarrow> r \<in> set (s_commands s) \<Longrightarrow> count_of (r_command_id r) s = r_delivered_count r"
  by (simp add: count_of_def find_row_unique)

lemma rows_ok_count: "rows_ok s \<Longrightarrow> 0 \<le> count_of cid s"
  by (auto simp: count_of_def rows_ok_def list_all_iff life_ok_def row_life_def split: option.split dest!: find_row_Some)

lemma step_count:
  assumes "queue_inv s" and "admissible ev"
  shows "count_of cid s \<le> count_of cid (queue_step e ev s)"
proof (cases "find_row cid s")
  case None
  have "rows_ok (queue_step e ev s)" using queue_step_inv [OF assms] by (simp add: queue_inv_def)
  then show ?thesis using None rows_ok_count by (simp add: count_of_def)
next
  case (Some r)
  let ?t = "queue_step e ev s"
  have ok: "rows_ok s" using assms(1) by (simp add: queue_inv_def)
  note eff = queue_step_effect [OF ok assms(2), of e]
  from find_row_Some [OF Some] have r: "r \<in> set (s_commands s)" "r_command_id r = cid" by auto
  from eff obtain new where ev: "list_all2 evolves (s_commands s @ new) (s_commands ?t)"
    and t: "ids_ok (s_commands ?t)" by (auto simp: step_effect_def refines_rows_def rows_ok_def)
  then have d: "distinct (map r_command_id (s_commands s @ new))" "distinct (map r_command_id (s_commands ?t))"
    using evolves_ids [OF ev] by (auto simp: ids_ok_def)
  from evolves_count [OF ev d(1), of r] r obtain r' where r': "r' \<in> set (s_commands ?t)"
    "r_command_id r' = cid" "r_delivered_count r \<le> r_delivered_count r'" by auto
  then show ?thesis using Some count_of_row [OF d(2) r'(1)] by (simp add: count_of_def)
qed

interpretation queue: step_machine "queue_step e" admissible queue_inv for e
  by unfold_locales (rule queue_step_inv)

interpretation queue_log: logged_machine "queue_step e" admissible queue_inv s_events for e
proof unfold_locales
  fix s ev
  assume "queue_inv s" and "admissible ev"
  then show "prefix (s_events s) (s_events (queue_step e ev s))"
    using queue_step_effect [of s ev e] by (simp add: queue_inv_def step_effect_def keeps_log_def)
qed

interpretation queue_count: counted_machine "queue_step e" admissible queue_inv "count_of cid" for e cid
  by unfold_locales (rule step_count)

end
