(* ===== verification/Queue_History.thy ===== *)
theory Queue_History
  imports Queue_Machine
begin

text \<open>
  Properties of whole histories of the command queue: for any sequence of operations, in any order and with
  any arguments, from any store that satisfies the invariant. They follow from the contracts that
  the store machine implements.
\<close>

abbreviation queue_run :: "Env \<Rightarrow> queue_event list \<Rightarrow> Store \<Rightarrow> Store" where
  "queue_run e es s \<equiv> fold (queue_step e) es s"

lemma empty_store_inv: "queue_inv empty_store"
  by (simp add: queue_inv_def rows_ok_def ids_ok_def empty_store_def trades_def state_dict_def dget_default_def
      py_or_def safe_int_def)

text \<open>The commands a history hands to the broker terminal, in order.\<close>

fun handed_out :: "Env \<Rightarrow> queue_event \<Rightarrow> Store \<Rightarrow> string list" where
  "handed_out e Poll s = (case snd (poll_next_command e s) of Inr (Some c) \<Rightarrow> [ec_command_id c] | _ \<Rightarrow> [])"
| "handed_out e ev s = []"

fun deliveries :: "Env \<Rightarrow> queue_event list \<Rightarrow> Store \<Rightarrow> string list" where
  "deliveries e [] s = []"
| "deliveries e (ev # es) s = handed_out e ev s @ deliveries e es (queue_step e ev s)"

section \<open>Deliveries\<close>

lemma queued_row_undelivered: "rows_ok s \<Longrightarrow> r \<in> set (s_commands s) \<Longrightarrow> r_status r = ''queued'' \<Longrightarrow> r_delivered_count r = 0"
  by (auto simp: rows_ok_def list_all_iff life_ok_def row_life_def)

lemma delivered_command_id: "delivered_command r ts = Inr c \<Longrightarrow> ec_command_id c = r_command_id r"
  by (auto simp: delivered_command_def Let_def elim!: ebindE)

text \<open>A command is delivered from the never-delivered state, and its count becomes one.\<close>

lemma handed_out_counts:
  assumes inv: "queue_inv s" and "cid \<in> set (handed_out e ev s)"
  shows "ev = Poll" and "count_of cid s = 0" and "count_of cid (queue_step e ev s) = 1"
    and "handed_out e ev s = [cid]"
proof -
  show poll: "ev = Poll" using assms(2) by (cases ev) auto
  with assms(2) obtain c where c: "snd (poll_next_command e s) = Inr (Some c)" and cid: "cid = ec_command_id c"
    by (auto split: sum.splits option.splits) metis
  then show "handed_out e ev s = [cid]" by (simp add: poll)
  have ok: "rows_ok s" using inv by (simp add: queue_inv_def)
  then have ids: "ids_ok (s_commands s)" by (simp add: rows_ok_def)
  from poll_next_effect [OF ids, of e] c
  have "delivery_evidence e s (fst (poll_next_command e s)) c" by (simp add: poll_effect_def)
  then obtain t :: Store and now r ts where ev: "list_all2 evolves (s_commands s) (s_commands t)"
    and r: "r \<in> set (s_commands t)" "pollable now r" and dc: "delivered_command r ts = Inr c"
    and found: "find_row (r_command_id r) (fst (poll_next_command e s)) = Some (delivered_row r ts)"
    unfolding delivery_evidence_def by blast
  have t: "rows_ok t" by (rule evolve_rows_ok [OF ev ok])
  have zero: "r_delivered_count r = 0"
    using queued_row_undelivered [OF t r(1)] r(2) by (simp add: pollable_def)
  have id: "r_command_id r = cid" using delivered_command_id [OF dc] cid by simp
  then show "count_of cid (queue_step e ev s) = 1"
    using found zero by (simp add: poll count_of_def delivered_row_def)
  from id r(1) evolves_ids [OF ev] have "cid \<in> r_command_id ` set (s_commands s)"
    by (metis image_eqI image_set)
  then obtain q where q: "q \<in> set (s_commands s)" "r_command_id q = cid" by auto
  have d: "distinct (map r_command_id (s_commands s))" "distinct (map r_command_id (s_commands t))"
    using ids evolves_ids [OF ev] by (auto simp: ids_ok_def)
  from evolves_count [OF ev d(1) q(1)] obtain q' where q': "q' \<in> set (s_commands t)" "r_command_id q' = cid"
    "r_delivered_count q \<le> r_delivered_count q'" using q(2) by auto
  have "q' = r" using row_of_id [OF d(2) q'(1) r(1)] q'(2) id by simp
  then have "count_of cid s \<le> 0" using count_of_row [OF d(1) q(1)] q(2) q'(3) zero by simp
  then show "count_of cid s = 0" using rows_ok_count [OF ok] by (simp add: order_antisym)
qed

lemma deliveries_fresh:
  assumes "queue_inv s" and "list_all admissible es"
  shows "distinct (deliveries e es s) \<and> list_all (\<lambda>cid. count_of cid s = 0) (deliveries e es s)"
  using assms
proof (induction es arbitrary: s)
  case (Cons ev es)
  let ?t = "queue_step e ev s"
  have t: "queue_inv ?t" using Cons.prems by (auto intro: queue_step_inv)
  note IH = Cons.IH [OF t]
  have mono: "count_of cid s \<le> count_of cid ?t" for cid using Cons.prems by (auto intro: step_count)
  have nonneg: "0 \<le> count_of cid s" for cid using Cons.prems(1) by (auto simp: queue_inv_def intro: rows_ok_count)
  have later: "count_of cid s = 0" if "cid \<in> set (deliveries e es ?t)" for cid
    using IH Cons.prems that mono [of cid] nonneg [of cid] by (auto simp: list_all_iff)
  show ?case
  proof (cases "handed_out e ev s")
    case Nil
    then show ?thesis using IH Cons.prems later by (auto simp: list_all_iff)
  next
    case (Cons cid rest)
    have mem: "cid \<in> set (handed_out e ev s)" using Cons by simp
    note h = handed_out_counts [OF Cons.prems(1) mem]
    have "cid \<notin> set (deliveries e es ?t)" using h(3) IH Cons.prems by (auto simp: list_all_iff)
    then show ?thesis using IH Cons.prems later h(2,4) by (auto simp: list_all_iff)
  qed
qed simp

lemma run_count:
  assumes "queue_inv s" and "list_all admissible es"
  shows "count_of cid s \<le> count_of cid (queue_run e es s)"
  using assms
proof (induction es arbitrary: s)
  case (Cons ev es)
  let ?t = "queue_step e ev s"
  have "queue_inv ?t" using Cons.prems by (auto intro: queue_step_inv)
  then have "count_of cid ?t \<le> count_of cid (queue_run e es ?t)" using Cons.IH Cons.prems by simp
  moreover have "count_of cid s \<le> count_of cid ?t" using Cons.prems by (auto intro: step_count)
  ultimately show ?case by simp
qed simp

text \<open>Handing a command out raises its delivery count for good.\<close>

lemma delivery_raises_count:
  assumes "queue_inv s" and "list_all admissible es" and "cid \<in> set (deliveries e es s)"
  shows "count_of cid s < count_of cid (queue_run e es s)"
  using assms
proof (induction es arbitrary: s)
  case (Cons ev es)
  let ?t = "queue_step e ev s"
  have t: "queue_inv ?t" and es: "list_all admissible es" using Cons.prems by (auto intro: queue_step_inv)
  have up: "count_of cid s \<le> count_of cid ?t" using Cons.prems by (auto intro: step_count)
  show ?case
  proof (cases "cid \<in> set (handed_out e ev s)")
    case True
    from handed_out_counts(2,3) [OF Cons.prems(1) this] run_count [OF t es, of cid e] show ?thesis by simp
  next
    case False
    with Cons.IH [OF t es] Cons.prems(3) up show ?thesis by simp
  qed
qed simp

lemma run_refines:
  assumes "queue_inv s" and "list_all admissible es"
  shows "refines_rows (s_commands s) (s_commands (queue_run e es s))"
  using assms
proof (induction es arbitrary: s)
  case (Cons ev es)
  let ?t = "queue_step e ev s"
  have "queue_inv ?t" using Cons.prems by (auto intro: queue_step_inv)
  moreover have "refines_rows (s_commands s) (s_commands ?t)"
    using Cons.prems queue_step_effect [of s ev e] by (auto simp: queue_inv_def step_effect_def)
  ultimately show ?case using Cons.IH [of ?t] Cons.prems by (auto intro: refines_trans)
qed simp

lemma run_row:
  assumes "queue_inv s" and "list_all admissible es" and "r \<in> set (s_commands s)"
  obtains r' where "r' \<in> set (s_commands (queue_run e es s))" and "evolves r r'"
proof -
  from run_refines [OF assms(1,2)] obtain new where
    "list_all2 evolves (s_commands s @ new) (s_commands (queue_run e es s))" by (auto simp: refines_rows_def)
  moreover obtain i where "i < length (s_commands s)" "s_commands s ! i = r"
    using assms(3) by (auto simp: in_set_conv_nth)
  ultimately have "evolves r (s_commands (queue_run e es s) ! i)" "s_commands (queue_run e es s) ! i \<in> set (s_commands (queue_run e es s))"
    by (auto simp: list_all2_conv_all_nth nth_append dest: spec [of _ i])
  then show ?thesis using that by blast
qed

section \<open>Properties\<close>

text \<open>
  C1. Refinement: whatever sequence of admissions, polls, acknowledgements, expiries, quarantines, purges,
  kills and state patches runs, the rows of the store implement the abstract command life cycle. No row is
  removed or reordered, the business columns of a row (verb, symbol, size, prices, ownership, payload)
  never change, its status and delivery count move only along the steps of the abstract relation, and every
  added row starts queued and undelivered. The audit log of events is only ever appended to.
\<close>

theorem queue_refines_life:
  assumes "queue_inv s" and "list_all admissible es"
  shows "refines_rows (s_commands s) (s_commands (queue_run e es s))
    \<and> prefix (s_events s) (s_events (queue_run e es s)) \<and> queue_inv (queue_run e es s)"
  using run_refines [OF assms] queue_log.run_log [OF assms] queue.run_invar [OF assms] by blast

text \<open>
  C2. No command is handed to the broker terminal twice: in any history, including restarts, purges,
  requeued retries and replayed acknowledgements, the identifiers that poll returns are pairwise different.
\<close>

theorem never_delivered_twice:
  assumes "queue_inv s" and "list_all admissible es"
  shows "distinct (deliveries e es s)"
  using deliveries_fresh [OF assms] by blast

text \<open>
  C20. Trades are counted at most once per command: in any history in which no state patch writes the
  counter, the durable trade count is at most the number of entry commands (BUY or SELL) with an acknowledged
  event, however often their acknowledgements are replayed, contradicted or resolved again.
\<close>

theorem trades_counted_once:
  assumes "queue_inv s" and "list_all admissible es"
  shows "trades (queue_run e es s) \<le> int (acked_entries (queue_run e es s))"
  using queue.run_invar [OF assms, of e] by (simp add: queue_inv_def)

text \<open>
  C21. A settled command stays settled: once a row is acknowledged, failed, duplicate or under
  reconciliation, in every later store its row is still one of these with the same delivery count, and no later
  poll hands it out, whether or not it was ever delivered before it settled. A row under reconciliation can only stay there or become acknowledged.
\<close>

theorem settled_stays_settled:
  assumes "queue_inv s" and "list_all admissible es"
    and "r \<in> set (s_commands s)" and "settled (r_status r)"
  shows "\<exists>r'. find_row (r_command_id r) (queue_run e es s) = Some r' \<and> settled (r_status r')
    \<and> r_delivered_count r' = r_delivered_count r
    \<and> (if r_status r = ''reconcile_required'' then r_status r' \<in> {''reconcile_required'', ''acked''} else True)
    \<and> r_command_id r \<notin> set (deliveries e es s)"
proof -
  obtain r' where r': "r' \<in> set (s_commands (queue_run e es s))" and ev: "evolves r r'"
    by (rule run_row [OF assms(1-3)])
  have "queue_inv (queue_run e es s)" by (rule queue.run_invar [OF assms(1,2)])
  then have d: "distinct (map r_command_id (s_commands (queue_run e es s)))"
    by (simp add: queue_inv_def rows_ok_def ids_ok_def)
  have found: "find_row (r_command_id r) (queue_run e es s) = Some r'"
    using find_row_unique [OF d r'] evolves_id [OF ev] by simp
  have steps: "life\<^sup>*\<^sup>* (row_life r) (row_life r')" using ev by (simp add: evolves_def)
  have stays: "settled (r_status r')" "r_delivered_count r' = r_delivered_count r"
    using settled_closed [OF steps] assms(4) by (simp_all add: row_life_def)
  have "count_of (r_command_id r) s = r_delivered_count r"
    using assms(1,3) by (intro count_of_row) (auto simp: queue_inv_def rows_ok_def ids_ok_def)
  moreover have "count_of (r_command_id r) (queue_run e es s) = r_delivered_count r"
    using count_of_row [OF d r'] evolves_id [OF ev] stays(2) by simp
  ultimately have "r_command_id r \<notin> set (deliveries e es s)"
    using delivery_raises_count [OF assms(1,2), of "r_command_id r" e] by auto
  then show ?thesis
    using found stays reconcile_sticky [OF steps] by (auto simp: row_life_def)
qed

section \<open>Witnesses\<close>

definition demo_history :: "queue_event list" where
  "demo_history = [Enqueue demo_buy False [], Poll, Poll, QuarantineStale (Fin 1), Poll]"

lemma entry_store_inv: "queue_inv entry_store"
  by code_simp

lemma demo_history_admissible: "list_all admissible demo_history"
  by code_simp


lemma protective_store_inv: "queue_inv protective_store"
  by code_simp

theorem queue_refines_life_witness:
  "refines_rows [] (s_commands (queue_run demo_env demo_history entry_store))
   \<and> queue_inv (queue_run demo_env demo_history entry_store)"
proof -
  have "s_commands entry_store = []" by code_simp
  with queue_refines_life [OF entry_store_inv demo_history_admissible, of demo_env] show ?thesis by simp
qed

theorem never_delivered_twice_witness:
  "queue_inv entry_store \<and> distinct (deliveries demo_env demo_history entry_store)"
  using entry_store_inv never_delivered_twice [OF entry_store_inv demo_history_admissible] by blast

theorem trades_counted_once_witness:
  "queue_inv protective_store
   \<and> trades (queue_run demo_env demo_history protective_store)
       \<le> int (acked_entries (queue_run demo_env demo_history protective_store))"
  using protective_store_inv trades_counted_once [OF protective_store_inv demo_history_admissible] by blast

theorem settled_stays_settled_witness:
  "\<exists>r'. find_row ''c1'' (queue_run demo_env demo_history protective_store) = Some r'
    \<and> r_delivered_count r' = 1 \<and> ''c1'' \<notin> set (deliveries demo_env demo_history protective_store)"
proof -
  have "acked_entry_row \<in> set (s_commands protective_store)" "settled (r_status acked_entry_row)"
    by (simp_all add: protective_store_def acked_entry_row_def settled_def)
  from settled_stays_settled [OF protective_store_inv demo_history_admissible this, of demo_env]
  show ?thesis by (auto simp: acked_entry_row_def)
qed

end
