(* ===== verification/Queue_Delivery.thy ===== *)
theory Queue_Delivery
  imports Queue_Machine
begin

text \<open>
  What poll hands to the broker terminal: the command as ingress accepted it, only when every authority
  check passes at the moment of delivery, never an entry past an unresolved broker outcome, and
  protective commands in any case.
\<close>

section \<open>From ingress to delivery\<close>

lemma py_upper_eq_Nil [simp]: "py_upper s = [] \<longleftrightarrow> s = []"
  by (simp add: py_upper_def)

lemma normalize_intent_nonempty: "normalize_intent cmd raw \<noteq> []"
proof (cases "norm_text raw = []")
  case False
  then have "py_strip (py_str raw) \<noteq> []" by (auto simp: norm_text_def str_or_empty_def split: if_splits)
  then show ?thesis using False by (simp add: normalize_intent_def)
next
  case True
  have ne: "x \<noteq> [] \<Longrightarrow> y \<noteq> [] \<Longrightarrow> (if b then x else y) \<noteq> []" for b :: bool and x y :: string by simp
  show ?thesis unfolding normalize_intent_def Let_def True simp_thms if_False by (intro ne) simp_all
qed

lemma conv_Inr: "conv m = Inr x \<longleftrightarrow> m = Inr x"
  by (cases m) (simp_all add: conv_def)

lemma head_delivery_fields:
  assumes "from_payload_head uuid5 loads payload sid now = Inr c0"
  shows "payload_float payload ''close_lots'' (dget_default payload ''lots'' (VFloat (Fin 0))) (Fin 0) = Inr (ec_close_lots c0)"
    and "ec_intent c0 \<noteq> []"
    and "ec_action c0 = str_or_empty (dget payload ''action'')"
    and "ec_reversal_token c0 = str_or_empty (dget payload ''reversal_token'')"
  using assms unfolding from_payload_head_def Let_def
  by (auto elim!: ebindE simp: normalize_intent_nonempty)

lemma ingress_lookup:
  assumes "payload1 = normalize_payload payload m t i ct
      \<or> (\<exists>d. payload1 = scalper_payload d (normalize_payload payload m t i ct))"
    and "k \<in> {''close_lots'', ''action_score'', ''action'', ''reversal_token''}"
  shows "map_of payload1 k = map_of payload k"
  using assms by (auto simp: scalper_payload_def normalize_payload_def Let_def map_of_dput)

lemma ingress_ownership_lookup:
  assumes "payload1 = normalize_payload payload m t i ct
      \<or> (\<exists>d. payload1 = scalper_payload d (normalize_payload payload m t i ct))"
  shows "dget payload1 ''target_ticket'' = (if 0 < i then VInt i else dget payload ''target_ticket'')"
    and "dget payload1 ''owner_token'' = (if t \<noteq> [] then VStr t else dget payload ''owner_token'')"
    and "dget payload1 ''ownership_contract'' = (if ct \<noteq> [] then VStr ct else dget payload ''ownership_contract'')"
  using assms by (auto simp: scalper_payload_def normalize_payload_def Let_def)

lemma ticket_from_payload:
  assumes "payload_int payload ''target_ticket'' (- 1) = Inr i"
  shows "safe_int (if 0 < i then VInt i else dget payload ''target_ticket'') (- 1) = i"
  using assms by (auto simp: payload_int_def safe_int_def conv_Inr split: pyval.splits)


lemma py_upper_idem [simp]: "py_upper (py_upper s) = py_upper s"
proof -
  have "char_upper (char_upper c) = char_upper c" for c
    by (cases "97 \<le> ordc c \<and> ordc c \<le> 122") (auto simp: char_upper_def)
  then show ?thesis by (simp add: py_upper_def)
qed

lemma ingress_command_facts:
  assumes "validate c = Inr ()" and "py_upper (ec_cmd c) = ec_cmd c" and "ec_cmd c \<noteq> ''INFO''"
    and "\<exists>s. ec_ownership_contract c = ownership_contract_for (ec_cmd c) s \<and> (ec_cmd c \<in> set ENTRY_COMMANDS \<longrightarrow> s)"
  shows "ec_magic c \<noteq> 0" and "ec_ownership_contract c \<noteq> []"
proof -
  have checks: "list_all (\<lambda>p. \<not> fst p) (validate_checks c)"
    using assms(1) by (simp add: validate_def first_error_Inr)
  have sup: "ec_cmd c \<in> set SUPPORTED_COMMANDS"
    using validate_base(1) [OF assms(1)] assms(2) by (simp add: base_checks_def Let_def)
  have split: "x \<in> set [a, b, c, d, e, f, g] \<Longrightarrow> x \<noteq> g \<Longrightarrow> x \<in> set [a, b] \<or> x \<in> set [c, e, f] \<or> x = d"
    for x a b c d e f g :: string by auto
  have kinds: "ec_cmd c \<in> set ENTRY_COMMANDS \<or> ec_cmd c \<in> set TICKET_MANAGEMENT_COMMANDS \<or> ec_cmd c = ''CLOSE_ALL''"
    unfolding ENTRY_COMMANDS_def TICKET_MANAGEMENT_COMMANDS_def
    by (rule split [OF sup [unfolded SUPPORTED_COMMANDS_def] assms(3)])
  have mem: "(py_upper (ec_cmd c) = ''CLOSE_ALL'' \<and> ec_magic c \<le> 0, Rejected ''magic must be a positive integer for CLOSE_ALL'')
      \<in> set (validate_checks c)"
    by (simp only: validate_checks_def Let_def set_append Un_iff list.set insert_iff simp_thms)
  have "\<not> (ec_cmd c = ''CLOSE_ALL'' \<and> ec_magic c \<le> 0)"
    using bspec [OF checks [unfolded list_all_iff] mem] unfolding fst_conv assms(2) .
  then have all: "ec_cmd c = ''CLOSE_ALL'' \<Longrightarrow> 0 < ec_magic c" by linarith
  have "0 < ec_magic c"
    using kinds all validate_entryD(2) [OF assms(1), unfolded assms(2)]
      validate_managementD(1) [OF assms(1) _ refl, unfolded assms(2)] by blast
  then show "ec_magic c \<noteq> 0" by simp
  show "ec_ownership_contract c \<noteq> []"
    using kinds assms(4)
    by (auto simp: ownership_contract_for_def DTO_TICKET_OWNER_CONTRACT_def LEGACY_ELBRIDGE_CONTRACT_def split: if_splits)
qed

text \<open>The fields whose zero or blank value poll replaces are set by ingress.\<close>

lemma ingress_sets_defaults:
  assumes "from_payload uuid5 loads payload sid ttl_secs now = Inr c"
  shows "ec_cmd c \<noteq> ''INFO'' \<Longrightarrow> ec_magic c \<noteq> 0 \<and> ec_ownership_contract c \<noteq> []"
    and "\<not> feq now (Fin 0) \<Longrightarrow> ec_created_at c \<noteq> Fin 0 \<and> ec_expires_at c \<noteq> Fin 0"
proof -
  from assms obtain c0 ttl payload1 score where head: "from_payload_head uuid5 loads payload sid now = Inr c0"
    and c: "c = c0\<lparr>ec_action_score := score, ec_expires_at := fadd now ttl, ec_payload := payload1\<rparr>"
    and ok: "validate c = Inr ()"
    unfolding from_payload_def Let_def by (auto elim!: ebindE)
  note h = from_payload_head_fields [OF head] head_delivery_fields [OF head]
  have up: "py_upper (ec_cmd c) = ec_cmd c"
    using head by (auto simp: c from_payload_head_def Let_def elim!: ebindE)
  show "ec_cmd c \<noteq> ''INFO'' \<Longrightarrow> ec_magic c \<noteq> 0 \<and> ec_ownership_contract c \<noteq> []"
    using ingress_command_facts [OF ok up] h(5) by (auto simp: c)
  show "ec_created_at c \<noteq> Fin 0 \<and> ec_expires_at c \<noteq> Fin 0" if "\<not> feq now (Fin 0)"
  proof -
    have "\<not> feq (ec_created_at c) (Fin 0)" using that by (simp add: c h(1))
    from timestampsD [OF ok this] show ?thesis by (auto simp: finite_positive_def fle_def feq_def)
  qed
qed

text \<open>
  C6. Round trip from ingress to the broker terminal: a command that ingress accepted, stored as a new row and
  read back by poll, is the accepted command with the status, the time and the count of the delivery, up to the
  defaults of the code. A blank owner token or ownership contract comes back as it was sent; the size of a
  partial close comes back only when the request named it (a request that gave only \<open>lots\<close> was accepted with that size
  and is delivered with size zero); a magic of zero is delivered as 246810 and a zero time as the time of the
  delivery. A zero magic and a blank contract occur only for INFO, a zero time only when ingress ran at time zero.
\<close>

theorem delivery_roundtrip:
  assumes "from_payload uuid5 loads payload sid ttl_secs now = Inr c"
  shows "delivered_command (new_row c) ts = Inr (c\<lparr>ec_status := ''delivered'', ec_updated_at := ts, ec_delivered_count := 1,
    ec_close_lots := (if dhas payload ''close_lots'' then ec_close_lots c else Fin 0),
    ec_owner_token := (if ec_owner_token c = [] then str_or_empty (dget payload ''owner_token'') else ec_owner_token c),
    ec_ownership_contract := (if ec_ownership_contract c = [] then str_or_empty (dget payload ''ownership_contract'')
      else ec_ownership_contract c),
    ec_magic := (if ec_magic c = 0 then 246810 else ec_magic c),
    ec_created_at := (if ec_created_at c = Fin 0 then ts else ec_created_at c),
    ec_expires_at := (if ec_expires_at c = Fin 0 then ts else ec_expires_at c)\<rparr>)
    \<and> (ec_cmd c \<noteq> ''INFO'' \<longrightarrow> ec_magic c \<noteq> 0 \<and> ec_ownership_contract c \<noteq> [])
    \<and> (\<not> feq now (Fin 0) \<longrightarrow> ec_created_at c \<noteq> Fin 0 \<and> ec_expires_at c \<noteq> Fin 0)"
proof -
  from assms obtain c0 rttl ttl payload1 score where
    head: "from_payload_head uuid5 loads payload sid now = Inr c0"
    and life: "granted_lifetime payload c0 now rttl = Inr (ttl, payload1)"
    and score: "payload_float payload ''action_score'' (VFloat (Fin 0)) (Fin 0) = Inr score"
    and c: "c = c0\<lparr>ec_action_score := score, ec_expires_at := fadd now ttl, ec_payload := payload1\<rparr>"
    unfolding from_payload_def Let_def by (auto elim!: ebindE)
  note h = from_payload_head_fields [OF head] head_delivery_fields [OF head]
  have form: "payload1 = normalize_payload payload (ec_magic c0) (ec_owner_token c0) (ec_target_ticket c0) (ec_ownership_contract c0)
      \<or> (\<exists>d. payload1 = scalper_payload d (normalize_payload payload (ec_magic c0) (ec_owner_token c0)
           (ec_target_ticket c0) (ec_ownership_contract c0)))"
    using granted_lifetimeD(2) [OF life] h(7) by auto
  have close: "py_float (py_or (dget_default payload1 ''close_lots'' (VFloat (Fin 0))) (VFloat (Fin 0)))
      = Inr (if dhas payload ''close_lots'' then ec_close_lots c else Fin 0)"
    using h(8) ingress_lookup [OF form, of "''close_lots''"]
    by (cases "map_of payload ''close_lots''") (simp_all add: payload_float_def conv_Inr dget_default_def dhas_def c py_or_def)
  have action_score: "py_float (py_or (dget_default payload1 ''action_score'' (VFloat (Fin 0))) (VFloat (Fin 0))) = Inr score"
    using score ingress_lookup [OF form, of "''action_score''"]
    by (simp add: payload_float_def conv_Inr dget_default_def)
  have texts: "str_or_empty (dget payload1 ''action'') = ec_action c" "str_or_empty (dget payload1 ''reversal_token'') = ec_reversal_token c"
    using h(10,11) ingress_lookup [OF form] by (simp_all add: c dget_def)
  have owner: "safe_int (dget payload1 ''target_ticket'') (- 1) = ec_target_ticket c"
    "str_or_empty (dget payload1 ''owner_token'')
      = (if ec_owner_token c = [] then str_or_empty (dget payload ''owner_token'') else ec_owner_token c)"
    "str_or_empty (dget payload1 ''ownership_contract'')
      = (if ec_ownership_contract c = [] then str_or_empty (dget payload ''ownership_contract'') else ec_ownership_contract c)"
    using ingress_ownership_lookup [OF form] ticket_from_payload [OF h(6)] by (simp_all add: c)
  have p: "ec_payload c = payload1" "ec_action_score c = score" by (simp_all add: c)
  have "delivered_command (new_row c) ts = Inr (c\<lparr>ec_status := ''delivered'', ec_updated_at := ts, ec_delivered_count := 1,
    ec_close_lots := (if dhas payload ''close_lots'' then ec_close_lots c else Fin 0),
    ec_owner_token := (if ec_owner_token c = [] then str_or_empty (dget payload ''owner_token'') else ec_owner_token c),
    ec_ownership_contract := (if ec_ownership_contract c = [] then str_or_empty (dget payload ''ownership_contract'')
      else ec_ownership_contract c),
    ec_magic := (if ec_magic c = 0 then 246810 else ec_magic c),
    ec_created_at := (if ec_created_at c = Fin 0 then ts else ec_created_at c),
    ec_expires_at := (if ec_expires_at c = Fin 0 then ts else ec_expires_at c)\<rparr>)"
    unfolding delivered_command_def new_row_def Let_def CommandRow.simps p(1) close action_score ebind.simps texts owner
    using h(9) p by (simp add: c)
  then show ?thesis using ingress_sets_defaults [OF assms] by blast
qed


section \<open>The store poll delivers from\<close>

text \<open>The store after expiry and the fence of retired entries.\<close>

definition polled_store :: "Env \<Rightarrow> Store \<Rightarrow> Store" where
  "polled_store e s = fst (quarantine_disabled_scalp_entries e (en_clock e (s_reads s))
     (fst (cleanup_expired_commands e (snd (now_read e s)))))"

lemma poll_delivers:
  "snd (poll_next_command e s) = Inr (Some c) \<longleftrightarrow>
     egress_failure e (polled_store e s) (en_clock e (s_reads s)) None = Inr []
     \<and> snd (poll_deliver e (en_clock e (s_reads s)) (polled_store e s)) = Inr (Some c)"
proof -
  let ?now = "en_clock e (s_reads s)"
  let ?s2 = "fst (cleanup_expired_commands e (snd (now_read e s)))"
  obtain s3 out where tr: "poll_transaction e ?now ?s2 = (s3, out)" by fastforce
  have "snd (poll_next_command e s) = out"
    using tr by (cases out) (simp_all add: poll_next_command_def now_read_def Let_def)
  moreover have "out = snd (poll_transaction e ?now ?s2)" using tr by simp
  ultimately show ?thesis
    unfolding poll_transaction_def Let_def polled_store_def [symmetric] by (auto split: sum.splits)
qed

lemma polled_store_evolves: "list_all2 evolves (s_commands s) (s_commands (polled_store e s))"
  unfolding polled_store_def
  using list_all2_evolves_trans [OF cleanup_evolves retire_evolves(1), of "snd (now_read e s)"] by simp

lemma polled_store_state: "s_state (polled_store e s) = s_state s"
  using queue_only_trans [OF cleanup_queue_only retire_evolves(2), of "snd (now_read e s)"]
  by (simp add: polled_store_def queue_only_def)

section \<open>Unresolved outcomes\<close>

definition still_uncertain :: "CommandRow \<Rightarrow> CommandRow \<Rightarrow> bool" where
  "still_uncertain r r' = (evolves r r'
     \<and> (life_ok (row_life r) \<and> execution_uncertainty_predicate r \<longrightarrow> execution_uncertainty_predicate r'))"

lemma still_uncertain_refl [simp]: "still_uncertain r r"
  by (simp add: still_uncertain_def)

lemma still_uncertain_trans: "still_uncertain a b \<Longrightarrow> still_uncertain b c \<Longrightarrow> still_uncertain a c"
  unfolding still_uncertain_def by (metis evolves_trans evolves_def life_ok_steps)

lemma uncertain_list_trans:
  "list_all2 still_uncertain xs ys \<Longrightarrow> list_all2 still_uncertain ys zs \<Longrightarrow> list_all2 still_uncertain xs zs"
  by (rule list_all2_trans [OF still_uncertain_trans])

lemma uncertain_update:
  assumes "\<And>r. P r \<Longrightarrow> still_uncertain r (f r)"
  shows "list_all2 still_uncertain (s_commands s) (s_commands (update_where P f s))"
  using assms by (auto simp: update_where_commands list_all2_conv_all_nth)

lemma queued_certain: "life_ok (row_life r) \<Longrightarrow> r_status r = ''queued'' \<Longrightarrow> \<not> execution_uncertainty_predicate r"
  by (simp add: life_ok_def row_life_def execution_uncertainty_predicate_def terminal_statuses_def)

lemma still_uncertain_expire:
  assumes "r_status r \<in> {''queued'', ''delivered''}"
  shows "still_uncertain r (set_status ''expired'' ts why r)"
proof -
  have "execution_uncertainty_predicate (set_status ''expired'' ts why r)"
    if "life_ok (row_life r)" "execution_uncertainty_predicate r" "r_status r = ''delivered''"
    using that by (simp add: execution_uncertainty_predicate_def terminal_statuses_def life_ok_def row_life_def)
  then show ?thesis unfolding still_uncertain_def
    using assms evolves_expire queued_certain by blast
qed

lemma still_uncertain_quarantine:
  "r_status r = ''delivered'' \<Longrightarrow> still_uncertain r (set_status ''reconcile_required'' ts why r)"
  unfolding still_uncertain_def
  using evolves_quarantine by (simp add: execution_uncertainty_predicate_def)

lemma retire_group_uncertain:
  assumes "fst key \<in> {''queued'', ''delivered''}"
  shows "list_all2 still_uncertain (s_commands (fst acc)) (s_commands (fst (retire_group now rows key acc)))"
  unfolding retire_group_def Let_def split_beta fst_conv
  by (rule uncertain_update, use assms in \<open>auto intro: still_uncertain_expire still_uncertain_quarantine\<close>)

lemma retire_fold_uncertain:
  assumes "\<And>key. key \<in> set keys \<Longrightarrow> fst key \<in> {''queued'', ''delivered''}"
  shows "list_all2 still_uncertain (s_commands (fst acc)) (s_commands (fst (fold (retire_group now rows) keys acc)))"
  using assms
proof (induction keys arbitrary: acc)
  case (Cons key keys)
  then show ?case
    using uncertain_list_trans [OF retire_group_uncertain Cons.IH] by simp
qed (simp add: list_all2_refl)

lemma polled_store_uncertain: "list_all2 still_uncertain (s_commands s) (s_commands (polled_store e s))"
proof -
  let ?s1 = "snd (now_read e s)" and ?now = "en_clock e (s_reads s)"
  have clean: "list_all2 still_uncertain (s_commands t) (s_commands (fst (cleanup_expired_commands e t)))" for t
  proof -
    obtain now t1 where n: "now_read e t = (now, t1)" by fastforce
    have "list_all2 still_uncertain (s_commands t1) (s_commands (update_where
        (\<lambda>r. r_status r \<in> {''queued'', ''delivered''} \<and> flt (r_expires_at r) now) (set_status ''expired'' now ''ttl_expired'') t1))"
      by (rule uncertain_update, rule still_uncertain_expire) blast
    then show ?thesis unfolding cleanup_expired_commands_def n prod.case Let_def
      using now_read_rows [OF n] by (simp add: list_all2_refl)
  qed
  have "list_all2 still_uncertain (s_commands t) (s_commands (fst (quarantine_disabled_scalp_entries e now t)))" for t now
  proof -
    have "fst key \<in> {''queued'', ''delivered''}"
      if "key \<in> set (py_unique (List.map_filter retired_transition (s_commands t)))" for key
    proof -
      from that obtain r where "retired_transition r = Some key" by (auto simp: set_map_filter)
      then show ?thesis using retired_status [of r "fst key" "snd key"] by simp
    qed
    then have "list_all2 still_uncertain (s_commands t) (s_commands (fst (fold (retire_group now (s_commands t))
        (py_unique (List.map_filter retired_transition (s_commands t))) (t, []))))"
      by (rule retire_fold_uncertain [where acc = "(t, [])", unfolded fst_conv])
    then show ?thesis by (simp add: quarantine_disabled_scalp_entries_def Let_def split_beta)
  qed
  from uncertain_list_trans [OF clean [of ?s1] this] show ?thesis by (simp add: polled_store_def)
qed


text \<open>Without an authoritative book every uncertain row blocks all symbols.\<close>

lemma no_book_blocks_all:
  assumes "execution_uncertainty_scope e t now = Inr u"
    and "q \<in> set (s_commands t)" and "execution_uncertainty_predicate q"
    and "dget (state_dict t) ''positions_snapshot_authoritative'' \<noteq> VBool True"
  shows "us_global_blocked u"
proof -
  define rows where "rows = sort_key r_updated_at (filter execution_uncertainty_predicate (s_commands t))"
  have "q \<in> set rows" using assms(2,3) by (simp add: rows_def)
  then have ne: "rows \<noteq> []" by auto
  with assms(1) obtain received source ra sa where
    u: "u = uncertainty_after_book e (state_dict t) received source ra sa rows"
    unfolding execution_uncertainty_scope_def Let_def rows_def [symmetric] by (auto elim!: ebindE)
  let ?book = "snapshot_book_checks e (state_dict t) ra sa"
  obtain more where first: "?book = (False, ''positions_snapshot_not_authoritative'') # more"
    using assms(4) by (simp add: snapshot_book_checks_def Let_def)
  then have "\<not> list_all fst ?book" by simp
  then have u': "u = containment_scope (?book @ [(flt (list_fmax (map r_updated_at rows)) received,
        ''positions_snapshot_receipt_not_after_uncertainty''),
      (flt (list_fmax (map r_updated_at rows)) source, ''positions_snapshot_source_not_after_uncertainty'')]) rows"
    using ne by (simp add: u uncertainty_after_book_def Let_def)
  have "us_global_blocked (containment_scope ((False, c # cs) # rest) rs)" for c cs rest rs
    by (simp add: containment_scope_def split: sum.split)
  then show ?thesis unfolding u' first append_Cons by blast
qed

text \<open>
  C4. An unresolved broker outcome fences new exposure: while some command may have changed the broker's book
  without a conclusive acknowledgement (delivered, under reconciliation, expired after a delivery, or terminal
  without typed evidence) and the runtime holds no authoritative positions snapshot, no poll hands out a
  BUY or SELL, whatever symbol it is for.
\<close>

theorem unresolved_outcome_fences_entries:
  assumes "queue_inv s" and "q \<in> set (s_commands s)" and "execution_uncertainty_predicate q"
    and "dget (state_dict s) ''positions_snapshot_authoritative'' \<noteq> VBool True"
    and "snd (poll_next_command e s) = Inr (Some c)"
  shows "norm_verb (ec_cmd c) \<notin> set entry_verbs"
proof -
  let ?t = "polled_store e s" and ?now = "en_clock e (s_reads s)"
  have ok: "rows_ok s" using assms(1) by (simp add: queue_inv_def)
  obtain i where i: "i < length (s_commands s)" "s_commands s ! i = q"
    using assms(2) by (auto simp: in_set_conv_nth)
  have "life_ok (row_life q)" using ok assms(2) by (simp add: rows_ok_def list_all_iff)
  then have unc: "execution_uncertainty_predicate (s_commands ?t ! i)" "s_commands ?t ! i \<in> set (s_commands ?t)"
    using polled_store_uncertain [of s e] i assms(3) by (auto simp: list_all2_conv_all_nth still_uncertain_def)
  have ids: "ids_ok (s_commands ?t)"
    using ids_ok_evolves [OF polled_store_evolves] ok by (simp add: rows_ok_def)
  have "deliver_effect e ?now ?t (poll_deliver e ?now ?t)" by (rule poll_deliver_effect [OF ids])
  with assms(5) obtain u r ts where
    u: "execution_uncertainty_scope e ?t ?now = Inr u" and cl: "cleared e u ?now (s_state ?t) r ts"
    and dc: "delivered_command r ts = Inr c"
    unfolding poll_delivers deliver_effect_def by auto
  have "us_global_blocked u"
    by (rule no_book_blocks_all [OF u unc(2,1)]) (use assms(4) in \<open>simp add: state_dict_def polled_store_state\<close>)
  then have "norm_verb (r_cmd r) \<notin> set entry_verbs"
    using cl by (auto simp: cleared_def execution_uncertainty_blocks_symbol_def)
  moreover have "ec_cmd c = r_cmd r" using dc by (auto simp: delivered_command_def Let_def elim!: ebindE)
  ultimately show ?thesis by simp
qed


section \<open>Protective commands are not starved\<close>

text \<open>Outside protective-only mode the egress check reads the snapshot alone.\<close>

definition unrestricted :: "pydict \<Rightarrow> bool" where
  "unrestricted st = (case as_dict (dget st ''execution_egress_authority'') of
     Inl err \<Rightarrow> False | Inr egress \<Rightarrow> dget egress ''protective_management_only'' \<noteq> VBool True)"

lemma egress_reads_state:
  assumes "unrestricted (state_dict s)" and "state_dict t = state_dict s"
  shows "egress_failure e t now cmd = egress_failure e s now cmd"
proof (cases "as_dict (dget (state_dict s) ''execution_egress_authority'')")
  case (Inl err)
  then show ?thesis using assms(1) by (simp add: unrestricted_def)
next
  case (Inr egress)
  then show ?thesis using assms by (cases cmd; cases "egress_failure_from_state e (state_dict s) now cmd")
    (simp_all add: unrestricted_def egress_failure_def Let_def)
qed

lemma scan_finds:
  assumes "\<And>t q. s_state t = st \<Longrightarrow> q \<in> set rows \<Longrightarrow> \<exists>f. egress_failure e t now (Some (candidate_command q)) = Inr f"
    and "r \<in> set rows" and "norm_verb (r_cmd r) \<notin> set entry_verbs"
    and "\<And>t. s_state t = st \<Longrightarrow> egress_failure e t now (Some (candidate_command r)) = Inr []"
    and "s_state s = st"
  shows "\<exists>s' q ts pend'. poll_scan e u now rows pend s = (s', Inr (Some (q, ts), pend'))
    \<and> q \<in> insert r (set (takeWhile (\<lambda>q. q \<noteq> r) rows))"
  using assms
proof (induction rows arbitrary: pend s)
  case (Cons q rows)
  let ?s1 = "if pend = [] then s else expire_poll_rejections e pend s"
  have st1: "s_state ?s1 = st"
    using Cons.prems(5) expire_rejections_touches(2) [of s e pend] by (simp add: queue_only_def)
  obtain f where f: "egress_failure e s now (Some (candidate_command q)) = Inr f"
    using Cons.prems(1) [OF Cons.prems(5), of q] by auto
  have more: "\<exists>s' q' ts pend''. poll_scan e u now rows pend' t = (s', Inr (Some (q', ts), pend''))
      \<and> q' \<in> insert r (set (takeWhile (\<lambda>q. q \<noteq> r) (q # rows)))"
    if "r \<noteq> q" and "s_state t = st" for pend' t
    using Cons.IH [of t pend'] Cons.prems that by force
  show ?case
  proof (cases "f = [] \<and> norm_verb (r_cmd q) \<notin> set entry_verbs")
    case True
    then show ?thesis using f by simp
  next
    case False
    have rq: "r \<noteq> q" using False f Cons.prems(3) Cons.prems(4) [OF Cons.prems(5)] by auto
    show ?thesis
    proof (cases "f = []")
      case True
      then have entry: "norm_verb (r_cmd q) \<in> set entry_verbs" using False by blast
      obtain dn s2 where n: "now_read e ?s1 = (dn, s2)" by fastforce
      have st2: "s_state s2 = st" using now_read_rows [OF n] st1 by simp
      show ?thesis
        using f True entry more [OF rq st1] more [OF rq st2] n by (auto simp: Let_def)
    next
      case False
      then show ?thesis using f more [OF rq Cons.prems(5)] by simp
    qed
  qed
qed simp


text \<open>A row that is still queued in the store poll delivers from is the row that was there before.\<close>

lemma queued_update:
  assumes "\<And>r. P r \<Longrightarrow> r_status (f r) \<noteq> ''queued''" and "q \<in> set (s_commands (update_where P f s))" and "r_status q = ''queued''"
  shows "q \<in> set (s_commands s)"
  using assms by (auto simp: update_where_commands split: if_splits)

lemma queued_retire_group:
  assumes "q \<in> set (s_commands (fst (retire_group now rows key acc)))" and "r_status q = ''queued''"
  shows "q \<in> set (s_commands (fst acc))"
  using assms by (auto simp: retire_group_def split_beta Let_def intro: queued_update [rotated] split: if_splits)

lemma queued_cleanup:
  assumes "q \<in> set (s_commands (fst (cleanup_expired_commands e t)))" and "r_status q = ''queued''"
  shows "q \<in> set (s_commands t)"
proof -
  define P where "P = (\<lambda>r :: CommandRow. (r_status r = ''queued'' \<or> r_status r = ''delivered'') \<and> flt (r_expires_at r) (en_clock e (s_reads t)))"
  define f where "f = (set_status ''expired'' (en_clock e (s_reads t)) ''ttl_expired'' :: CommandRow \<Rightarrow> CommandRow)"
  have "q \<in> set (s_commands (update_where P f t)) \<or> q \<in> set (s_commands t)"
    using assms(1) by (auto simp: cleanup_expired_commands_def now_read_def Let_def update_where_commands P_def f_def split: if_splits)
  moreover have "r_status (f r) \<noteq> ''queued''" for r by (simp add: f_def set_status_def)
  ultimately show ?thesis using queued_update [of P f q t] assms(2) by blast
qed

lemma queued_polled_store:
  assumes "q \<in> set (s_commands (polled_store e s))" and "r_status q = ''queued''"
  shows "q \<in> set (s_commands s)"
proof -
  let ?t = "fst (cleanup_expired_commands e (snd (now_read e s)))"
  have "q \<in> set (s_commands (fst acc))"
    if "q \<in> set (s_commands (fst (fold (retire_group now rows) keys acc)))" for now rows keys acc
    using that
  proof (induction keys arbitrary: acc)
    case (Cons key keys)
    have "q \<in> set (s_commands (fst (retire_group now rows key acc)))" by (rule Cons.IH) (use Cons.prems in simp)
    then show ?case by (rule queued_retire_group [OF _ assms(2)])
  qed simp
  from this [of _ _ _ "(?t, [])"] have "q \<in> set (s_commands ?t)"
    using assms(1) by (auto simp: polled_store_def quarantine_disabled_scalp_entries_def Let_def split_beta)
  then have "q \<in> set (s_commands (snd (now_read e s)))" by (rule queued_cleanup [OF _ assms(2)])
  then show ?thesis by (simp add: now_read_def)
qed

lemma fle_of_le: "x \<le> y \<Longrightarrow> fle x z \<Longrightarrow> fle y z' \<Longrightarrow> fle x y"
  by (cases x; cases y) (auto simp: fle_def feq_def less_eq_pyfloat_def)

lemma takeWhile_sorted:
  assumes "sorted (map f xs)" and "r \<in> set xs" and "q \<in> insert r (set (takeWhile (\<lambda>q. q \<noteq> r) xs))"
  shows "f q \<le> f r"
  using assms by (induction xs) (auto split: if_splits)

lemma not_retired: "norm_verb (r_cmd r) \<notin> set entry_verbs \<Longrightarrow> retired_transition r = None"
  by (auto simp: retired_transition_def retired_failure_def is_legacy_direct_demo_entry_def is_identifiable_scalp_entry_def)

lemma retire_keeps_row:
  assumes "r \<in> set (s_commands t)" and "distinct (map r_command_id (s_commands t))" and "retired_transition r = None"
  shows "r \<in> set (s_commands (fst (quarantine_disabled_scalp_entries e now t)))"
proof -
  have out: "r_command_id r \<notin> set (map r_command_id (filter (\<lambda>q. retired_transition q = Some key) (s_commands t)))" for key
    using row_of_id [OF assms(2) _ assms(1)] assms(3) by fastforce
  have "r \<in> set (s_commands (fst (retire_group now (s_commands t) key acc)))" if "r \<in> set (s_commands (fst acc))" for key acc
    using that out [of key]
    by (auto simp: retire_group_def split_beta Let_def update_where_commands intro!: rev_image_eqI [of r])
  then have "r \<in> set (s_commands (fst (fold (retire_group now (s_commands t)) keys acc)))"
    if "r \<in> set (s_commands (fst acc))" for keys acc
    using that by (induction keys arbitrary: acc) auto
  from this [of "(t, [])"] assms(1) show ?thesis
    by (simp add: quarantine_disabled_scalp_entries_def Let_def split_beta)
qed

lemma cleanup_keeps_row:
  assumes "r \<in> set (s_commands t)" and "\<not> flt (r_expires_at r) (en_clock e (s_reads t))"
  shows "r \<in> set (s_commands (fst (cleanup_expired_commands e t)))"
  using assms by (auto simp: cleanup_expired_commands_def now_read_def Let_def update_where_commands intro!: rev_image_eqI [of r])

lemma polled_store_keeps:
  assumes "r \<in> set (s_commands s)" and "distinct (map r_command_id (s_commands s))"
    and "norm_verb (r_cmd r) \<notin> set entry_verbs" and "\<not> flt (r_expires_at r) (en_clock e (Suc (s_reads s)))"
  shows "r \<in> set (s_commands (polled_store e s))"
proof -
  let ?s1 = "snd (now_read e s)"
  have c: "r \<in> set (s_commands (fst (cleanup_expired_commands e ?s1)))"
    by (rule cleanup_keeps_row) (use assms(1,4) in \<open>simp_all add: now_read_def\<close>)
  have "distinct (map r_command_id (s_commands (fst (cleanup_expired_commands e ?s1))))"
    using evolves_ids [OF cleanup_evolves [of ?s1 e]] assms(2) by simp
  from retire_keeps_row [OF c this not_retired [OF assms(3)]] show ?thesis by (simp add: polled_store_def)
qed

lemma business_candidate:
  assumes "business q = business q'"
  shows "candidate_command q = candidate_command q'" and "isl (delivered_command q ts) = isl (delivered_command q' ts')"
proof -
  have f: "r_payload_json q = r_payload_json q'" "r_command_id q = r_command_id q'" "r_session_id q = r_session_id q'"
    "r_proto q = r_proto q'" "r_cmd q = r_cmd q'" "r_symbol q = r_symbol q'" "r_lots q = r_lots q'" "r_magic q = r_magic q'"
    "r_intent q = r_intent q'" "r_orchestration_meta_json q = r_orchestration_meta_json q'"
    using arg_cong [OF assms, of r_payload_json] arg_cong [OF assms, of r_command_id] arg_cong [OF assms, of r_session_id]
      arg_cong [OF assms, of r_proto] arg_cong [OF assms, of r_cmd] arg_cong [OF assms, of r_symbol]
      arg_cong [OF assms, of r_lots] arg_cong [OF assms, of r_magic] arg_cong [OF assms, of r_intent]
      arg_cong [OF assms, of r_orchestration_meta_json]
    by (simp_all add: business_def)
  show "candidate_command q = candidate_command q'" by (simp add: candidate_command_def f)
  have isl: "isl (ebind m g) = (isl m \<or> isl (g (projr m)))" for m :: "pyerr + 'x" and g :: "'x \<Rightarrow> pyerr + 'y"
    by (cases m) auto
  show "isl (delivered_command q ts) = isl (delivered_command q' ts')"
    by (simp add: delivered_command_def Let_def isl f)
qed

lemma scope_total:
  assumes "\<not> isl (parse_iso_ts e (dget (state_dict t) ''positions_snapshot_received_at''))"
    and "\<not> isl (parse_iso_ts e (dget (state_dict t) ''positions_snapshot_source_ts''))"
  obtains u where "execution_uncertainty_scope e t now = Inr u"
proof -
  obtain a b where ab: "parse_iso_ts e (dget (state_dict t) ''positions_snapshot_received_at'') = Inr a"
    "parse_iso_ts e (dget (state_dict t) ''positions_snapshot_source_ts'') = Inr b"
    using assms by (metis isl_def sum.exhaust)
  have "\<exists>x. timestamp_age_secs e (VFloat f) now = Inr x" for f
    by (simp add: timestamp_age_secs_def parse_iso_ts_def Let_def)
  then obtain x y where "timestamp_age_secs e (VFloat a) now = Inr x" "timestamp_age_secs e (VFloat b) now = Inr y"
    by blast
  then have "\<exists>u. execution_uncertainty_scope e t now = Inr u"
    using ab by (simp add: execution_uncertainty_scope_def Let_def)
  then show ?thesis using that by blast
qed


text \<open>No row that poll looks at makes a check or the assembly of the command raise, when no stored row does.\<close>

lemma polled_rows_checked:
  assumes "list_all (\<lambda>q. \<not> isl (egress_failure e s now (Some (candidate_command q))) \<and> \<not> isl (delivered_command q now)) (s_commands s)"
    and "\<And>t cmd. s_state t = s_state s \<Longrightarrow> egress_failure e t now cmd = egress_failure e s now cmd"
    and "s_state t = s_state s" and "q \<in> set (delivery_rows now (polled_store e s))"
  shows "(\<exists>f. egress_failure e t now (Some (candidate_command q)) = Inr f) \<and> (\<exists>c. delivered_command q ts = Inr c)"
proof -
  have "q \<in> set (s_commands (polled_store e s))" using assms(4) by (auto simp: delivery_rows_set)
  then have "\<exists>q0. q0 \<in> set (s_commands s) \<and> business q0 = business q"
    using polled_store_evolves [of s e] by (auto simp: list_all2_conv_all_nth in_set_conv_nth evolves_def)
  then obtain q0 where q0: "q0 \<in> set (s_commands s)" "business q0 = business q" by blast
  then have "\<not> isl (egress_failure e s now (Some (candidate_command q0)))" "\<not> isl (delivered_command q0 now)"
    using assms(1) by (simp_all add: list_all_iff)
  then have "\<not> isl (egress_failure e t now (Some (candidate_command q)))" "\<not> isl (delivered_command q ts)"
    using business_candidate(1) [OF q0(2)] business_candidate(2) [OF q0(2), of now ts] by (simp_all add: assms(2) [OF assms(3)])
  then show ?thesis by (metis isl_def sum.exhaust)
qed

text \<open>
  C5. Protective commands are not starved: a queued close, partial close or stop change that egress allows is
  not held back by anything but deliverable commands at least as old. When such a command is due and has not expired,
  poll hands out a command that was queued and due and was created no later than this one (this one or an older one),
  however many refused or fenced entries precede it and however many broker outcomes are unresolved; since no command
  is handed out twice, each poll that hands out an older one leaves fewer of them. Assumed: egress is not restricted to
  protective management, no check raises, and the stored sizes are numbers.
\<close>

theorem protective_command_not_starved:
  assumes "queue_inv s" and "r \<in> set (s_commands s)" and "norm_verb (r_cmd r) \<notin> set entry_verbs"
    and "now = en_clock e (s_reads s)" and "pollable now r"
    and "\<not> flt (r_expires_at r) (en_clock e (Suc (s_reads s)))"
    and "unrestricted (state_dict s)" and "egress_failure e s now None = Inr []"
    and "egress_failure e s now (Some (candidate_command r)) = Inr []"
    and "list_all (\<lambda>q. \<not> isl (egress_failure e s now (Some (candidate_command q)))
        \<and> \<not> isl (delivered_command q now)) (s_commands s)"
    and "\<not> isl (parse_iso_ts e (dget (state_dict s) ''positions_snapshot_received_at''))"
    and "\<not> isl (parse_iso_ts e (dget (state_dict s) ''positions_snapshot_source_ts''))"
  shows "\<exists>c q. snd (poll_next_command e s) = Inr (Some c) \<and> q \<in> set (s_commands s) \<and> pollable now q
    \<and> ec_command_id c = r_command_id q \<and> fle (r_created_at q) (r_created_at r)"
proof -
  let ?t = "polled_store e s"
  have st: "s_state ?t = s_state s" by (rule polled_store_state)
  have eg: "egress_failure e t now cmd = egress_failure e s now cmd" if "s_state t = s_state s" for t cmd
    by (rule egress_reads_state [OF assms(7)]) (simp add: state_dict_def that)
  have d: "distinct (map r_command_id (s_commands s))"
    using assms(1) by (simp add: queue_inv_def rows_ok_def ids_ok_def)
  have "r \<in> set (s_commands ?t)" by (rule polled_store_keeps [OF assms(2) d assms(3,6)])
  then have r: "r \<in> set (delivery_rows now ?t)" using assms(5) by (simp add: delivery_rows_set)
  have fine: "(\<exists>f. egress_failure e t now (Some (candidate_command q)) = Inr f) \<and> (\<exists>c. delivered_command q ts = Inr c)"
    if "s_state t = s_state s" and "q \<in> set (delivery_rows now ?t)" for t q ts
    by (rule polled_rows_checked [OF assms(10) _ that]) (rule eg)
  obtain u where u: "execution_uncertainty_scope e ?t now = Inr u"
    by (rule scope_total [of e ?t]) (use assms(11,12) st in \<open>simp_all add: state_dict_def\<close>)
  have checked: "\<exists>f. egress_failure e t now (Some (candidate_command q)) = Inr f"
    if "s_state t = s_state s" "q \<in> set (delivery_rows now ?t)" for t q using fine [OF that] by blast
  have passes: "egress_failure e t now (Some (candidate_command r)) = Inr []" if "s_state t = s_state s" for t
    using eg [OF that] assms(9) by (rule trans)
  obtain s' q ts pend where scan: "poll_scan e u now (delivery_rows now ?t) [] ?t = (s', Inr (Some (q, ts), pend))"
    and front: "q \<in> insert r (set (takeWhile (\<lambda>q. q \<noteq> r) (delivery_rows now ?t)))"
    using scan_finds [OF checked r assms(3) passes st] by blast
  have q: "q \<in> set (delivery_rows now ?t)" using front r set_takeWhileD by fastforce
  have older: "r_created_at q \<le> r_created_at r"
    by (rule takeWhile_sorted [OF _ r front]) (simp add: delivery_rows_def)
  have pq: "pollable now q" "q \<in> set (s_commands s)"
    using q queued_polled_store [of q e s] by (auto simp: delivery_rows_set pollable_def)
  then have created: "fle (r_created_at q) (r_created_at r)"
    using older assms(5) by (auto simp: pollable_def intro: fle_of_le)
  obtain c where c: "delivered_command q ts = Inr c" using fine [OF refl q] by blast
  then have "snd (poll_deliver e now ?t) = Inr (Some c)"
    using u scan by (simp add: poll_deliver_def delivery_rows_eq [symmetric] Let_def)
  then have "snd (poll_next_command e s) = Inr (Some c)" using eg [OF st] assms(8) by (auto simp: poll_delivers assms(4))
  moreover have "ec_command_id c = r_command_id q" using c by (auto simp: delivered_command_def Let_def elim!: ebindE)
  ultimately show ?thesis using pq created by blast
qed


section \<open>Witnesses\<close>

definition demo_partial_payload :: pydict where
  "demo_partial_payload = [(''cmd'', VStr ''CLOSE_PARTIAL''), (''symbol'', VStr ''EURUSD''), (''lots'', VFloat (Fin (1/2)))]"

definition demo_partial :: ExecutionCommand where
  "demo_partial = projr (from_payload demo_uuid5 (\<lambda>_. None) demo_partial_payload ''s1'' (Fin 60) (Fin 1000))"

lemma demo_partial_accepted:
  "from_payload demo_uuid5 (\<lambda>_. None) demo_partial_payload ''s1'' (Fin 60) (Fin 1000) = Inr demo_partial"
proof -
  have "isl (from_payload demo_uuid5 (\<lambda>_. None) demo_partial_payload ''s1'' (Fin 60) (Fin 1000)) = False" by code_simp
  then show ?thesis by (simp add: demo_partial_def)
qed

theorem delivery_roundtrip_witness:
  "ec_close_lots demo_partial = Fin (1/2)
   \<and> (\<exists>d. delivered_command (new_row demo_partial) (Fin 1001) = Inr d \<and> ec_cmd d = ''CLOSE_PARTIAL'' \<and> ec_close_lots d = Fin 0)"
proof -
  have c: "ec_cmd demo_partial = ''CLOSE_PARTIAL''" "ec_close_lots demo_partial = Fin (1/2)"
    "\<not> dhas demo_partial_payload ''close_lots''" by code_simp+
  from delivery_roundtrip [OF demo_partial_accepted, of "Fin 1001"] c show ?thesis by simp
qed

definition queued_exit :: CommandRow where
  "queued_exit = new_row (plain_command ''x1'' ''CLOSE'' ''EURUSD'' [])"

definition lost_entry :: CommandRow where
  "lost_entry = acked_entry_row\<lparr>r_status := ''delivered'', r_ack_json := [], r_ack_terminal_safe := False, r_ack_ticket := None\<rparr>"

definition fenced_store :: Store where
  "fenced_store = empty_store\<lparr>s_commands := [lost_entry, queued_exit],
     s_state := Some (demo_scope [''EURUSD''] ''scalp'' ''exit'')\<rparr>"

lemma fenced_store_inv: "queue_inv fenced_store"
  by code_simp

lemma fenced_store_polls: "\<exists>c. snd (poll_next_command demo_env fenced_store) = Inr (Some c)"
proof -
  have "\<not> isl (snd (poll_next_command demo_env fenced_store)) \<and> projr (snd (poll_next_command demo_env fenced_store)) \<noteq> None"
    by code_simp
  then show ?thesis by (cases "snd (poll_next_command demo_env fenced_store)") auto
qed


theorem unresolved_outcome_fences_entries_witness:
  "\<exists>c. snd (poll_next_command demo_env fenced_store) = Inr (Some c) \<and> norm_verb (ec_cmd c) \<notin> set entry_verbs"
proof -
  obtain c where c: "snd (poll_next_command demo_env fenced_store) = Inr (Some c)" using fenced_store_polls by blast
  have "lost_entry \<in> set (s_commands fenced_store)" by (simp add: fenced_store_def)
  moreover have "execution_uncertainty_predicate lost_entry"
    "dget (state_dict fenced_store) ''positions_snapshot_authoritative'' \<noteq> VBool True" by code_simp+
  ultimately have "norm_verb (ec_cmd c) \<notin> set entry_verbs"
    by (rule unresolved_outcome_fences_entries [OF fenced_store_inv _ _ _ c])
  with c show ?thesis by blast
qed

theorem protective_command_not_starved_witness:
  "queue_inv fenced_store \<and> (\<exists>c q. snd (poll_next_command demo_env fenced_store) = Inr (Some c)
    \<and> q \<in> set (s_commands fenced_store) \<and> pollable (Fin 1000) q
    \<and> ec_command_id c = r_command_id q \<and> fle (r_created_at q) (r_created_at queued_exit))"
proof
  show "queue_inv fenced_store" by (rule fenced_store_inv)
  have "queued_exit \<in> set (s_commands fenced_store)" by (simp add: fenced_store_def)
  moreover have "norm_verb (r_cmd queued_exit) \<notin> set entry_verbs" "Fin 1000 = en_clock demo_env (s_reads fenced_store)"
    "pollable (Fin 1000) queued_exit" "\<not> flt (r_expires_at queued_exit) (en_clock demo_env (Suc (s_reads fenced_store)))"
    "unrestricted (state_dict fenced_store)" "egress_failure demo_env fenced_store (Fin 1000) None = Inr []"
    "egress_failure demo_env fenced_store (Fin 1000) (Some (candidate_command queued_exit)) = Inr []"
    "list_all (\<lambda>q. \<not> isl (egress_failure demo_env fenced_store (Fin 1000) (Some (candidate_command q)))
        \<and> \<not> isl (delivered_command q (Fin 1000))) (s_commands fenced_store)"
    "\<not> isl (parse_iso_ts demo_env (dget (state_dict fenced_store) ''positions_snapshot_received_at''))"
    "\<not> isl (parse_iso_ts demo_env (dget (state_dict fenced_store) ''positions_snapshot_source_ts''))"
    by code_simp+
  ultimately show "\<exists>c q. snd (poll_next_command demo_env fenced_store) = Inr (Some c)
    \<and> q \<in> set (s_commands fenced_store) \<and> pollable (Fin 1000) q
    \<and> ec_command_id c = r_command_id q \<and> fle (r_created_at q) (r_created_at queued_exit)"
    by (rule protective_command_not_starved [OF fenced_store_inv])
qed

end
