(* ===== verification/Queue_Ack.thy ===== *)
theory Queue_Ack
  imports Queue_Machine
begin

text \<open>
  What an acknowledgement may do: a row under reconciliation, or one that expired without a delivery, is only
  ever resolved by an exact attested success, and a replayed acknowledgement of a terminal row changes nothing.
\<close>

section \<open>The classifier reads the business columns only\<close>














section \<open>What an applied acknowledgement leaves behind\<close>

definition applied_row :: "CommandRow \<Rightarrow> ExecutionAck \<Rightarrow> string \<Rightarrow> string list \<Rightarrow> CommandRow" where
  "applied_row r ack st' rs =
     (let att = ack_attestation r ack (reported_ack_status ack) in
      ack_values st' ack att (ack_enriched r ack att st' rs) (ack_reason st' ack att rs) r)"

lemma applied_row_fields [simp]:
  "business (applied_row r ack st' rs) = business r" "r_status (applied_row r ack st' rs) = st'"
  "r_command_id (applied_row r ack st' rs) = r_command_id r"
  "r_ack_ticket (applied_row r ack st' rs) =
     (let n = attested_ticket (ack_attestation r ack (reported_ack_status ack)) in if 0 < n then Some n else None)"
  by (simp_all add: applied_row_def Let_def) (simp_all add: ack_values_def Let_def)


text \<open>The row an acknowledgement addresses, and what becomes of it.\<close>

lemma ack_by_id:
  assumes "find_row (py_strip (ak_command_id ack)) s = Some r" and "py_strip (ak_command_id ack) \<noteq> []"
  shows "ack_row e (py_strip (ak_command_id ack)) key s = (s, Some r)"
  using assms by (simp add: ack_row_def)

lemma ack_result_row:
  assumes "find_row (py_strip (ak_command_id ack)) s = Some r" and "py_strip (ak_command_id ack) \<noteq> []"
    and "distinct (map r_command_id (s_commands s))"
  obtains (same) "find_row (py_strip (ak_command_id ack)) (fst (ack_command e ack s)) = Some r"
    and "s_commands (fst (ack_command e ack s)) = s_commands s"
  | (applied) st' rs where "decide_ack r (ack_attestation r ack (reported_ack_status ack)) (ack_to_dict ack) = AckApply st' rs"
    and "find_row (py_strip (ak_command_id ack)) (fst (ack_command e ack s)) = Some (applied_row r ack st' rs)"
    and "fst (ack_command e ack s) \<noteq> s"
proof (cases rule: ack_command_cases [of e ack s])
  case (same t)
  then show ?thesis using assms(1) that(1) by (simp add: find_row_def)
next
  case (applied t q rs st' u)
  have tq: "t = s" "q = r" using ack_by_id [OF assms(1,2)] applied(1) by auto
  from find_row_Some [OF assms(1)] have r: "r \<in> set (s_commands s)" "r_command_id r = py_strip (ak_command_id ack)" by auto
  have rows: "s_commands u = map (\<lambda>q. if r_command_id q = r_command_id r then applied_row r ack st' rs else q) (s_commands s)"
    using apply_ack_facts(1) [OF applied(3)] by (simp add: tq applied_row_def Let_def)
  then have "map r_command_id (s_commands u) = map r_command_id (s_commands s)"
    by (auto simp: comp_def intro: map_cong)
  then have d: "distinct (map r_command_id (s_commands u))" using assms(3) by simp
  have "applied_row r ack st' rs \<in> set (s_commands u)" using r(1) rows by (auto intro!: rev_image_eqI [of r])
  from find_row_unique [OF d this] have f: "find_row (py_strip (ak_command_id ack)) u = Some (applied_row r ack st' rs)"
    using r(2) by simp
  have "s_events u \<noteq> s_events s" using apply_ack_facts(2) [OF applied(3)] tq by simp
  then have "fst (ack_command e ack s) \<noteq> s" using applied(4) by auto
  then show ?thesis using that(2) [of st' rs] applied(2,4) f tq by simp
qed


section \<open>Properties\<close>

text \<open>
  C3. Ambiguity is resolved only by proof: when the addressed row is under reconciliation, or had expired
  without ever being delivered, an acknowledgement can move it only to reconciliation or to acknowledged, and
  to acknowledged only with an attested success that carries a positive broker ticket and comes from a trusted policy; that
  ticket is what the row then records. A late refusal never closes such a row.
\<close>

theorem ambiguity_resolved_only_by_proof:
  assumes "queue_inv s" and "find_row (py_strip (ak_command_id ack)) s = Some r" and "py_strip (ak_command_id ack) \<noteq> []"
    and "r_status r = ''reconcile_required'' \<or> r_status r = ''expired'' \<and> r_delivered_count r = 0"
    and "find_row (py_strip (ak_command_id ack)) (fst (ack_command e ack s)) = Some r'" and "r_status r' \<noteq> r_status r"
    and "att = ack_attestation r ack (reported_ack_status ack)"
  shows "r_status r' = ''reconcile_required'' \<or>
    r_status r' = ''acked'' \<and> exact_success ''acked'' att \<and> r_ack_ticket r' = Some (attested_ticket att)"
proof -
  have d: "distinct (map r_command_id (s_commands s))" using assms(1) by (simp add: queue_inv_def rows_ok_def ids_ok_def)
  show ?thesis
  proof (cases rule: ack_result_row [OF assms(2,3) d, of e])
    case 1
    then show ?thesis using assms(5,6) by simp
  next
    case (2 st' rs)
    from 2(2) assms(5) have r': "r' = applied_row r ack st' rs" by simp
    have "exact_success st' att" if "st' \<noteq> ''reconcile_required''"
      using decide_ack_apply [OF 2(1) attestation_status] assms(4,7) that by auto
    then show ?thesis using assms(7) by (auto simp: r' exact_success_def Let_def)
  qed
qed



section \<open>Witnesses\<close>

definition paper_row :: CommandRow where
  "paper_row = acked_entry_row\<lparr>r_status := ''reconcile_required'', r_ack_json := [], r_ack_terminal_safe := False,
     r_ack_ticket := None, r_payload_json := [(''_execution_provider'', VStr ''paper'')]\<rparr>"

definition paper_store :: Store where
  "paper_store = empty_store\<lparr>s_commands := [paper_row]\<rparr>"

definition paper_ack :: ExecutionAck where
  "paper_ack = projr (ack_from_payload (\<lambda>_. None)
     [(''command_id'', VStr ''c1''), (''status'', VStr ''acked''), (''ticket'', VInt 41),
      (''orchestration_meta_json'', VDict [(''execution_provider'', VStr ''paper''), (''paper_simulated'', VBool True)])] (Fin 1001))"

lemma paper_store_inv: "queue_inv paper_store"
  by code_simp

lemma paper_found: "find_row (py_strip (ak_command_id paper_ack)) paper_store = Some paper_row"
  "py_strip (ak_command_id paper_ack) = ''c1''"
  by code_simp+

lemma paper_acked:
  "\<exists>r'. find_row (py_strip (ak_command_id paper_ack)) (fst (ack_command demo_env paper_ack paper_store)) = Some r'
     \<and> r_status r' = ''acked''"
proof -
  have "map_option r_status (find_row (py_strip (ak_command_id paper_ack)) (fst (ack_command demo_env paper_ack paper_store)))
    = Some ''acked''" by code_simp
  then show ?thesis by auto
qed

theorem ambiguity_resolved_only_by_proof_witness:
  "\<exists>r'. find_row ''c1'' (fst (ack_command demo_env paper_ack paper_store)) = Some r' \<and> r_status r' = ''acked''
    \<and> exact_success ''acked'' (ack_attestation paper_row paper_ack (reported_ack_status paper_ack))"
proof -
  obtain r' where r': "find_row (py_strip (ak_command_id paper_ack)) (fst (ack_command demo_env paper_ack paper_store)) = Some r'"
    "r_status r' = ''acked''" using paper_acked by blast
  have "py_strip (ak_command_id paper_ack) \<noteq> []" by (simp add: paper_found(2))
  moreover have "r_status paper_row = ''reconcile_required'' \<or> r_status paper_row = ''expired'' \<and> r_delivered_count paper_row = 0"
    "r_status r' \<noteq> r_status paper_row" by (simp_all add: paper_row_def r'(2))
  ultimately show ?thesis
    using ambiguity_resolved_only_by_proof [OF paper_store_inv paper_found(1) _ _ r'(1) _ refl] r' paper_found(2) by auto
qed


end
