(* ===== verification/Entry_Delivery.thy ===== *)
theory Entry_Delivery
  imports Queue_Machine
begin

text \<open>
  What authorizes an entry at the moment it leaves the queue. Delivery repeats the whole authorization of a live entry
  in the store it then marks delivered, so the kill switch, the account, the scalper authority
  and the daily budget are those of that moment, not those of the admission.
\<close>

section \<open>What a passing authorization establishes\<close>

lemma if_reason: "((if w \<noteq> [] then Inr w else m) = Inr []) = (w = [] \<and> m = Inr [])"
  by simp

lemma scalp_authorizedE:
  assumes "production_scalp_authorization_failure e s pair q = Inr []" and "claims_scalper_payload (le_command_payload q)"
  obtains durable expected where "as_dict (dget (state_dict s) ''production_scalp_authority'') = Inr durable"
    and "authority_error (en_sha256 e) durable expected (en_wall e (s_reads s) (le_command_id q)) = Inr []"
    and "command_binding_error (en_sha256 e) (le_command_payload q) durable pair = Inr []"
    and "daily_budget_failure s pair (le_command_id q) durable (le_now_ts q) = Inr []"
proof -
  have n: "(\<not> claims_scalper_payload (le_command_payload q)) = False" using assms(2) by simp
  show ?thesis
    using assms(1) that unfolding production_scalp_authorization_failure_def Let_def ebind_Inr_iff if_reason n if_False by blast
qed

lemma live_planeE:
  assumes "live_plane_failure state pair q = Inr []"
  obtains diag live admission pairs intents where "as_dict (dget state ''runtime_diag'') = Inr diag"
    and "as_dict (dget diag ''orchestration_live'') = Inr live"
    and "first_reason (live_plane_checks live admission q) = []"
    and "scope_items py_upper (dget live ''active_pair_scope'') = Inr pairs"
    and "scope_items py_lower (dget live ''active_intent_scope'') = Inr intents"
    and "first_reason ([(pair \<notin> set pairs, ''live_pair_not_allowlisted''),
           (''enter'' \<notin> set intents, ''live_intent_not_allowlisted'')] @ account_checks state q) = []"
proof -
  have b: "((if b then Inr (CHR ''l'' # w) else m) = Inr []) = (\<not> b \<and> m = Inr [])" for b w and m :: "pyerr + string"
    by simp
  show ?thesis
    using assms that unfolding live_plane_failure_def Let_def ebind_Inr_iff if_reason b by (metis Inr_inject)
qed

lemma char_upper_space: "is_space (char_upper c) = is_space c"
  by (cases "97 \<le> ordc c \<and> ordc c \<le> 122") (auto simp: char_upper_def is_space_def)

lemma char_upper_twice: "char_upper (char_upper c) = char_upper c"
  by (cases "97 \<le> ordc c \<and> ordc c \<le> 122") (auto simp: char_upper_def)

lemma py_lstrip_upper: "py_lstrip (py_upper s) = py_upper (py_lstrip s)"
  by (simp add: py_lstrip_def py_upper_def dropWhile_map comp_def char_upper_space)

lemma py_strip_upper: "py_strip (py_upper s) = py_upper (py_strip s)"
  unfolding py_strip_def py_lstrip_upper
  by (simp add: py_upper_def rev_map [symmetric]) (simp add: py_lstrip_upper [unfolded py_upper_def] rev_map)

lemma norm_verb_idem: "norm_verb (norm_verb s) = norm_verb s"
  unfolding py_strip_upper py_strip_idem by (simp add: py_upper_def char_upper_twice)

section \<open>The last check before delivery\<close>

lemma poll_scan_entry:
  assumes "poll_scan e u now rows pend s = (t, Inr (Some (r, ts), rest))" and "norm_verb (r_cmd r) \<in> set entry_verbs"
  shows "rest = [] \<and> live_entry_failure e t (poll_entry_request r ts) = Inr []"
  using assms(1)
proof (induction rows arbitrary: pend s)
  case (Cons q qs)
  then show ?case
    using assms(2)
    by (auto simp: Let_def split: sum.splits if_splits prod.splits intro: poll_entry_passes)
qed simp

lemma delivered_command_fields:
  assumes "delivered_command r ts = Inr c"
  shows "ec_command_id c = r_command_id r" "ec_cmd c = r_cmd r" "ec_symbol c = r_symbol r" "ec_payload c = r_payload_json r"
    "ec_updated_at c = ts"
  using assms by (auto simp: delivered_command_def Let_def elim!: ebindE)

lemma poll_delivers_authorized_entry:
  assumes "poll_next_command e s = (s', Inr (Some c))" and "norm_verb (ec_cmd c) \<in> set entry_verbs"
  obtains r t where "s' = mark_delivered e r (ec_updated_at c) t" and "delivered_command r (ec_updated_at c) = Inr c"
    and "live_entry_failure e t (poll_entry_request r (ec_updated_at c)) = Inr []"
proof -
  obtain now s1 where n: "now_read e s = (now, s1)" by fastforce
  define s2 where "s2 = fst (cleanup_expired_commands e s1)"
  define s3 where "s3 = fst (quarantine_disabled_scalp_entries e now s2)"
  have "poll_transaction e now s2 = (s', Inr (Some c))"
    using assms(1) unfolding poll_next_command_def n prod.case Let_def s2_def [symmetric]
    by (auto split: prod.splits sum.splits)
  then have d: "poll_deliver e now s3 = (s', Inr (Some c))"
    unfolding poll_transaction_def Let_def s3_def [symmetric] by (auto split: sum.splits if_splits)
  then obtain u where u: "execution_uncertainty_scope e s3 now = Inr u"
    by (auto simp: poll_deliver_def split: sum.splits)
  define rows where "rows = sort_key r_created_at
    (filter (\<lambda>r. r_status r = ''queued'' \<and> fle (r_created_at r) now \<and> fle now (r_expires_at r)) (s_commands s3))"
  obtain t r ts pend where sc: "poll_scan e u now rows [] s3 = (t, Inr (Some (r, ts), pend))"
    and dc: "delivered_command r ts = Inr c"
    and s': "s' = mark_delivered e r ts (if pend = [] then t else expire_poll_rejections e pend t)"
    using d u unfolding poll_deliver_def rows_def [symmetric]
    by (auto simp: Let_def split: prod.splits sum.splits option.splits)
  have "norm_verb (r_cmd r) \<in> set entry_verbs" using assms(2) delivered_command_fields [OF dc] by simp
  from poll_scan_entry [OF sc this] s' dc delivered_command_fields(5) [OF dc] that show ?thesis by auto
qed

lemma mark_delivered_other:
  assumes "q \<in> set (s_commands (mark_delivered e r ts t))" and "r_command_id q \<noteq> r_command_id r"
  shows "q \<in> set (s_commands t)"
  using assms by (auto simp: mark_delivered_def update_where_def)

lemma mark_delivered_state: "state_dict (mark_delivered e r ts t) = state_dict t"
  by (simp add: mark_delivered_def state_dict_def)

lemma live_entry_parts:
  assumes "live_entry_failure e t q = Inr []"
  shows "live_plane_failure (state_dict t) (py_upper (py_strip (le_pair q))) q = Inr []"
    and "production_scalp_authorization_failure e t (py_upper (py_strip (le_pair q))) q = Inr []"
    and "heartbeat_failure e (state_dict t) (le_now_ts q) = Inr []"
  using assms by (auto simp: live_entry_failure_def Let_def elim!: ebindE split: if_splits)

section \<open>Properties\<close>

text \<open>
  C9. The kill switch binds at delivery: whenever poll hands out an entry, the live plane of the stored state is enabled, in
  live mode, not killed and not queue-killed, its authority revision is the one the command was approved under, the
  broker account is the approved one, and the symbol and the intent to enter are in the active scope. An
  entry approved earlier is not delivered once any of these has changed.
\<close>

theorem killed_plane_delivers_no_entry:
  assumes "poll_next_command e s = (s', Inr (Some c))" and "norm_verb (ec_cmd c) \<in> set entry_verbs"
  shows "\<exists>diag live pairs intents. as_dict (dget (state_dict s') ''runtime_diag'') = Inr diag
    \<and> as_dict (dget diag ''orchestration_live'') = Inr live \<and> live_armed live
    \<and> safe_int (dget live ''authority_revision'') 0 = safe_int (dget (ec_payload c) ''expected_authority_revision'') 0
    \<and> norm_lower (dget (state_dict s') ''broker_account_mode'') = norm_lower (dget (ec_payload c) ''expected_account_mode'')
    \<and> norm_text (dget (state_dict s') ''broker_account_scope'') = norm_text (dget (ec_payload c) ''expected_account_scope'')
    \<and> scope_items py_upper (dget live ''active_pair_scope'') = Inr pairs
    \<and> scope_items py_lower (dget live ''active_intent_scope'') = Inr intents
    \<and> (ec_symbol c \<noteq> [] \<longrightarrow> py_upper (py_strip (ec_symbol c)) \<in> set pairs) \<and> ''enter'' \<in> set intents"
proof -
  obtain r t where s': "s' = mark_delivered e r (ec_updated_at c) t" and dc: "delivered_command r (ec_updated_at c) = Inr c"
    and ok: "live_entry_failure e t (poll_entry_request r (ec_updated_at c)) = Inr []"
    using assms by (rule poll_delivers_authorized_entry)
  have st: "state_dict s' = state_dict t" by (simp add: s' mark_delivered_state)
  note f = delivered_command_fields(1-4) [OF dc]
  obtain diag live admission pairs intents where l: "as_dict (dget (state_dict t) ''runtime_diag'') = Inr diag"
    "as_dict (dget diag ''orchestration_live'') = Inr live"
    "scope_items py_upper (dget live ''active_pair_scope'') = Inr pairs"
    "scope_items py_lower (dget live ''active_intent_scope'') = Inr intents"
    and checks: "first_reason (live_plane_checks live admission (poll_entry_request r (ec_updated_at c))) = []"
    and scope: "first_reason ([(py_upper (py_strip (le_pair (poll_entry_request r (ec_updated_at c)))) \<notin> set pairs, ''live_pair_not_allowlisted''),
           (''enter'' \<notin> set intents, ''live_intent_not_allowlisted'')]
           @ account_checks (state_dict t) (poll_entry_request r (ec_updated_at c))) = []"
    using live_entry_parts(1) [OF ok] by (rule live_planeE)
  have q: "le_authority_revision (poll_entry_request r (ec_updated_at c)) = safe_int (dget (ec_payload c) ''expected_authority_revision'') 0"
    "py_lower (py_strip (le_account_mode (poll_entry_request r (ec_updated_at c)))) = norm_lower (dget (ec_payload c) ''expected_account_mode'')"
    "py_strip (le_account_scope (poll_entry_request r (ec_updated_at c))) = norm_text (dget (ec_payload c) ''expected_account_scope'')"
    "ec_symbol c \<noteq> [] \<Longrightarrow> le_pair (poll_entry_request r (ec_updated_at c)) = ec_symbol c"
    by (simp_all add: poll_entry_request_def Let_def f norm_lower_def norm_text_def)
  have "list_all (\<lambda>k. \<not> fst k) (live_plane_checks live admission (poll_entry_request r (ec_updated_at c)))"
    using checks by (subst (asm) first_reason_Nil) (simp_all add: live_plane_checks_def)
  then have "live_armed live" "safe_int (dget live ''authority_revision'') 0 = safe_int (dget (ec_payload c) ''expected_authority_revision'') 0"
    unfolding live_plane_checks_def list.pred_inject fst_conv q live_armed_def by blast+
  moreover have "list_all (\<lambda>k. \<not> fst k) ([(py_upper (py_strip (le_pair (poll_entry_request r (ec_updated_at c)))) \<notin> set pairs,
       ''live_pair_not_allowlisted''), (''enter'' \<notin> set intents, ''live_intent_not_allowlisted'')]
       @ account_checks (state_dict t) (poll_entry_request r (ec_updated_at c)))"
    using scope by (subst (asm) first_reason_Nil) (simp_all add: account_checks_def)
  then have "''enter'' \<in> set intents" "ec_symbol c \<noteq> [] \<longrightarrow> py_upper (py_strip (ec_symbol c)) \<in> set pairs"
    "norm_lower (dget (state_dict t) ''broker_account_mode'') = norm_lower (dget (ec_payload c) ''expected_account_mode'')"
    "norm_text (dget (state_dict t) ''broker_account_scope'') = norm_text (dget (ec_payload c) ''expected_account_scope'')"
    unfolding account_checks_def list_all_append list.pred_inject fst_conv q(2,3) using q(4) by auto
  ultimately show ?thesis unfolding st using l by blast
qed

text \<open>
  C7. One entry per symbol and UTC day: when poll hands out an entry of the production scalper, every other
  row of the same symbol and intent created since the start of that UTC day has released its cell: it expired
  before any delivery, or was refused with the statement that nothing was attempted. So no second entry
  reaches the broker while an earlier one of the day was, or may have been, executed.
\<close>

theorem one_entry_per_symbol_day:
  assumes "poll_next_command e s = (s', Inr (Some c))" and "norm_verb (ec_cmd c) \<in> set entry_verbs"
    and "claims_scalper_payload (ec_payload c)"
  shows "\<exists>day_start. utc_day_start (ec_updated_at c) = Inr day_start
    \<and> (\<forall>q \<in> set (s_commands s'). py_strip (r_command_id q) \<noteq> py_strip (ec_command_id c)
          \<and> py_lower (r_intent q) = SCALP_ENTRY_INTENT \<and> ec_symbol c \<noteq> []
          \<and> r_symbol q = py_upper (py_strip (ec_symbol c)) \<and> fle day_start (r_created_at q) \<longrightarrow>
          \<not> bc_consumed (classify_scalp_daily_budget_row (budget_item q)))"
proof -
  obtain r t where s': "s' = mark_delivered e r (ec_updated_at c) t" and dc: "delivered_command r (ec_updated_at c) = Inr c"
    and ok: "live_entry_failure e t (poll_entry_request r (ec_updated_at c)) = Inr []"
    using assms(1,2) by (rule poll_delivers_authorized_entry)
  note f = delivered_command_fields(1-4) [OF dc]
  let ?q = "poll_entry_request r (ec_updated_at c)"
  have "claims_scalper_payload (le_command_payload ?q)"
    using assms(3) unfolding f by (simp add: poll_entry_request_def Let_def)
  with live_entry_parts(2) [OF ok] obtain durable where b: "daily_budget_failure t (py_upper (py_strip (le_pair ?q))) (le_command_id ?q) durable (le_now_ts ?q) = Inr []"
    by (rule scalp_authorizedE)
  then obtain day where day: "utc_day_start (ec_updated_at c) = Inr day"
    and z: "prior_entries t (py_upper (py_strip (le_pair ?q))) day (r_command_id r) = 0"
    by (auto simp: daily_budget_failure_def poll_entry_request_def Let_def MAX_ENTRIES_PER_SYMBOL_UTC_DAY_def
        elim!: ebindE split: if_splits)
  have "\<not> bc_consumed (classify_scalp_daily_budget_row (budget_item q))"
    if q: "q \<in> set (s_commands s')" "py_strip (r_command_id q) \<noteq> py_strip (ec_command_id c)"
      "py_lower (r_intent q) = SCALP_ENTRY_INTENT" "ec_symbol c \<noteq> []"
      "r_symbol q = py_upper (py_strip (ec_symbol c))" "fle day (r_created_at q)" for q
  proof -
    have other: "r_command_id q \<noteq> py_strip (r_command_id r)" "r_command_id q \<noteq> r_command_id r"
      using q(2) f(1) by (metis py_strip_idem)+
    have "q \<in> set (s_commands t)" using mark_delivered_other q(1) other(2) s' by blast
    moreover have "daily_cell (py_upper (py_strip (le_pair ?q))) day q"
      using q(3-6) f(3) by (simp add: daily_cell_def poll_entry_request_def Let_def norm_verb_idem)
    ultimately show ?thesis using z other(1) by (auto simp: prior_entries_def filter_empty_conv)
  qed
  with day show ?thesis by blast
qed

section \<open>Witnesses\<close>

text \<open>A poll of a queue that holds one deliverable entry reads the clock three times.\<close>

lemma single_entry_polled:
  assumes rows: "s_commands s = [r]" and queued: "r_status r = ''queued''" "fle (r_created_at r) (en_clock e (s_reads s))"
      "fle (en_clock e (s_reads s)) (r_expires_at r)" "\<not> flt (r_expires_at r) (en_clock e (Suc (s_reads s)))"
    and quiet: "retired_transition r = None" "\<not> execution_uncertainty_predicate r"
    and egress: "egress_failure e (s\<lparr>s_reads := Suc (Suc (s_reads s))\<rparr>) (en_clock e (s_reads s)) None = Inr []"
      "egress_failure e (s\<lparr>s_reads := Suc (Suc (s_reads s))\<rparr>) (en_clock e (s_reads s)) (Some (candidate_command r)) = Inr []"
    and entry: "norm_verb (r_cmd r) \<in> set entry_verbs"
    and live: "live_entry_failure e (s\<lparr>s_reads := Suc (Suc (s_reads s))\<rparr>) (poll_entry_request r (en_clock e (s_reads s))) = Inr []"
      "live_entry_failure e (s\<lparr>s_reads := Suc (Suc (Suc (s_reads s)))\<rparr>)
         (poll_entry_request r (en_clock e (Suc (Suc (s_reads s))))) = Inr []"
    and cmd: "delivered_command r (en_clock e (Suc (Suc (s_reads s)))) = Inr c"
  shows "poll_next_command e s =
    (mark_delivered e r (en_clock e (Suc (Suc (s_reads s)))) (s\<lparr>s_reads := Suc (Suc (Suc (s_reads s)))\<rparr>), Inr (Some c))"
proof -
  let ?now = "en_clock e (s_reads s)" and ?t = "s\<lparr>s_reads := Suc (Suc (s_reads s))\<rparr>"
  have clean: "fst (cleanup_expired_commands e (s\<lparr>s_reads := Suc (s_reads s)\<rparr>)) = ?t"
    using queued(4) by (simp add: cleanup_expired_commands_def now_read_def rows Let_def)
  have retire: "fst (quarantine_disabled_scalp_entries e ?now ?t) = ?t"
    using quiet(1) by (simp add: quarantine_disabled_scalp_entries_def rows Let_def List.map_filter_simps append_command_events_def)
  have scope: "execution_uncertainty_scope e ?t ?now = Inr no_uncertainty"
    using quiet(2) by (simp add: execution_uncertainty_scope_def rows)
  have free: "\<not> execution_uncertainty_blocks_symbol no_uncertainty (r_symbol r)"
    by (simp add: execution_uncertainty_blocks_symbol_def no_uncertainty_def)
  have scan: "poll_scan e no_uncertainty ?now [r] [] ?t =
      (s\<lparr>s_reads := Suc (Suc (Suc (s_reads s)))\<rparr>, Inr (Some (r, en_clock e (Suc (Suc (s_reads s)))), []))"
    using egress(2) entry live free by (simp add: poll_entry_failure_def now_read_def Let_def)
  have "poll_deliver e ?now ?t =
      (mark_delivered e r (en_clock e (Suc (Suc (s_reads s)))) (s\<lparr>s_reads := Suc (Suc (Suc (s_reads s)))\<rparr>), Inr (Some c))"
    unfolding poll_deliver_def scope using queued(1-3) cmd scan by (simp add: rows Let_def del: poll_scan.simps)
  then show ?thesis
    unfolding poll_next_command_def now_read_def poll_transaction_def Let_def
    using egress(1) by (simp add: clean retire)
qed

definition scalp_row :: CommandRow where
  "scalp_row = new_row ((plain_command ''c7'' ''BUY'' ''EURUSD''
     (stamped_entry @ [(''symbol'', VStr ''EURUSD''), (''cmd'', VStr ''BUY''), (''sleeve'', VStr ''scalp''),
        (''expected_account_mode'', VStr ''demo''), (''expected_account_scope'', VStr ''acct''),
        (''expected_authority_revision'', VInt 3),
        (''rollover_guard_schema_version'', VStr PRODUCTION_SCALP_ROLLOVER_GUARD_SCHEMA_VERSION),
        (''rollover_guard_config_sha256'', VStr (demo_digest []))]))\<lparr>ec_intent := SCALP_ENTRY_INTENT\<rparr>)"

definition scalp_state_with :: "pyval \<Rightarrow> pydict" where
  "scalp_state_with authority = dput ''runtime_diag'' (VDict
      [(''orchestration_live'', VDict
         [(''enabled'', VBool True), (''mode'', VStr ''live''), (''runtime_enabled'', VBool True),
          (''authority_revision'', VInt 3), (''active_pair_scope'', VList [VStr ''EURUSD'']),
          (''active_sleeve_scope'', VList [VStr ''scalp'']), (''active_intent_scope'', VList [VStr ''enter''])]),
       (''live_command_admission'', VDict [(''allowed'', VBool True),
          (''pairs'', VDict [(''EURUSD'', VDict [(''allowed'', VBool True)])])])])
     (demo_scope [''EURUSD''] ''scalp'' ''enter'' @ [(''broker_account_mode'', VStr ''demo''), (''system_status'', VStr ''connected''),
        (''last_heartbeat'', VFloat (Fin 995)), (''broker_venue_id'', VStr ''ig_mt4''), (''bridge_producer_identity'', VStr ''ea''),
        (''bridge_producer_instance_id'', VStr ''i1''), (''bridge_terminal_lease_scope'', VStr ''t1''),
        (''bridge_credential_generation_id'', VStr ''k1''), (''bridge_protocol_version'', VStr ''v3.0.0''),
        (''bridge_consumer_lease'', VDict [(''consumer_identity'', VStr ''ea''), (''producer_instance_id'', VStr ''i1''),
           (''terminal_lease_scope'', VStr ''t1''), (''credential_generation_id'', VStr ''k1''),
           (''bridge_protocol_version'', VStr ''v3.0.0''), (''expires_at'', VFloat (Fin 2000))]),
        (''production_scalp_authority'', authority)])"

definition scalp_state :: pydict where
  "scalp_state = scalp_state_with (VDict demo_authority)"

definition scalp_store :: Store where
  "scalp_store = empty_store\<lparr>s_commands := [scalp_row], s_state := Some scalp_state\<rparr>"

lemma scalp_state_authority: "as_dict (dget scalp_state ''production_scalp_authority'') = Inr demo_authority"
  by (simp add: scalp_state_def scalp_state_with_def demo_scope_def)

lemma scalp_row_stamped: "stamped demo_digest demo_authority (r_payload_json scalp_row)"
  unfolding scalp_row_def new_row_def plain_command_def by (simp add: stamped_extension)

lemma not_isl_cases: "\<not> isl (f a) \<and> \<not> isl (f b) \<Longrightarrow> x \<in> {a, b} \<Longrightarrow> \<exists>y. f x = Inr y"
  by (cases "f x") auto

lemma demo_sha [simp]: "en_sha256 demo_env = demo_digest"
  by (simp add: demo_env_def)

lemma scalp_rollover: "rollover_failure demo_env (r_payload_json scalp_row) now = Inr []" if "now \<in> {Fin 1000, Fin 1002}" for now
proof -
  note clk = that
  have c: "config_sha256 demo_digest p = demo_digest []" for p by (simp add: config_sha256_def demo_digest_def)
  have d: "str_or_empty (dget (r_payload_json scalp_row) ''rollover_guard_schema_version'') = PRODUCTION_SCALP_ROLLOVER_GUARD_SCHEMA_VERSION"
    "str_or_empty (dget (r_payload_json scalp_row) ''rollover_guard_config_sha256'') = demo_digest []"
    by (simp_all add: scalp_row_def new_row_def plain_command_def stamped_entry_def)
  have "\<not> isl (utc_from_timestamp (Fin 1000)) \<and> \<not> isl (utc_from_timestamp (Fin 1002))" by code_simp
  then obtain us where u: "utc_from_timestamp now = Inr us"
    using not_isl_cases [OF _ clk] by blast
  have v: "validation_error DEFAULT_PRODUCTION_SCALP_ROLLOVER_POLICY = []" by code_simp
  have clock: "is_finite now" "flt (Fin 0) now" using clk by auto
  obtain g where "evaluate_production_scalp_rollover_guard demo_digest (VFloat now) DEFAULT_PRODUCTION_SCALP_ROLLOVER_POLICY = Inr g"
      "entry_allowed g"
    unfolding evaluate_production_scalp_rollover_guard_def Let_def v by (simp add: clock u entry_allowed_def)
  then show ?thesis unfolding rollover_failure_def demo_sha c d by simp
qed

lemma scalp_strategy:
  assumes "s_commands t = [scalp_row]" and "s_state t = Some scalp_state" and "now \<in> {Fin 1000, Fin 1002}"
  shows "production_scalp_authorization_failure demo_env t ''EURUSD'' (poll_entry_request scalp_row now) = Inr []"
proof -
  let ?raw = "r_payload_json scalp_row" and ?q = "poll_entry_request scalp_row now"
  have q: "le_command_payload ?q = ?raw" "le_strategy_authority ?q = None" "le_command_id ?q = ''c7''" "le_now_ts ?q = now"
    by (simp_all add: poll_entry_request_def Let_def scalp_row_def new_row_def plain_command_def)
  have st: "state_dict t = scalp_state" by (simp add: state_dict_def assms(2))
  have auth: "authority_error demo_digest demo_authority (expectation_from_command ?raw) (Fin 1000) = Inr []"
    unfolding demo_authority_def expectation_from_stamped [OF demo_valid scalp_row_stamped [unfolded demo_authority_def]]
    by (rule built_accepted [OF demo_digest_hex demo_valid demo_binding]) (simp_all add: demo_expectation_def)
  have bind: "command_binding_error demo_digest ?raw demo_authority ''EURUSD'' = Inr []"
    using stamped_command_accepted [OF demo_digest_hex demo_valid demo_binding _ demo_pair] scalp_row_stamped
    unfolding demo_authority_def by blast
  have lane: "first_reason [(norm_lower (dget ?raw ''intent'') \<noteq> SCALP_ENTRY_INTENT, ''scalp_command_intent_invalid''),
       (norm_lower (dget ?raw ''strategy_lane'') \<noteq> SCALP_EXECUTION_LANE, ''scalp_command_lane_invalid''),
       (str_or_empty (dget ?raw ''expected_strategy_authority_schema'') \<noteq> SCALP_EXECUTION_AUTHORITY_SCHEMA,
        ''expected_strategy_authority_schema_changed'')] = []" by code_simp
  have id: "first_reason (scalp_identity_checks scalp_state ?raw demo_authority None) = []"
    "first_reason (take 2 (scalp_identity_checks scalp_state ?raw demo_authority None)) = []"
  proof -
    have m: "norm_lower (dget demo_authority ''account_mode'') = ''demo''"
      "norm_lower (dget demo_authority ''admission_mode'') = SCALP_ADMISSION_MODE_SIGNED"
      unfolding demo_authority_def built_lookup demo_expectation_def by (simp, code_simp)+
    have b: "norm_lower (dget scalp_state ''broker_account_mode'') = ''demo''"
      by (simp add: scalp_state_def scalp_state_with_def demo_scope_def) code_simp
    have r: "norm_lower (dget ?raw ''expected_strategy_account_mode'') = ''demo''" "norm_lower (dget ?raw ''expected_account_mode'') = ''demo''"
      "norm_lower (dget ?raw ''expected_strategy_admission_mode'') = SCALP_ADMISSION_MODE_SIGNED" by code_simp+
    show "first_reason (scalp_identity_checks scalp_state ?raw demo_authority None) = []"
      "first_reason (take 2 (scalp_identity_checks scalp_state ?raw demo_authority None)) = []"
      unfolding scalp_identity_checks_def Let_def m b r by simp_all
  qed
  have wall: "en_wall demo_env n c = Fin 1000" "en_contract_failure demo_env a b c now = Inr []" for n a b c by (simp_all add: demo_env_def)
  have lim: "safe_int (dget demo_authority ''max_entries_per_symbol_utc_day'') MAX_ENTRIES_PER_SYMBOL_UTC_DAY = 1"
    unfolding demo_authority_def built_lookup by (simp add: MAX_ENTRIES_PER_SYMBOL_UTC_DAY_def)
  have own: "py_strip ''c7'' = ''c7''" "r_command_id scalp_row = ''c7''" by code_simp+
  have "\<not> isl (utc_day_start (Fin 1000)) \<and> \<not> isl (utc_day_start (Fin 1002))" by code_simp
  then obtain day where day: "utc_day_start now = Inr day" using not_isl_cases [OF _ assms(3)] by blast
  have budget: "daily_budget_failure t ''EURUSD'' ''c7'' demo_authority now = Inr []"
    unfolding daily_budget_failure_def day ebind.simps Let_def lim
    by (simp add: MAX_ENTRIES_PER_SYMBOL_UTC_DAY_def prior_entries_def assms(1) own)
  have claims: "claims_scalper_payload ?raw" by code_simp
  show ?thesis
    unfolding production_scalp_authorization_failure_def q st Let_def lane scalp_state_authority ebind.simps id wall demo_sha auth bind
      option.case budget using claims by simp
qed

lemma scalp_live:
  assumes "s_commands t = [scalp_row]" and "s_state t = Some scalp_state" and "now \<in> {Fin 1000, Fin 1002}"
  shows "live_entry_failure demo_env t (poll_entry_request scalp_row now) = Inr []"
proof -
  let ?q = "poll_entry_request scalp_row now"
  have st: "state_dict t = scalp_state" by (simp add: state_dict_def assms(2))
  have "py_upper (py_strip (le_pair (poll_entry_request scalp_row (Fin 1000)))) = ''EURUSD''
    \<and> py_upper (py_strip (le_pair (poll_entry_request scalp_row (Fin 1002)))) = ''EURUSD''" by code_simp
  then have pair: "py_upper (py_strip (le_pair ?q)) = ''EURUSD''" using assms(3) by blast
  have "first_reason (request_checks (poll_entry_request scalp_row (Fin 1000))) = []
    \<and> first_reason (request_checks (poll_entry_request scalp_row (Fin 1002))) = []" by code_simp
  then have req: "first_reason (request_checks ?q) = []" using assms(3) by blast
  have "live_plane_failure (scalp_state_with a) ''EURUSD'' (poll_entry_request scalp_row (Fin 1000)) = Inr []" for a by code_simp
  moreover have "live_plane_failure (scalp_state_with a) ''EURUSD'' (poll_entry_request scalp_row (Fin 1002)) = Inr []" for a by code_simp
  ultimately have plane: "live_plane_failure scalp_state ''EURUSD'' ?q = Inr []" using assms(3) unfolding scalp_state_def by blast
  have "heartbeat_failure demo_env (scalp_state_with a) (Fin 1000) = Inr []" for a by code_simp
  moreover have "heartbeat_failure demo_env (scalp_state_with a) (Fin 1002) = Inr []" for a by code_simp
  ultimately have heart: "heartbeat_failure demo_env scalp_state now = Inr []" using assms(3) unfolding scalp_state_def by blast
  have q: "le_command_payload ?q = r_payload_json scalp_row" "le_now_ts ?q = now" by (simp_all add: poll_entry_request_def Let_def)
  have "market_failure demo_env (empty_store\<lparr>s_state := Some (scalp_state_with a), s_reads := n\<rparr>) ''EURUSD''
      (poll_entry_request scalp_row (Fin 1000)) = Inr []" for a n by code_simp
  moreover have "market_failure demo_env (empty_store\<lparr>s_state := Some (scalp_state_with a), s_reads := n\<rparr>) ''EURUSD''
      (poll_entry_request scalp_row (Fin 1002)) = Inr []" for a n by code_simp
  moreover have "market_failure demo_env t ''EURUSD'' ?q
      = market_failure demo_env (empty_store\<lparr>s_state := Some scalp_state, s_reads := s_reads t\<rparr>) ''EURUSD'' ?q"
  proof -
    have "state_dict (empty_store\<lparr>s_state := Some scalp_state, s_reads := s_reads t\<rparr>) = scalp_state" by (simp add: state_dict_def)
    then show ?thesis unfolding market_failure_def st by simp
  qed
  ultimately have market: "market_failure demo_env t ''EURUSD'' ?q = Inr []" using assms(3) unfolding scalp_state_def by fastforce
  show ?thesis
    unfolding live_entry_failure_def Let_def pair req st plane scalp_strategy [OF assms] heart q scalp_rollover [OF assms(3)] market
    by simp
qed

lemma scalp_store_polls:
  "\<exists>c s'. poll_next_command demo_env scalp_store = (s', Inr (Some c)) \<and> norm_verb (ec_cmd c) \<in> set entry_verbs
     \<and> claims_scalper_payload (ec_payload c)"
proof -
  have clock: "en_clock demo_env 0 = Fin 1000" "en_clock demo_env (Suc 0) = Fin 1001" "en_clock demo_env (Suc (Suc 0)) = Fin 1002"
    by (simp_all add: demo_env_def)
  have reads: "s_reads scalp_store = 0" "s_commands scalp_store = [scalp_row]" by (simp_all add: scalp_store_def empty_store_def)
  have state: "s_state (scalp_store\<lparr>s_reads := n\<rparr>) = Some scalp_state" "s_commands (scalp_store\<lparr>s_reads := n\<rparr>) = [scalp_row]" for n
    by (simp_all add: scalp_store_def)
  have "\<not> isl (delivered_command scalp_row (Fin 1002))" by code_simp
  then obtain c where c: "delivered_command scalp_row (Fin 1002) = Inr c" by (cases "delivered_command scalp_row (Fin 1002)") auto
  have g: "egress_failure_from_state demo_env (scalp_state_with a) (Fin 1000) None = Inr []"
    "egress_failure_from_state demo_env (scalp_state_with a) (Fin 1000) (Some (candidate_command scalp_row)) = Inr []" for a
    by code_simp+
  have p: "as_dict (dget (scalp_state_with a) ''execution_egress_authority'') = Inr (production_egress ''boot-1'' 3 [''EURUSD''] [''scalp''] [''enter''] (Fin 900))"
    "dget (production_egress ''boot-1'' 3 [''EURUSD''] [''scalp''] [''enter''] (Fin 900)) ''protective_management_only'' \<noteq> VBool True" for a
    by code_simp+
  have e: "egress_failure demo_env (scalp_store\<lparr>s_reads := n\<rparr>) (Fin 1000) None = Inr []"
    "egress_failure demo_env (scalp_store\<lparr>s_reads := n\<rparr>) (Fin 1000) (Some (candidate_command scalp_row)) = Inr []" for n
    unfolding egress_failure_def Let_def state_dict_def state option.case scalp_state_def g p ebind.simps using p(2) by simp_all
  have r: "r_status scalp_row = ''queued''" "fle (r_created_at scalp_row) (Fin 1000)" "fle (Fin 1000) (r_expires_at scalp_row)"
    "\<not> flt (r_expires_at scalp_row) (Fin 1001)" "retired_transition scalp_row = None" "\<not> execution_uncertainty_predicate scalp_row"
    "norm_verb (r_cmd scalp_row) \<in> set entry_verbs" "claims_scalper_payload (r_payload_json scalp_row)" by code_simp+
  have "poll_next_command demo_env scalp_store =
      (mark_delivered demo_env scalp_row (Fin 1002) (scalp_store\<lparr>s_reads := Suc (Suc (Suc 0))\<rparr>), Inr (Some c))"
    using single_entry_polled [of scalp_store scalp_row demo_env c] e r c state
      scalp_live [OF state(2) state(1)]
    unfolding reads clock by (simp add: clock)
  then show ?thesis using r delivered_command_fields [OF c] by auto
qed

theorem killed_plane_delivers_no_entry_witness:
  "\<exists>s' diag live. fst (poll_next_command demo_env scalp_store) = s'
    \<and> as_dict (dget (state_dict s') ''runtime_diag'') = Inr diag \<and> as_dict (dget diag ''orchestration_live'') = Inr live \<and> live_armed live"
proof -
  obtain c s' where p: "poll_next_command demo_env scalp_store = (s', Inr (Some c))" "norm_verb (ec_cmd c) \<in> set entry_verbs"
    using scalp_store_polls by blast
  from killed_plane_delivers_no_entry [OF p] p(1) show ?thesis by auto
qed

theorem one_entry_per_symbol_day_witness:
  "\<exists>c day_start. snd (poll_next_command demo_env scalp_store) = Inr (Some c) \<and> utc_day_start (ec_updated_at c) = Inr day_start"
proof -
  obtain c s' where p: "poll_next_command demo_env scalp_store = (s', Inr (Some c))" "norm_verb (ec_cmd c) \<in> set entry_verbs"
      "claims_scalper_payload (ec_payload c)"
    using scalp_store_polls by blast
  from one_entry_per_symbol_day [OF p] p(1) show ?thesis by auto
qed

end
