(* ===== verification/Authority_Swap.thy ===== *)
theory Authority_Swap
  imports Command_Queue
begin

text \<open>
  The two compare-and-set transactions of \<open>runtime/postgres_store.py\<close> on the stored authorities:
  \<open>compare_and_set_release_authority\<close>, which moves the externally witnessed release through pending, acknowledged and
  active and switches broker egress with it, and \<open>compare_and_set_production_scalp_authority\<close>, which publishes or
  revokes the authority of the production scalper. The verification of signatures and evidence files
  (\<open>release_authority.py\<close>) and the broker contract universe are arguments.
\<close>

section \<open>The release authority\<close>

record ReleaseChecks =
  rc_active_model_set :: "string \<Rightarrow> pydict option"
  rc_request_errors :: "pydict \<Rightarrow> pydict option \<Rightarrow> pyerr + string list"
  rc_active_errors :: "pydict \<Rightarrow> pydict option \<Rightarrow> string \<Rightarrow> pydict \<Rightarrow> string \<Rightarrow> string \<Rightarrow> pyerr + string list"

datatype swap_reply =
    SwapRefused string "string list" pydict
  | SwapUpdated pydict

record ReleaseSwap =
  rs_incoming :: pydict
  rs_expected_generation_id :: string
  rs_expected_status :: string
  rs_safety_dominant :: bool

abbreviation release_status :: "pydict \<Rightarrow> string" where
  "release_status authority \<equiv> norm_lower (dget authority ''status'')"

abbreviation release_generation :: "pydict \<Rightarrow> string" where
  "release_generation request \<equiv> str_or_empty (dget request ''generation_id'')"

abbreviation release_request_sha :: "pydict \<Rightarrow> string" where
  "release_request_sha request \<equiv> str_or_empty (dget request ''request_sha256'')"

abbreviation release_pair :: "pydict \<Rightarrow> string" where
  "release_pair request \<equiv> norm_upper (dget request ''pair'')"

definition release_guards :: "ReleaseSwap \<Rightarrow> pydict \<Rightarrow> pydict \<Rightarrow> pydict \<Rightarrow> (bool \<times> string) list" where
  "release_guards q current current_request request =
     (let status = release_status (rs_incoming q); current_status = release_status current;
          generation = release_generation request; current_generation = release_generation current_request in
      [(rs_expected_generation_id q \<noteq> [] \<and> current_generation \<noteq> rs_expected_generation_id q, ''release_generation_changed''),
       (rs_expected_status q \<noteq> [] \<and> current_status \<noteq> py_lower (py_strip (rs_expected_status q)), ''release_status_changed''),
       (current_status \<in> {''pending'', ''acknowledged'', ''active''} \<and> current_generation \<noteq> []
          \<and> current_generation \<noteq> generation, ''release_authority_singleton_busy''),
       (release_pair current_request \<noteq> [] \<and> release_pair request \<noteq> [] \<and> release_pair current_request \<noteq> release_pair request,
        ''release_authority_scope_conflict''),
       (status = ''active'' \<and> current_status \<noteq> ''acknowledged'', ''release_activation_requires_acknowledged''),
       (status = ''acknowledged'' \<and> current_status \<noteq> ''pending'', ''release_ack_requires_pending''),
       (status \<in> {''acknowledged'', ''active''}
          \<and> (generation \<noteq> current_generation \<or> release_request_sha request \<noteq> release_request_sha current_request),
        ''release_transition_request_changed'')])"

text \<open>The nonces that have not expired; every entry with a name is compared with its own reading of the clock.\<close>

fun live_nonces :: "Env \<Rightarrow> pydict \<Rightarrow> Store \<Rightarrow> Store \<times> (pyerr + pydict)" where
  "live_nonces e [] s = (s, Inr [])"
| "live_nonces e ((k, v) # kvs) s =
     (if py_strip k = [] then live_nonces e kvs s
      else case parse_iso_ts e v of
        Inl err \<Rightarrow> (s, Inl err)
      | Inr ts \<Rightarrow>
          (case now_read e s of (now, s1) \<Rightarrow>
             if flt now ts
             then (case py_float v of
                     Inl err \<Rightarrow> (s1, Inl err)
                   | Inr f \<Rightarrow>
                       (case live_nonces e kvs s1 of
                          (s2, Inl err) \<Rightarrow> (s2, Inl err)
                        | (s2, Inr d) \<Rightarrow> (s2, Inr ((k, VFloat f) # d))))
             else live_nonces e kvs s1))"

text \<open>A pending request spends its witness: a refusal, or the state with the nonce in the ledger.\<close>

definition spend_nonce :: "Env \<Rightarrow> pydict \<Rightarrow> pydict \<Rightarrow> Store \<Rightarrow> Store \<times> (pyerr + (string + pydict))" where
  "spend_nonce e request merged s =
     (case as_dict (dget request ''external_witness'') of
        Inl err \<Rightarrow> (s, Inl err)
      | Inr witness \<Rightarrow>
          let nonce = norm_text (dget witness ''nonce'') in
          (case parse_iso_ts e (dget witness ''expires_at'') of
             Inl err \<Rightarrow> (s, Inl err)
           | Inr expires_at \<Rightarrow>
               if nonce = [] then (s, Inr (Inl ''release_witness_invalid''))
               else case now_read e s of (now, s1) \<Rightarrow>
                 if fle expires_at now then (s1, Inr (Inl ''release_witness_invalid''))
                 else case as_dict (dget merged ''release_witness_nonce_ledger'') of
                   Inl err \<Rightarrow> (s1, Inl err)
                 | Inr stored \<Rightarrow>
                     (case live_nonces e stored s1 of
                        (s2, Inl err) \<Rightarrow> (s2, Inl err)
                      | (s2, Inr ledger) \<Rightarrow>
                          if dhas ledger nonce then (s2, Inr (Inl ''release_witness_replayed''))
                          else (s2, Inr (Inr (dput ''release_witness_nonce_ledger''
                                  (VDict (dput nonce (VFloat expires_at) ledger)) merged))))))"

definition attested_boot :: "pydict \<Rightarrow> string \<Rightarrow> pyerr + string \<times> pydict" where
  "attested_boot merged pair =
     ebind (as_dict (dget merged ''runtime_attestation'')) (\<lambda>attestation.
     ebind (as_dict (dget attestation ''pairs'')) (\<lambda>pairs.
     ebind (as_dict (dget pairs pair)) (\<lambda>pair_attestation.
       let whole = (if pair_attestation \<noteq> [] then dmerge attestation pair_attestation else attestation) in
       Inr (str_or_empty (py_or (dget whole ''runtime_boot_id'') (dget merged ''runtime_boot_id'')), whole))))"

definition release_validation_errors :: "ReleaseChecks \<Rightarrow> pydict \<Rightarrow> pydict \<Rightarrow> pydict \<Rightarrow> pyerr + string list" where
  "release_validation_errors rc incoming request merged =
     (let status = release_status incoming; pair = release_pair request; row = rc_active_model_set rc pair in
      if status \<notin> {''pending'', ''acknowledged'', ''active''} then Inr []
      else if status = ''active''
      then ebind (attested_boot merged pair) (\<lambda>(boot, attestation).
        rc_active_errors rc incoming row boot attestation (release_generation request) (release_request_sha request))
      else ebind (rc_request_errors rc request row) (\<lambda>errors.
        if status = ''acknowledged''
        then ebind (release_egress_binding_error (dput ''status'' (VStr ''active'') incoming)) (\<lambda>err.
          Inr (if err \<noteq> [] then errors @ [err] else errors))
        else Inr errors))"

definition armed_by_release :: "pydict \<Rightarrow> pydict \<Rightarrow> pyfloat \<Rightarrow> pydict \<Rightarrow> pydict" where
  "armed_by_release request ack now merged =
     dput ''execution_egress_authority''
       (VDict [(''schema_version'', VStr EXECUTION_EGRESS_SCHEMA), (''enabled'', VBool True),
          (''reason'', VStr ''externally_witnessed_runner_ack''), (''generation_id'', VStr (release_generation request)),
          (''request_sha256'', VStr (release_request_sha request)),
          (''runtime_boot_id'', VStr (str_or_empty (dget ack ''runtime_boot_id''))), (''updated_at'', VFloat now)])
       (dput ''execution_egress_enabled'' (VBool True) merged)"

text \<open>The last statements: switch egress with the new status, quarantine the queue unless active, write the row.\<close>

definition publish_release :: "Env \<Rightarrow> pydict \<Rightarrow> pydict \<Rightarrow> pydict \<Rightarrow> pydict \<Rightarrow> Store \<Rightarrow> Store \<times> (pyerr + swap_reply)" where
  "publish_release e incoming request current merged s =
     (let status = release_status incoming; merged1 = dput ''release_authority'' (VDict incoming) merged in
      case now_read e s of (now, s1) \<Rightarrow>
        if status = ''active''
        then (case release_egress_binding_error incoming of
                Inl x \<Rightarrow> (s1, Inl x)
              | Inr err \<Rightarrow>
                  if err \<noteq> [] then (s1, Inr (SwapRefused err [] current))
                  else (case as_dict (dget incoming ''ack'') of
                          Inl x \<Rightarrow> (s1, Inl x)
                        | Inr ack \<Rightarrow>
                            (write_state (dput ''last_update'' (VFloat now) (armed_by_release request ack now merged1)) s1,
                             Inr (SwapUpdated incoming))))
        else
          (write_state (dput ''last_update'' (VFloat now)
             (disable_execution_egress_in_state (''release_authority_'' @ (if status = [] then ''invalid'' else status)) now merged1))
             (fst (quarantine_execution_queue e (''execution_egress_'' @ (if status = [] then ''disabled'' else status)) now False s1)),
           Inr (SwapUpdated incoming)))"

definition validate_release ::
  "Env \<Rightarrow> ReleaseChecks \<Rightarrow> pydict \<Rightarrow> pydict \<Rightarrow> pydict \<Rightarrow> pydict \<Rightarrow> Store \<Rightarrow> Store \<times> (pyerr + swap_reply)" where
  "validate_release e rc incoming current request merged s =
     (if release_status incoming \<notin> {''pending'', ''acknowledged'', ''active'', ''revoked'', ''rejected''}
      then (s, Inr (SwapRefused ''release_authority_status_invalid'' [] current))
      else case release_validation_errors rc incoming request merged of
        Inl err \<Rightarrow> (s, Inl err)
      | Inr errors \<Rightarrow>
          if errors \<noteq> [] then (s, Inr (SwapRefused ''release_authority_validation_failed'' (py_unique errors) current))
          else publish_release e incoming request current merged s)"

definition release_transition ::
  "Env \<Rightarrow> ReleaseChecks \<Rightarrow> ReleaseSwap \<Rightarrow> pydict \<Rightarrow> pydict \<Rightarrow> pydict \<Rightarrow> pydict \<Rightarrow> Store \<Rightarrow> Store \<times> (pyerr + swap_reply)" where
  "release_transition e rc q current current_request request merged s =
     (let incoming = rs_incoming q; guard = first_reason (release_guards q current current_request request) in
      if guard \<noteq> [] then (s, Inr (SwapRefused guard [] current))
      else if release_status incoming = ''pending''
      then (case spend_nonce e request merged s of
              (s1, Inl err) \<Rightarrow> (s1, Inl err)
            | (s1, Inr (Inl why)) \<Rightarrow> (s1, Inr (SwapRefused why [] current))
            | (s1, Inr (Inr merged1)) \<Rightarrow> validate_release e rc incoming current request merged1 s1)
      else validate_release e rc incoming current request merged s)"

definition release_parts :: "pydict \<Rightarrow> pydict \<Rightarrow> pyerr + pydict \<times> pydict \<times> pydict" where
  "release_parts merged incoming =
     ebind (as_dict (dget merged ''release_authority'')) (\<lambda>current.
     ebind (as_dict (dget current ''request'')) (\<lambda>current_request.
     ebind (as_dict (dget incoming ''request'')) (\<lambda>request. Inr (current, current_request, request))))"

definition compare_and_set_release_authority ::
  "Env \<Rightarrow> ReleaseChecks \<Rightarrow> ReleaseSwap \<Rightarrow> Store \<Rightarrow> Store \<times> (pyerr + swap_reply)" where
  "compare_and_set_release_authority e rc q s =
     (let merged = state_dict s; incoming = rs_incoming q in
      case release_parts merged incoming of
        Inl err \<Rightarrow> (s, Inl err)
      | Inr (current, current_request, request) \<Rightarrow>
          if rs_safety_dominant q
          then (if str_or_empty (dget incoming ''schema_version'') \<noteq> RELEASE_AUTHORITY_STATE_SCHEMA
                   \<or> release_status incoming \<notin> {''revoked'', ''rejected''}
                then (s, Inr (SwapRefused ''release_safety_transition_must_revoke'' [] current))
                else publish_release e incoming request current merged s)
          else release_transition e rc q current current_request request merged s)"

section \<open>The scalper's authority\<close>

record ScalpSwap =
  ss_incoming :: pydict
  ss_validation_witness :: pydict
  ss_expected_generation_id :: string
  ss_expected_status :: string
  ss_safety_dominant :: bool

text \<open>The errors of \<open>project_ig_mt4_authority_contract_universe\<close> on the state at a time: none is \<open>ok\<close>.\<close>

type_synonym contract_universe = "pydict \<Rightarrow> pyfloat \<Rightarrow> pyerr + string list"

definition scope_texts :: "(string \<Rightarrow> string) \<Rightarrow> pyval \<Rightarrow> pyerr + string list" where
  "scope_texts f v =
     ebind (as_list v) (\<lambda>xs. Inr (map (\<lambda>x. f (norm_text x)) (filter (\<lambda>x. norm_text x \<noteq> []) xs)))"

fun pairs_admitted :: "pydict \<Rightarrow> string list \<Rightarrow> pyerr + bool" where
  "pairs_admitted pairs [] = Inr True"
| "pairs_admitted pairs (x # xs) =
     ebind (as_dict (dget pairs x)) (\<lambda>d. if truthy (dget d ''allowed'') then pairs_admitted pairs xs else Inr False)"

definition scalp_swap_guards :: "ScalpSwap \<Rightarrow> pydict \<Rightarrow> (bool \<times> string) list" where
  "scalp_swap_guards q current =
     (let generation = str_or_empty (dget current ''generation_id''); status = norm_lower (dget current ''status'') in
      [(ss_expected_generation_id q \<noteq> [] \<and> generation \<noteq> ss_expected_generation_id q, ''scalp_authority_generation_changed''),
       (ss_expected_status q \<noteq> [] \<and> status \<noteq> py_lower (py_strip (ss_expected_status q)), ''scalp_authority_status_changed''),
       (norm_lower (dget (ss_incoming q) ''status'') \<noteq> ''active'', ''scalp_authority_activation_invalid''),
       (status = ''active'' \<and> generation \<noteq> [] \<and> generation \<noteq> str_or_empty (dget (ss_incoming q) ''generation_id''),
        ''scalp_authority_singleton_busy'')])"

definition scalp_egress_checks :: "pydict \<Rightarrow> pydict \<Rightarrow> ScalpAuthorityExpectation \<Rightarrow> (bool \<times> string) list" where
  "scalp_egress_checks merged egress x =
     [(\<not> truthy (dget merged ''execution_egress_enabled'') \<or> \<not> truthy (dget egress ''enabled'')
         \<or> norm_lower (dget egress ''source'') \<noteq> ''production_runtime'', ''scalp_authority_production_egress_inactive''),
      (norm_text (dget egress ''runtime_boot_id'') \<noteq> py_strip (se_runtime_boot_id x), ''scalp_authority_runtime_boot_changed''),
      (safe_int (dget egress ''authority_revision'') 0 \<noteq> se_authority_revision x, ''scalp_authority_revision_changed'')]"

definition scalp_live_failure :: "pydict \<Rightarrow> pydict \<Rightarrow> ScalpAuthorityExpectation \<Rightarrow> pyerr + string" where
  "scalp_live_failure diag live x =
     (if \<not> live_armed live then Inr ''scalp_authority_live_plane_inactive''
      else
      ebind (scope_texts py_upper (dget live ''active_pair_scope'')) (\<lambda>pairs.
      ebind (scope_texts py_lower (dget live ''active_sleeve_scope'')) (\<lambda>sleeves.
      ebind (scope_texts py_lower (dget live ''active_intent_scope'')) (\<lambda>intents.
      if \<not> set (se_symbol_scope x) \<subseteq> set pairs then Inr ''scalp_authority_live_pair_scope_incomplete''
      else if ''scalp'' \<notin> set sleeves \<or> ''enter'' \<notin> set intents then Inr ''scalp_authority_live_scope_incomplete''
      else
      ebind (as_dict (dget diag ''live_command_admission'')) (\<lambda>admission.
      ebind (as_dict (dget admission ''pairs'')) (\<lambda>pair_admission.
      ebind (if truthy (dget admission ''allowed'') then pairs_admitted pair_admission (se_symbol_scope x) else Inr False)
        (\<lambda>admitted. Inr (if admitted then [] else ''scalp_authority_pair_admission_incomplete'')))))))) "

definition scalp_account_checks :: "pydict \<Rightarrow> ScalpAuthorityExpectation \<Rightarrow> (bool \<times> string) list" where
  "scalp_account_checks merged x =
     (let mode = norm_lower (dget merged ''broker_account_mode'') in
      [(mode \<notin> {''demo'', ''real''} \<or> norm_text (dget merged ''broker_account_scope'') = [],
        ''scalp_authority_broker_identity_unattested''),
       (mode \<noteq> py_lower (py_strip (se_account_mode x)), ''scalp_authority_broker_account_mode_changed'')])"

definition scalp_runtime_failure ::
  "contract_universe \<Rightarrow> pydict \<Rightarrow> ScalpAuthorityExpectation \<Rightarrow> pyfloat \<Rightarrow> pyerr + string option" where
  "scalp_runtime_failure universe merged x now =
     ebind (as_dict (dget merged ''execution_egress_authority'')) (\<lambda>egress.
     let egress_failure = first_reason (scalp_egress_checks merged egress x) in
     if egress_failure \<noteq> [] then Inr (Some egress_failure)
     else
     ebind (as_dict (dget merged ''runtime_startup'')) (\<lambda>startup.
     if norm_text (dget startup ''boot_id'') \<noteq> py_strip (se_runtime_boot_id x)
        \<or> norm_lower (dget merged ''runtime_status'') \<noteq> ''running''
     then Inr (Some ''scalp_authority_runtime_not_running'')
     else
     ebind (as_dict (dget merged ''runtime_diag'')) (\<lambda>diag.
     ebind (as_dict (dget diag ''orchestration_live'')) (\<lambda>live.
     ebind (scalp_live_failure diag live x) (\<lambda>live_failure.
     if live_failure \<noteq> [] then Inr (Some live_failure)
     else let account_failure = first_reason (scalp_account_checks merged x) in
     if account_failure \<noteq> [] then Inr (Some account_failure)
     else ebind (universe merged now) (\<lambda>errors. Inr (if errors = [] then None else Some (hd errors))))))))"

definition scalp_activation_failure ::
  "Env \<Rightarrow> contract_universe \<Rightarrow> ScalpSwap \<Rightarrow> pydict \<Rightarrow> pydict \<Rightarrow> pyfloat \<Rightarrow> pyfloat \<Rightarrow> pyerr + string option" where
  "scalp_activation_failure e universe q current merged now wall =
     (let guard = first_reason (scalp_swap_guards q current); incoming = ss_incoming q in
      if guard \<noteq> [] then Inr (Some guard)
      else
      ebind (expectation_from_authority incoming) (\<lambda>x.
      ebind (authority_error (en_sha256 e) incoming x wall) (\<lambda>validation_failure.
      if validation_failure \<noteq> [] then Inr (Some validation_failure)
      else
      ebind (validation_witness_error (ss_validation_witness q) incoming now) (\<lambda>witness_failure.
      if witness_failure \<noteq> [] then Inr (Some witness_failure)
      else scalp_runtime_failure universe merged x now))))"

definition revoked_scalp_authority :: "pydict \<Rightarrow> pydict \<Rightarrow> pyfloat \<Rightarrow> pydict" where
  "revoked_scalp_authority incoming current now =
     (let reason = py_str (py_or (dget incoming ''reason'') (VStr ''scalp_authority_safety_revoked'')) in
      if current \<noteq> []
      then dmerge current [(''status'', VStr ''revoked''), (''reason'', VStr reason), (''updated_at'', VFloat now)]
      else [(''schema_version'', VStr SCALP_EXECUTION_AUTHORITY_SCHEMA), (''status'', VStr ''revoked''),
            (''source'', VStr ''production_runtime''), (''generation_id'', VStr (str_or_empty (dget incoming ''generation_id''))),
            (''reason'', VStr reason), (''updated_at'', VFloat now)])"

definition publish_scalp_authority :: "pydict \<Rightarrow> pydict \<Rightarrow> pyfloat \<Rightarrow> Store \<Rightarrow> Store \<times> (pyerr + swap_reply)" where
  "publish_scalp_authority authority merged now s =
     (write_state (dput ''last_update'' (VFloat now) (dput ''production_scalp_authority'' (VDict authority) merged)) s,
      Inr (SwapUpdated authority))"

definition compare_and_set_production_scalp_authority ::
  "Env \<Rightarrow> contract_universe \<Rightarrow> ScalpSwap \<Rightarrow> Store \<Rightarrow> Store \<times> (pyerr + swap_reply)" where
  "compare_and_set_production_scalp_authority e universe q s =
     (case now_read e s of (now, s1) \<Rightarrow>
        let merged = state_dict s1; incoming = ss_incoming q in
        case as_dict (dget merged ''production_scalp_authority'') of
          Inl err \<Rightarrow> (s1, Inl err)
        | Inr current \<Rightarrow>
            if ss_safety_dominant q
            then (if norm_lower (dget incoming ''status'') \<noteq> ''revoked''
                  then (s1, Inr (SwapRefused ''scalp_safety_transition_must_revoke'' [] current))
                  else publish_scalp_authority (revoked_scalp_authority incoming current now) merged now s1)
            else (case scalp_activation_failure e universe q current merged now (en_wall e (s_reads s1) []) of
                    Inl err \<Rightarrow> (s1, Inl err)
                  | Inr (Some why) \<Rightarrow> (s1, Inr (SwapRefused why [] current))
                  | Inr None \<Rightarrow> publish_scalp_authority incoming merged now s1))"

end
