(* ===== verification/Release_Life.thy ===== *)
theory Release_Life
  imports Authority_Swap Queue_Delivery
begin

text \<open>
  The life of a release under \<open>compare_and_set_release_authority\<close>: an abstract lifecycle that every call refines,
  the conditions of an activation, what a call that does not activate leaves of broker egress and of the queue, and
  the single use of an external witness over any sequence of calls.
\<close>

section \<open>The lifecycle\<close>

datatype release_stage = Closed | Pending string string | Acknowledged string string | Active string string

definition stage_of :: "pydict \<Rightarrow> pydict \<Rightarrow> release_stage" where
  "stage_of authority request =
     (let g = release_generation request; h = release_request_sha request; status = release_status authority in
      if status = ''pending'' then Pending g h
      else if status = ''acknowledged'' then Acknowledged g h
      else if status = ''active'' then Active g h else Closed)"

definition release_stage :: "Store \<Rightarrow> release_stage" where
  "release_stage s =
     (case ebind (as_dict (dget (state_dict s) ''release_authority'')) (\<lambda>a.
             ebind (as_dict (dget a ''request'')) (\<lambda>r. Inr (stage_of a r))) of
        Inl _ \<Rightarrow> Closed | Inr st \<Rightarrow> st)"

fun stage_generation :: "release_stage \<Rightarrow> string" where
  "stage_generation Closed = []"
| "stage_generation (Pending g h) = g"
| "stage_generation (Acknowledged g h) = g"
| "stage_generation (Active g h) = g"

inductive lifecycle :: "release_stage \<Rightarrow> release_stage \<Rightarrow> bool" where
  publish: "stage_generation st \<in> {[], g} \<Longrightarrow> lifecycle st (Pending g h)"
| acknowledge: "lifecycle (Pending g h) (Acknowledged g h)"
| activate: "lifecycle (Acknowledged g h) (Active g h)"
| close: "lifecycle st Closed"

inductive_simps lifecycle_Active: "lifecycle st (Active g h)"
inductive_simps lifecycle_Acknowledged: "lifecycle st (Acknowledged g h)"

section \<open>One call\<close>

text \<open>The status a row has after the queue is closed: a queued command expires, a delivered one awaits reconciliation.\<close>

definition closed_status :: "CommandRow \<Rightarrow> string" where
  "closed_status r =
     (if r_command_id r = [] then r_status r
      else if r_status r = ''queued'' then ''expired''
      else if r_status r = ''delivered'' then ''reconcile_required'' else r_status r)"

lemma quarantined_statuses:
  "map r_status (s_commands (fst (quarantine_execution_queue e why now False s))) = map closed_status (s_commands s)"
  "map r_command_id (s_commands (fst (quarantine_execution_queue e why now False s))) = map r_command_id (s_commands s)"
  by (simp_all add: quarantine_execution_queue_def quarantine_class_def preserve_queued_exposure_reducing_command_def
      update_where_commands Let_def set_status_def closed_status_def)

lemma publish_release_outcome:
  assumes "publish_release e incoming request current merged s = (s', r)"
  shows "case r of
     Inr (SwapUpdated a) \<Rightarrow> a = incoming
       \<and> dget (state_dict s') ''release_authority'' = VDict incoming
       \<and> dget (state_dict s') ''execution_egress_enabled'' = VBool (release_status incoming = ''active'')
       \<and> dget (state_dict s') ''release_witness_nonce_ledger'' = dget merged ''release_witness_nonce_ledger''
       \<and> (release_status incoming = ''active'' \<longrightarrow> release_egress_binding_error incoming = Inr [])
       \<and> (release_status incoming \<noteq> ''active'' \<longrightarrow>
            map r_status (s_commands s') = map closed_status (s_commands s)
            \<and> map r_command_id (s_commands s') = map r_command_id (s_commands s))
   | _ \<Rightarrow> s' = s\<lparr>s_reads := Suc (s_reads s)\<rparr>"
  using assms quarantined_statuses
  by (auto simp: publish_release_def Let_def now_read_def armed_by_release_def disable_execution_egress_in_state_def
      state_dict_def write_state_def split: if_splits sum.splits)

text \<open>A step of the transaction that only reads the clock.\<close>

definition ticked :: "Store \<Rightarrow> Store \<Rightarrow> bool" where
  "ticked s s' = (\<exists>n\<ge>s_reads s. s' = s\<lparr>s_reads := n\<rparr>)"

lemma ticked_refl [simp, intro]: "ticked s s"
  unfolding ticked_def by (intro exI [of _ "s_reads s"]) simp

lemma ticked_Suc: "ticked (s\<lparr>s_reads := Suc (s_reads s)\<rparr>) s' \<Longrightarrow> ticked s s'"
  by (auto simp: ticked_def intro: Suc_leD)

lemma ticked_trans:
  assumes "ticked s t" "ticked t u"
  shows "ticked s u"
proof -
  obtain n m where "t = s\<lparr>s_reads := n\<rparr>" "s_reads s \<le> n" "u = t\<lparr>s_reads := m\<rparr>" "n \<le> m"
    using assms by (auto simp: ticked_def)
  then show ?thesis unfolding ticked_def by (intro exI [of _ m]) simp
qed

lemma ticked_tables:
  "ticked s s' \<Longrightarrow> state_dict s' = state_dict s \<and> s_commands s' = s_commands s \<and> s_events s' = s_events s
     \<and> s_decisions s' = s_decisions s \<and> s_state s' = s_state s \<and> s_reads s \<le> s_reads s'"
  by (auto simp: ticked_def state_dict_def)

lemma live_nonces_ticked: "live_nonces e kvs s = (s', r) \<Longrightarrow> ticked s s'"
  by (induction e kvs s arbitrary: s' r rule: live_nonces.induct)
    (auto simp: now_read_def split: if_splits sum.splits prod.splits intro: ticked_Suc)

lemma spend_nonce_ticked: "spend_nonce e request merged s = (s', r) \<Longrightarrow> ticked s s'"
  by (auto simp: spend_nonce_def Let_def now_read_def split: if_splits sum.splits prod.splits
      dest!: live_nonces_ticked intro: ticked_Suc)

lemma validate_release_updated:
  assumes "validate_release e rc incoming current request merged s = (s', Inr (SwapUpdated a))"
  shows "release_status incoming \<in> {''pending'', ''acknowledged'', ''active'', ''revoked'', ''rejected''}
    \<and> release_validation_errors rc incoming request merged = Inr []
    \<and> publish_release e incoming request current merged s = (s', Inr (SwapUpdated a))"
proof (cases "release_status incoming \<in> {''pending'', ''acknowledged'', ''active'', ''revoked'', ''rejected''}")
  case False
  then show ?thesis using assms unfolding validate_release_def by simp
next
  case True
  then have "(case release_validation_errors rc incoming request merged of
        Inl err \<Rightarrow> (s, Inl err)
      | Inr errors \<Rightarrow>
          if errors \<noteq> [] then (s, Inr (SwapRefused ''release_authority_validation_failed'' (py_unique errors) current))
          else publish_release e incoming request current merged s) = (s', Inr (SwapUpdated a))"
    using assms unfolding validate_release_def by (simp only: not_not not_True_eq_False if_False)
  then show ?thesis using True by (simp only: simp_thms split: sum.splits if_splits) simp_all
qed

text \<open>What a call that stores the new authority has established.\<close>

lemma transition_updated:
  assumes "release_transition e rc q current current_request request merged0 s = (s', Inr (SwapUpdated a))"
  obtains t merged where "first_reason (release_guards q current current_request request) = []" and "ticked s t"
    and "if release_status (rs_incoming q) = ''pending'' then spend_nonce e request merged0 s = (t, Inr (Inr merged))
         else t = s \<and> merged = merged0"
    and "validate_release e rc (rs_incoming q) current request merged t = (s', Inr (SwapUpdated a))"
proof -
  have g: "first_reason (release_guards q current current_request request) = []"
    by (rule ccontr) (use assms in \<open>simp add: release_transition_def Let_def\<close>)
  show thesis
  proof (cases "release_status (rs_incoming q) = ''pending''")
    case True
    then have "(case spend_nonce e request merged0 s of
              (s1, Inl err) \<Rightarrow> (s1, Inl err)
            | (s1, Inr (Inl why)) \<Rightarrow> (s1, Inr (SwapRefused why [] current))
            | (s1, Inr (Inr merged1)) \<Rightarrow> validate_release e rc (rs_incoming q) current request merged1 s1)
         = (s', Inr (SwapUpdated a))"
      using assms g by (simp add: release_transition_def Let_def)
    then obtain t merged where "spend_nonce e request merged0 s = (t, Inr (Inr merged))"
      "validate_release e rc (rs_incoming q) current request merged t = (s', Inr (SwapUpdated a))"
      by (auto split: prod.splits sum.splits)
    then show thesis using that [OF g] spend_nonce_ticked True by (metis (full_types))
  next
    case False
    then have "validate_release e rc (rs_incoming q) current request merged0 s = (s', Inr (SwapUpdated a))"
      using assms g by (simp add: release_transition_def Let_def)
    then show thesis using that [OF g ticked_refl] False by simp
  qed
qed

lemma publish_release_else: "publish_release e incoming request current merged s = (s', r) \<Longrightarrow> (\<exists>a. r = Inr (SwapUpdated a)) \<or> ticked s s'"
  by (drule publish_release_outcome) (auto intro: ticked_Suc split: sum.splits swap_reply.splits)

lemma validate_release_else:
  "validate_release e rc incoming current request merged s = (s', r) \<Longrightarrow> (\<exists>a. r = Inr (SwapUpdated a)) \<or> ticked s s'"
  unfolding validate_release_def
  by (simp only: split: sum.splits if_splits) (blast intro: ticked_refl dest: publish_release_else)+

lemma release_transition_else:
  assumes "release_transition e rc q current current_request request merged s = (s', r)"
  shows "(\<exists>a. r = Inr (SwapUpdated a)) \<or> ticked s s'"
proof -
  obtain t w where n: "spend_nonce e request merged s = (t, w)" by fastforce
  have trans: "ticked t s' \<Longrightarrow> ticked s s'" by (rule ticked_trans [OF spend_nonce_ticked [OF n]])
  show ?thesis
    using assms trans spend_nonce_ticked [OF n] unfolding release_transition_def Let_def n prod.case
    by (auto split: if_splits sum.splits dest!: validate_release_else)
qed

lemma release_swap_else:
  assumes "compare_and_set_release_authority e rc q s = (s', r)"
  shows "(\<exists>a. r = Inr (SwapUpdated a)) \<or> ticked s s'"
proof (cases "release_parts (state_dict s) (rs_incoming q)")
  case (Inl err)
  then show ?thesis using assms by (simp add: compare_and_set_release_authority_def Let_def)
next
  case (Inr p)
  obtain current current_request request where p: "p = (current, current_request, request)" by (cases p)
  show ?thesis
    using assms unfolding compare_and_set_release_authority_def Let_def Inr p sum.case prod.case
    by (simp only: split: if_splits) (blast intro: ticked_refl dest: publish_release_else release_transition_else)+
qed

text \<open>What a call that stores the new authority has established.\<close>

lemma release_swap_updated:
  assumes "compare_and_set_release_authority e rc q s = (s', Inr (SwapUpdated a))"
  obtains current current_request request t merged
  where "release_parts (state_dict s) (rs_incoming q) = Inr (current, current_request, request)" and "ticked s t"
    and "publish_release e (rs_incoming q) request current merged t = (s', Inr (SwapUpdated a))"
    and "if \<not> rs_safety_dominant q \<and> release_status (rs_incoming q) = ''pending''
         then spend_nonce e request (state_dict s) s = (t, Inr (Inr merged)) else t = s \<and> merged = state_dict s"
    and "if rs_safety_dominant q then release_status (rs_incoming q) \<in> {''revoked'', ''rejected''}
         else first_reason (release_guards q current current_request request) = []
           \<and> release_status (rs_incoming q) \<in> {''pending'', ''acknowledged'', ''active'', ''revoked'', ''rejected''}
           \<and> release_validation_errors rc (rs_incoming q) request merged = Inr []"
proof (cases "release_parts (state_dict s) (rs_incoming q)")
  case (Inl err)
  then show thesis using assms by (simp add: compare_and_set_release_authority_def Let_def)
next
  case (Inr p)
  obtain current current_request request where p: "p = (current, current_request, request)" by (cases p)
  show thesis
  proof (cases "rs_safety_dominant q")
    case True
    then have "release_status (rs_incoming q) \<in> {''revoked'', ''rejected''}
      \<and> publish_release e (rs_incoming q) request current (state_dict s) s = (s', Inr (SwapUpdated a))"
      using assms unfolding compare_and_set_release_authority_def Let_def Inr p sum.case prod.case
      by (simp only: if_True split: if_splits) (simp, blast)
    then show thesis using that [OF Inr [unfolded p] ticked_refl] True by simp
  next
    case False
    then have "release_transition e rc q current current_request request (state_dict s) s = (s', Inr (SwapUpdated a))"
      using assms unfolding compare_and_set_release_authority_def Let_def Inr p sum.case prod.case by simp
    then obtain t merged where g: "first_reason (release_guards q current current_request request) = []" and t: "ticked s t"
      and n: "if release_status (rs_incoming q) = ''pending'' then spend_nonce e request (state_dict s) s = (t, Inr (Inr merged))
         else t = s \<and> merged = state_dict s"
      and v: "validate_release e rc (rs_incoming q) current request merged t = (s', Inr (SwapUpdated a))"
      by (rule transition_updated)
    show thesis
      by (rule that [OF Inr [unfolded p] t, of merged])
        (use validate_release_updated [OF v] n g False in \<open>simp only: simp_thms if_True if_False; blast\<close>)+
  qed
qed

lemma release_parts_dest:
  "release_parts merged incoming = Inr (current, current_request, request) \<Longrightarrow>
     as_dict (dget merged ''release_authority'') = Inr current \<and> as_dict (dget current ''request'') = Inr current_request
     \<and> as_dict (dget incoming ''request'') = Inr request"
  by (auto simp: release_parts_def elim!: ebindE)

lemma stages_of_call:
  assumes "compare_and_set_release_authority e rc q s = (s', Inr (SwapUpdated a))"
    and "release_parts (state_dict s) (rs_incoming q) = Inr (current, current_request, request)"
  shows "release_stage s = stage_of current current_request" "release_stage s' = stage_of (rs_incoming q) request"
proof -
  show "release_stage s = stage_of current current_request"
    using release_parts_dest [OF assms(2)] by (simp add: release_stage_def)
  obtain m t c where "publish_release e (rs_incoming q) request c m t = (s', Inr (SwapUpdated a))"
    using assms(1) by (rule release_swap_updated) (use assms(2) in auto)
  then have "dget (state_dict s') ''release_authority'' = VDict (rs_incoming q)"
    using publish_release_outcome by fastforce
  then show "release_stage s' = stage_of (rs_incoming q) request"
    using release_parts_dest [OF assms(2)] by (simp add: release_stage_def as_dict_VDict)
qed

lemma release_guards_pass:
  assumes "first_reason (release_guards q current current_request request) = []"
  shows "\<not> (release_status current \<in> {''pending'', ''acknowledged'', ''active''} \<and> release_generation current_request \<noteq> []
          \<and> release_generation current_request \<noteq> release_generation request)"
    "release_status (rs_incoming q) = ''active'' \<Longrightarrow> release_status current = ''acknowledged''"
    "release_status (rs_incoming q) = ''acknowledged'' \<Longrightarrow> release_status current = ''pending''"
    "release_status (rs_incoming q) \<in> {''acknowledged'', ''active''} \<Longrightarrow>
       release_generation request = release_generation current_request
       \<and> release_request_sha request = release_request_sha current_request"
proof -
  have "list_all (\<lambda>c. snd c \<noteq> []) (release_guards q current current_request request)"
    by (simp add: release_guards_def Let_def)
  then have "list_all (\<lambda>c. \<not> fst c) (release_guards q current current_request request)"
    using first_reason_Nil assms by blast
  note guards = this [unfolded release_guards_def Let_def list.pred_inject fst_conv]
  show "\<not> (release_status current \<in> {''pending'', ''acknowledged'', ''active''} \<and> release_generation current_request \<noteq> []
          \<and> release_generation current_request \<noteq> release_generation request)" using guards by blast
  show "release_status (rs_incoming q) = ''active'' \<Longrightarrow> release_status current = ''acknowledged''" using guards by blast
  show "release_status (rs_incoming q) = ''acknowledged'' \<Longrightarrow> release_status current = ''pending''" using guards by blast
  show "release_status (rs_incoming q) \<in> {''acknowledged'', ''active''} \<Longrightarrow>
       release_generation request = release_generation current_request
       \<and> release_request_sha request = release_request_sha current_request" using guards by blast
qed

lemma pending_generation:
  assumes "\<not> (release_status current \<in> {''pending'', ''acknowledged'', ''active''} \<and> release_generation current_request \<noteq> []
          \<and> release_generation current_request \<noteq> g)"
  shows "stage_generation (stage_of current current_request) \<in> {[], g}"
  using assms unfolding stage_of_def Let_def by (simp split: if_splits) blast

lemma lifecycle_of_guards:
  assumes "first_reason (release_guards q current current_request request) = []"
  shows "lifecycle (stage_of current current_request) (stage_of (rs_incoming q) request)"
proof -
  consider "release_status (rs_incoming q) = ''pending''" | "release_status (rs_incoming q) = ''acknowledged''"
    | "release_status (rs_incoming q) = ''active''" | "stage_of (rs_incoming q) request = Closed"
    by atomize_elim (simp add: stage_of_def Let_def)
  then show ?thesis
  proof cases
    case 1
    then show ?thesis
      using pending_generation [OF release_guards_pass(1) [OF assms]] by (simp add: stage_of_def [of "rs_incoming q"] publish)
  next
    case 2
    then show ?thesis
      using release_guards_pass(3,4) [OF assms] by (simp add: stage_of_def acknowledge)
  next
    case 3
    then show ?thesis
      using release_guards_pass(2,4) [OF assms] by (simp add: stage_of_def activate)
  next
    case 4
    then show ?thesis by (simp add: close)
  qed
qed


text \<open>
  C10. Every call of \<open>compare_and_set_release_authority\<close>, whatever the incoming payload, the expectations, the evidence
  checks and the stored state, either stores the incoming release by a step of the release lifecycle, or answers with a
  refusal or an error and changes nothing but the number of clock reads. The steps: a release becomes pending only where
  no other generation is in flight, it is acknowledged only out of pending and activated only out of acknowledged, both
  for the same generation and the same request digest, so nothing is acknowledged or activated a second time with
  another acknowledgement or boot; a safety transition only closes.
\<close>

theorem release_refines_lifecycle:
  assumes "compare_and_set_release_authority e rc q s = (s', r)"
  shows "case r of
     Inr (SwapUpdated a) \<Rightarrow> a = rs_incoming q \<and> dget (state_dict s') ''release_authority'' = VDict a
       \<and> lifecycle (release_stage s) (release_stage s') \<and> (rs_safety_dominant q \<longrightarrow> release_stage s' = Closed)
   | _ \<Rightarrow> (\<exists>n. s' = s\<lparr>s_reads := n\<rparr>)"
proof (cases "\<exists>a. r = Inr (SwapUpdated a)")
  case False
  then have "\<exists>n. s' = s\<lparr>s_reads := n\<rparr>" using release_swap_else [OF assms] by (auto simp: ticked_def)
  then show ?thesis using False by (auto split: sum.splits swap_reply.splits)
next
  case True
  then obtain a where r: "r = Inr (SwapUpdated a)" by blast
  then have u: "compare_and_set_release_authority e rc q s = (s', Inr (SwapUpdated a))" using assms by simp
  then obtain current current_request request merged t
    where p: "release_parts (state_dict s) (rs_incoming q) = Inr (current, current_request, request)"
      and b: "publish_release e (rs_incoming q) request current merged t = (s', Inr (SwapUpdated a))"
      and c: "if rs_safety_dominant q then release_status (rs_incoming q) \<in> {''revoked'', ''rejected''}
         else first_reason (release_guards q current current_request request) = []
           \<and> release_status (rs_incoming q) \<in> {''pending'', ''acknowledged'', ''active'', ''revoked'', ''rejected''}
           \<and> release_validation_errors rc (rs_incoming q) request merged = Inr []"
    by (rule release_swap_updated) blast
  have "lifecycle (stage_of current current_request) (stage_of (rs_incoming q) request)
     \<and> (rs_safety_dominant q \<longrightarrow> stage_of (rs_incoming q) request = Closed)"
  proof (cases "rs_safety_dominant q")
    case True
    then have "stage_of (rs_incoming q) request = Closed" using c by (auto simp: stage_of_def)
    then show ?thesis by (simp add: close)
  next
    case False
    then show ?thesis using c lifecycle_of_guards by simp
  qed
  then show ?thesis using publish_release_outcome [OF b] by (simp add: r stages_of_call [OF u p])
qed

section \<open>Activation\<close>

lemma activation_guards:
  assumes "release_status (rs_incoming q) = ''active''"
  shows "first_reason (release_guards q current current_request request) = [] \<longleftrightarrow>
     rs_expected_generation_id q \<in> {[], release_generation request}
     \<and> (rs_expected_status q = [] \<or> py_lower (py_strip (rs_expected_status q)) = ''acknowledged'')
     \<and> (release_pair current_request = [] \<or> release_pair request = [] \<or> release_pair current_request = release_pair request)
     \<and> stage_of current current_request = Acknowledged (release_generation request) (release_request_sha request)"
  (is "?g \<longleftrightarrow> ?R")
proof -
  have "list_all (\<lambda>c. snd c \<noteq> []) (release_guards q current current_request request)"
    by (simp add: release_guards_def Let_def)
  then have g: "?g \<longleftrightarrow> list_all (\<lambda>c. \<not> fst c) (release_guards q current current_request request)"
    by (rule first_reason_Nil)
  show ?thesis
  proof
    assume ?g
    note guards = g [THEN iffD1, OF this, unfolded release_guards_def Let_def list.pred_inject fst_conv assms]
    have "release_status current = ''acknowledged''" using guards by blast
    then show ?R using guards by (auto simp: stage_of_def Let_def)
  next
    assume r: ?R
    then have "release_status current = ''acknowledged''" by (simp add: stage_of_def Let_def split: if_splits)
    then show ?g unfolding g using r assms by (auto simp: release_guards_def Let_def stage_of_def)
  qed
qed

lemma publish_active:
  assumes "release_status incoming = ''active''"
  shows "(\<exists>s'. publish_release e incoming request current merged s = (s', Inr (SwapUpdated incoming)))
     \<longleftrightarrow> release_egress_binding_error incoming = Inr [] \<and> (\<exists>ack. as_dict (dget incoming ''ack'') = Inr ack)"
  using assms by (auto simp: publish_release_def Let_def now_read_def split: sum.splits if_splits)

text \<open>
  C14. A release is activated exactly when the call is not a safety transition, the stored release is the same
  generation and request in the acknowledged stage, the caller's expectations and the pair agree with it, the evidence
  checks on the attested boot report nothing, and the release binds the request, the acknowledgement and the identities.
\<close>

theorem release_activation_exact:
  assumes "release_parts (state_dict s) (rs_incoming q) = Inr (current, current_request, request)"
    and "release_status (rs_incoming q) = ''active''"
  shows "(\<exists>s'. compare_and_set_release_authority e rc q s = (s', Inr (SwapUpdated (rs_incoming q)))) \<longleftrightarrow>
     \<not> rs_safety_dominant q
     \<and> release_stage s = Acknowledged (release_generation request) (release_request_sha request)
     \<and> rs_expected_generation_id q \<in> {[], release_generation request}
     \<and> (rs_expected_status q = [] \<or> py_lower (py_strip (rs_expected_status q)) = ''acknowledged'')
     \<and> (release_pair current_request = [] \<or> release_pair request = [] \<or> release_pair current_request = release_pair request)
     \<and> (\<exists>boot attestation. attested_boot (state_dict s) (release_pair request) = Inr (boot, attestation)
          \<and> rc_active_errors rc (rs_incoming q) (rc_active_model_set rc (release_pair request)) boot attestation
              (release_generation request) (release_request_sha request) = Inr [])
     \<and> release_egress_binding_error (rs_incoming q) = Inr []
     \<and> (\<exists>ack. as_dict (dget (rs_incoming q) ''ack'') = Inr ack)"
    (is "?updated \<longleftrightarrow> ?R")
proof -
  let ?g = "first_reason (release_guards q current current_request request)"
  have stage: "release_stage s = stage_of current current_request"
    using release_parts_dest [OF assms(1)] by (simp add: release_stage_def)
  have valid: "release_validation_errors rc (rs_incoming q) request (state_dict s) = Inr [] \<longleftrightarrow>
     (\<exists>boot attestation. attested_boot (state_dict s) (release_pair request) = Inr (boot, attestation)
          \<and> rc_active_errors rc (rs_incoming q) (rc_active_model_set rc (release_pair request)) boot attestation
              (release_generation request) (release_request_sha request) = Inr [])"
    using assms(2) by (simp add: release_validation_errors_def Let_def ebind_Inr_iff)
  have "?updated \<longleftrightarrow> \<not> rs_safety_dominant q \<and> ?g = []
     \<and> release_validation_errors rc (rs_incoming q) request (state_dict s) = Inr []
     \<and> (\<exists>s'. publish_release e (rs_incoming q) request current (state_dict s) s = (s', Inr (SwapUpdated (rs_incoming q))))"
    using assms
    by (auto simp: compare_and_set_release_authority_def Let_def release_transition_def validate_release_def
        split: sum.splits if_splits)
  also have "\<dots> \<longleftrightarrow> ?R"
    unfolding activation_guards [OF assms(2)] publish_active [OF assms(2)] stage valid by blast
  finally show ?thesis .
qed

section \<open>A release that is not active\<close>

lemma egress_needs_flag:
  assumes "egress_failure e s now command = Inr []"
  shows "dget (state_dict s) ''execution_egress_enabled'' = VBool True"
  by (rule from_state_passes [OF egress_passes [OF assms]])

lemma disabled_egress_polls_nothing:
  assumes "dget (state_dict s) ''execution_egress_enabled'' = VBool False"
  shows "snd (poll_next_command e s) \<noteq> Inr (Some c)"
proof
  assume "snd (poll_next_command e s) = Inr (Some c)"
  then have "egress_failure e (polled_store e s) (en_clock e (s_reads s)) None = Inr []" by (simp add: poll_delivers)
  moreover have "state_dict (polled_store e s) = state_dict s" by (simp add: state_dict_def polled_store_state)
  ultimately show False using assms egress_needs_flag by fastforce
qed

text \<open>
  C13. A call that stores a release that is not active closes the broker edge in the same transaction: no command
  authorizes, the next poll delivers nothing, and the queue keeps its rows in their order while every identified command
  that was queued is expired, every identified command that was delivered (so a broker may have executed it) waits for
  reconciliation, and every other row keeps its status.
\<close>

theorem inactive_release_closes_the_edge:
  assumes "compare_and_set_release_authority e rc q s = (s', Inr (SwapUpdated a))" and "release_status a \<noteq> ''active''"
  shows "egress_failure e' s' now command \<noteq> Inr [] \<and> snd (poll_next_command e' s') \<noteq> Inr (Some c)
    \<and> map r_command_id (s_commands s') = map r_command_id (s_commands s)
    \<and> map r_status (s_commands s') = map (\<lambda>r. if r_command_id r \<noteq> [] \<and> r_status r = ''queued'' then ''expired''
          else if r_command_id r \<noteq> [] \<and> r_status r = ''delivered'' then ''reconcile_required''
          else r_status r) (s_commands s)"
proof -
  obtain request current merged t where t: "ticked s t"
    and "publish_release e (rs_incoming q) request current merged t = (s', Inr (SwapUpdated a))"
    using assms(1) by (rule release_swap_updated)
  from publish_release_outcome [OF this(2)] have a: "a = rs_incoming q"
    and off: "dget (state_dict s') ''execution_egress_enabled'' = VBool (release_status (rs_incoming q) = ''active'')"
    and rows: "release_status (rs_incoming q) \<noteq> ''active'' \<Longrightarrow>
       map r_status (s_commands s') = map closed_status (s_commands t)
       \<and> map r_command_id (s_commands s') = map r_command_id (s_commands t)" by auto
  have off: "dget (state_dict s') ''execution_egress_enabled'' = VBool False" using off assms(2) a by simp
  have st: "map r_command_id (s_commands s') = map r_command_id (s_commands s)"
    "map r_status (s_commands s') = map closed_status (s_commands s)"
    using rows assms(2) a ticked_tables [OF t] by simp_all
  have "egress_failure e' s' now command \<noteq> Inr []" using off egress_needs_flag by fastforce
  then show ?thesis
    unfolding st using disabled_egress_polls_nothing [OF off] by (simp add: closed_status_def)
qed

section \<open>The witness ledger\<close>

text \<open>The ledger of the stored state has the nonce with its expiry.\<close>

definition in_ledger :: "string \<Rightarrow> pyfloat \<Rightarrow> Store \<Rightarrow> bool" where
  "in_ledger nonce x s =
     (case dget (state_dict s) ''release_witness_nonce_ledger'' of
        VDict ledger \<Rightarrow> dget ledger nonce = VFloat x
      | _ \<Rightarrow> False)"

lemma in_ledgerE:
  assumes "in_ledger nonce x s"
  obtains ledger where "dget (state_dict s) ''release_witness_nonce_ledger'' = VDict ledger" and "dget ledger nonce = VFloat x"
  using assms by (auto simp: in_ledger_def split: pyval.splits)

text \<open>Every reading of the clock that is numbered at least \<open>b\<close> and was made so far is before \<open>x\<close>.\<close>

definition clock_before :: "Env \<Rightarrow> nat \<Rightarrow> pyfloat \<Rightarrow> nat \<Rightarrow> bool" where
  "clock_before e b x n = (\<forall>m. b \<le> m \<longrightarrow> m < n \<longrightarrow> flt (en_clock e m) x)"

lemma clock_before_mono: "clock_before e b x n \<Longrightarrow> m \<le> n \<Longrightarrow> clock_before e b x m"
  by (simp add: clock_before_def)

lemma live_nonces_keep:
  assumes "live_nonces e kvs s = (s', Inr ledger)" and "dget kvs nonce = VFloat x" and "py_strip nonce \<noteq> []"
    and "clock_before e b x (s_reads s')" and "b \<le> s_reads s"
  shows "dget ledger nonce = VFloat x"
  using assms(1,2,4,5)
proof (induction e kvs s arbitrary: s' ledger rule: live_nonces.induct)
  case (2 e k v kvs s)
  show ?case
  proof (cases "py_strip k = []")
    case True
    then show ?thesis using 2 assms(3) by (auto split: if_splits)
  next
    case False
    then obtain ts where ts: "parse_iso_ts e v = Inr ts" using 2(4) by (cases "parse_iso_ts e v") auto
    let ?s1 = "s\<lparr>s_reads := Suc (s_reads s)\<rparr>"
    have n: "now_read e s = (en_clock e (s_reads s), ?s1)" by (simp add: now_read_def)
    show ?thesis
    proof (cases "flt (en_clock e (s_reads s)) ts")
      case live: True
      then obtain f d where d: "live_nonces e kvs ?s1 = (s', Inr d)" "py_float v = Inr f" "ledger = (k, VFloat f) # d"
        using 2(4) False ts n by (auto split: sum.splits prod.splits)
      show ?thesis
      proof (cases "nonce = k")
        case True
        then show ?thesis using d 2(5) by simp
      next
        case other: False
        then have "dget d nonce = VFloat x"
          using 2(2) [OF False ts n [symmetric] live d(2,1)] 2(5-7) by simp
        then show ?thesis using d other by simp
      qed
    next
      case dead: False
      then have l: "live_nonces e kvs ?s1 = (s', Inr ledger)" using 2(4) False ts n by simp
      have "s_reads s < s_reads s'" using ticked_tables [OF live_nonces_ticked [OF l]] by simp
      then have "nonce \<noteq> k" using 2(5-7) ts dead by (auto simp: parse_iso_ts_def clock_before_def)
      then show ?thesis using 2(3) [OF False ts n [symmetric] dead l] 2(5-7) by simp
    qed
  qed
qed simp

definition witness_nonce :: "pydict \<Rightarrow> string" where
  "witness_nonce request = (case as_dict (dget request ''external_witness'') of Inl _ \<Rightarrow> [] | Inr w \<Rightarrow> norm_text (dget w ''nonce''))"

definition witness_expires :: "Env \<Rightarrow> pydict \<Rightarrow> pyfloat \<Rightarrow> bool" where
  "witness_expires e request x =
     (\<exists>w. as_dict (dget request ''external_witness'') = Inr w \<and> parse_iso_ts e (dget w ''expires_at'') = Inr x)"

lemma spend_nonce_records:
  assumes "spend_nonce e request merged s = (t, Inr (Inr merged'))"
  obtains stored ledger x where "as_dict (dget merged ''release_witness_nonce_ledger'') = Inr stored"
    and "live_nonces e stored (s\<lparr>s_reads := Suc (s_reads s)\<rparr>) = (t, Inr ledger)" and "witness_expires e request x"
    and "witness_nonce request \<noteq> []" and "\<not> dhas ledger (witness_nonce request)"
    and "merged' = dput ''release_witness_nonce_ledger'' (VDict (dput (witness_nonce request) (VFloat x) ledger)) merged"
proof -
  obtain w where w: "as_dict (dget request ''external_witness'') = Inr w"
    using assms by (auto simp: spend_nonce_def split: sum.splits)
  obtain x where x: "parse_iso_ts e (dget w ''expires_at'') = Inr x"
    using assms w by (auto simp: spend_nonce_def Let_def split: sum.splits)
  have nonce: "witness_nonce request = norm_text (dget w ''nonce'')" by (simp add: witness_nonce_def w)
  show thesis
    using assms that [unfolded nonce witness_expires_def] w x
    by (auto simp: spend_nonce_def Let_def now_read_def split: sum.splits if_splits prod.splits)
qed

lemma live_spent_nonce_refused:
  assumes "in_ledger (witness_nonce request) x s" and "clock_before e b x (s_reads t)" and "b \<le> s_reads s"
  shows "spend_nonce e request (state_dict s) s \<noteq> (t, Inr (Inr merged'))"
proof
  assume "spend_nonce e request (state_dict s) s = (t, Inr (Inr merged'))"
  then obtain stored ledger where st: "as_dict (dget (state_dict s) ''release_witness_nonce_ledger'') = Inr stored"
    and l: "live_nonces e stored (s\<lparr>s_reads := Suc (s_reads s)\<rparr>) = (t, Inr ledger)"
    and n: "witness_nonce request \<noteq> []" "\<not> dhas ledger (witness_nonce request)"
    by (rule spend_nonce_records)
  have strip: "py_strip (witness_nonce request) \<noteq> []"
    using n(1) by (auto simp: witness_nonce_def norm_text_def split: sum.splits)
  have "dget stored (witness_nonce request) = VFloat x"
    using assms(1) st by (auto elim!: in_ledgerE simp: as_dict_VDict)
  from live_nonces_keep [OF l this strip assms(2)] assms(3) have "dget ledger (witness_nonce request) = VFloat x" by simp
  then show False using n(2) dhas_dget by fastforce
qed

lemma spent_nonce_stays:
  assumes "spend_nonce e request (state_dict s) s = (t, Inr (Inr merged))" and "in_ledger nonce x s" and "py_strip nonce \<noteq> []"
    and "clock_before e b x (s_reads t)" and "b \<le> s_reads s"
  shows "in_ledger nonce x (write_state merged s)"
proof (cases "nonce = witness_nonce request")
  case True
  then show ?thesis using live_spent_nonce_refused assms by blast
next
  case False
  obtain stored ledger y where st: "as_dict (dget (state_dict s) ''release_witness_nonce_ledger'') = Inr stored"
    and l: "live_nonces e stored (s\<lparr>s_reads := Suc (s_reads s)\<rparr>) = (t, Inr ledger)"
    and m: "merged = dput ''release_witness_nonce_ledger'' (VDict (dput (witness_nonce request) (VFloat y) ledger)) (state_dict s)"
    using assms(1) by (rule spend_nonce_records)
  have "dget stored nonce = VFloat x" using assms(2) st by (auto elim!: in_ledgerE simp: as_dict_VDict)
  from live_nonces_keep [OF l this assms(3,4)] assms(5) have "dget ledger nonce = VFloat x" by simp
  then show ?thesis using False by (simp add: in_ledger_def m)
qed

section \<open>Sequences of transactions\<close>

text \<open>The transactions that write the stored authorities and the snapshot around them.\<close>

datatype authority_event =
    ReleaseEvent ReleaseChecks ReleaseSwap
  | ScalpEvent contract_universe ScalpSwap
  | PatchEvent pydict "pydict option" "string list"
  | EnableEvent string
  | DisableEvent string bool bool

fun authority_step :: "Env \<Rightarrow> authority_event \<Rightarrow> Store \<Rightarrow> Store" where
  "authority_step e (ReleaseEvent rc q) s = fst (compare_and_set_release_authority e rc q s)"
| "authority_step e (ScalpEvent universe q) s = fst (compare_and_set_production_scalp_authority e universe q s)"
| "authority_step e (PatchEvent p rp rr) s = fst (update_state_patch e p rp rr s)"
| "authority_step e (EnableEvent boot) s = fst (enable_production_execution_egress e boot s)"
| "authority_step e (DisableEvent why revoke preserve) s = fst (disable_execution_egress e why revoke preserve s)"

lemma append_events_reads: "s_reads s \<le> s_reads (append_command_events e evs s)"
  by (simp add: append_command_events_def now_read_def)

lemma quarantine_reads: "s_reads s \<le> s_reads (fst (quarantine_execution_queue e why now pres s))"
  unfolding quarantine_execution_queue_def quarantine_class_def Let_def prod.case fst_conv
  by (rule order_trans [OF _ append_events_reads]) (simp add: update_where_def)

lemma write_state_reads [simp]: "s_reads (write_state d s) = s_reads s"
  by (simp add: write_state_def)

lemma publish_release_reads:
  "publish_release e incoming request current merged s = (s', r) \<Longrightarrow> s_reads s \<le> s_reads s'"
  using quarantine_reads [of "s\<lparr>s_reads := Suc (s_reads s)\<rparr>"]
  by (auto simp: publish_release_def Let_def now_read_def split: if_splits sum.splits intro: Suc_leD)

lemma release_swap_reads:
  assumes "compare_and_set_release_authority e rc q s = (s', r)"
  shows "s_reads s \<le> s_reads s'"
proof (cases "\<exists>a. r = Inr (SwapUpdated a)")
  case True
  then obtain a where "compare_and_set_release_authority e rc q s = (s', Inr (SwapUpdated a))" using assms by blast
  then obtain t request current merged where "ticked s t"
    "publish_release e (rs_incoming q) request current merged t = (s', Inr (SwapUpdated a))"
    by (rule release_swap_updated)
  then show ?thesis using publish_release_reads ticked_tables order_trans by blast
next
  case False
  then show ?thesis using release_swap_else [OF assms] ticked_tables by blast
qed

lemma disable_result:
  obtains (raised) "fst (disable_execution_egress e why revoke preserve s) = s\<lparr>s_reads := Suc (s_reads s)\<rparr>"
  | (killed) reason now st where "killed_state reason revoke now (state_dict s) = Inr st"
      "fst (disable_execution_egress e why revoke preserve s) = write_state (dput ''last_update'' (VFloat now) st)
         (fst (quarantine_execution_queue e reason now preserve (s\<lparr>s_reads := Suc (s_reads s)\<rparr>)))"
proof -
  let ?s = "s\<lparr>s_reads := Suc (s_reads s)\<rparr>" and ?now = "en_clock e (s_reads s)"
  let ?reason = "py_strip (if why = [] then ''execution_egress_disabled'' else why)"
  have n: "now_read e s = (?now, ?s)" by (simp add: now_read_def)
  have d: "state_dict ?s = state_dict s" by (simp add: state_dict_def)
  show thesis
  proof (cases "killed_state ?reason revoke ?now (state_dict s)")
    case (Inl err)
    show thesis by (rule raised) (simp only: disable_execution_egress_def n prod.case Let_def d Inl sum.case fst_conv)
  next
    case (Inr st)
    show thesis
      by (rule killed [OF Inr])
        (simp only: disable_execution_egress_def n prod.case Let_def d Inr sum.case fst_conv split: prod.split, simp)
  qed
qed

lemma authority_step_reads: "s_reads s \<le> s_reads (authority_step e ev s)"
proof (cases ev)
  case (ReleaseEvent rc q)
  then show ?thesis using release_swap_reads [of e rc q s] by (metis authority_step.simps(1) prod.collapse)
next
  case (ScalpEvent universe q)
  then show ?thesis
    by (auto simp: compare_and_set_production_scalp_authority_def now_read_def Let_def publish_scalp_authority_def
        split: sum.splits option.splits)
next
  case (PatchEvent p rp rr)
  then show ?thesis
    by (auto simp: update_state_patch_def commit_state_patch_def Let_def now_read_def split: sum.splits)
next
  case (EnableEvent boot)
  then show ?thesis
    by (auto simp: enable_production_execution_egress_def Let_def now_read_def split: sum.splits)
next
  case (DisableEvent why revoke preserve)
  show ?thesis
    unfolding DisableEvent authority_step.simps
    by (cases rule: disable_result [of e why revoke preserve s]) (use quarantine_reads [of "s\<lparr>s_reads := Suc (s_reads s)\<rparr>"] in \<open>auto intro: Suc_leD\<close>)
qed

abbreviation ledger_of :: "pydict \<Rightarrow> pyval" where
  "ledger_of st \<equiv> dget st ''release_witness_nonce_ledger''"

lemma in_ledger_cong: "ledger_of (state_dict s') = ledger_of (state_dict s) \<Longrightarrow> in_ledger nonce x s' = in_ledger nonce x s"
  by (simp add: in_ledger_def)

lemma killed_state_ledger:
  assumes "killed_state reason revoke now st = Inr st'"
  shows "ledger_of st' = ledger_of st"
  using assms unfolding killed_state_def revoke_production_scalp_authority_in_state_def revoke_release_in_state_def
  by (auto simp: disable_execution_egress_in_state_def Let_def elim!: ebindE split: if_splits)

lemma arm_ledger:
  assumes "arm_production_egress boot now st = Inr (st', n)"
  shows "ledger_of st' = ledger_of st"
  using assms unfolding arm_production_egress_def by (auto simp: Let_def elim!: ebindE split: if_splits)

lemma other_events_ledger:
  assumes "\<nexists>rc q. ev = ReleaseEvent rc q"
  shows "ledger_of (state_dict (authority_step e ev s)) = ledger_of (state_dict s)"
proof (cases ev)
  case (ReleaseEvent rc q)
  then show ?thesis using assms by blast
next
  case (ScalpEvent universe q)
  then show ?thesis
    by (auto simp: compare_and_set_production_scalp_authority_def now_read_def Let_def publish_scalp_authority_def state_dict_def
        write_state_def split: sum.splits option.splits)
next
  case (PatchEvent p rp rr)
  have "''release_witness_nonce_ledger'' \<in> set release_owned_keys" by (simp add: release_owned_keys_def)
  from patch_keeps_owned_key [OF this] show ?thesis by (simp add: PatchEvent update_state_patch_def map_of_dget)
next
  case (EnableEvent boot)
  then show ?thesis
    by (auto simp: enable_production_execution_egress_def Let_def now_read_def state_dict_def write_state_def
        split: sum.splits dest: arm_ledger)
next
  case (DisableEvent why revoke preserve)
  show ?thesis
    unfolding DisableEvent authority_step.simps
    by (cases rule: disable_result [of e why revoke preserve s]) (auto simp: state_dict_def dest: killed_state_ledger)
qed

lemma release_event_ledger:
  assumes "in_ledger nonce x s" "py_strip nonce \<noteq> []" "b \<le> s_reads s"
    and "clock_before e b x (s_reads (authority_step e (ReleaseEvent rc q) s))"
  shows "in_ledger nonce x (authority_step e (ReleaseEvent rc q) s)"
proof -
  obtain s' r where c: "compare_and_set_release_authority e rc q s = (s', r)" by fastforce
  show ?thesis
  proof (cases "\<exists>a. r = Inr (SwapUpdated a)")
    case False
    then show ?thesis using release_swap_else [OF c] ticked_tables [of s s'] assms(1) c by (simp add: in_ledger_def)
  next
    case True
    then obtain a where "compare_and_set_release_authority e rc q s = (s', Inr (SwapUpdated a))" using c by blast
    then obtain t request current merged where
      p: "publish_release e (rs_incoming q) request current merged t = (s', Inr (SwapUpdated a))"
      and n: "if \<not> rs_safety_dominant q \<and> release_status (rs_incoming q) = ''pending''
         then spend_nonce e request (state_dict s) s = (t, Inr (Inr merged)) else t = s \<and> merged = state_dict s"
      by (rule release_swap_updated)
    have l: "ledger_of (state_dict s') = ledger_of merged" using publish_release_outcome [OF p] by simp
    have "clock_before e b x (s_reads t)"
      using clock_before_mono [OF assms(4)] publish_release_reads [OF p] c by simp
    then have "in_ledger nonce x (write_state merged s)"
      using n spent_nonce_stays [OF _ assms(1,2) _ assms(3)] assms(1) by (auto simp: in_ledger_def split: if_splits)
    then show ?thesis using l c in_ledger_cong [of s' "write_state merged s"] by simp
  qed
qed

definition spent :: "Env \<Rightarrow> nat \<Rightarrow> string \<Rightarrow> pyfloat \<Rightarrow> Store \<Rightarrow> bool" where
  "spent e b nonce x s =
     (py_strip nonce \<noteq> [] \<and> b \<le> s_reads s \<and> (clock_before e b x (s_reads s) \<longrightarrow> in_ledger nonce x s))"

interpretation ledger: step_machine "authority_step e" "\<lambda>_. True" "spent e b nonce x"
proof
  fix s ev
  assume s: "spent e b nonce x s"
  have reads: "s_reads s \<le> s_reads (authority_step e ev s)" by (rule authority_step_reads)
  have "in_ledger nonce x (authority_step e ev s)" if c: "clock_before e b x (s_reads (authority_step e ev s))"
  proof -
    have l: "in_ledger nonce x s" using s clock_before_mono [OF c reads] by (simp add: spent_def)
    show ?thesis
    proof (cases "\<exists>rc q. ev = ReleaseEvent rc q")
      case True
      then show ?thesis using release_event_ledger [OF l] s c by (auto simp: spent_def)
    next
      case False
      then show ?thesis using l in_ledger_cong [OF other_events_ledger] by blast
    qed
  qed
  then show "spent e b nonce x (authority_step e ev s)" using s reads by (simp add: spent_def)
qed

lemma published_nonce:
  assumes "compare_and_set_release_authority e rc q s = (s', Inr (SwapUpdated a))"
    and "release_status a = ''pending''" and "as_dict (dget a ''request'') = Inr request"
  obtains t merged current where "spend_nonce e request (state_dict s) s = (t, Inr (Inr merged))"
    and "publish_release e a request current merged t = (s', Inr (SwapUpdated a))"
proof -
  obtain current current_request request' t merged
  where parts: "release_parts (state_dict s) (rs_incoming q) = Inr (current, current_request, request')"
    and p: "publish_release e (rs_incoming q) request' current merged t = (s', Inr (SwapUpdated a))"
    and n: "if \<not> rs_safety_dominant q \<and> release_status (rs_incoming q) = ''pending''
         then spend_nonce e request' (state_dict s) s = (t, Inr (Inr merged)) else t = s \<and> merged = state_dict s"
    and g: "if rs_safety_dominant q then release_status (rs_incoming q) \<in> {''revoked'', ''rejected''}
         else first_reason (release_guards q current current_request request') = []
           \<and> release_status (rs_incoming q) \<in> {''pending'', ''acknowledged'', ''active'', ''revoked'', ''rejected''}
           \<and> release_validation_errors rc (rs_incoming q) request' merged = Inr []"
    using assms(1) by (rule release_swap_updated)
  have a: "a = rs_incoming q" using publish_release_outcome [OF p] by simp
  have "\<not> rs_safety_dominant q" using g assms(2) a by (auto split: if_splits)
  then show thesis using that n p a assms(2,3) release_parts_dest [OF parts] by simp
qed

text \<open>
  C11. An external witness publishes a release once. When a call has published a release with a witness that
  expires at \<open>x\<close>, and after any sequence of release and scalper transactions, state patches and egress switches another
  call publishes a release with the same nonce, then the clock was read at or after \<open>x\<close> in between: before its expiry
  the nonce is in the ledger, whatever the other transactions wrote, and the replay is refused.
\<close>

theorem witness_published_once:
  assumes "compare_and_set_release_authority e rc q s = (s1, Inr (SwapUpdated a))"
    and "release_status a = ''pending''" and "as_dict (dget a ''request'') = Inr request" and "witness_expires e request x"
    and "compare_and_set_release_authority e rc' q' (fold (authority_step e) events s1) = (s3, Inr (SwapUpdated a'))"
    and "release_status a' = ''pending''" and "as_dict (dget a' ''request'') = Inr request'"
    and "witness_nonce request' = witness_nonce request"
  shows "\<exists>n. s_reads s1 \<le> n \<and> n < s_reads s3 \<and> \<not> flt (en_clock e n) x"
proof (rule ccontr)
  let ?s2 = "fold (authority_step e) events s1"
  assume "\<nexists>n. s_reads s1 \<le> n \<and> n < s_reads s3 \<and> \<not> flt (en_clock e n) x"
  then have clock: "clock_before e (s_reads s1) x (s_reads s3)" by (auto simp: clock_before_def)
  obtain t merged current where n1: "spend_nonce e request (state_dict s) s = (t, Inr (Inr merged))"
    and p1: "publish_release e a request current merged t = (s1, Inr (SwapUpdated a))"
    using assms(1-3) by (rule published_nonce)
  obtain t2 merged2 current2 where n2: "spend_nonce e request' (state_dict ?s2) ?s2 = (t2, Inr (Inr merged2))"
    and p2: "publish_release e a' request' current2 merged2 t2 = (s3, Inr (SwapUpdated a'))"
    using assms(5-7) by (rule published_nonce)
  obtain ledger y where y: "witness_expires e request y" and nonce: "witness_nonce request \<noteq> []"
    and m: "merged = dput ''release_witness_nonce_ledger'' (VDict (dput (witness_nonce request) (VFloat y) ledger)) (state_dict s)"
    using n1 by (rule spend_nonce_records)
  have "y = x" using y assms(4) by (auto simp: witness_expires_def)
  then have "in_ledger (witness_nonce request) x s1" using publish_release_outcome [OF p1] m by (simp add: in_ledger_def)
  moreover have "py_strip (witness_nonce request) \<noteq> []"
    using nonce by (auto simp: witness_nonce_def norm_text_def split: sum.splits)
  ultimately have "spent e (s_reads s1) (witness_nonce request) x s1" by (simp add: spent_def)
  then have s2: "spent e (s_reads s1) (witness_nonce request) x ?s2"
    by (rule ledger.run_invar) (simp add: list_all_iff)
  have r: "s_reads ?s2 \<le> s_reads t2" "s_reads t2 \<le> s_reads s3"
    using ticked_tables [OF spend_nonce_ticked [OF n2]] publish_release_reads [OF p2] by simp_all
  have "in_ledger (witness_nonce request') x ?s2"
    using s2 clock_before_mono [OF clock, of "s_reads ?s2"] r assms(8) by (simp add: spent_def)
  moreover have "s_reads s1 \<le> s_reads ?s2" using s2 by (simp add: spent_def)
  ultimately show False
    using live_spent_nonce_refused clock_before_mono [OF clock r(2)] n2 by blast
qed

section \<open>Examples\<close>

definition demo_checks :: ReleaseChecks where
  "demo_checks = \<lparr>rc_active_model_set = (\<lambda>pair. None), rc_request_errors = (\<lambda>request row. Inr []),
     rc_active_errors = (\<lambda>a row boot attestation g h. Inr [])\<rparr>"

definition release_identities :: pydict where
  "release_identities = (''generation_id'', VStr ''g1'') # (''request_sha256'', VStr ''a0'')
     # map (\<lambda>f. (f, VStr ''x'')) RELEASE_EGRESS_IDENTITY_FIELDS"

definition demo_release_request :: "rat \<Rightarrow> pydict" where
  "demo_release_request expiry =
     [(''schema_version'', VStr RELEASE_AUTHORITY_REQUEST_SCHEMA), (''pair'', VStr ''EURUSD''),
      (''external_witness'', VDict [(''schema_version'', VStr EXTERNAL_RELEASE_WITNESS_SCHEMA), (''signature'', VStr ''sig''),
         (''nonce'', VStr ''n1''), (''expires_at'', VFloat (Fin expiry))])] @ release_identities"

definition demo_release :: "string \<Rightarrow> rat \<Rightarrow> pydict" where
  "demo_release status expiry =
     [(''schema_version'', VStr RELEASE_AUTHORITY_STATE_SCHEMA), (''status'', VStr status),
      (''request'', VDict (demo_release_request expiry)),
      (''ack'', VDict ([(''schema_version'', VStr RELEASE_AUTHORITY_ACK_SCHEMA), (''runtime_boot_id'', VStr ''boot'')]
                      @ release_identities))]"

definition demo_swap :: "string \<Rightarrow> rat \<Rightarrow> ReleaseSwap" where
  "demo_swap status expiry = \<lparr>rs_incoming = demo_release status expiry, rs_expected_generation_id = [],
     rs_expected_status = [], rs_safety_dominant = False\<rparr>"

definition released_store :: "string \<Rightarrow> Store" where
  "released_store status = empty_store\<lparr>s_state := Some [(''release_authority'', VDict (demo_release status 2000))]\<rparr>"

lemma demo_activation_parts:
  "release_parts (state_dict (released_store ''acknowledged'')) (rs_incoming (demo_swap ''active'' 2000))
     = Inr (demo_release ''acknowledged'' 2000, demo_release_request 2000, demo_release_request 2000)"
  by code_simp

theorem release_activation_exact_witness:
  "\<exists>s'. compare_and_set_release_authority demo_env demo_checks (demo_swap ''active'' 2000) (released_store ''acknowledged'')
      = (s', Inr (SwapUpdated (rs_incoming (demo_swap ''active'' 2000))))"
proof -
  have boot: "attested_boot (state_dict (released_store ''acknowledged'')) (release_pair (demo_release_request 2000)) = Inr ([], [])"
    by code_simp
  have stage: "release_stage (released_store ''acknowledged'')
      = Acknowledged (release_generation (demo_release_request 2000)) (release_request_sha (demo_release_request 2000))"
    by code_simp
  have binding: "release_egress_binding_error (rs_incoming (demo_swap ''active'' 2000)) = Inr []" by code_simp
  have status: "release_status (rs_incoming (demo_swap ''active'' 2000)) = ''active''" by code_simp
  have ack: "\<exists>ack. as_dict (dget (rs_incoming (demo_swap ''active'' 2000)) ''ack'') = Inr ack"
    by (simp add: demo_swap_def demo_release_def)
  show ?thesis
    unfolding release_activation_exact [OF demo_activation_parts status]
    using boot stage binding ack by (simp add: demo_swap_def demo_checks_def)
qed

theorem release_refines_lifecycle_witness:
  "\<exists>s'. compare_and_set_release_authority demo_env demo_checks (demo_swap ''active'' 2000) (released_store ''acknowledged'')
      = (s', Inr (SwapUpdated (demo_release ''active'' 2000)))
    \<and> dget (state_dict s') ''release_authority'' = VDict (demo_release ''active'' 2000)
    \<and> lifecycle (release_stage (released_store ''acknowledged'')) (release_stage s')"
proof -
  have "snd (compare_and_set_release_authority demo_env demo_checks (demo_swap ''active'' 2000) (released_store ''acknowledged''))
     = Inr (SwapUpdated (demo_release ''active'' 2000))"
    by code_simp
  then obtain s' where s': "compare_and_set_release_authority demo_env demo_checks (demo_swap ''active'' 2000)
      (released_store ''acknowledged'') = (s', Inr (SwapUpdated (demo_release ''active'' 2000)))"
    by (metis prod.collapse)
  from release_refines_lifecycle [OF s'] s' show ?thesis by simp
qed

definition armed_queue :: Store where
  "armed_queue = (released_store ''active'')\<lparr>s_commands := [queued_exit, lost_entry]\<rparr>"

lemma demo_revocation:
  "\<exists>s'. compare_and_set_release_authority demo_env demo_checks (demo_swap ''revoked'' 2000) armed_queue
     = (s', Inr (SwapUpdated (demo_release ''revoked'' 2000)))"
proof -
  have "snd (compare_and_set_release_authority demo_env demo_checks (demo_swap ''revoked'' 2000) armed_queue)
     = Inr (SwapUpdated (demo_release ''revoked'' 2000))"
    by code_simp
  then show ?thesis by (metis prod.collapse)
qed

theorem inactive_release_closes_the_edge_witness:
  "\<exists>s'. compare_and_set_release_authority demo_env demo_checks (demo_swap ''revoked'' 2000) armed_queue
     = (s', Inr (SwapUpdated (demo_release ''revoked'' 2000)))
   \<and> egress_failure demo_env s' (Fin 1000) None \<noteq> Inr []
   \<and> map r_status (s_commands s') = [''expired'', ''reconcile_required'']"
proof -
  obtain s' where s': "compare_and_set_release_authority demo_env demo_checks (demo_swap ''revoked'' 2000) armed_queue
     = (s', Inr (SwapUpdated (demo_release ''revoked'' 2000)))"
    using demo_revocation by blast
  have rows: "map (\<lambda>r. (r_command_id r = [], r_status r)) (s_commands armed_queue) = [(False, ''queued''), (False, ''delivered'')]"
    by code_simp
  have "release_status (demo_release ''revoked'' 2000) \<noteq> ''active''" by code_simp
  from inactive_release_closes_the_edge [OF s' this] s' rows show ?thesis by (auto simp: armed_queue_def)
qed

lemma demo_publications:
  "snd (compare_and_set_release_authority demo_env demo_checks (demo_swap ''pending'' 1001) empty_store)
     = Inr (SwapUpdated (demo_release ''pending'' 1001))"
  "snd (compare_and_set_release_authority demo_env demo_checks (demo_swap ''pending'' 2000)
     (fst (compare_and_set_release_authority demo_env demo_checks (demo_swap ''pending'' 1001) empty_store)))
     = Inr (SwapUpdated (demo_release ''pending'' 2000))"
  by code_simp+

theorem witness_published_once_witness:
  "\<exists>s1 s3 n. compare_and_set_release_authority demo_env demo_checks (demo_swap ''pending'' 1001) empty_store
      = (s1, Inr (SwapUpdated (demo_release ''pending'' 1001)))
    \<and> compare_and_set_release_authority demo_env demo_checks (demo_swap ''pending'' 2000) s1
      = (s3, Inr (SwapUpdated (demo_release ''pending'' 2000)))
    \<and> s_reads s1 \<le> n \<and> n < s_reads s3 \<and> \<not> flt (en_clock demo_env n) (Fin 1001)"
proof -
  obtain s1 where one: "compare_and_set_release_authority demo_env demo_checks (demo_swap ''pending'' 1001) empty_store
      = (s1, Inr (SwapUpdated (demo_release ''pending'' 1001)))"
    using demo_publications(1) by (metis prod.collapse)
  then obtain s3 where two: "compare_and_set_release_authority demo_env demo_checks (demo_swap ''pending'' 2000) s1
      = (s3, Inr (SwapUpdated (demo_release ''pending'' 2000)))"
    using demo_publications(2) by (metis fst_conv prod.collapse)
  have pending: "release_status (demo_release ''pending'' x) = ''pending''"
    "as_dict (dget (demo_release ''pending'' x) ''request'') = Inr (demo_release_request x)"
    "witness_nonce (demo_release_request x) = ''n1''" for x
    by code_simp+
  have expires: "witness_expires demo_env (demo_release_request 1001) (Fin 1001)"
    by (simp add: witness_expires_def demo_release_request_def parse_iso_ts_def)
  have nonce: "witness_nonce (demo_release_request 2000) = witness_nonce (demo_release_request 1001)" by (simp add: pending)
  have two': "compare_and_set_release_authority demo_env demo_checks (demo_swap ''pending'' 2000) (fold (authority_step demo_env) [] s1)
      = (s3, Inr (SwapUpdated (demo_release ''pending'' 2000)))" using two by simp
  from witness_published_once [OF one pending(1,2) expires two' pending(1,2) nonce] one two show ?thesis by blast
qed

end
