(* ===== verification/Scalp_Activation.thy ===== *)
theory Scalp_Activation
  imports Release_Life Entry_Delivery
begin

text \<open>
  What activating and revoking the authority of the production scalper does to its entries: the conditions an
  activation has checked, and that after a revocation no scalper entry is delivered until a new activation.
\<close>

section \<open>Activation\<close>

lemma authority_admitted:
  assumes "authority_error sha current x now = Inr []"
  shows "norm_lower (dget current ''status'') = ''active''"
    and "\<exists>scope. as_list (dget current ''symbol_scope'') = Inr scope \<and> normalized_symbols scope = IG_MT4_SCALP_SYMBOLS"
  using authority_admission_exact [OF assms] by blast+

lemma expectation_scope:
  assumes "expectation_from_authority current = Inr x" and "as_list (dget current ''symbol_scope'') = Inr scope"
  shows "se_symbol_scope x = normalized_symbols scope"
  using assms by (auto simp: expectation_from_authority_def Let_def elim!: ebindE)

lemma pairs_admitted_iff:
  "pairs_admitted pairs xs = Inr True \<longleftrightarrow> (\<forall>x\<in>set xs. \<exists>d. as_dict (dget pairs x) = Inr d \<and> truthy (dget d ''allowed''))"
  by (induction xs) (auto simp: ebind_Inr_iff)

lemma live_admitted:
  assumes "scalp_live_failure diag live x = Inr []"
  obtains pairs sleeves intents admission pair_admission where "live_armed live"
    and "scope_texts py_upper (dget live ''active_pair_scope'') = Inr pairs" and "set (se_symbol_scope x) \<subseteq> set pairs"
    and "scope_texts py_lower (dget live ''active_sleeve_scope'') = Inr sleeves" and "''scalp'' \<in> set sleeves"
    and "scope_texts py_lower (dget live ''active_intent_scope'') = Inr intents" and "''enter'' \<in> set intents"
    and "as_dict (dget diag ''live_command_admission'') = Inr admission" and "truthy (dget admission ''allowed'')"
    and "as_dict (dget admission ''pairs'') = Inr pair_admission"
    and "pairs_admitted pair_admission (se_symbol_scope x) = Inr True"
  using assms unfolding scalp_live_failure_def
  by (auto elim!: ebindE split: if_splits)

lemma runtime_admitted:
  assumes "scalp_runtime_failure universe merged x now = Inr None"
  obtains egress startup diag live where "as_dict (dget merged ''execution_egress_authority'') = Inr egress"
    and "first_reason (scalp_egress_checks merged egress x) = []"
    and "as_dict (dget merged ''runtime_startup'') = Inr startup"
    and "norm_text (dget startup ''boot_id'') = py_strip (se_runtime_boot_id x)"
    and "norm_lower (dget merged ''runtime_status'') = ''running''"
    and "as_dict (dget merged ''runtime_diag'') = Inr diag" and "as_dict (dget diag ''orchestration_live'') = Inr live"
    and "scalp_live_failure diag live x = Inr []" and "first_reason (scalp_account_checks merged x) = []"
    and "universe merged now = Inr []"
proof -
  have o: "((if b then Inr (Some w) else m) = Inr None) = (\<not> b \<and> m = Inr None)" for b w and m :: "pyerr + string option"
    by simp
  have l: "(Inr (if errors = [] then None else Some (hd errors)) = (Inr None :: pyerr + string option)) = (errors = [])"
    for errors :: "string list" by simp
  show thesis
    using assms that unfolding scalp_runtime_failure_def Let_def ebind_Inr_iff o l de_Morgan_disj not_not by blast
qed

lemma activation_admitted:
  assumes "scalp_activation_failure e universe q current merged now wall = Inr None"
  obtains x where "first_reason (scalp_swap_guards q current) = []" and "expectation_from_authority (ss_incoming q) = Inr x"
    and "authority_error (en_sha256 e) (ss_incoming q) x wall = Inr []"
    and "validation_witness_error (ss_validation_witness q) (ss_incoming q) now = Inr []"
    and "scalp_runtime_failure universe merged x now = Inr None"
proof -
  have o: "((if b then Inr (Some w) else m) = Inr None) = (\<not> b \<and> m = Inr None)" for b w and m :: "pyerr + string option"
    by simp
  show thesis
    using assms that unfolding scalp_activation_failure_def Let_def ebind_Inr_iff o not_not by blast
qed

lemma scalp_swap_updated:
  assumes "compare_and_set_production_scalp_authority e universe q s = (s', Inr (SwapUpdated a))"
  obtains current where "as_dict (dget (state_dict s) ''production_scalp_authority'') = Inr current"
    and "dget (state_dict s') ''production_scalp_authority'' = VDict a"
    and "if ss_safety_dominant q then a = revoked_scalp_authority (ss_incoming q) current (en_clock e (s_reads s))
         else a = ss_incoming q \<and> scalp_activation_failure e universe q current (state_dict s) (en_clock e (s_reads s))
                (en_wall e (Suc (s_reads s)) []) = Inr None"
proof -
  let ?s1 = "s\<lparr>s_reads := Suc (s_reads s)\<rparr>" and ?now = "en_clock e (s_reads s)"
  have d: "state_dict ?s1 = state_dict s" by (simp add: state_dict_def)
  note call = assms [unfolded compare_and_set_production_scalp_authority_def now_read_def prod.case Let_def d]
  obtain current where c: "as_dict (dget (state_dict s) ''production_scalp_authority'') = Inr current"
    using call by (cases "as_dict (dget (state_dict s) ''production_scalp_authority'')") simp_all
  have publish: "a = b \<and> dget (state_dict s') ''production_scalp_authority'' = VDict a"
    if "publish_scalp_authority b (state_dict s) ?now ?s1 = (s', Inr (SwapUpdated a))" for b
    using that by (auto simp: publish_scalp_authority_def)
  show thesis
  proof (cases "ss_safety_dominant q")
    case True
    then have "publish_scalp_authority (revoked_scalp_authority (ss_incoming q) current ?now) (state_dict s) ?now ?s1
        = (s', Inr (SwapUpdated a))"
      using call c by (simp split: if_splits)
    then show thesis using that [OF c] publish [of "revoked_scalp_authority (ss_incoming q) current ?now"] True by simp
  next
    case False
    let ?f = "scalp_activation_failure e universe q current (state_dict s) ?now (en_wall e (Suc (s_reads s)) [])"
    have "?f = Inr None \<and> publish_scalp_authority (ss_incoming q) (state_dict s) ?now ?s1 = (s', Inr (SwapUpdated a))"
      using call c False by (simp split: sum.splits option.splits)
    then show thesis using that [OF c] publish [of "ss_incoming q"] False by simp
  qed
qed

text \<open>
  C15. The scalper's authority is activated only by a signed authority that the wall clock has not expired
  and a validation witness for it, while the production runtime owns broker egress and runs under the same
  boot and authority revision, the live plane is armed for scalp entries with every one of the 22 IG symbols in
  its scope and admitted, the attested account is the authority's, and the broker contract universe has no error.
\<close>

theorem scalp_activation_sound:
  assumes "compare_and_set_production_scalp_authority e universe q s = (s', Inr (SwapUpdated a))"
    and "\<not> ss_safety_dominant q"
  shows "\<exists>x egress startup diag live pairs sleeves intents admission pair_admission.
    a = ss_incoming q \<and> dget (state_dict s') ''production_scalp_authority'' = VDict a
    \<and> expectation_from_authority a = Inr x
    \<and> authority_error (en_sha256 e) a x (en_wall e (Suc (s_reads s)) []) = Inr []
    \<and> validation_witness_error (ss_validation_witness q) a (en_clock e (s_reads s)) = Inr []
    \<and> truthy (dget (state_dict s) ''execution_egress_enabled'')
    \<and> as_dict (dget (state_dict s) ''execution_egress_authority'') = Inr egress
    \<and> norm_lower (dget egress ''source'') = ''production_runtime''
    \<and> norm_text (dget egress ''runtime_boot_id'') = py_strip (se_runtime_boot_id x)
    \<and> safe_int (dget egress ''authority_revision'') 0 = se_authority_revision x
    \<and> as_dict (dget (state_dict s) ''runtime_startup'') = Inr startup
    \<and> norm_text (dget startup ''boot_id'') = py_strip (se_runtime_boot_id x)
    \<and> norm_lower (dget (state_dict s) ''runtime_status'') = ''running''
    \<and> as_dict (dget (state_dict s) ''runtime_diag'') = Inr diag
    \<and> as_dict (dget diag ''orchestration_live'') = Inr live \<and> live_armed live
    \<and> scope_texts py_upper (dget live ''active_pair_scope'') = Inr pairs \<and> set IG_MT4_SCALP_SYMBOLS \<subseteq> set pairs
    \<and> scope_texts py_lower (dget live ''active_sleeve_scope'') = Inr sleeves \<and> ''scalp'' \<in> set sleeves
    \<and> scope_texts py_lower (dget live ''active_intent_scope'') = Inr intents \<and> ''enter'' \<in> set intents
    \<and> as_dict (dget diag ''live_command_admission'') = Inr admission
    \<and> as_dict (dget admission ''pairs'') = Inr pair_admission
    \<and> (\<forall>symbol\<in>set IG_MT4_SCALP_SYMBOLS.
         \<exists>d. as_dict (dget pair_admission symbol) = Inr d \<and> truthy (dget d ''allowed''))
    \<and> norm_lower (dget (state_dict s) ''broker_account_mode'') = py_lower (py_strip (se_account_mode x))
    \<and> norm_text (dget (state_dict s) ''broker_account_scope'') \<noteq> []
    \<and> universe (state_dict s) (en_clock e (s_reads s)) = Inr []"
proof -
  let ?m = "state_dict s" and ?now = "en_clock e (s_reads s)"
  obtain current where a: "a = ss_incoming q" "dget (state_dict s') ''production_scalp_authority'' = VDict a"
    and f: "scalp_activation_failure e universe q current ?m ?now (en_wall e (Suc (s_reads s)) []) = Inr None"
    by (rule scalp_swap_updated [OF assms(1)]) (use assms(2) in auto)
  obtain x where x: "expectation_from_authority (ss_incoming q) = Inr x"
    "authority_error (en_sha256 e) (ss_incoming q) x (en_wall e (Suc (s_reads s)) []) = Inr []"
    "validation_witness_error (ss_validation_witness q) (ss_incoming q) ?now = Inr []"
    and r: "scalp_runtime_failure universe ?m x ?now = Inr None"
    using f by (rule activation_admitted)
  have scope: "se_symbol_scope x = IG_MT4_SCALP_SYMBOLS"
    using authority_admitted(2) [OF x(2)] expectation_scope [OF x(1)] by auto
  obtain egress startup diag live where g: "as_dict (dget ?m ''execution_egress_authority'') = Inr egress"
    "as_dict (dget ?m ''runtime_startup'') = Inr startup"
    "norm_text (dget startup ''boot_id'') = py_strip (se_runtime_boot_id x)" "norm_lower (dget ?m ''runtime_status'') = ''running''" "as_dict (dget ?m ''runtime_diag'') = Inr diag"
    "as_dict (dget diag ''orchestration_live'') = Inr live" "universe ?m ?now = Inr []"
    and eg: "first_reason (scalp_egress_checks ?m egress x) = []" and ac: "first_reason (scalp_account_checks ?m x) = []"
    and lv: "scalp_live_failure diag live x = Inr []"
    using r by (rule runtime_admitted)
  have eg': "truthy (dget ?m ''execution_egress_enabled'')" "norm_lower (dget egress ''source'') = ''production_runtime''"
    "norm_text (dget egress ''runtime_boot_id'') = py_strip (se_runtime_boot_id x)"
    "safe_int (dget egress ''authority_revision'') 0 = se_authority_revision x"
    using eg by (auto simp: scalp_egress_checks_def split: if_splits)
  have ac': "norm_lower (dget ?m ''broker_account_mode'') = py_lower (py_strip (se_account_mode x))"
    "norm_text (dget ?m ''broker_account_scope'') \<noteq> []"
    using ac by (auto simp: scalp_account_checks_def Let_def split: if_splits)
  from lv show ?thesis
    by (rule live_admitted) (use x g eg' ac' a in \<open>simp add: scope pairs_admitted_iff; blast\<close>)
qed

section \<open>Revocation\<close>

definition inactive_authority :: "pyval \<Rightarrow> bool" where
  "inactive_authority v = (case as_dict v of Inl _ \<Rightarrow> True | Inr d \<Rightarrow> norm_lower (dget d ''status'') \<noteq> ''active'')"

abbreviation scalp_authority_of :: "pydict \<Rightarrow> pyval" where
  "scalp_authority_of st \<equiv> dget st ''production_scalp_authority''"

definition scalp_inactive :: "Store \<Rightarrow> bool" where
  "scalp_inactive s = inactive_authority (scalp_authority_of (state_dict s))"

text \<open>Every transaction except an activation of the scalper.\<close>

fun no_activation :: "authority_event \<Rightarrow> bool" where
  "no_activation (ScalpEvent universe q) = ss_safety_dominant q"
| "no_activation _ = True"

lemma revoked_text: "norm_lower (VStr ''revoked'') \<noteq> ''active''" "norm_lower VNone \<noteq> ''active''"
  by code_simp+

lemma revoked_authority_inactive: "inactive_authority (VDict (revoked_scalp_authority incoming current now))"
  using revoked_text by (simp add: inactive_authority_def revoked_scalp_authority_def as_dict_VDict Let_def dmerge_def)

lemma killed_state_inactive:
  assumes "killed_state reason revoke now st = Inr st'"
  shows "inactive_authority (scalp_authority_of st')"
proof -
  obtain st1 where r: "revoke_production_scalp_authority_in_state reason now (disable_execution_egress_in_state reason now st) = Inr st1"
    and same: "scalp_authority_of st' = scalp_authority_of st1"
    using assms by (auto simp: killed_state_def revoke_release_in_state_def Let_def elim!: ebindE split: if_splits)
  have "inactive_authority (scalp_authority_of st1)"
    using r revoked_text
    by (auto simp: revoke_production_scalp_authority_in_state_def inactive_authority_def as_dict_VDict dmerge_def
        elim!: ebindE split: if_splits sum.splits)
  then show ?thesis by (simp add: same)
qed

lemma release_event_keeps_scalp:
  "scalp_authority_of (state_dict (authority_step e (ReleaseEvent rc q) s)) = scalp_authority_of (state_dict s)"
proof -
  obtain s' r where c: "compare_and_set_release_authority e rc q s = (s', r)" by fastforce
  show ?thesis
  proof (cases "\<exists>a. r = Inr (SwapUpdated a)")
    case False
    then show ?thesis using release_swap_else [OF c] ticked_tables [of s s'] c by simp
  next
    case True
    then obtain a where "compare_and_set_release_authority e rc q s = (s', Inr (SwapUpdated a))" using c by blast
    then obtain t request current merged where
      p: "publish_release e (rs_incoming q) request current merged t = (s', Inr (SwapUpdated a))"
      and n: "if \<not> rs_safety_dominant q \<and> release_status (rs_incoming q) = ''pending''
         then spend_nonce e request (state_dict s) s = (t, Inr (Inr merged)) else t = s \<and> merged = state_dict s"
      by (rule release_swap_updated)
    have "scalp_authority_of merged = scalp_authority_of (state_dict s)"
      using n by (auto elim!: spend_nonce_records split: if_splits)
    moreover have "scalp_authority_of (state_dict s') = scalp_authority_of merged"
      using p by (auto simp: publish_release_def Let_def now_read_def armed_by_release_def
          disable_execution_egress_in_state_def split: if_splits sum.splits)
    ultimately show ?thesis using c by simp
  qed
qed

lemma arm_keeps_scalp:
  assumes "arm_production_egress boot now st = Inr (st', n)"
  shows "scalp_authority_of st' = scalp_authority_of st"
  using assms unfolding arm_production_egress_def by (auto simp: Let_def elim!: ebindE split: if_splits)

interpretation revoked: step_machine "authority_step e" no_activation scalp_inactive
proof
  fix s ev
  assume s: "scalp_inactive s" and ok: "no_activation ev"
  show "scalp_inactive (authority_step e ev s)"
  proof (cases ev)
    case (ReleaseEvent rc q)
    then show ?thesis using s release_event_keeps_scalp by (simp add: scalp_inactive_def)
  next
    case (ScalpEvent universe q)
    obtain s' r where c: "compare_and_set_production_scalp_authority e universe q s = (s', r)" by fastforce
    show ?thesis
    proof (cases "\<exists>a. r = Inr (SwapUpdated a)")
      case True
      then obtain a where "compare_and_set_production_scalp_authority e universe q s = (s', Inr (SwapUpdated a))" using c by blast
      then show ?thesis
        by (rule scalp_swap_updated) (use ok ScalpEvent c revoked_authority_inactive in \<open>auto simp: scalp_inactive_def\<close>)
    next
      case False
      have "state_dict s' = state_dict s"
        using c False
        by (auto simp: compare_and_set_production_scalp_authority_def now_read_def Let_def publish_scalp_authority_def state_dict_def
            split: sum.splits if_splits option.splits)
      then show ?thesis using s c ScalpEvent by (simp add: scalp_inactive_def)
    qed
  next
    case (PatchEvent p rp rr)
    have "''production_scalp_authority'' \<in> set release_owned_keys" by (simp add: release_owned_keys_def)
    from patch_keeps_owned_key [OF this] s show ?thesis
      by (simp add: PatchEvent update_state_patch_def scalp_inactive_def map_of_dget)
  next
    case (EnableEvent boot)
    then show ?thesis
      using s by (auto simp: scalp_inactive_def enable_production_execution_egress_def Let_def now_read_def state_dict_def
          write_state_def split: sum.splits dest: arm_keeps_scalp)
  next
    case (DisableEvent why revoke preserve)
    show ?thesis
      unfolding DisableEvent authority_step.simps
      by (cases rule: disable_result [of e why revoke preserve s])
        (use s in \<open>auto simp: scalp_inactive_def state_dict_def dest: killed_state_inactive\<close>)
  qed
qed

lemma expire_rejections_state: "s_state (expire_poll_rejections e pend s) = s_state s"
  using expire_rejections_touches(2) [of s e pend] by (simp add: queue_only_def)

lemma poll_scan_state: "poll_scan e u now rows pend s = (t, r) \<Longrightarrow> s_state t = s_state s"
proof (induction rows arbitrary: pend s)
  case (Cons q qs)
  show ?case
    using Cons.prems
    by (auto simp: now_read_def Let_def expire_rejections_state split: sum.splits if_splits dest!: Cons.IH)
qed simp

lemma polled_state:
  assumes "poll_next_command e s = (s', Inr (Some c))"
  shows "state_dict s' = state_dict s"
proof -
  let ?now = "en_clock e (s_reads s)"
  obtain d where d: "poll_deliver e ?now (polled_store e s) = (d, Inr (Some c))" and s': "s' = d"
    using assms
    by (auto simp: poll_next_command_def poll_transaction_def now_read_def polled_store_def Let_def
        split: sum.splits if_splits prod.splits)
  then obtain u rows t r ts pend where "poll_scan e u ?now rows [] (polled_store e s) = (t, Inr (Some (r, ts), pend))"
    and m: "s' = mark_delivered e r ts (if pend = [] then t else expire_poll_rejections e pend t)"
    by (auto simp: poll_deliver_def Let_def split: prod.splits sum.splits option.splits)
  then have "s_state t = s_state s" by (simp add: poll_scan_state polled_store_state)
  then show ?thesis
    using expire_rejections_touches(2) [of t e pend] unfolding m mark_delivered_state by (simp add: state_dict_def queue_only_def)
qed

text \<open>
  C12. A safety revocation of the scalper holds until a new activation: after it, and after any sequence of
  release transactions, state patches, egress switches and further revocations, poll hands out no entry of the
  scalper, whatever was admitted to the queue before and whatever authority the entries carry.
\<close>

theorem revoked_scalper_stays_out:
  assumes "compare_and_set_production_scalp_authority e universe q s = (s1, Inr (SwapUpdated a))" and "ss_safety_dominant q"
    and "list_all no_activation events"
  shows "\<nexists>s' c. poll_next_command e' (fold (authority_step e) events s1) = (s', Inr (Some c))
     \<and> norm_verb (ec_cmd c) \<in> set entry_verbs \<and> claims_scalper_payload (ec_payload c)"
proof
  let ?s2 = "fold (authority_step e) events s1"
  assume "\<exists>s' c. poll_next_command e' ?s2 = (s', Inr (Some c))
     \<and> norm_verb (ec_cmd c) \<in> set entry_verbs \<and> claims_scalper_payload (ec_payload c)"
  then obtain s' c where p: "poll_next_command e' ?s2 = (s', Inr (Some c))" "norm_verb (ec_cmd c) \<in> set entry_verbs"
    and claims: "claims_scalper_payload (ec_payload c)" by blast
  have "scalp_inactive s1"
    by (rule scalp_swap_updated [OF assms(1)]) (use assms(2) revoked_authority_inactive in \<open>simp add: scalp_inactive_def\<close>)
  then have s2: "scalp_inactive ?s2" using assms(3) by (rule revoked.run_invar)
  obtain r t where s': "s' = mark_delivered e' r (ec_updated_at c) t" and dc: "delivered_command r (ec_updated_at c) = Inr c"
    and ok: "live_entry_failure e' t (poll_entry_request r (ec_updated_at c)) = Inr []"
    using p by (rule poll_delivers_authorized_entry)
  have "state_dict t = state_dict ?s2" using polled_state [OF p(1)] by (simp add: s' mark_delivered_state)
  then have inactive: "inactive_authority (scalp_authority_of (state_dict t))" using s2 by (simp add: scalp_inactive_def)
  have "claims_scalper_payload (le_command_payload (poll_entry_request r (ec_updated_at c)))"
    using claims delivered_command_fields(4) [OF dc] by (simp add: poll_entry_request_def Let_def)
  with live_entry_parts(2) [OF ok] obtain durable expected wall where
    "as_dict (scalp_authority_of (state_dict t)) = Inr durable" "authority_error (en_sha256 e') durable expected wall = Inr []"
    by (rule scalp_authorizedE) blast
  then show False using inactive authority_admitted(1) by (auto simp: inactive_authority_def)
qed

section \<open>Examples\<close>

definition revoke_swap :: ScalpSwap where
  "revoke_swap = \<lparr>ss_incoming = [(''status'', VStr ''revoked'')], ss_validation_witness = [], ss_expected_generation_id = [],
     ss_expected_status = [], ss_safety_dominant = True\<rparr>"

lemma demo_revoked:
  "\<exists>s1 a. compare_and_set_production_scalp_authority demo_env (\<lambda>st now. Inr []) revoke_swap scalp_store = (s1, Inr (SwapUpdated a))"
proof -
  have st: "state_dict (scalp_store\<lparr>s_reads := n\<rparr>) = scalp_state" for n by (simp add: scalp_store_def state_dict_def)
  have "norm_lower (dget (ss_incoming revoke_swap) ''status'') = ''revoked''" by code_simp
  then show ?thesis
    unfolding compare_and_set_production_scalp_authority_def now_read_def prod.case Let_def st scalp_state_authority sum.case
    by (simp add: revoke_swap_def publish_scalp_authority_def)
qed

theorem revoked_scalper_stays_out_witness:
  "\<exists>s1 a. compare_and_set_production_scalp_authority demo_env (\<lambda>st now. Inr []) revoke_swap scalp_store = (s1, Inr (SwapUpdated a))
    \<and> (\<exists>s' c. poll_next_command demo_env scalp_store = (s', Inr (Some c)) \<and> claims_scalper_payload (ec_payload c))
    \<and> (\<nexists>s' c. poll_next_command demo_env s1 = (s', Inr (Some c))
         \<and> norm_verb (ec_cmd c) \<in> set entry_verbs \<and> claims_scalper_payload (ec_payload c))"
proof -
  obtain s1 a where r: "compare_and_set_production_scalp_authority demo_env (\<lambda>st now. Inr []) revoke_swap scalp_store
      = (s1, Inr (SwapUpdated a))" using demo_revoked by blast
  have d: "ss_safety_dominant revoke_swap" by (simp add: revoke_swap_def)
  show ?thesis using revoked_scalper_stays_out [OF r d, of "[]" demo_env] r scalp_store_polls by auto
qed

definition demo_validation_witness :: pydict where
  "demo_validation_witness =
     [(''valid'', VBool True), (''authenticated'', VBool True), (''revocation_verified'', VBool True),
      (''account_mode'', VStr ''demo''), (''generation_id'', VStr ''gen-1''), (''strategy_id'', VStr MTVCLC_STRATEGY_ID),
      (''strategy_version'', VStr MTVCLC_STRATEGY_VERSION), (''config_id'', VStr MTVCLC_CONFIG_ID),
      (''config_sha256'', VStr MTVCLC_CONFIG_SHA256), (''registry_generation_id'', VStr ''gen-1''),
      (''registry_revision'', VInt 2), (''venue_id'', VStr IG_MT4_VENUE_ID), (''scope_version'', VStr IG_MT4_SCALP_SCOPE_VERSION),
      (''max_entries_per_symbol_utc_day'', VInt 1), (''expires_at_epoch'', VFloat (Fin 5000)),
      (''symbol_scope'', VList (map VStr IG_MT4_SCALP_SYMBOLS)),
      (''win_probability_lower_bounds'', VDict (map (\<lambda>s. (s, VDict [(''BUY'', VFloat (Fin (1/2))), (''SELL'', VFloat (Fin (1/2)))]))
         IG_MT4_SCALP_SYMBOLS))]
     @ map (\<lambda>f. (f, VStr (demo_digest [])))
        [''engine_sha256'', ''runtime_release_certificate_sha256'', ''runtime_release_signing_key_id'', ''evidence_sha256'',
         ''evidence_signing_key_id'', ''registry_sha256'', ''qualification_surface_sha256'', ''cost_mapping_sha256'',
         ''execution_contract_sha256'', ''certificate_sha256'', ''signing_key_id'']"

definition activation_state :: pydict where
  "activation_state = dput ''runtime_diag'' (VDict
      [(''orchestration_live'', VDict
         [(''enabled'', VBool True), (''mode'', VStr ''live''), (''runtime_enabled'', VBool True),
          (''active_pair_scope'', VList (map VStr IG_MT4_SCALP_SYMBOLS)),
          (''active_sleeve_scope'', VList [VStr ''scalp'']), (''active_intent_scope'', VList [VStr ''enter''])]),
       (''live_command_admission'', VDict [(''allowed'', VBool True),
          (''pairs'', VDict (map (\<lambda>s. (s, VDict [(''allowed'', VBool True)])) IG_MT4_SCALP_SYMBOLS))])])
     (demo_scope IG_MT4_SCALP_SYMBOLS ''scalp'' ''enter'' @ [(''broker_account_mode'', VStr ''demo'')])"

definition activate_swap :: ScalpSwap where
  "activate_swap = \<lparr>ss_incoming = demo_authority, ss_validation_witness = demo_validation_witness,
     ss_expected_generation_id = [], ss_expected_status = [], ss_safety_dominant = False\<rparr>"

lemma demo_witness_bounds: "witness_bounds_error demo_validation_witness = []"
  by code_simp

lemma demo_witness_expiry: "witness_expiry_error demo_validation_witness demo_authority (Fin 1000) = []"
  by code_simp

lemma demo_witness_comparisons:
  "first_reason (witness_comparisons demo_validation_witness demo_authority SCALP_ADMISSION_MODE_SIGNED) = []"
proof -
  have n: "py_strip (demo_digest []) = demo_digest []" "py_lower (demo_digest []) = demo_digest []"
    using hex_digest_norm [OF demo_digest_hex] by blast+
  have s: "py_lower (py_strip ''DEMO'') = ''demo''" "py_lower ''demo'' = ''demo''" "py_strip ''demo'' = ''demo''"
    "py_strip ''gen-1'' = ''gen-1''" by code_simp+
  have h: "is_sha256 (VStr (demo_digest []))" by code_simp
  show ?thesis
    unfolding witness_comparisons_def Let_def demo_authority_def built_lookup
    by (simp add: demo_validation_witness_def demo_expectation_def norm_text_def lower_text_def n s h constants_normal)
qed

lemma demo_runtime_accepted:
  "scalp_runtime_failure (\<lambda>st now. Inr []) activation_state (canonical_expectation demo_expectation) (Fin 1000) = Inr None"
  by code_simp

lemma demo_guards_pass: "first_reason (scalp_swap_guards activate_swap []) = []"
  by code_simp

lemma demo_witness_accepted: "validation_witness_error demo_validation_witness demo_authority (Fin 1000) = Inr []"
proof -
  have w: "norm_lower (py_or (dget demo_validation_witness ''admission_mode'') (VStr SCALP_ADMISSION_MODE_SIGNED)) = SCALP_ADMISSION_MODE_SIGNED"
    "demo_validation_witness \<noteq> []" "dget demo_validation_witness ''valid'' = VBool True"
    "norm_text (dget demo_validation_witness ''reason'') = []" "as_list (dget demo_validation_witness ''errors'') = Inr []"
    "dget demo_validation_witness ''authenticated'' = VBool True" "dget demo_validation_witness ''revocation_verified'' = VBool True"
    "as_list (dget demo_validation_witness ''symbol_scope'') = Inr (map VStr IG_MT4_SCALP_SYMBOLS)"
    "safe_int (dget demo_validation_witness ''max_entries_per_symbol_utc_day'') 0 = 1"
    by (simp_all add: demo_validation_witness_def) code_simp
  have a: "str_or_empty (dget demo_authority ''schema_version'') = SCALP_EXECUTION_AUTHORITY_SCHEMA"
    "py_int (py_or (dget demo_authority ''max_entries_per_symbol_utc_day'') (VInt 0)) = Inr 1"
    unfolding demo_authority_def built_lookup by (simp_all add: MAX_ENTRIES_PER_SYMBOL_UTC_DAY_def py_or_def)
  show ?thesis
    unfolding validation_witness_error_def Let_def w a demo_witness_comparisons ebind.simps normalized_scope demo_witness_expiry
      demo_witness_bounds using w(2) by simp
qed

lemma demo_activation:
  "\<exists>s'. compare_and_set_production_scalp_authority demo_env (\<lambda>st now. Inr []) activate_swap
     (empty_store\<lparr>s_state := Some activation_state\<rparr>) = (s', Inr (SwapUpdated demo_authority))"
proof -
  define s where "s = empty_store\<lparr>s_state := Some activation_state\<rparr>"
  have st: "s_reads s = 0" "state_dict (s\<lparr>s_reads := n\<rparr>) = activation_state" for n
    by (simp_all add: s_def state_dict_def empty_store_def)
  have cur: "as_dict (dget activation_state ''production_scalp_authority'') = Inr []"
    by (simp add: activation_state_def demo_scope_def)
  have env: "en_clock demo_env 0 = Fin 1000" "en_wall demo_env n c = Fin 1000" for n c by (simp_all add: demo_env_def)
  have q: "ss_incoming activate_swap = demo_authority" "ss_validation_witness activate_swap = demo_validation_witness"
    "\<not> ss_safety_dominant activate_swap" by (simp_all add: activate_swap_def)
  have x: "expectation_from_authority demo_authority = Inr (canonical_expectation demo_expectation)"
    unfolding demo_authority_def by (rule expectation_from_built [OF demo_valid])
  have ok: "authority_error demo_digest demo_authority (canonical_expectation demo_expectation) (Fin 1000) = Inr []"
    unfolding demo_authority_def
    by (rule built_accepted [OF demo_digest_hex demo_valid demo_binding]) (simp_all add: demo_expectation_def)
  have f: "scalp_activation_failure demo_env (\<lambda>st now. Inr []) activate_swap [] activation_state (Fin 1000) (Fin 1000) = Inr None"
    unfolding scalp_activation_failure_def Let_def demo_guards_pass q x ebind.simps demo_sha ok demo_witness_accepted
      demo_runtime_accepted by simp
  show ?thesis
    unfolding s_def [symmetric] compare_and_set_production_scalp_authority_def now_read_def prod.case Let_def st env cur sum.case f
      option.case publish_scalp_authority_def q(1) using q(3) by simp
qed

theorem scalp_activation_sound_witness:
  "\<exists>s' live pairs. compare_and_set_production_scalp_authority demo_env (\<lambda>st now. Inr []) activate_swap
       (empty_store\<lparr>s_state := Some activation_state\<rparr>) = (s', Inr (SwapUpdated demo_authority))
    \<and> live_armed live \<and> scope_texts py_upper (dget live ''active_pair_scope'') = Inr pairs
    \<and> set IG_MT4_SCALP_SYMBOLS \<subseteq> set pairs"
proof -
  obtain s' where c: "compare_and_set_production_scalp_authority demo_env (\<lambda>st now. Inr []) activate_swap
     (empty_store\<lparr>s_state := Some activation_state\<rparr>) = (s', Inr (SwapUpdated demo_authority))"
    using demo_activation by blast
  have "\<not> ss_safety_dominant activate_swap" by (simp add: activate_swap_def)
  from scalp_activation_sound [OF c this] c show ?thesis by blast
qed

end
