(* ===== verification/Market_Rows.thy ===== *)
theory Market_Rows
  imports Market_Source Machine Authority_Roundtrip
begin

text \<open>
  What a market row says about its source. The fast path and the caches of \<open>market_source_row_error\<close> answer as the
  plain check does, for every row whose identity fields are text, after any history of calls; a row written by a source
  is accepted for that source and for no other.
\<close>

section \<open>Rows and their projection\<close>

text \<open>An identity that its own normalisation leaves alone.\<close>

definition canonical_source :: "AuthenticatedMarketSource \<Rightarrow> bool" where
  "canonical_source m =
     (build_authenticated_market_source (VStr (ms_broker_account_scope m)) (VStr (ms_broker_venue_id m))
        (VStr (ms_producer_identity m)) (VStr (ms_producer_instance_id m)) (VStr (ms_terminal_lease_scope m))
        (VStr (ms_credential_generation_id m)) (VStr (ms_bridge_protocol_version m)) = Some m)"

definition text_value :: "pyval \<Rightarrow> bool" where
  "text_value v = (case v of VStr _ \<Rightarrow> True | VNone \<Rightarrow> True | _ \<Rightarrow> False)"

definition identity_fields :: "string list" where
  "identity_fields = filter (\<lambda>f. f \<noteq> ''market_source_authenticated'') MARKET_SOURCE_FIELDS"

definition text_row :: "pydict \<Rightarrow> bool" where
  "text_row row = list_all (\<lambda>f. text_value (dget row f)) identity_fields"

definition authenticated_flag :: "pyval \<Rightarrow> bool" where
  "authenticated_flag v = (py_eq v (VBool True) \<or> py_eq v (VInt 1))"

text \<open>Two rows that agree on the identity fields and on the flag.\<close>

definition same_source_row :: "pydict \<Rightarrow> pydict \<Rightarrow> bool" where
  "same_source_row a b =
     (list_all (\<lambda>f. dget a f = dget b f) identity_fields
      \<and> authenticated_flag (dget a ''market_source_authenticated'') = authenticated_flag (dget b ''market_source_authenticated''))"

lemma from_item_cong:
  assumes "same_source_row a b"
  shows "authenticated_market_source_from_item sha a = authenticated_market_source_from_item sha b"
proof -
  have flag: "authenticated_flag (dget a ''market_source_authenticated'') = authenticated_flag (dget b ''market_source_authenticated'')"
    using assms unfolding same_source_row_def by (rule conjunct2)
  have f: "dget a ''market_source_schema'' = dget b ''market_source_schema''" "dget a ''market_source_id'' = dget b ''market_source_id''"
    "dget a ''broker_account_scope'' = dget b ''broker_account_scope''" "dget a ''broker_venue_id'' = dget b ''broker_venue_id''"
    "dget a ''producer_identity'' = dget b ''producer_identity''" "dget a ''producer_instance_id'' = dget b ''producer_instance_id''"
    "dget a ''terminal_lease_scope'' = dget b ''terminal_lease_scope''"
    "dget a ''credential_generation_id'' = dget b ''credential_generation_id''"
    "dget a ''bridge_protocol_version'' = dget b ''bridge_protocol_version''"
    using assms by (simp_all add: same_source_row_def identity_fields_def MARKET_SOURCE_FIELDS_def)
  show ?thesis
    unfolding authenticated_market_source_from_item_def Let_def authenticated_flag_def [symmetric] f flag by (rule refl)
qed

lemma same_source_row_trans: "same_source_row a b \<Longrightarrow> same_source_row b c \<Longrightarrow> same_source_row a c"
  by (auto simp: same_source_row_def list_all_iff)

lemma projection_row: "f \<in> set MARKET_SOURCE_FIELDS \<Longrightarrow> dget (zip MARKET_SOURCE_FIELDS (row_projection row)) f = dget row f"
  by (auto simp: MARKET_SOURCE_FIELDS_def row_projection_def)

lemma projection_same_row: "same_source_row (zip MARKET_SOURCE_FIELDS (row_projection row)) row"
  by (simp add: same_source_row_def identity_fields_def list_all_iff projection_row) (simp add: MARKET_SOURCE_FIELDS_def row_projection_def)

lemma flag_cong: "py_eq a b \<Longrightarrow> authenticated_flag a = authenticated_flag b"
  by (cases a; cases b) (auto simp: authenticated_flag_def feq_def split: option.splits pyfloat.splits)

lemma text_eq: "py_eq a b \<Longrightarrow> text_value b \<Longrightarrow> a = b"
  by (cases b; cases a) (auto simp: text_value_def)

lemma text_row_cong: "same_source_row a b \<Longrightarrow> text_row a = text_row b"
  by (simp add: same_source_row_def text_row_def list_all_iff)

lemma same_projection_items:
  assumes "same_projection p q" and "length q = length MARKET_SOURCE_FIELDS" and "text_row (zip MARKET_SOURCE_FIELDS q)"
  shows "same_source_row (zip MARKET_SOURCE_FIELDS p) (zip MARKET_SOURCE_FIELDS q)"
proof -
  have len: "length p = length q" using assms(1) by (simp add: same_projection_def list_all2_lengthD)
  have d: "distinct MARKET_SOURCE_FIELDS" by (simp add: MARKET_SOURCE_FIELDS_def)
  have eq: "py_eq (dget (zip MARKET_SOURCE_FIELDS p) f) (dget (zip MARKET_SOURCE_FIELDS q) f)"
    if f: "f \<in> set MARKET_SOURCE_FIELDS" for f
  proof -
    obtain i where i: "i < length MARKET_SOURCE_FIELDS" "f = MARKET_SOURCE_FIELDS ! i" using f by (auto simp: in_set_conv_nth)
    then have "map_of (zip MARKET_SOURCE_FIELDS p) f = Some (p ! i)" "map_of (zip MARKET_SOURCE_FIELDS q) f = Some (q ! i)"
      using map_of_zip_nth [of MARKET_SOURCE_FIELDS p i] map_of_zip_nth [of MARKET_SOURCE_FIELDS q i] d len assms(2) by simp_all
    moreover have "py_eq (p ! i) (q ! i)" using assms(1,2) i len by (simp add: same_projection_def list_all2_nthD)
    ultimately show ?thesis by (simp add: dget_def)
  qed
  have "dget (zip MARKET_SOURCE_FIELDS p) f = dget (zip MARKET_SOURCE_FIELDS q) f" if "f \<in> set identity_fields" for f
    using text_eq eq [of f] assms(3) that by (auto simp: text_row_def list_all_iff identity_fields_def)
  moreover have "''market_source_authenticated'' \<in> set MARKET_SOURCE_FIELDS" by (simp add: MARKET_SOURCE_FIELDS_def)
  ultimately show ?thesis using flag_cong [OF eq] by (auto simp: same_source_row_def list_all_iff)
qed

lemma same_projection_row:
  assumes "same_projection p (row_projection row)" and "text_row row"
  shows "same_source_row (zip MARKET_SOURCE_FIELDS p) row"
proof -
  have "text_row (zip MARKET_SOURCE_FIELDS (row_projection row))" using text_row_cong [OF projection_same_row] assms(2) by blast
  then have "same_source_row (zip MARKET_SOURCE_FIELDS p) (zip MARKET_SOURCE_FIELDS (row_projection row))"
    using assms(1) by (intro same_projection_items) (simp_all add: row_projection_def)
  then show ?thesis using projection_same_row by (rule same_source_row_trans)
qed

lemma close_projection_row:
  assumes "text_row row" and "p' = row_projection row \<or> same_projection p' (row_projection row)"
    and "p'' = p' \<or> same_projection p'' p'"
  shows "same_source_row (zip MARKET_SOURCE_FIELDS p'') row"
proof -
  have p': "same_source_row (zip MARKET_SOURCE_FIELDS p') row"
    using assms(1,2) same_projection_row projection_same_row by blast
  have "length p' = length MARKET_SOURCE_FIELDS"
    using assms(2) by (auto simp: same_projection_def row_projection_def dest: list_all2_lengthD)
  then show ?thesis
    using assms(3) same_source_row_trans [OF same_projection_items p'] p' text_row_cong [OF p'] assms(1) by blast
qed

section \<open>The caches\<close>

abbreviation source_of :: "(string \<Rightarrow> string) \<Rightarrow> pyval list \<Rightarrow> string + AuthenticatedMarketSource" where
  "source_of sha p \<equiv> authenticated_market_source_from_item sha (zip MARKET_SOURCE_FIELDS p)"

text \<open>Every entry holds the answer for a key that Python considers equal to its own.\<close>

definition sound_caches :: "(string \<Rightarrow> string) \<Rightarrow> SourceCaches \<Rightarrow> bool" where
  "sound_caches sha caches =
     ((\<forall>(p, r) \<in> set (mc_projection caches). r = source_of sha p)
      \<and> (\<forall>((p, m), err) \<in> set (mc_row_error caches).
           \<exists>p'. (p' = p \<or> same_projection p' p) \<and> err = source_error (source_of sha p') m))"

lemma lru_cache_sound:
  assumes "lru_cache n same f k entries = (v, entries')" and "\<forall>(k', w) \<in> set entries. w = f k'"
  shows "(\<forall>(k', w) \<in> set entries'. w = f k') \<and> (\<exists>k'. (k' = k \<or> same k' k) \<and> v = f k')"
proof (cases "List.extract (\<lambda>(k', v). same k' k) entries")
  case None
  then show ?thesis using assms by (auto simp: lru_cache_def Let_def dest!: in_set_takeD)
next
  case (Some x)
  obtain newer k' w older where x: "x = (newer, (k', w), older)" by (metis prod.exhaust)
  have "entries = newer @ (k', w) # older" "same k' k" using Some unfolding x extract_Some_iff by auto
  moreover have "v = w" "entries' = (k', w) # newer @ older" using assms(1) Some x by (auto simp: lru_cache_def)
  ultimately show ?thesis using assms(2) by auto
qed

lemma from_projection_sound:
  assumes "authenticated_market_source_from_projection sha p caches = (r, caches')" and "sound_caches sha caches"
  shows "sound_caches sha caches' \<and> (\<exists>p'. (p' = p \<or> same_projection p' p) \<and> r = source_of sha p')"
proof -
  obtain v entries where l: "lru_cache 256 same_projection (source_of sha) p (mc_projection caches) = (v, entries)" by fastforce
  have "\<forall>(k', w) \<in> set (mc_projection caches). w = source_of sha k'" using assms(2) by (simp add: sound_caches_def)
  from lru_cache_sound [OF l this] show ?thesis
    using assms l by (auto simp: authenticated_market_source_from_projection_def sound_caches_def)
qed

lemma row_error_from_projection_sound:
  assumes "market_source_row_error_from_projection sha p m caches = (err, caches')" and "sound_caches sha caches"
  shows "sound_caches sha caches' \<and> (\<exists>p' p''. (p' = p \<or> same_projection p' p) \<and> (p'' = p' \<or> same_projection p'' p')
           \<and> err = source_error (source_of sha p'') m)"
proof (cases "List.extract (\<lambda>((q, n), err). same_projection q p \<and> n = m) (mc_row_error caches)")
  case None
  obtain r caches1 where f: "authenticated_market_source_from_projection sha p caches = (r, caches1)" by fastforce
  note s = from_projection_sound [OF f assms(2)]
  have c: "err = source_error r m" "caches' = caches1\<lparr>mc_row_error := take 256 (((p, m), err) # mc_row_error caches1)\<rparr>"
    using assms(1) None f by (auto simp: market_source_row_error_from_projection_def Let_def)
  have "sound_caches sha caches'"
    using s c by (auto simp: sound_caches_def dest!: in_set_takeD)
  then show ?thesis using s c by blast
next
  case (Some x)
  obtain newer q n e older where x: "x = (newer, ((q, n), e), older)" by (metis prod.exhaust)
  have h: "mc_row_error caches = newer @ ((q, n), e) # older" "same_projection q p" "n = m"
    using Some unfolding x extract_Some_iff by auto
  have c: "err = e" "caches' = caches\<lparr>mc_row_error := ((q, n), e) # newer @ older\<rparr>"
    using assms(1) Some x by (auto simp: market_source_row_error_from_projection_def)
  have "sound_caches sha caches'" using assms(2) h c by (auto simp: sound_caches_def)
  moreover have "\<exists>p''. (p'' = q \<or> same_projection p'' q) \<and> err = source_error (source_of sha p'') m"
    using assms(2) h c by (fastforce simp: sound_caches_def)
  ultimately show ?thesis using h(2) by blast
qed

datatype source_event = RowErrorEvent pydict AuthenticatedMarketSource | FromRowEvent pydict

fun source_step :: "(string \<Rightarrow> string) \<Rightarrow> source_event \<Rightarrow> SourceCaches \<Rightarrow> SourceCaches" where
  "source_step sha (RowErrorEvent row m) caches = snd (market_source_row_error sha row m caches)"
| "source_step sha (FromRowEvent row) caches = snd (authenticated_market_source_from_row sha row caches)"

definition no_caches :: SourceCaches where
  "no_caches = \<lparr>mc_projection = [], mc_row_error = []\<rparr>"

interpretation source_cache: step_machine "source_step sha" "\<lambda>_. True" "sound_caches sha"
proof
  fix caches ev
  assume s: "sound_caches sha caches"
  show "sound_caches sha (source_step sha ev caches)"
  proof (cases ev)
    case (RowErrorEvent row m)
    obtain err caches' where "market_source_row_error_from_projection sha (row_projection row) m caches = (err, caches')" by fastforce
    then show ?thesis
      using s row_error_from_projection_sound [OF _ s] RowErrorEvent by (auto simp: market_source_row_error_def)
  next
    case (FromRowEvent row)
    obtain r caches' where "authenticated_market_source_from_projection sha (row_projection row) caches = (r, caches')" by fastforce
    then show ?thesis
      using s from_projection_sound [OF _ s] FromRowEvent by (auto simp: authenticated_market_source_from_row_def)
  qed
qed

lemma reached_caches_sound: "sound_caches sha (fold (source_step sha) events no_caches)"
  by (rule source_cache.run_invar) (simp_all add: no_caches_def sound_caches_def list_all_iff)

section \<open>Properties\<close>

lemma tokens_of_digest:
  assumes "hex_digest t"
  shows "lower_token 64 (VStr t) = t"
  using hex_digest_norm [OF assms] assms by (simp add: lower_token_def token_def norm_text_def hex_digest_def)

lemma source_of_its_fields:
  assumes "\<And>t. hex_digest (sha t)" and "canonical_source m"
  shows "authenticated_market_source_from_item sha (to_fields sha m) = Inr m"
proof -
  have schema: "token 96 (VStr MARKET_SOURCE_SCHEMA) = MARKET_SOURCE_SCHEMA" by code_simp
  have f: "dget (to_fields sha m) ''market_source_schema'' = VStr MARKET_SOURCE_SCHEMA"
    "dget (to_fields sha m) ''market_source_id'' = VStr (source_id sha m)"
    "dget (to_fields sha m) ''market_source_authenticated'' = VBool True"
    "dget (to_fields sha m) ''broker_account_scope'' = VStr (ms_broker_account_scope m)"
    "dget (to_fields sha m) ''broker_venue_id'' = VStr (ms_broker_venue_id m)"
    "dget (to_fields sha m) ''producer_identity'' = VStr (ms_producer_identity m)"
    "dget (to_fields sha m) ''producer_instance_id'' = VStr (ms_producer_instance_id m)"
    "dget (to_fields sha m) ''terminal_lease_scope'' = VStr (ms_terminal_lease_scope m)"
    "dget (to_fields sha m) ''credential_generation_id'' = VStr (ms_credential_generation_id m)"
    "dget (to_fields sha m) ''bridge_protocol_version'' = VStr (ms_bridge_protocol_version m)"
    by (simp_all add: to_fields_def)
  have id: "lower_token 64 (VStr (source_id sha m)) = source_id sha m"
    by (rule tokens_of_digest) (simp add: source_id_def assms(1))
  show ?thesis
    unfolding authenticated_market_source_from_item_def Let_def f schema assms(2) [unfolded canonical_source_def] option.case id
    by (simp add: feq_def)
qed

lemma row_check_transparent_lemma:
  assumes "\<And>t. hex_digest (sha t)" and "canonical_source expected" and "text_row row"
  shows "fst (market_source_row_error sha row expected (fold (source_step sha) events no_caches))
     = source_error (authenticated_market_source_from_item sha row) expected"
proof -
  let ?c = "fold (source_step sha) events no_caches"
  obtain err caches' where p: "market_source_row_error_from_projection sha (row_projection row) expected ?c = (err, caches')" by fastforce
  obtain p' p'' where "p' = row_projection row \<or> same_projection p' (row_projection row)" "p'' = p' \<or> same_projection p'' p'"
    and err: "err = source_error (source_of sha p'') expected"
    using row_error_from_projection_sound [OF p reached_caches_sound] by blast
  then have slow: "err = source_error (authenticated_market_source_from_item sha row) expected"
    using from_item_cong [OF close_projection_row [OF assms(3)]] by simp
  have fast: "authenticated_market_source_from_item sha row = Inr expected"
    if same: "same_projection (row_projection row) (row_projection (to_fields sha expected))"
  proof -
    have "text_row (to_fields sha expected)"
      by (simp add: text_row_def identity_fields_def MARKET_SOURCE_FIELDS_def to_fields_def text_value_def)
    then have "same_source_row (zip MARKET_SOURCE_FIELDS (row_projection row)) (to_fields sha expected)"
      using same same_projection_row by blast
    from from_item_cong [OF this, of sha] show ?thesis
      unfolding from_item_cong [OF projection_same_row] source_of_its_fields [OF assms(1,2)] .
  qed
  show ?thesis
    using fast slow p by (auto simp: market_source_row_error_def source_error_def)
qed

text \<open>
  C18. The caches and the fast path of the row check are transparent: after any history of calls, for a row whose
  identity fields are text or absent and a source in normal form, \<open>market_source_row_error\<close> answers exactly as the
  uncached check of the row's fields does.
\<close>

theorem row_check_transparent:
  assumes "\<And>t. hex_digest (sha t)" and "canonical_source expected" and "text_row row"
  shows "fst (market_source_row_error sha row expected (fold (source_step sha) events no_caches))
     = source_error (authenticated_market_source_from_item sha row) expected"
  using assms by (rule row_check_transparent_lemma)

text \<open>
  C19. A market row identifies its source: a row written with the fields of a source in normal form, whatever quote
  columns follow, is accepted for an expected source, after any history of calls, exactly when that is the source.
\<close>

theorem market_row_identifies_source:
  assumes "\<And>t. hex_digest (sha t)" and "canonical_source m" and "canonical_source expected"
  shows "fst (market_source_row_error sha (to_fields sha m @ quote_columns) expected (fold (source_step sha) events no_caches)) = []
     \<longleftrightarrow> expected = m"
proof -
  let ?row = "to_fields sha m @ quote_columns"
  have same: "same_source_row ?row (to_fields sha m)"
    by (simp add: same_source_row_def identity_fields_def MARKET_SOURCE_FIELDS_def to_fields_def)
  have "text_row (to_fields sha m)"
    by (simp add: text_row_def identity_fields_def MARKET_SOURCE_FIELDS_def to_fields_def text_value_def)
  then have rowtext: "text_row ?row" using text_row_cong [OF same] by blast
  have "authenticated_market_source_from_item sha ?row = Inr m"
    using from_item_cong [OF same] source_of_its_fields [OF assms(1,2)] by simp
  then show ?thesis
    unfolding row_check_transparent_lemma [OF assms(1,3) rowtext] by (simp add: source_error_def)
qed

section \<open>Examples\<close>

definition demo_source :: AuthenticatedMarketSource where
  "demo_source = \<lparr>ms_broker_account_scope = ''acct'', ms_broker_venue_id = ''ig_mt4'', ms_producer_identity = ''ea'',
     ms_producer_instance_id = ''i1'', ms_terminal_lease_scope = ''t1'', ms_credential_generation_id = ''k1'',
     ms_bridge_protocol_version = ''v3.0.0''\<rparr>"

lemma demo_source_canonical: "canonical_source demo_source" "canonical_source (demo_source\<lparr>ms_producer_instance_id := ''i2''\<rparr>)"
  by code_simp+

theorem row_check_transparent_witness:
  "fst (market_source_row_error demo_digest [(''producer_identity'', VStr ''ea'')] demo_source
      (fold (source_step demo_digest) [FromRowEvent [(''producer_identity'', VInt 1)]] no_caches))
   = source_error (authenticated_market_source_from_item demo_digest [(''producer_identity'', VStr ''ea'')]) demo_source"
proof -
  have "text_row [(''producer_identity'', VStr ''ea'')]" by code_simp
  from row_check_transparent [OF demo_digest_hex demo_source_canonical(1) this] show ?thesis .
qed

theorem market_row_identifies_source_witness:
  "fst (market_source_row_error demo_digest (to_fields demo_digest demo_source @ [(''bid'', VFloat (Fin 1))]) demo_source
      (fold (source_step demo_digest) [] no_caches)) = []
   \<and> fst (market_source_row_error demo_digest (to_fields demo_digest demo_source @ [(''bid'', VFloat (Fin 1))])
      (demo_source\<lparr>ms_producer_instance_id := ''i2''\<rparr>) (fold (source_step demo_digest) [] no_caches)) \<noteq> []"
proof -
  have "demo_source\<lparr>ms_producer_instance_id := ''i2''\<rparr> \<noteq> demo_source" by code_simp
  with market_row_identifies_source [where sha = demo_digest, OF demo_digest_hex demo_source_canonical(1) demo_source_canonical(1)]
    market_row_identifies_source [where sha = demo_digest, OF demo_digest_hex demo_source_canonical(1) demo_source_canonical(2)]
  show ?thesis by blast
qed

text \<open>
  The two hypotheses are needed. A numeric identity is conflated with an equal one of another type by the cache, and
  a name cut at a blank is not in normal form: the fast path accepts the rows of its source, the field check does not.
\<close>

definition numeric_row :: "pyval \<Rightarrow> pydict" where
  "numeric_row producer = (''producer_identity'', producer) # to_fields demo_digest demo_source"

lemma cache_conflates_equal_numbers:
  "fst (authenticated_market_source_from_row demo_digest (numeric_row (VBool True))
      (source_step demo_digest (FromRowEvent (numeric_row (VInt 1))) no_caches))
   \<noteq> authenticated_market_source_from_item demo_digest (numeric_row (VBool True))"
  by code_simp

definition cut_source :: AuthenticatedMarketSource where
  "cut_source = demo_source\<lparr>ms_producer_identity := token 128 (VStr (replicate 127 (CHR ''x'') @ '' y''))\<rparr>"

lemma cut_name_splits_the_checks:
  "fst (market_source_row_error demo_digest (to_fields demo_digest cut_source) cut_source no_caches) = []
   \<and> source_error (authenticated_market_source_from_item demo_digest (to_fields demo_digest cut_source)) cut_source \<noteq> []"
  by code_simp

end
