(* ===== verification/Entry_Quote.thy ===== *)
theory Entry_Quote
  imports Entry_Delivery Market_Rows
begin

text \<open>
  The quote a scalper entry is delivered on: it comes from the terminal that holds the consumer lease and that the
  heartbeat names, it is fresh at the clock of the delivery, and it is a market.
\<close>

section \<open>What the market check establishes\<close>

lemma current_source_agrees:
  assumes "current_authenticated_market_source st now True protocol = Inr (Inr m)"
  shows "\<exists>lease expires_at. as_dict (dget st ''bridge_consumer_lease'') = Inr lease
    \<and> py_float (py_or (dget lease ''expires_at'') (VFloat (Fin 0))) = Inr expires_at \<and> is_finite expires_at \<and> \<not> fle expires_at now
    \<and> ms_producer_identity m = token 128 (dget lease ''consumer_identity'')
    \<and> ms_producer_instance_id m = token 128 (dget lease ''producer_instance_id'')
    \<and> ms_terminal_lease_scope m = token 128 (dget lease ''terminal_lease_scope'')
    \<and> ms_broker_account_scope m = token 128 (dget st ''broker_account_scope'')
    \<and> ms_producer_identity m = token 128 (dget st ''bridge_producer_identity'')
    \<and> ms_producer_instance_id m = token 128 (dget st ''bridge_producer_instance_id'')"
  using assms
  by (auto simp: current_authenticated_market_source_def build_authenticated_market_source_def lease_expired_def Let_def
      elim!: ebindE split: option.splits if_splits sum.splits)

lemma current_source_reason:
  "current_authenticated_market_source st now active protocol = Inr (Inl why) \<Longrightarrow> why \<noteq> []"
  by (auto simp: current_authenticated_market_source_def Let_def elim!: ebindE split: option.splits if_splits)

lemma fold_newer_member: "fold newer_tick ts t \<in> set (t # ts)"
  by (induction ts arbitrary: t) (auto simp: newer_tick_def)

lemma latest_tick_member:
  assumes "latest_tick sha source table symbol = Some t"
  shows "t \<in> set table \<and> tk_symbol t = symbol \<and> (\<forall>m. source = Some m \<longrightarrow> tick_of_source sha m t)"
proof -
  let ?rows = "filter (\<lambda>t. tk_symbol t = symbol \<and> (case source of None \<Rightarrow> True | Some m \<Rightarrow> tick_of_source sha m t)) table"
  obtain r rs where rows: "?rows = r # rs" and t: "t = fold newer_tick rs r"
    using assms by (auto simp: latest_tick_def split: list.splits)
  have "t \<in> set ?rows" using fold_newer_member [of rs r] unfolding rows t .
  then show ?thesis by auto
qed

lemma latest_ticks_member:
  assumes "map_of (latest_market_ticks_for_symbols sha source table symbols) symbol = Some t"
  shows "t \<in> set table \<and> py_upper (py_strip (tk_symbol t)) = symbol \<and> (\<forall>m. source = Some m \<longrightarrow> tick_of_source sha m t)"
proof -
  obtain x where "latest_tick sha source table x = Some t" "py_upper (py_strip (tk_symbol t)) = symbol"
    using map_of_SomeD [OF assms] by (auto simp: latest_market_ticks_for_symbols_def Let_def List.map_filter_def)
  then show ?thesis using latest_tick_member by blast
qed

lemma good_tick:
  assumes "tick_failure e tick now = Inr []"
  obtains t a bid ask where "tick = Some t" and "timestamp_age_secs e (VFloat (tk_ts t)) now = Inr (Some a)"
    and "\<not> flt (fmax (Fin 1) (en_stale_tick_secs e)) a" and "tk_bid t = Some bid" and "tk_ask t = Some ask"
    and "is_finite bid" and "is_finite ask" and "\<not> fle bid (Fin 0)" and "\<not> flt ask bid"
  using assms by (auto simp: tick_failure_def elim!: ebindE split: option.splits if_splits)

lemma scalper_market:
  assumes "market_failure e s symbol q = Inr []" and "claims_scalper_payload (le_command_payload q)"
  obtains m ticks where "current_authenticated_market_source (state_dict s) (le_now_ts q) True BRIDGE_PROTOCOL_VERSION = Inr (Inr m)"
    and "ticks = latest_market_ticks_for_symbols (en_sha256 e) (Some m) (en_market_ticks e (s_reads s))
                (requested_tick_symbols (state_dict s) symbol True)"
    and "tick_failure e (map_of ticks symbol) (le_now_ts q) = Inr []"
    and "en_order_failure e (state_dict s) q ticks = Inr []"
proof -
  obtain p where p: "pinned_source (state_dict s) (le_command_payload q) (le_now_ts q) = Inr p"
    using assms(1) by (auto simp: market_failure_def Let_def elim!: ebindE)
  then obtain r where r: "current_authenticated_market_source (state_dict s) (le_now_ts q) True BRIDGE_PROTOCOL_VERSION = Inr r"
    using assms(2) by (auto simp: pinned_source_def elim!: ebindE)
  obtain m where m: "r = Inr m"
    using assms p r by (cases r) (auto simp: market_failure_def pinned_source_def Let_def dest: current_source_reason)
  show thesis
    using assms p r m that
    by (auto simp: market_failure_def pinned_source_def Let_def elim!: ebindE split: if_splits)
qed

section \<open>The property\<close>

text \<open>
  C8. A scalper entry is delivered only on a quote of the terminal that is connected: when poll hands it out, the
  heartbeat identity of the stored state is that of the singleton consumer lease, the lease has not expired at the clock
  of the delivery, and the tick table has a row of the entry's symbol under exactly that identity whose age at that clock
  is within the limit and whose bid and ask are finite, positive and not crossed.
\<close>

theorem scalper_entry_quoted_by_its_terminal:
  assumes "poll_next_command e s = (s', Inr (Some c))" and "norm_verb (ec_cmd c) \<in> set entry_verbs"
    and "claims_scalper_payload (ec_payload c)"
  shows "\<exists>m lease expires_at n t age bid ask.
    current_authenticated_market_source (state_dict s') (ec_updated_at c) True BRIDGE_PROTOCOL_VERSION = Inr (Inr m)
    \<and> as_dict (dget (state_dict s') ''bridge_consumer_lease'') = Inr lease
    \<and> py_float (py_or (dget lease ''expires_at'') (VFloat (Fin 0))) = Inr expires_at
    \<and> is_finite expires_at \<and> \<not> fle expires_at (ec_updated_at c)
    \<and> ms_terminal_lease_scope m = token 128 (dget lease ''terminal_lease_scope'')
    \<and> ms_producer_instance_id m = token 128 (dget (state_dict s') ''bridge_producer_instance_id'')
    \<and> ms_broker_account_scope m = token 128 (dget (state_dict s') ''broker_account_scope'')
    \<and> t \<in> set (en_market_ticks e n) \<and> tick_of_source (en_sha256 e) m t
    \<and> (ec_symbol c \<noteq> [] \<longrightarrow> py_upper (py_strip (tk_symbol t)) = py_upper (py_strip (ec_symbol c)))
    \<and> timestamp_age_secs e (VFloat (tk_ts t)) (ec_updated_at c) = Inr (Some age)
    \<and> \<not> flt (fmax (Fin 1) (en_stale_tick_secs e)) age
    \<and> tk_bid t = Some bid \<and> tk_ask t = Some ask \<and> is_finite bid \<and> is_finite ask
    \<and> \<not> fle bid (Fin 0) \<and> \<not> flt ask bid"
proof -
  obtain r t0 where s': "s' = mark_delivered e r (ec_updated_at c) t0" and dc: "delivered_command r (ec_updated_at c) = Inr c"
    and ok: "live_entry_failure e t0 (poll_entry_request r (ec_updated_at c)) = Inr []"
    using assms(1,2) by (rule poll_delivers_authorized_entry)
  let ?q = "poll_entry_request r (ec_updated_at c)"
  let ?symbol = "py_upper (py_strip (le_pair ?q))"
  note f = delivered_command_fields [OF dc]
  have st: "state_dict s' = state_dict t0" by (simp add: s' mark_delivered_state)
  have q: "le_now_ts ?q = ec_updated_at c" "le_command_payload ?q = ec_payload c"
    "ec_symbol c \<noteq> [] \<Longrightarrow> le_pair ?q = ec_symbol c"
    using f by (simp_all add: poll_entry_request_def Let_def)
  have mf: "market_failure e t0 ?symbol ?q = Inr []"
    using ok by (auto simp: live_entry_failure_def Let_def elim!: ebindE split: if_splits)
  have claims: "claims_scalper_payload (le_command_payload ?q)" using assms(3) by (simp add: q(2))
  obtain m ticks where m': "current_authenticated_market_source (state_dict t0) (le_now_ts ?q) True BRIDGE_PROTOCOL_VERSION = Inr (Inr m)"
    and ticks: "ticks = latest_market_ticks_for_symbols (en_sha256 e) (Some m) (en_market_ticks e (s_reads t0))
                (requested_tick_symbols (state_dict t0) ?symbol True)"
    and tf': "tick_failure e (map_of ticks ?symbol) (le_now_ts ?q) = Inr []"
    using mf claims by (rule scalper_market)
  note m = m' [unfolded q(1)] and tf = tf' [unfolded q(1)]
  obtain t age bid ask where t: "map_of ticks ?symbol = Some t"
    and good: "timestamp_age_secs e (VFloat (tk_ts t)) (ec_updated_at c) = Inr (Some age)"
      "\<not> flt (fmax (Fin 1) (en_stale_tick_secs e)) age" "tk_bid t = Some bid" "tk_ask t = Some ask"
      "is_finite bid" "is_finite ask" "\<not> fle bid (Fin 0)" "\<not> flt ask bid"
    using tf by (rule good_tick)
  have row: "t \<in> set (en_market_ticks e (s_reads t0))" "py_upper (py_strip (tk_symbol t)) = ?symbol"
    "tick_of_source (en_sha256 e) m t"
    using latest_ticks_member [OF t [unfolded ticks]] by auto
  obtain lease expires_at where lease: "as_dict (dget (state_dict t0) ''bridge_consumer_lease'') = Inr lease"
    "py_float (py_or (dget lease ''expires_at'') (VFloat (Fin 0))) = Inr expires_at" "is_finite expires_at"
    "\<not> fle expires_at (ec_updated_at c)" "ms_terminal_lease_scope m = token 128 (dget lease ''terminal_lease_scope'')"
    "ms_producer_instance_id m = token 128 (dget (state_dict t0) ''bridge_producer_instance_id'')"
    "ms_broker_account_scope m = token 128 (dget (state_dict t0) ''broker_account_scope'')"
    using current_source_agrees [OF m] by blast
  have symbol: "ec_symbol c \<noteq> [] \<longrightarrow> py_upper (py_strip (tk_symbol t)) = py_upper (py_strip (ec_symbol c))"
    using row(2) q(3) by simp
  show ?thesis unfolding st using m lease row(1,3) symbol good by blast
qed

theorem scalper_entry_quoted_by_its_terminal_witness:
  "\<exists>s' c m t n. poll_next_command demo_env scalp_store = (s', Inr (Some c)) \<and> claims_scalper_payload (ec_payload c)
    \<and> t \<in> set (en_market_ticks demo_env n) \<and> tick_of_source demo_digest m t"
proof -
  obtain c s' where p: "poll_next_command demo_env scalp_store = (s', Inr (Some c))" "norm_verb (ec_cmd c) \<in> set entry_verbs"
    "claims_scalper_payload (ec_payload c)"
    using scalp_store_polls by blast
  from scalper_entry_quoted_by_its_terminal [OF p] p show ?thesis by auto
qed

end
