(* ===== verification/Spec2Isabelle.thy ===== *)
theory Spec2Isabelle
  imports Position_Lifecycle M1_Bars Queue_History Queue_Delivery Queue_Ack Entry_Delivery Scalp_Activation Entry_Quote
begin

text \<open>
  Verification of the scalp execution core of the trading agent (all Python paths below are relative to
  \<open>src/fx-quant-stack/src/fxstack/\<close>).

  \<^bold>\<open>The program.\<close> The agent turns market ticks into minute bars, decides which positions to open and close,
  and sends commands to an MT4 terminal that executes them at the broker. The terminal polls for commands over
  HTTP and acknowledges what it did. Between the two stands a durable queue in a database, and everything that
  protects real money is a rule of that queue or of the code next to it: a command is delivered at most once, it
  is delivered only under an authority that is valid at that moment, an outcome the broker did not prove stays
  open and blocks new exposure, and closing a position is never blocked by entries. The parts and how they call each
  other:

    \<^item> \<open>scalp/bars.py\<close> folds ticks into bars that the strategy reads;
    \<^item> \<open>runtime/scalp_rollover_guard.py\<close> and \<open>runtime/scalp_position_lifecycle.py\<close> decide which open positions
      are due; the close decisions become CLOSE commands;
    \<^item> \<open>runtime/dto.py\<close> is the ingress: every command and every acknowledgement is parsed and validated there;
    \<^item> \<open>runtime/postgres_store.py\<close> holds the queue and the runtime state. \<open>enqueue_command\<close> admits a validated
      command, \<open>poll_next_command\<close> delivers one, \<open>ack_command\<close> records the outcome; all three consult the runtime
      state (kill switch, broker egress authority, runner heartbeat, bridge lease), which has its own transactions;
    \<^item> \<open>runtime/execution_ack_attestation.py\<close> classifies an acknowledgement against the stored command;
      \<open>ack_command\<close> acts on the classification;
    \<^item> \<open>runtime/scalp_execution_authority.py\<close> says which document authorizes the production scalper and stamps
      its identity into commands; the state stores one such document and one externally witnessed release;
    \<^item> \<open>runtime/market_source_identity.py\<close> says which terminal a quote comes from;
    \<^item> \<open>runtime/scalp_daily_budget.py\<close> counts the stored rows against the daily budget;
    \<^item> \<open>providers/ig_mt4_catalog.py\<close> is the table of instruments that the above look symbols up in.

  \<^bold>\<open>The theories, bottom up.\<close>

    \<^item> \<open>Py_Float\<close> and \<open>Py_Value\<close> are the prelude: IEEE binary64 floats with rounding, infinities and NaN, and
      dynamic Python values with the built-ins the sources apply to them (\<open>int\<close>, \<open>float\<close>, \<open>str\<close>, truth, equality, string
      methods, dictionaries in insertion order). Raised exceptions are values of a sum type. \<open>Machine\<close> holds
      the contracts of stateful components as locales: an invariant kept by every admissible event
      (\<open>step_machine\<close>), an append-only log (\<open>logged_machine\<close>), a counter that never falls (\<open>counted_machine\<close>).
    \<^item> \<open>Ig_Catalog\<close>, \<open>Rollover_Guard\<close>, \<open>Position_Lifecycle\<close>, \<open>Daily_Budget\<close>, \<open>M1_Bars\<close>, \<open>Dto\<close> and
      \<open>Ack_Attestation\<close> model one source file each, function by function under the source's names. The
      aggregator of \<open>M1_Bars\<close> interprets \<open>step_machine\<close> twice, for the structure of its histories and for
      the quality of its bars.
    \<^item> \<open>Runtime_Store\<close> has the tables \<open>commands\<close>, \<open>command_events\<close>, \<open>runtime_state\<close> and \<open>decision_snapshots\<close> as one
      record with the row operations; \<open>Runtime_State\<close> the transactions on the state snapshot
      (\<open>commit_state_patch\<close>, \<open>claim_bridge_consumer_lease\<close>, \<open>patch_orchestration_live_state\<close>, arming and
      disarming of egress); \<open>Scalp_Authority\<close> and \<open>Authority_Roundtrip\<close> the authority document with its
      checks and its round trips; \<open>Egress\<close> who may send commands (\<open>egress_failure\<close> and the checks below it);
      \<open>Market_Source\<close> the identity of a quote, with the two bounded caches of the row check;
      \<open>Live_Entry\<close> the authorization of a live entry (\<open>live_entry_failure\<close>: release, live plane, account, scalper
      authority, daily budget, heartbeat, rollover, market source, quote);
      \<open>Queue_Rules\<close> the pure decisions of the queue (which rows are retired, the uncertainty predicate and scope, the
      decision on an acknowledgement); \<open>Command_Queue\<close> the transactions \<open>enqueue_command\<close>, \<open>poll_next_command\<close>,
      \<open>ack_command\<close>, \<open>cleanup_expired_commands\<close>, \<open>quarantine_stale_delivered\<close>, \<open>purge_pending_commands\<close>,
      \<open>disable_execution_egress\<close>; \<open>Authority_Swap\<close> the transactions \<open>compare_and_set_release_authority\<close> and
      \<open>compare_and_set_production_scalp_authority\<close>.
    \<^item> \<open>Queue_Life\<close> specifies the life of a command as an abstract step relation on its status and delivery count and shows
      that every transaction refines it. \<open>Queue_Safety\<close> and \<open>Queue_Machine\<close> put all transactions into one
      step function \<open>queue_step\<close> and interpret the three machine contracts on it. \<open>Queue_History\<close>,
      \<open>Queue_Delivery\<close> and \<open>Queue_Ack\<close> hold the properties: of whole histories, of what poll hands
      out, of what an acknowledgement may do. \<open>Entry_Delivery\<close> and \<open>Entry_Quote\<close> say what holds whenever an entry
      leaves the queue, across the queue, the authority, the budget and the market source.
    \<^item> \<open>Release_Life\<close> specifies the release as an abstract lifecycle and shows that every call refines it; its step
      function \<open>authority_step\<close> runs the transactions that write the stored authorities and interprets
      \<open>step_machine\<close> for the witness ledger. \<open>Scalp_Activation\<close> interprets the same machine for a revoked
      scalper. \<open>Market_Rows\<close> interprets \<open>step_machine\<close> for the soundness of the caches.

  \<^bold>\<open>What is shown.\<close> The queue refines the abstract life cycle; in any history no command is handed out twice, a
  settled command stays settled, and trades are counted once. An ambiguous outcome is resolved only by an attested
  success; until then no entry leaves the queue without an authoritative positions snapshot, while protective
  commands are held back only by deliverable commands at least as old. What the terminal receives is the command that ingress accepted. An acknowledgement counts as
  success only when it joins the command in every field, and as a refusal only when nothing was attempted.
  State patches cannot touch the release authority, live authority mutations are serialised, the bridge lease is exclusive, and
  egress is bound to the runner that armed it and to the granted scope. An entry of the scalper is delivered at most once per
  symbol and UTC day, never past the kill switch, only under the stored authority, and only on a fresh quote of the terminal
  that holds the lease. A release is activated only out of an acknowledged request, an external witness publishes
  once, a release that is not active closes the broker edge, and a revoked scalper stays out until it is activated again. An
  authority that an activation builds is accepted by its own checks, and the protective history never refuses to close a
  position opened under it, whatever has become of the authority. The cached check of a market row answers as the plain one. The lifecycle evaluator fails closed: when one
  of its input checks fails it closes nothing, otherwise exactly the due positions and only those it owns. Valid bars are well formed and contiguous.

  \<^bold>\<open>Arguments of the model.\<close> What the sources take from outside is an argument of the definitions: the clock, the
  settings, the ISO timestamp parser, \<open>json.loads\<close>, \<open>uuid5\<close>, SHA-256 and the rows of \<open>market_ticks\<close> that a transaction
  sees. Checks of files that are not modelled are arguments too: \<open>en_contract_failure\<close>, \<open>en_order_failure\<close> and
  \<open>contract_universe\<close> stand for \<open>runtime/broker_contract_state.py\<close> and the entry envelope of
  \<open>runtime/scalp_execution_boundary.py\<close>, the record \<open>ReleaseChecks\<close> for the signature and evidence checks of
  \<open>runtime/release_authority.py\<close>. The properties hold for every value of these arguments; where SHA-256 matters the
  hypothesis is that a digest is 64 lower-case hex characters.

  \<^bold>\<open>Bounds and termination.\<close> There is no fuel: every loop is structural recursion over the list it consumes
  (rows of the table, ticks, bars) or a recursion with a proved measure (the gap markers of the aggregator, the
  rounding of floats), so all definitions are total. Python integers are unbounded and modelled as \<open>int\<close>; floats are
  rounded at every operation.

  \<^bold>\<open>Not modelled.\<close> The database engine (each transaction is one step that commits or rolls back as the source has it;
  row locks are not modelled because every modelled transaction takes the same serialisation lock or locks the rows it
  changes), broker contract records and the price grid of an entry (decimal arithmetic over a broker specification), the
  HTTP layer, logging and metrics, cryptographic signatures and file digests, the polling
  runner that calls the modelled operations, the numeric
  strategy and training code on numpy and pandas, the command-line tools, the MQL4 expert advisor and the dashboard.
\<close>

end
